(* ===== verification/Prelude.thy ===== *)
theory Prelude
  imports Complex_Main "HOL-Library.Multiset"
begin

text \<open>
  Shared ground of the development: the exceptions of the Python code as values, results
  that are either an exception or a value, the rolling window of a bounded deque, and the
  fact collections the component theories feed and use.

  An exception is a constructor of \<open>py_error\<close>; its message is not modelled. A
  computation that may raise has type \<open>'a result\<close>: \<open>Inl\<close> the exception,
  \<open>Inr\<close> the value. Points in time are whole microseconds since the epoch (\<open>time\<close>),
  the resolution of Python's \<open>datetime\<close>.
\<close>

named_theorems guard_simps \<open>evaluation of the order guards\<close>
named_theorems step_simps \<open>one-step equations of the state machines\<close>

section \<open>Exceptions and results\<close>

datatype py_error =
    ValueError
  | TypeError
  | KeyError
  | IndexError
  | AttributeError
  | RuntimeError
  | ZeroDivisionError
  | OverflowError
  | InvalidOperation
  | OSError
  | TimeoutError
  | KisAuthError
  | KisUpstreamError
  | LLMClientError
  | CancelledError
  | OtherError string

type_synonym 'a result = "py_error + 'a"
type_synonym time = int

definition second :: time where
  "second = 1000000"

definition bind_result :: "'a result \<Rightarrow> ('a \<Rightarrow> 'b result) \<Rightarrow> 'b result" where
  "bind_result r f = (case r of Inl e \<Rightarrow> Inl e | Inr x \<Rightarrow> f x)"

lemma bind_result_simps [simp]:
  "bind_result (Inl e) f = Inl e"
  "bind_result (Inr x) f = f x"
  by (simp_all add: bind_result_def)

lemma bind_result_InrE:
  assumes "bind_result r f = Inr y"
  obtains x where "r = Inr x" and "f x = Inr y"
  using assms by (cases r) auto

definition is_ok :: "'a result \<Rightarrow> bool" where
  "is_ok r = (case r of Inl _ \<Rightarrow> False | Inr _ \<Rightarrow> True)"

lemma bind_result_Inl_iff:
  "bind_result r f = Inl e \<longleftrightarrow> r = Inl e \<or> (\<exists>x. r = Inr x \<and> f x = Inl e)"
  by (cases r) (auto simp: bind_result_def)

lemma is_ok_simps [simp]: "is_ok (Inr x)" "\<not> is_ok (Inl e)"
  by (simp_all add: is_ok_def)

section \<open>Lists\<close>

text \<open>The last \<open>n\<close> elements, oldest first; all of a shorter list.\<close>

definition last_n :: "nat \<Rightarrow> 'a list \<Rightarrow> 'a list" where
  "last_n n xs = drop (length xs - n) xs"

lemma length_last_n [simp]: "length (last_n n xs) = min n (length xs)"
  by (simp add: last_n_def)

lemma last_n_all [simp]: "length xs \<le> n \<Longrightarrow> last_n n xs = xs"
  by (simp add: last_n_def)

lemma set_last_n: "set (last_n n xs) \<subseteq> set xs"
  by (simp add: last_n_def set_drop_subset)

lemma last_last_n: "0 < n \<Longrightarrow> xs \<noteq> [] \<Longrightarrow> last (last_n n xs) = last xs"
  by (simp add: last_n_def)

lemma last_n_nonempty: "0 < n \<Longrightarrow> xs \<noteq> [] \<Longrightarrow> last_n n xs \<noteq> []"
  by (metis length_0_conv length_last_n min_def not_less_iff_gr_or_eq le_zero_eq length_greater_0_conv)

lemma last_n_snoc:
  "0 < n \<Longrightarrow> last_n n (last_n n xs @ [x]) = last_n n (xs @ [x])"
proof (cases "length xs \<le> n")
  case True
  then show ?thesis by simp
next
  case False
  assume "0 < n"
  with False have "drop (Suc (length xs) - n) (xs @ [x])
      = drop (Suc 0) (drop (length xs - n) xs) @ [x]"
    by (simp add: Suc_diff_le)
  with \<open>0 < n\<close> False show ?thesis
    by (simp add: last_n_def Suc_diff_le)
qed

text \<open>Python's \<open>append\<close> on \<open>deque(maxlen=n)\<close>: the oldest element leaves a full deque.\<close>

definition deque_append :: "nat \<Rightarrow> 'a list \<Rightarrow> 'a \<Rightarrow> 'a list" where
  "deque_append n xs x = last_n n (xs @ [x])"

lemma length_deque_append [simp]:
  "length (deque_append n xs x) = min n (Suc (length xs))"
  by (simp add: deque_append_def)

lemma last_deque_append [simp]: "0 < n \<Longrightarrow> last (deque_append n xs x) = x"
  by (simp add: deque_append_def last_last_n)

lemma deque_append_nonempty [simp]: "0 < n \<Longrightarrow> deque_append n xs x \<noteq> []"
  by (simp add: deque_append_def last_n_nonempty)

lemma deque_append_window:
  "0 < n \<Longrightarrow> deque_append n (last_n n xs) x = last_n n (xs @ [x])"
  by (simp add: deque_append_def last_n_snoc)

lemma deque_append_full:
  "0 < n \<Longrightarrow> length xs = n \<Longrightarrow> deque_append n xs x = tl xs @ [x]"
  by (simp add: deque_append_def last_n_def drop_Suc)

lemma deque_append_room: "length xs < n \<Longrightarrow> deque_append n xs x = xs @ [x]"
  by (simp add: deque_append_def)

section \<open>Descending sort\<close>

text \<open>\<open>list.sort(key, reverse=True)\<close>: descending, equal keys in their original order.\<close>

definition sort_desc :: "('a \<Rightarrow> 'k::linorder) \<Rightarrow> 'a list \<Rightarrow> 'a list" where
  "sort_desc k xs = rev (sort_key k (rev xs))"

lemma sorted_sort_desc: "sorted_wrt (\<lambda>a b. k b \<le> k a) (sort_desc k xs)"
  using sorted_sort_key [of k "rev xs"]
  by (simp add: sort_desc_def sorted_wrt_rev sorted_wrt_map)

lemma mset_sort_desc [simp]: "mset (sort_desc k xs) = mset xs"
  by (simp add: sort_desc_def)

lemma length_sort_desc [simp]: "length (sort_desc k xs) = length xs"
  by (simp add: sort_desc_def)

lemma set_sort_desc [simp]: "set (sort_desc k xs) = set xs"
  by (simp add: sort_desc_def)

end
