(* ===== verification/Float64.thy ===== *)
theory Float64
  imports Prelude
begin

text \<open>
  Python's \<open>float\<close>: IEEE binary64 with round-to-nearest, ties to even. A value is a
  finite rational, an infinity or NaN; every operation computes the exact rational result
  and rounds it once (\<open>rnd\<close>: 53 significant bits, subnormals included), overflowing to
  an infinity at \<open>2 ^ 1024\<close>. Signed zeros are not distinguished: Python compares them
  equal, and a division by either raises. The lemmas show that \<open>rnd\<close> is monotone, odd
  and exact on the integers up to \<open>2 ^ 53\<close>; the range facts of the components rest on
  these three.
\<close>

section \<open>Rounding\<close>

fun nbits :: "nat \<Rightarrow> nat" where
  "nbits n = (if n = 0 then 0 else Suc (nbits (n div 2)))"

declare nbits.simps [simp del]

definition pow2 :: "int \<Rightarrow> rat" where
  "pow2 k = (if 0 \<le> k then 2 ^ nat k else 1 / 2 ^ nat (- k))"

text \<open>The binary exponent of a positive rational: \<open>pow2 (ilog2 x) \<le> x < pow2 (ilog2 x + 1)\<close>.\<close>

definition ilog2 :: "rat \<Rightarrow> int" where
  "ilog2 x =
     (let (n, d) = quotient_of x;
          k = int (nbits (nat n)) - int (nbits (nat d))
      in if pow2 k \<le> x then k else k - 1)"

definition ulp_exp :: "rat \<Rightarrow> int" where
  "ulp_exp x = max (ilog2 x - 52) (- 1074)"

definition round_even :: "rat \<Rightarrow> int" where
  "round_even x =
     (let f = \<lfloor>x\<rfloor>; r = x - of_int f
      in if r < 1 / 2 then f else if r > 1 / 2 then f + 1
         else if even f then f else f + 1)"

definition rnd_pos :: "rat \<Rightarrow> rat" where
  "rnd_pos x = pow2 (ulp_exp x) * of_int (round_even (x / pow2 (ulp_exp x)))"

definition rnd :: "rat \<Rightarrow> rat" where
  "rnd x = (if x = 0 then 0 else if 0 < x then rnd_pos x else - rnd_pos (- x))"

subsection \<open>Powers of two and the binary exponent\<close>

lemma pow2_pos [simp]: "0 < pow2 k"
  by (simp add: pow2_def)

lemma pow2_nonzero [simp]: "pow2 k \<noteq> 0"
  using pow2_pos [of k] by linarith

lemma pow2_0 [simp]: "pow2 0 = 1"
  by (simp add: pow2_def)

lemma pow2_nat: "pow2 (int n) = 2 ^ n"
  by (simp add: pow2_def)

lemma pow2_minus: "pow2 (- k) = 1 / pow2 k"
  by (simp add: pow2_def)

lemma pow2_Suc: "pow2 (k + 1) = 2 * pow2 k"
proof (cases "0 \<le> k")
  case True
  then show ?thesis by (simp add: pow2_def nat_add_distrib)
next
  case False
  then have "nat (- k) = Suc (nat (- k - 1))" by simp
  then show ?thesis using False by (simp add: pow2_def)
qed

lemma pow2_add_nat: "pow2 (k + int n) = pow2 k * 2 ^ n"
proof (induction n)
  case 0
  then show ?case by simp
next
  case (Suc n)
  have "pow2 (k + int (Suc n)) = pow2 ((k + int n) + 1)"
    by (simp add: algebra_simps)
  then show ?case
    using Suc by (simp add: pow2_Suc)
qed

lemma pow2_diff: "i \<le> j \<Longrightarrow> pow2 j = pow2 i * 2 ^ nat (j - i)"
  using pow2_add_nat [of i "nat (j - i)"] by simp

lemma pow2_mono: "i \<le> j \<Longrightarrow> pow2 i \<le> pow2 j"
  by (simp add: pow2_diff [of i j])

lemma pow2_less_iff: "pow2 i < pow2 j \<longleftrightarrow> i < j"
proof
  assume "i < j"
  then have "pow2 (i + 1) \<le> pow2 j" by (intro pow2_mono) simp
  moreover have "pow2 i < pow2 (i + 1)" by (simp add: pow2_Suc)
  ultimately show "pow2 i < pow2 j" by linarith
next
  assume "pow2 i < pow2 j"
  then show "i < j"
    using pow2_mono [of j i] by (meson not_less)
qed

lemma nbits_bounds: "0 < n \<Longrightarrow> 2 ^ (nbits n - 1) \<le> n \<and> n < 2 ^ nbits n \<and> 0 < nbits n"
proof (induction n rule: nbits.induct)
  case (1 n)
  show ?case
  proof (cases "n = 1")
    case True
    have "nbits 1 = 1" by (simp add: nbits.simps [of "Suc 0"] nbits.simps [of 0])
    with True show ?thesis by simp
  next
    case False
    with "1.prems" have pos: "0 < n div 2" and "n \<noteq> 0" by auto
    from "1.IH" [OF \<open>n \<noteq> 0\<close> pos]
    have ih: "2 ^ (nbits (n div 2) - 1) \<le> n div 2" "n div 2 < 2 ^ nbits (n div 2)"
      and p: "0 < nbits (n div 2)" by auto
    have nb: "nbits n = Suc (nbits (n div 2))"
      using \<open>n \<noteq> 0\<close> by (simp add: nbits.simps [of n])
    have "(2::nat) ^ nbits (n div 2) = 2 * 2 ^ (nbits (n div 2) - 1)"
      using p by (simp flip: power_Suc)
    moreover from ih(1) have "2 * 2 ^ (nbits (n div 2) - 1) \<le> n" by linarith
    moreover from ih(2) have "n < 2 * 2 ^ nbits (n div 2)" by linarith
    ultimately show ?thesis by (simp add: nb)
  qed
qed

lemma ilog2_bounds:
  assumes "0 < x"
  shows "pow2 (ilog2 x) \<le> x \<and> x < pow2 (ilog2 x + 1)"
proof -
  obtain n d where q: "quotient_of x = (n, d)" by (cases "quotient_of x")
  then have d: "0 < d" by (rule quotient_of_denom_pos)
  from q have x: "x = of_int n / of_int d" by (rule quotient_of_div)
  with assms d have n: "0 < n" by (simp add: zero_less_divide_iff)
  define a b where "a = nbits (nat n)" and "b = nbits (nat d)"
  have A: "2 ^ (a - 1) \<le> nat n \<and> nat n < 2 ^ a \<and> 0 < a"
    unfolding a_def using n by (intro nbits_bounds) simp
  have B: "2 ^ (b - 1) \<le> nat d \<and> nat d < 2 ^ b \<and> 0 < b"
    unfolding b_def using d by (intro nbits_bounds) simp
  have n1: "(2::rat) ^ (a - 1) \<le> of_int n" "(of_int n :: rat) < 2 ^ a"
    using A n
    by (metis (mono_tags, lifting) of_nat_le_iff of_nat_numeral of_nat_power of_nat_nat
        less_imp_le of_nat_less_iff)+
  have d1: "(2::rat) ^ (b - 1) \<le> of_int d" "(of_int d :: rat) < 2 ^ b"
    using B d
    by (metis (mono_tags, lifting) of_nat_le_iff of_nat_numeral of_nat_power of_nat_nat
        less_imp_le of_nat_less_iff)+
  let ?k = "int a - int b"
  have pa: "pow2 (int a) = 2 * 2 ^ (a - 1)" "pow2 (int b) = 2 * 2 ^ (b - 1)"
    using A B by (simp_all add: pow2_nat flip: power_Suc)
  have k: "pow2 ?k = pow2 (int a) / pow2 (int b)"
  proof (cases "b \<le> a")
    case True
    then have "pow2 ?k = 2 ^ nat ?k" by (simp add: pow2_def)
    with True show ?thesis using pow2_diff [of "int b" "int a"] by (simp add: pow2_nat)
  next
    case False
    then have "pow2 (int b - int a) = 2 ^ nat (int b - int a)" by (simp add: pow2_def)
    with False show ?thesis
      using pow2_diff [of "int a" "int b"] pow2_minus [of "int b - int a"]
      by (simp add: pow2_nat)
  qed
  have up: "x < pow2 (?k + 1)"
  proof -
    have "of_int n < pow2 (int a)" using n1 by (simp add: pow2_nat)
    moreover have "pow2 (int b) \<le> 2 * of_int d" using d1 pa by simp
    ultimately have "of_int n * pow2 (int b) < 2 * pow2 (int a) * of_int d"
      using d by (smt (verit) mult.assoc mult.commute mult_less_le_imp_less of_int_0_less_iff
          pow2_pos n less_imp_le)
    then have "x < 2 * (pow2 (int a) / pow2 (int b))" using d by (simp add: x field_simps)
    then show ?thesis by (simp only: pow2_Suc k)
  qed
  have lo: "pow2 (?k - 1) \<le> x"
  proof -
    have "pow2 (int a) \<le> 2 * of_int n" using n1 pa by simp
    moreover have "of_int d \<le> pow2 (int b)" using d1 by (simp add: pow2_nat)
    ultimately have "pow2 (int a) * of_int d \<le> 2 * of_int n * pow2 (int b)"
      using d n by (intro mult_mono) simp_all
    then show ?thesis
      using d pow2_Suc [of "?k - 1"] k by (simp add: x field_simps)
  qed
  have "ilog2 x = (if pow2 ?k \<le> x then ?k else ?k - 1)"
    by (simp add: ilog2_def q Let_def a_def b_def)
  with up lo show ?thesis by auto
qed

lemma ilog2_unique:
  assumes "0 < x" "pow2 e \<le> x" "x < pow2 (e + 1)"
  shows "ilog2 x = e"
proof -
  from ilog2_bounds [OF assms(1)] assms(2,3)
  have "pow2 (ilog2 x) < pow2 (e + 1)" "pow2 e < pow2 (ilog2 x + 1)" by auto
  then show ?thesis by (simp add: pow2_less_iff)
qed

lemma ilog2_mono: "0 < x \<Longrightarrow> x \<le> y \<Longrightarrow> ilog2 x \<le> ilog2 y"
proof -
  assume "0 < x" "x \<le> y"
  then have "pow2 (ilog2 x) < pow2 (ilog2 y + 1)"
    using ilog2_bounds [of x] ilog2_bounds [of y] by linarith
  then show ?thesis by (simp add: pow2_less_iff)
qed

subsection \<open>Rounding to an integer\<close>

lemma round_even_of_int [simp]: "round_even (of_int i) = i"
  by (simp add: round_even_def)

lemma round_even_bounds: "\<lfloor>x\<rfloor> \<le> round_even x \<and> round_even x \<le> \<lfloor>x\<rfloor> + 1"
  by (simp add: round_even_def Let_def)

lemma round_even_mono: "x \<le> y \<Longrightarrow> round_even x \<le> round_even y"
proof (cases "\<lfloor>x\<rfloor> = \<lfloor>y\<rfloor>")
  case True
  assume "x \<le> y"
  with True show ?thesis by (auto simp: round_even_def Let_def)
next
  case False
  assume "x \<le> y"
  with False have "\<lfloor>x\<rfloor> + 1 \<le> \<lfloor>y\<rfloor>" using floor_mono [of x y] by linarith
  then show ?thesis using round_even_bounds [of x] round_even_bounds [of y] by linarith
qed

lemma round_even_le_int: "x \<le> of_int i \<Longrightarrow> round_even x \<le> i"
  using round_even_mono [of x "of_int i"] by simp

lemma round_even_ge_int: "of_int i \<le> x \<Longrightarrow> i \<le> round_even x"
  using round_even_mono [of "of_int i" x] by simp

lemma round_even_close: "\<bar>of_int (round_even x) - x\<bar> \<le> 1 / 2"
proof -
  have "0 \<le> x - of_int \<lfloor>x\<rfloor>" "x - of_int \<lfloor>x\<rfloor> < 1"
    using floor_correct [of x] by linarith+
  then show ?thesis by (auto simp: round_even_def Let_def abs_le_iff)
qed

subsection \<open>Rounding to binary64\<close>

lemma rnd_0 [simp]: "rnd 0 = 0"
  by (simp add: rnd_def)

lemma rnd_minus [simp]: "rnd (- x) = - rnd x"
  by (simp add: rnd_def)

lemma rnd_pos_nonneg: "0 < x \<Longrightarrow> 0 \<le> rnd_pos x"
  unfolding rnd_pos_def
  by (intro mult_nonneg_nonneg) (simp_all add: less_imp_le round_even_ge_int)

lemma rnd_pos_exact:
  assumes "x = pow2 (ulp_exp x) * of_int i"
  shows "rnd_pos x = x"
proof -
  from assms have "x / pow2 (ulp_exp x) = of_int i"
    by (metis nonzero_mult_div_cancel_left pow2_nonzero)
  then have "rnd_pos x = pow2 (ulp_exp x) * of_int i" by (simp add: rnd_pos_def)
  with assms show ?thesis by metis
qed

lemma ulp_exp_mono: "0 < x \<Longrightarrow> x \<le> y \<Longrightarrow> ulp_exp x \<le> ulp_exp y"
  using ilog2_mono [of x y] by (auto simp: ulp_exp_def)

lemma rnd_pos_mono:
  assumes "0 < x" "x \<le> y"
  shows "rnd_pos x \<le> rnd_pos y"
proof (cases "ulp_exp x = ulp_exp y")
  case True
  from assms have "x / pow2 (ulp_exp y) \<le> y / pow2 (ulp_exp y)"
    by (simp add: divide_right_mono less_imp_le)
  then have "round_even (x / pow2 (ulp_exp y)) \<le> round_even (y / pow2 (ulp_exp y))"
    by (rule round_even_mono)
  with True show ?thesis by (simp add: rnd_pos_def)
next
  case False
  let ?u = "ulp_exp x" and ?v = "ulp_exp y" and ?e = "ilog2 y"
  from False ulp_exp_mono [OF assms] have lt: "?u < ?v" by simp
  then have v: "?v = ?e - 52" and ex: "ilog2 x < ?e" by (auto simp: ulp_exp_def)
  have xe: "x \<le> pow2 ?e"
    using ilog2_bounds [OF assms(1)] pow2_mono [of "ilog2 x + 1" ?e] ex by linarith
  have ye: "pow2 ?e \<le> y"
    using ilog2_bounds [of y] assms by simp
  have split: "pow2 ?e = pow2 w * of_int (2 ^ nat (?e - w))" if "w \<le> ?e" for w
    using pow2_diff [OF that] by simp
  have "x \<le> pow2 ?u * of_int (2 ^ nat (?e - ?u))"
    using xe split [of ?u] lt v by linarith
  then have "x / pow2 ?u \<le> of_int (2 ^ nat (?e - ?u))"
    by (simp add: pos_divide_le_eq mult.commute)
  then have "rnd_pos x \<le> pow2 ?u * of_int (2 ^ nat (?e - ?u))"
    unfolding rnd_pos_def by (intro mult_left_mono) (simp_all only: of_int_le_iff round_even_le_int, simp add: less_imp_le)
  also have "\<dots> = pow2 ?v * of_int (2 ^ nat (?e - ?v))"
    using split [of ?u] split [of ?v] lt v by simp
  also have "\<dots> \<le> rnd_pos y"
  proof -
    have "pow2 ?v * of_int (2 ^ nat (?e - ?v)) \<le> y"
      using ye split [of ?v] v by linarith
    then have "of_int (2 ^ nat (?e - ?v)) \<le> y / pow2 ?v"
      by (simp add: pos_le_divide_eq mult.commute)
    then show ?thesis
      unfolding rnd_pos_def by (intro mult_left_mono) (simp_all only: of_int_le_iff round_even_ge_int, simp add: less_imp_le)
  qed
  finally show ?thesis .
qed

lemma rnd_nonneg: "0 \<le> x \<Longrightarrow> 0 \<le> rnd x"
  by (auto simp: rnd_def rnd_pos_nonneg)

lemma rnd_nonpos: "x \<le> 0 \<Longrightarrow> rnd x \<le> 0"
  using rnd_nonneg [of "- x"] by simp

lemma rnd_mono: "x \<le> y \<Longrightarrow> rnd x \<le> rnd y"
proof -
  assume le: "x \<le> y"
  consider "0 < x" | "x \<le> 0" "0 \<le> y" | "y < 0" by linarith
  then show ?thesis
  proof cases
    case 1
    with le show ?thesis by (simp add: rnd_def rnd_pos_mono)
  next
    case 2
    then show ?thesis using rnd_nonpos rnd_nonneg by (meson order_trans)
  next
    case 3
    with le rnd_pos_mono [of "- y" "- x"] show ?thesis by (simp add: rnd_def)
  qed
qed

text \<open>A product of at most 53 significant bits and a power of two is exact.\<close>

lemma rnd_pos_representable:
  assumes "0 < i" "i \<le> 2 ^ 53" "- 1074 \<le> k"
  shows "rnd_pos (pow2 k * of_int i) = pow2 k * of_int i"
proof -
  let ?x = "pow2 k * of_int i"
  have pos: "0 < ?x" using assms(1) by simp
  have "(of_int i :: rat) \<le> of_int (2 ^ 53)" using assms(2) by (simp only: of_int_le_iff)
  then have le: "?x \<le> pow2 (k + 53)"
    using pow2_add_nat [of k 53] by (simp add: less_imp_le)
  moreover have "pow2 (k + 53) < pow2 (k + 54)" by (simp only: pow2_less_iff)
  ultimately have "pow2 (ilog2 ?x) < pow2 (k + 54)"
    using ilog2_bounds [OF pos] by linarith
  then have e: "ilog2 ?x \<le> k + 53" by (simp add: pow2_less_iff)
  show ?thesis
  proof (cases "ulp_exp ?x \<le> k")
    case True
    then have "?x = pow2 (ulp_exp ?x) * of_int (2 ^ nat (k - ulp_exp ?x) * i)"
      using pow2_diff [of "ulp_exp ?x" k] by simp
    then show ?thesis by (rule rnd_pos_exact)
  next
    case False
    with e assms(3) have u: "ilog2 ?x = k + 53" "ulp_exp ?x = k + 1" by (auto simp: ulp_exp_def)
    with ilog2_bounds [OF pos] le have "?x = pow2 (k + 53)" by simp
    also have "\<dots> = pow2 (k + 1) * of_int (2 ^ 52)"
      using pow2_diff [of "k + 1" "k + 53"] by simp
    finally have "?x = pow2 (ulp_exp ?x) * of_int (2 ^ 52)" unfolding u(2) .
    then show ?thesis by (rule rnd_pos_exact)
  qed
qed

lemma rnd_pos_of_int: "0 < i \<Longrightarrow> i \<le> 2 ^ 53 \<Longrightarrow> rnd_pos (of_int i) = of_int i"
  using rnd_pos_representable [of i 0] by simp

lemma rnd_pow2: "- 1074 \<le> k \<Longrightarrow> rnd (pow2 k) = pow2 k"
  using rnd_pos_representable [of 1 k] by (simp add: rnd_def)

lemma rnd_pos_form:
  assumes "0 < x"
  shows "\<exists>k i. rnd_pos x = pow2 k * of_int i \<and> - 1074 \<le> k \<and> 0 \<le> i \<and> i \<le> 2 ^ 53"
proof -
  let ?u = "ulp_exp x" and ?i = "round_even (x / pow2 (ulp_exp x))"
  have "ilog2 x + 1 \<le> ?u + 53" by (simp add: ulp_exp_def)
  then have "x \<le> pow2 (?u + 53)"
    using ilog2_bounds [OF assms] pow2_mono [of "ilog2 x + 1" "?u + 53"] by linarith
  then have "x / pow2 ?u \<le> of_int (2 ^ 53)"
    using pow2_add_nat [of ?u 53] by (simp add: pos_divide_le_eq mult.commute)
  then have "?i \<le> 2 ^ 53" by (rule round_even_le_int)
  moreover have "0 \<le> ?i" using assms by (intro round_even_ge_int) (simp add: less_imp_le)
  moreover have "- 1074 \<le> ?u" by (simp add: ulp_exp_def)
  ultimately show ?thesis by (auto simp: rnd_pos_def)
qed

lemma rnd_idem [simp]: "rnd (rnd x) = rnd x"
proof -
  have pos: "rnd (rnd_pos y) = rnd_pos y" if "0 < y" for y
  proof -
    from rnd_pos_form [OF that] obtain k i
      where f: "rnd_pos y = pow2 k * of_int i" "- 1074 \<le> k" "0 \<le> i" "i \<le> 2 ^ 53" by blast
    show ?thesis
    proof (cases "i = 0")
      case False
      with f rnd_pos_representable [of i k] show ?thesis by (simp add: rnd_def)
    qed (simp add: f)
  qed
  consider "x = 0" | "0 < x" | "x < 0" by linarith
  then show ?thesis
  proof cases
    case 3
    with pos [of "- x"] show ?thesis by (simp add: rnd_def [of x])
  qed (simp_all add: pos rnd_def [of x])
qed

text \<open>Every rounded value is a multiple of the least subnormal.\<close>

lemma rnd_multiple: "\<exists>i. rnd x = pow2 (- 1074) * of_int i"
proof -
  have pos: "\<exists>i. rnd_pos y = pow2 (- 1074) * of_int i" if "0 < y" for y
  proof -
    from rnd_pos_form [OF that] obtain k i
      where f: "rnd_pos y = pow2 k * of_int i" "- 1074 \<le> k" by blast
    then have "rnd_pos y = pow2 (- 1074) * of_int (2 ^ nat (k + 1074) * i)"
      using pow2_diff [of "- 1074" k] by simp
    then show ?thesis ..
  qed
  consider "x = 0" | "0 < x" | "x < 0" by linarith
  then show ?thesis
  proof cases
    case 1
    then show ?thesis by (intro exI [of _ 0]) simp
  next
    case 2
    with pos show ?thesis by (simp add: rnd_def)
  next
    case 3
    with pos [of "- x"] obtain i where "rnd_pos (- x) = pow2 (- 1074) * of_int i" by auto
    with 3 have "rnd x = pow2 (- 1074) * of_int (- i)" by (simp add: rnd_def)
    then show ?thesis by blast
  qed
qed

text \<open>The difference of two distinct floats does not round to zero (gradual underflow).\<close>

lemma rnd_diff_pos:
  assumes "rnd x = x" "rnd y = y" "x < y"
  shows "0 < rnd (y - x)"
proof -
  obtain i j where i: "x = pow2 (- 1074) * of_int i" and j: "y = pow2 (- 1074) * of_int j"
    using rnd_multiple [of x] rnd_multiple [of y] assms by metis
  with assms(3) have "i < j" by simp
  then have "(1::rat) \<le> of_int (j - i)" by simp
  then have "pow2 (- 1074) * 1 \<le> pow2 (- 1074) * of_int (j - i)"
    by (intro mult_left_mono) (simp_all add: less_imp_le)
  then have "pow2 (- 1074) \<le> y - x" by (simp add: i j algebra_simps)
  then have "pow2 (- 1074) \<le> rnd (y - x)"
    using rnd_mono [of "pow2 (- 1074)" "y - x"] rnd_pow2 [of "- 1074"] by simp
  then show ?thesis using pow2_pos [of "- 1074"] by linarith
qed

lemma rnd_of_int: "\<bar>i\<bar> \<le> 2 ^ 53 \<Longrightarrow> rnd (of_int i) = of_int i"
proof -
  assume b: "\<bar>i\<bar> \<le> 2 ^ 53"
  consider "i = 0" | "0 < i" | "i < 0" by linarith
  then show ?thesis
  proof cases
    case 3
    with b rnd_pos_of_int [of "- i"] show ?thesis by (simp add: rnd_def)
  qed (use b in \<open>simp_all add: rnd_def rnd_pos_of_int\<close>)
qed

lemma rnd_1 [simp]: "rnd 1 = 1"
  using rnd_of_int [of 1] by simp

lemma rnd_numeral: "numeral n \<le> (2::int) ^ 53 \<Longrightarrow> rnd (numeral n) = numeral n"
  using rnd_of_int [of "numeral n"] by simp

lemma rnd_le_int: "x \<le> of_int i \<Longrightarrow> \<bar>i\<bar> \<le> 2 ^ 53 \<Longrightarrow> rnd x \<le> of_int i"
  using rnd_mono [of x "of_int i"] by (simp add: rnd_of_int)

lemma rnd_ge_int: "of_int i \<le> x \<Longrightarrow> \<bar>i\<bar> \<le> 2 ^ 53 \<Longrightarrow> of_int i \<le> rnd x"
  using rnd_mono [of "of_int i" x] by (simp add: rnd_of_int)

lemma rnd_unit: "0 \<le> x \<Longrightarrow> x \<le> 1 \<Longrightarrow> 0 \<le> rnd x \<and> rnd x \<le> 1"
  using rnd_le_int [of x 1] by (simp add: rnd_nonneg)

section \<open>Values and operations\<close>

datatype float64 = Fin rat | PInf | NInf | NaN

text \<open>The values a Python \<open>float\<close> can hold.\<close>

fun is_binary64 :: "float64 \<Rightarrow> bool" where
  "is_binary64 (Fin x) = (rnd x = x \<and> \<bar>x\<bar> < 2 ^ 1024)"
| "is_binary64 a = True"

definition fin :: "rat \<Rightarrow> float64" where
  "fin x = (let y = rnd x in if 2 ^ 1024 \<le> y then PInf else if y \<le> - (2 ^ 1024) then NInf else Fin y)"

fun fneg :: "float64 \<Rightarrow> float64" where
  "fneg (Fin x) = Fin (- x)"
| "fneg PInf = NInf"
| "fneg NInf = PInf"
| "fneg NaN = NaN"

fun fabs :: "float64 \<Rightarrow> float64" where
  "fabs (Fin x) = Fin \<bar>x\<bar>"
| "fabs PInf = PInf"
| "fabs NInf = PInf"
| "fabs NaN = NaN"

fun fadd :: "float64 \<Rightarrow> float64 \<Rightarrow> float64" where
  "fadd NaN b = NaN"
| "fadd a NaN = NaN"
| "fadd PInf NInf = NaN"
| "fadd NInf PInf = NaN"
| "fadd PInf b = PInf"
| "fadd NInf b = NInf"
| "fadd a PInf = PInf"
| "fadd a NInf = NInf"
| "fadd (Fin x) (Fin y) = fin (x + y)"

definition fsub :: "float64 \<Rightarrow> float64 \<Rightarrow> float64" where
  "fsub a b = fadd a (fneg b)"

definition inf_of_sign :: "rat \<Rightarrow> float64" where
  "inf_of_sign s = (if s = 0 then NaN else if 0 < s then PInf else NInf)"

fun fsign :: "float64 \<Rightarrow> rat" where
  "fsign (Fin x) = sgn x"
| "fsign PInf = 1"
| "fsign NInf = - 1"
| "fsign NaN = 0"

fun fmul :: "float64 \<Rightarrow> float64 \<Rightarrow> float64" where
  "fmul NaN b = NaN"
| "fmul a NaN = NaN"
| "fmul (Fin x) (Fin y) = fin (x * y)"
| "fmul a b = inf_of_sign (fsign a * fsign b)"

text \<open>Python raises \<open>ZeroDivisionError\<close> for every zero divisor, also of NaN or an infinity.\<close>

fun fdiv :: "float64 \<Rightarrow> float64 \<Rightarrow> float64 result" where
  "fdiv a (Fin y) =
     (if y = 0 then Inl ZeroDivisionError
      else Inr (case a of Fin x \<Rightarrow> fin (x / y) | NaN \<Rightarrow> NaN | _ \<Rightarrow> inf_of_sign (fsign a * sgn y)))"
| "fdiv (Fin x) PInf = Inr (Fin 0)"
| "fdiv (Fin x) NInf = Inr (Fin 0)"
| "fdiv a b = Inr NaN"

fun flt :: "float64 \<Rightarrow> float64 \<Rightarrow> bool" where
  "flt (Fin x) (Fin y) = (x < y)"
| "flt NInf (Fin y) = True"
| "flt NInf PInf = True"
| "flt (Fin x) PInf = True"
| "flt a b = False"

fun feq :: "float64 \<Rightarrow> float64 \<Rightarrow> bool" where
  "feq NaN b = False"
| "feq a b = (a = b)"

definition fle :: "float64 \<Rightarrow> float64 \<Rightarrow> bool" where
  "fle a b = (flt a b \<or> feq a b)"

text \<open>Python's \<open>max(a, b)\<close> and \<open>min(a, b)\<close> keep the first argument unless the second beats it.\<close>

definition fmax :: "float64 \<Rightarrow> float64 \<Rightarrow> float64" where
  "fmax a b = (if flt a b then b else a)"

definition fmin :: "float64 \<Rightarrow> float64 \<Rightarrow> float64" where
  "fmin a b = (if flt b a then b else a)"

text \<open>Conversions: \<open>float(n)\<close> of an \<open>int\<close> raises on overflow, a literal does not.\<close>

definition float_of_int :: "int \<Rightarrow> float64 result" where
  "float_of_int n = (case fin (of_int n) of Fin y \<Rightarrow> Inr (Fin y) | _ \<Rightarrow> Inl OverflowError)"

definition float_of_decimal :: "rat \<Rightarrow> float64" where
  "float_of_decimal x = fin x"

text \<open>\<open>round(x)\<close> to an \<open>int\<close>, and \<open>round(x, n)\<close>, which rounds the exact value.\<close>

fun round_to_int :: "float64 \<Rightarrow> int result" where
  "round_to_int (Fin x) = Inr (round_even x)"
| "round_to_int NaN = Inl ValueError"
| "round_to_int _ = Inl OverflowError"

fun round_digits :: "nat \<Rightarrow> float64 \<Rightarrow> float64" where
  "round_digits n (Fin x) = fin (of_int (round_even (x * 10 ^ n)) / 10 ^ n)"
| "round_digits n a = a"

text \<open>\<open>int(x)\<close> truncates towards zero.\<close>

definition rat_trunc :: "rat \<Rightarrow> int" where
  "rat_trunc x = (if 0 \<le> x then \<lfloor>x\<rfloor> else \<lceil>x\<rceil>)"

fun int_of_float :: "float64 \<Rightarrow> int result" where
  "int_of_float (Fin x) = Inr (rat_trunc x)"
| "int_of_float NaN = Inl ValueError"
| "int_of_float _ = Inl OverflowError"

text \<open>The built-in \<open>sum\<close> of floats: a left fold from the integer 0 (Python 3.11).\<close>

definition fsum :: "float64 list \<Rightarrow> float64" where
  "fsum xs = foldl fadd (Fin 0) xs"

subsection \<open>Facts about the operations\<close>

lemma is_binary64_fin [simp]: "is_binary64 (fin x)"
  by (auto simp: fin_def Let_def)

lemma fin_Fin: "\<bar>x\<bar> \<le> 2 ^ 53 \<Longrightarrow> fin x = Fin (rnd x)"
proof -
  assume "\<bar>x\<bar> \<le> 2 ^ 53"
  then have "rnd x \<le> of_int (2 ^ 53)" "of_int (- (2 ^ 53)) \<le> rnd x"
    by (intro rnd_le_int rnd_ge_int; simp)+
  moreover have "(2::rat) ^ 53 < 2 ^ 1024" by simp
  ultimately show ?thesis by (simp add: fin_def Let_def)
qed

lemma fin_nonneg_cases:
  "0 \<le> x \<Longrightarrow> (\<exists>y \<ge> 0. fin x = Fin y) \<or> fin x = PInf"
  using rnd_nonneg [of x] by (auto simp: fin_def Let_def)

lemma fin_nonneg: "0 \<le> x \<Longrightarrow> fin x = Fin y \<Longrightarrow> 0 \<le> y"
  using fin_nonneg_cases [of x] by auto

lemma fmax_fmin_range:
  assumes "lo \<le> hi"
  shows "\<exists>y. fmax (Fin lo) (fmin (Fin hi) x) = Fin y \<and> lo \<le> y \<and> y \<le> hi"
  using assms by (cases x) (auto simp: fmax_def fmin_def)

lemma fle_simps [simp]:
  "fle (Fin x) (Fin y) \<longleftrightarrow> x \<le> y"
  "\<not> fle NaN a" "\<not> fle a NaN"
  "fle (Fin x) PInf" "fle NInf (Fin x)" "\<not> fle PInf (Fin x)" "\<not> fle (Fin x) NInf"
  by (cases a; auto simp: fle_def)+

lemma float_of_int_exact: "\<bar>i\<bar> \<le> 2 ^ 53 \<Longrightarrow> float_of_int i = Inr (Fin (of_int i))"
proof -
  assume b: "\<bar>i\<bar> \<le> 2 ^ 53"
  then have "\<bar>of_int i :: rat\<bar> \<le> 2 ^ 53"
    by (metis of_int_abs of_int_le_iff of_int_numeral of_int_power)
  with b show ?thesis by (simp add: float_of_int_def fin_Fin rnd_of_int)
qed

subsection \<open>Negation\<close>

lemma fin_minus: "fin (- x) = fneg (fin x)"
  by (simp add: fin_def Let_def)

lemma fin_minus_add: "fin (- x - y) = fneg (fin (x + y))"
  using fin_minus [of "x + y"] by simp

lemma fneg_fneg [simp]: "fneg (fneg a) = a"
  by (cases a) simp_all

lemma fadd_fneg: "fadd (fneg a) (fneg b) = fneg (fadd a b)"
  by (cases a; cases b) (simp_all add: fin_minus_add)

lemma foldl_fadd_fneg: "foldl fadd (fneg a) (map fneg xs) = fneg (foldl fadd a xs)"
  by (induction xs arbitrary: a) (simp_all add: fadd_fneg)

lemma fsum_fneg: "fsum (map fneg xs) = fneg (fsum xs)"
  using foldl_fadd_fneg [of "Fin 0" xs] by (simp add: fsum_def)

lemma fneg_inf_of_sign: "inf_of_sign (- s) = fneg (inf_of_sign s)"
  by (simp add: inf_of_sign_def)

lemma fsign_fneg [simp]: "fsign (fneg a) = - fsign a"
  by (cases a) (simp_all add: sgn_minus)

lemma fmul_fneg: "fmul (fneg a) b = fneg (fmul a b)"
  by (cases a; cases b) (simp_all add: fin_minus fneg_inf_of_sign)

lemma fdiv_fneg: "fdiv (fneg a) b = (case fdiv a b of Inl e \<Rightarrow> Inl e | Inr q \<Rightarrow> Inr (fneg q))"
  by (cases a; cases b) (simp_all add: fin_minus fneg_inf_of_sign)

lemma flt_fneg: "flt (fneg a) (fneg b) \<longleftrightarrow> flt b a"
  by (cases a; cases b) simp_all

lemma feq_fneg: "feq (fneg a) (fneg b) \<longleftrightarrow> feq a b"
  by (cases a; cases b) auto

lemma feq_sym: "feq a b \<longleftrightarrow> feq b a"
  by (cases a; cases b) auto

lemma fle_fneg: "fle (fneg a) (fneg b) \<longleftrightarrow> fle b a"
  by (simp add: fle_def flt_fneg feq_fneg) (simp add: feq_sym)

text \<open>NaN absorbs.\<close>

lemma fadd_NaN_right [simp]: "fadd a NaN = NaN"
  by (cases a) simp_all

lemma fmul_NaN_right [simp]: "fmul a NaN = NaN"
  by (cases a) simp_all

lemma foldl_fadd_NaN [simp]: "foldl fadd NaN xs = NaN"
  by (induction xs) simp_all

lemma fsum_NaN: "NaN \<in> set xs \<Longrightarrow> fsum xs = NaN"
proof -
  have "NaN \<in> set xs \<Longrightarrow> foldl fadd a xs = NaN" for a
    by (induction xs arbitrary: a) auto
  then show "NaN \<in> set xs \<Longrightarrow> fsum xs = NaN" by (simp add: fsum_def)
qed

lemma fadd_Fin_not_NaN: "a \<noteq> NaN \<Longrightarrow> fadd a (Fin x) \<noteq> NaN"
  by (cases a) (auto simp: fin_def Let_def)

lemma fsum_not_NaN: "\<forall>w \<in> set ws. \<exists>x. w = Fin x \<Longrightarrow> fsum ws \<noteq> NaN"
proof -
  have "\<forall>w \<in> set ws. \<exists>x. w = Fin x \<Longrightarrow> a \<noteq> NaN \<Longrightarrow> foldl fadd a ws \<noteq> NaN" for a
    by (induction ws arbitrary: a) (auto simp: fadd_Fin_not_NaN)
  then show "\<forall>w \<in> set ws. \<exists>x. w = Fin x \<Longrightarrow> fsum ws \<noteq> NaN" by (simp add: fsum_def)
qed

end
