(* ===== verification/Trading_Models.thy ===== *)
theory Trading_Models
  imports Float64
begin

text \<open>
  The data that flows through the trading chain: \<open>src/src/domain/market/models.py\<close>
  (ticks and quotes) and \<open>src/src/domain/trading/models.py\<close> (actions, agent signals,
  the coordinator's output). A \<open>Decimal\<close> price is its exact value: the \<open>Tick\<close>
  model refuses NaN and the infinities, so every price is a finite rational. The
  range fields of the two signal models (\<open>ge\<close>, \<open>le\<close>) are checked by the smart
  constructors, which raise what pydantic raises, a \<open>ValueError\<close>.
\<close>

section \<open>Market data\<close>

datatype tick_side = SideBuy | SideSell

record tick =
  t_symbol :: string
  t_ts :: time
  t_price :: rat
  t_volume :: int
  t_side :: tick_side

record quote_level =
  l_price :: int
  l_volume :: int

record quote =
  q_symbol :: string
  q_ts :: time
  q_bids :: "quote_level list"
  q_asks :: "quote_level list"

section \<open>Signals\<close>

datatype action = BUY | HOLD | SELL

fun action_score :: "action \<Rightarrow> float64" where
  "action_score BUY = Fin 1"
| "action_score HOLD = Fin 0"
| "action_score SELL = Fin (- 1)"

fun action_value :: "action \<Rightarrow> string" where
  "action_value BUY = ''buy''"
| "action_value HOLD = ''hold''"
| "action_value SELL = ''sell''"

definition action_of_value :: "string \<Rightarrow> action result" where
  "action_of_value s =
     (if s = ''buy'' then Inr BUY else if s = ''hold'' then Inr HOLD
      else if s = ''sell'' then Inr SELL else Inl ValueError)"

text \<open>
  A rationale is free text or the f-string of an agent, kept as the values it interpolates;
  \<open>TextCut\<close> is text ending in an ellipsis.
\<close>

datatype rationale =
    Text string
  | TextCut string
  | LlmStub
  | RsiInsufficient nat nat
  | RsiOversold nat float64 float64
  | RsiOverbought nat float64 float64
  | RsiNeutral nat float64
  | ScriptedAt nat
  | LlmCallFailed py_error
  | LlmUnparseable py_error

record agent_signal =
  as_agent_id :: string
  as_symbol :: string
  as_action :: action
  as_confidence :: float64
  as_rationale :: rationale
  as_ts :: time

text \<open>\<open>Field(ge=lo, le=hi)\<close>: NaN compares false both ways and is refused.\<close>

definition in_range :: "rat \<Rightarrow> rat \<Rightarrow> float64 \<Rightarrow> bool" where
  "in_range lo hi x = (fle (Fin lo) x \<and> fle x (Fin hi))"

definition AgentSignal ::
    "string \<Rightarrow> string \<Rightarrow> action \<Rightarrow> float64 \<Rightarrow> rationale \<Rightarrow> time \<Rightarrow> agent_signal result" where
  "AgentSignal agent symb act conf why ts =
     (if in_range 0 1 conf
      then Inr \<lparr>as_agent_id = agent, as_symbol = symb, as_action = act,
                as_confidence = conf, as_rationale = why, as_ts = ts\<rparr>
      else Inl ValueError)"

record trade_signal =
  ts_symbol :: string
  ts_action :: action
  ts_confidence :: float64
  ts_score :: float64
  ts_contributors :: "agent_signal list"
  ts_ts :: time

definition TradeSignal ::
    "string \<Rightarrow> action \<Rightarrow> float64 \<Rightarrow> float64 \<Rightarrow> agent_signal list \<Rightarrow> time
     \<Rightarrow> trade_signal result" where
  "TradeSignal symb act conf score contributors ts =
     (if in_range 0 1 conf \<and> in_range (- 1) 1 score
      then Inr \<lparr>ts_symbol = symb, ts_action = act, ts_confidence = conf, ts_score = score,
                ts_contributors = contributors, ts_ts = ts\<rparr>
      else Inl ValueError)"

definition hold_default :: "string \<Rightarrow> agent_signal list \<Rightarrow> time \<Rightarrow> trade_signal result" where
  "hold_default symb contributors now = TradeSignal symb HOLD (Fin 0) (Fin 0) contributors now"

lemma in_range_Fin [simp]: "in_range lo hi (Fin x) \<longleftrightarrow> lo \<le> x \<and> x \<le> hi"
  by (simp add: in_range_def)

lemma in_rangeE:
  assumes "in_range lo hi x"
  obtains y where "x = Fin y" "lo \<le> y" "y \<le> hi"
  using assms by (cases x) (auto simp: in_range_def)

lemma action_of_value_inverse [simp]: "action_of_value (action_value a) = Inr a"
  by (cases a) (simp_all add: action_of_value_def)

lemma action_of_value_Inr: "action_of_value s = Inr a \<Longrightarrow> action_value a = s"
  by (auto simp: action_of_value_def split: if_splits)

lemma hold_default_ok:
  "hold_default symb cs now = Inr \<lparr>ts_symbol = symb, ts_action = HOLD, ts_confidence = Fin 0,
     ts_score = Fin 0, ts_contributors = cs, ts_ts = now\<rparr>"
  by (simp add: hold_default_def TradeSignal_def)

lemma TradeSignal_ok_fields:
  assumes "TradeSignal symb act conf score cs ts = Inr t"
  shows "ts_symbol t = symb" "ts_action t = act" "ts_confidence t = conf" "ts_score t = score"
    "ts_contributors t = cs" "ts_ts t = ts" "in_range 0 1 conf" "in_range (- 1) 1 score"
  using assms by (auto simp: TradeSignal_def split: if_splits)

lemma AgentSignal_ok_fields:
  assumes "AgentSignal agent symb act conf why ts = Inr s"
  shows "as_agent_id s = agent" "as_symbol s = symb" "as_action s = act" "as_confidence s = conf"
    "as_rationale s = why" "as_ts s = ts" "in_range 0 1 conf"
  using assms by (auto simp: AgentSignal_def split: if_splits)

end
