(* ===== verification/Tick_Context.thy ===== *)
theory Tick_Context
  imports Trading_Models
begin

text \<open>
  \<open>src/src/domain/trading/context.py\<close>: the per-symbol rolling window of recent ticks.
  The state is the dictionary of deques (\<open>tc_buckets\<close>, symbols in insertion order kept in
  \<open>tc_order\<close> for \<open>known_symbols\<close>) and the window bound. The abstract view of a symbol
  is its whole tick history; \<open>history_window\<close> says that the bucket is the last
  \<open>max_window\<close> ticks of that history, whatever the other symbols did.
\<close>

section \<open>State and operations\<close>

record tick_context =
  tc_max_window :: nat
  tc_buckets :: "string \<Rightarrow> tick list option"
  tc_order :: "string list"

definition TickContext :: "int \<Rightarrow> tick_context result" where
  "TickContext max_window =
     (if max_window < 2 then Inl ValueError
      else Inr \<lparr>tc_max_window = nat max_window, tc_buckets = Map.empty, tc_order = []\<rparr>)"

definition known_symbols :: "tick_context \<Rightarrow> string list" where
  "known_symbols c = tc_order c"

definition bucket_of :: "tick_context \<Rightarrow> string \<Rightarrow> tick list" where
  "bucket_of c s = (case tc_buckets c s of None \<Rightarrow> [] | Some b \<Rightarrow> b)"

definition tick_count :: "tick_context \<Rightarrow> string \<Rightarrow> nat" where
  "tick_count c s = length (bucket_of c s)"

definition record_tick :: "tick_context \<Rightarrow> tick \<Rightarrow> tick_context" where
  "record_tick c t =
     (case tc_buckets c (t_symbol t) of
        None \<Rightarrow> c\<lparr>tc_buckets := (tc_buckets c)(t_symbol t \<mapsto> deque_append (tc_max_window c) [] t),
                   tc_order := tc_order c @ [t_symbol t]\<rparr>
      | Some b \<Rightarrow> c\<lparr>tc_buckets := (tc_buckets c)(t_symbol t \<mapsto> deque_append (tc_max_window c) b t)\<rparr>)"

fun record_many :: "tick_context \<Rightarrow> tick list \<Rightarrow> tick_context" where
  "record_many c [] = c"
| "record_many c (t # ts) = record_many (record_tick c t) ts"

text \<open>
  Python's \<open>xs[-n:]\<close>: for \<open>n > 0\<close> the last \<open>n\<close> elements, for \<open>n = 0\<close> the slice
  \<open>xs[0:]\<close>, for a negative \<open>n\<close> the list without its first \<open>-n\<close> elements.
\<close>

definition slice_from_minus :: "'a list \<Rightarrow> int \<Rightarrow> 'a list" where
  "slice_from_minus xs n = (if 0 < n then last_n (nat n) xs else drop (nat (- n)) xs)"

definition recent_ticks :: "tick_context \<Rightarrow> string \<Rightarrow> int option \<Rightarrow> tick list" where
  "recent_ticks c s n =
     (let b = bucket_of c s in
      if b = [] then []
      else case n of
          None \<Rightarrow> b
        | Some k \<Rightarrow> if int (length b) \<le> k then b else slice_from_minus b k)"

definition recent_prices :: "tick_context \<Rightarrow> string \<Rightarrow> int option \<Rightarrow> rat list" where
  "recent_prices c s n = map t_price (recent_ticks c s n)"

definition latest :: "tick_context \<Rightarrow> string \<Rightarrow> tick option" where
  "latest c s = (let b = bucket_of c s in if b = [] then None else Some (last b))"

section \<open>Invariant and abstract view\<close>

definition bucket_ok :: "nat \<Rightarrow> string \<Rightarrow> tick list \<Rightarrow> bool" where
  "bucket_ok n s b \<longleftrightarrow> b \<noteq> [] \<and> length b \<le> n \<and> (\<forall>t \<in> set b. t_symbol t = s)"

definition ctx_inv :: "tick_context \<Rightarrow> bool" where
  "ctx_inv c \<longleftrightarrow>
     2 \<le> tc_max_window c \<and> distinct (tc_order c) \<and> set (tc_order c) = dom (tc_buckets c) \<and>
     (\<forall>s b. tc_buckets c s = Some b \<longrightarrow> bucket_ok (tc_max_window c) s b)"

text \<open>\<open>ctx_abs c hist\<close>: the context is the window over the tick history \<open>hist\<close>.\<close>

definition ctx_abs :: "tick_context \<Rightarrow> tick list \<Rightarrow> bool" where
  "ctx_abs c hist \<longleftrightarrow>
     (\<forall>s. bucket_of c s = last_n (tc_max_window c) (filter (\<lambda>t. t_symbol t = s) hist))"

lemma TickContext_inv: "TickContext n = Inr c \<Longrightarrow> ctx_inv c \<and> ctx_abs c []"
  by (auto simp: TickContext_def ctx_inv_def ctx_abs_def bucket_of_def last_n_def split: if_splits)

lemma bucket_of_record:
  "bucket_of (record_tick c t) s =
     (if s = t_symbol t then deque_append (tc_max_window c) (bucket_of c s) t else bucket_of c s)"
  by (simp add: bucket_of_def record_tick_def split: option.splits)

lemma record_tick_max_window [simp]: "tc_max_window (record_tick c t) = tc_max_window c"
  by (simp add: record_tick_def split: option.splits)

lemma record_many_max_window [simp]: "tc_max_window (record_many c ts) = tc_max_window c"
  by (induction ts arbitrary: c) simp_all

lemma set_deque_append: "set (deque_append n xs x) \<subseteq> insert x (set xs)"
  using set_last_n [of n "xs @ [x]"] by (auto simp: deque_append_def)

lemma bucket_ok_append:
  assumes "0 < n" "\<forall>u \<in> set old. t_symbol u = t_symbol t"
  shows "bucket_ok n (t_symbol t) (deque_append n old t)"
  using assms set_deque_append [of n old t] by (auto simp: bucket_ok_def)

lemma record_tick_inv:
  assumes "ctx_inv c"
  shows "ctx_inv (record_tick c t)"
proof (cases "tc_buckets c (t_symbol t)")
  case None
  with assms bucket_ok_append [of "tc_max_window c" "[]" t] show ?thesis
    by (auto simp: ctx_inv_def record_tick_def)
next
  case (Some b)
  with assms have "\<forall>u \<in> set b. t_symbol u = t_symbol t"
    by (auto simp: ctx_inv_def bucket_ok_def)
  with Some assms bucket_ok_append [of "tc_max_window c" b t] show ?thesis
    by (auto simp: ctx_inv_def record_tick_def insert_absorb domI)
qed

lemma record_tick_abs:
  assumes "ctx_inv c" "ctx_abs c hist"
  shows "ctx_abs (record_tick c t) (hist @ [t])"
  using assms by (auto simp: ctx_abs_def bucket_of_record ctx_inv_def deque_append_window)

lemma record_many_inv: "ctx_inv c \<Longrightarrow> ctx_inv (record_many c ts)"
  by (induction ts arbitrary: c) (simp_all add: record_tick_inv)

lemma record_many_abs:
  "ctx_inv c \<Longrightarrow> ctx_abs c hist \<Longrightarrow> ctx_abs (record_many c ts) (hist @ ts)"
proof (induction ts arbitrary: c hist)
  case Nil
  then show ?case by simp
next
  case (Cons t ts)
  from Cons.IH [OF record_tick_inv record_tick_abs] Cons.prems show ?case by simp
qed

lemma latest_record: "ctx_inv c \<Longrightarrow> latest (record_tick c t) (t_symbol t) = Some t"
  by (simp add: latest_def bucket_of_record ctx_inv_def)

lemma slice_from_minus_pos: "0 < n \<Longrightarrow> slice_from_minus xs n = last_n (nat n) xs"
  by (simp add: slice_from_minus_def)

lemma recent_ticks_pos:
  "0 < n \<Longrightarrow> recent_ticks c s (Some n) = last_n (nat n) (bucket_of c s)"
  by (auto simp: recent_ticks_def Let_def slice_from_minus_pos last_n_def)

lemma recent_ticks_all [simp]: "recent_ticks c s None = bucket_of c s"
  by (simp add: recent_ticks_def Let_def)

lemma length_recent_prices: "length (recent_prices c s n) \<le> length (bucket_of c s)"
  by (auto simp: recent_prices_def recent_ticks_def Let_def slice_from_minus_def split: option.splits)

section \<open>Property\<close>

text \<open>
  C0: The context is a window over history. A fresh context that has recorded any sequence of
  ticks, the symbols in any order, answers for each symbol exactly the last \<open>max_window\<close>
  ticks of that symbol, oldest first; asking for the last \<open>n > 0\<close> gives the last
  \<open>n\<close> of those; and the newest tick is the newest recorded for that symbol.
\<close>

theorem context_is_a_window:
  assumes "TickContext w = Inr c0"
  shows "(let h = filter (\<lambda>t. t_symbol t = s) ts; c = record_many c0 ts in
     recent_ticks c s None = last_n (nat w) h \<and>
     (0 < n \<longrightarrow> recent_ticks c s (Some n) = last_n (nat n) (last_n (nat w) h)) \<and>
     latest c s = (if h = [] then None else Some (last h)))"
proof -
  from assms have w: "tc_max_window c0 = nat w" "0 < nat w" by (auto simp: TickContext_def split: if_splits)
  from TickContext_inv [OF assms] have "ctx_abs (record_many c0 ts) ts"
    using record_many_abs [of c0 "[]" ts] by simp
  then have b: "bucket_of (record_many c0 ts) s = last_n (nat w) (filter (\<lambda>t. t_symbol t = s) ts)"
    by (simp add: ctx_abs_def w)
  have "last_n (nat w) (filter (\<lambda>t. t_symbol t = s) ts) = [] \<longleftrightarrow> filter (\<lambda>t. t_symbol t = s) ts = []"
    using w(2) last_n_nonempty [of "nat w"] by (cases "filter (\<lambda>t. t_symbol t = s) ts") auto
  with b w(2) show ?thesis
    by (auto simp: Let_def recent_ticks_pos latest_def last_last_n)
qed

theorem context_is_a_window_witness:
  "\<exists>c. TickContext 2 = Inr c \<and> recent_ticks (record_many c []) ''A'' None = []"
proof -
  obtain c where c: "TickContext 2 = Inr c" by (simp add: TickContext_def)
  from context_is_a_window [OF c, of "''A''" "[]" 1] c show ?thesis by (simp add: Let_def)
qed

end
