(* ===== verification/Portfolio.thy ===== *)
theory Portfolio
  imports Trading_Models
begin

text \<open>
  \<open>src/src/domain/trading/portfolio.py\<close>: shares held and last trade time per symbol.
  Every operation runs under the object's lock, so each is one atomic step of the model.
  The book is long-only: no position is ever negative (\<open>long_only\<close>).
\<close>

section \<open>State and operations\<close>

record portfolio =
  pf_positions :: "string \<Rightarrow> int option"
  pf_last_trade_at :: "string \<Rightarrow> time option"

definition empty_portfolio :: portfolio where
  "empty_portfolio = \<lparr>pf_positions = Map.empty, pf_last_trade_at = Map.empty\<rparr>"

definition position_of :: "portfolio \<Rightarrow> string \<Rightarrow> int" where
  "position_of p s = (case pf_positions p s of None \<Rightarrow> 0 | Some q \<Rightarrow> q)"

definition record_fill ::
    "portfolio \<Rightarrow> string \<Rightarrow> action \<Rightarrow> int \<Rightarrow> time \<Rightarrow> portfolio result" where
  "record_fill p s act quantity ts =
     (if act = HOLD then Inl ValueError
      else if quantity \<le> 0 then Inl ValueError
      else
        let current = position_of p s;
            updated = (if act = BUY then current + quantity else max 0 (current - quantity))
        in Inr (p\<lparr>pf_positions := (pf_positions p)(s \<mapsto> updated),
                  pf_last_trade_at := (pf_last_trade_at p)(s \<mapsto> ts)\<rparr>))"

text \<open>A run of fills: each is the symbol, the action, the quantity and the time.\<close>

fun record_fills :: "portfolio \<Rightarrow> (string \<times> action \<times> int \<times> time) list \<Rightarrow> portfolio result" where
  "record_fills p [] = Inr p"
| "record_fills p ((s, act, q, ts) # fs) =
     bind_result (record_fill p s act q ts) (\<lambda>p'. record_fills p' fs)"

section \<open>Long-only invariant and functional behaviour\<close>

definition long_only :: "portfolio \<Rightarrow> bool" where
  "long_only p \<longleftrightarrow> (\<forall>s. 0 \<le> position_of p s)"

lemma long_only_empty: "long_only empty_portfolio"
  by (simp add: long_only_def position_of_def empty_portfolio_def)

lemma record_fill_ok_iff:
  "is_ok (record_fill p s act q ts) \<longleftrightarrow> act \<noteq> HOLD \<and> 0 < q"
  by (auto simp: record_fill_def Let_def)

lemma record_fill_position:
  assumes "record_fill p s act q ts = Inr p'"
  shows "position_of p' s' =
     (if s' = s then (if act = BUY then position_of p s + q else max 0 (position_of p s - q))
      else position_of p s')"
  using assms by (auto simp: record_fill_def Let_def position_of_def split: if_splits)

lemma record_fill_last_trade:
  assumes "record_fill p s act q ts = Inr p'"
  shows "pf_last_trade_at p' = (pf_last_trade_at p)(s \<mapsto> ts)"
  using assms by (auto simp: record_fill_def Let_def split: if_splits)

lemma record_fill_quantity: "record_fill p s act q ts = Inr p' \<Longrightarrow> act \<noteq> HOLD \<and> 0 < q"
  using record_fill_ok_iff [of p s act q ts] by simp

lemma record_fill_long_only:
  assumes "record_fill p s act q ts = Inr p'" "long_only p"
  shows "long_only p'"
  using assms record_fill_quantity [OF assms(1)]
  by (auto simp: long_only_def record_fill_position [OF assms(1)])

lemma record_fills_long_only:
  "record_fills p fs = Inr p' \<Longrightarrow> long_only p \<Longrightarrow> long_only p'"
proof (induction fs arbitrary: p)
  case Nil
  then show ?case by simp
next
  case (Cons f fs)
  obtain s act q ts where f: "f = (s, act, q, ts)" by (cases f)
  with Cons.prems obtain p1 where "record_fill p s act q ts = Inr p1" "record_fills p1 fs = Inr p'"
    by (auto elim: bind_result_InrE)
  with Cons show ?case by (blast intro: record_fill_long_only)
qed

end
