(* ===== verification/Sizer.thy ===== *)
theory Sizer
  imports Trading_Models
begin

text \<open>
  \<open>src/src/domain/trading/sizer.py\<close>. The protocol \<open>PositionSizer\<close> is the locale
  \<open>position_sizer\<close>: a sizer never answers a negative count and never exceeds its cap.
  Both strategies of the code are interpretations of it. \<open>ConfidenceLinearSizer\<close>
  works in binary64, exactly as the code does (\<open>span * c\<close>, then the sum, then
  \<open>round\<close> with ties to even).
\<close>

section \<open>Fixed size\<close>

record fixed_sizer =
  fs_quantity :: int

definition FixedSizer :: "int \<Rightarrow> fixed_sizer result" where
  "FixedSizer quantity = (if quantity \<le> 0 then Inl ValueError else Inr \<lparr>fs_quantity = quantity\<rparr>)"

definition fixed_size_for :: "fixed_sizer \<Rightarrow> trade_signal \<Rightarrow> int result" where
  "fixed_size_for z signal = Inr (fs_quantity z)"

section \<open>Linear in the confidence\<close>

record linear_sizer =
  ls_min_quantity :: int
  ls_max_quantity :: int
  ls_min_confidence :: float64

definition ConfidenceLinearSizer :: "int \<Rightarrow> int \<Rightarrow> float64 \<Rightarrow> linear_sizer result" where
  "ConfidenceLinearSizer lo hi floor_conf =
     (if lo \<le> 0 then Inl ValueError
      else if hi < lo then Inl ValueError
      else if \<not> (fle (Fin 0) floor_conf \<and> fle floor_conf (Fin 1)) then Inl ValueError
      else Inr \<lparr>ls_min_quantity = lo, ls_max_quantity = hi, ls_min_confidence = floor_conf\<rparr>)"

definition linear_size_for :: "linear_sizer \<Rightarrow> trade_signal \<Rightarrow> int result" where
  "linear_size_for z signal =
     (let c = fmax (Fin 0) (fmin (Fin 1) (ts_confidence signal)) in
      if flt c (ls_min_confidence z) then Inr 0
      else
        let span = ls_max_quantity z - ls_min_quantity z in
        bind_result (float_of_int span) (\<lambda>span_f.
        bind_result (float_of_int (ls_min_quantity z)) (\<lambda>min_f.
        bind_result (round_to_int (fadd min_f (fmul span_f c))) (\<lambda>size.
        Inr (max (ls_min_quantity z) (min (ls_max_quantity z) size))))))"

section \<open>The contract\<close>

locale position_sizer =
  fixes size_for :: "'z \<Rightarrow> trade_signal \<Rightarrow> int result"
    and valid :: "'z \<Rightarrow> bool"
    and cap :: "'z \<Rightarrow> int"
  assumes size_nonneg: "valid z \<Longrightarrow> size_for z s = Inr q \<Longrightarrow> 0 \<le> q"
    and size_le_cap: "valid z \<Longrightarrow> size_for z s = Inr q \<Longrightarrow> q \<le> cap z"
    and cap_pos: "valid z \<Longrightarrow> 0 < cap z"
begin

lemma size_traded:
  assumes "valid z" "size_for z s = Inr q" "q \<noteq> 0"
  shows "1 \<le> q \<and> q \<le> cap z"
  using size_nonneg [OF assms(1,2)] size_le_cap [OF assms(1,2)] assms(3) by simp

end

definition fixed_valid :: "fixed_sizer \<Rightarrow> bool" where
  "fixed_valid z \<longleftrightarrow> FixedSizer (fs_quantity z) = Inr z"

definition linear_valid :: "linear_sizer \<Rightarrow> bool" where
  "linear_valid z \<longleftrightarrow>
     ConfidenceLinearSizer (ls_min_quantity z) (ls_max_quantity z) (ls_min_confidence z) = Inr z"

lemma linear_valid_bounds:
  "linear_valid z \<Longrightarrow> 0 < ls_min_quantity z \<and> ls_min_quantity z \<le> ls_max_quantity z
     \<and> in_range 0 1 (ls_min_confidence z)"
  by (auto simp: linear_valid_def ConfidenceLinearSizer_def in_range_def split: if_splits)

lemma linear_size_cases:
  assumes "linear_valid z" "linear_size_for z s = Inr q"
  shows "q = 0 \<or> ls_min_quantity z \<le> q \<and> q \<le> ls_max_quantity z"
  using assms linear_valid_bounds [OF assms(1)]
  by (auto simp: linear_size_for_def Let_def elim!: bind_result_InrE split: if_splits)

interpretation fixed: position_sizer fixed_size_for fixed_valid fs_quantity
  by unfold_locales
    (auto simp: fixed_size_for_def fixed_valid_def FixedSizer_def split: if_splits)

interpretation linear: position_sizer linear_size_for linear_valid ls_max_quantity
proof
  fix z s q
  assume z: "linear_valid z"
  from linear_valid_bounds [OF z] show "0 < ls_max_quantity z" by linarith
  assume "linear_size_for z s = Inr q"
  from linear_size_cases [OF z this] linear_valid_bounds [OF z]
  show "0 \<le> q" "q \<le> ls_max_quantity z" by auto
qed

section \<open>Exactness and monotonicity\<close>

lemma fin_bound:
  assumes "0 \<le> x" "x \<le> of_int n" "n \<le> 2 ^ 53"
  shows "fin x = Fin (rnd x)"
proof -
  have "(of_int n :: rat) \<le> of_int (2 ^ 53)" using assms(3) by (simp only: of_int_le_iff)
  with assms show ?thesis by (intro fin_Fin) simp
qed

definition linear_value :: "linear_sizer \<Rightarrow> rat \<Rightarrow> rat" where
  "linear_value z c =
     rnd (of_int (ls_min_quantity z) + rnd (of_int (ls_max_quantity z - ls_min_quantity z) * c))"

lemma linear_size_for_value:
  assumes z: "linear_valid z" and small: "ls_max_quantity z \<le> 2 ^ 53"
    and c: "ts_confidence s = Fin c" "0 \<le> c" "c \<le> 1"
  shows "linear_size_for z s =
     Inr (if flt (Fin c) (ls_min_confidence z) then 0
          else max (ls_min_quantity z) (min (ls_max_quantity z) (round_even (linear_value z c))))"
proof -
  let ?lo = "ls_min_quantity z" and ?hi = "ls_max_quantity z"
  let ?p = "of_int (?hi - ?lo) * c :: rat"
  from linear_valid_bounds [OF z] have b: "0 < ?lo" "?lo \<le> ?hi" by auto
  have p: "0 \<le> ?p" "?p \<le> of_int (?hi - ?lo)"
    using c b by (simp_all add: mult_left_le)
  have rp: "0 \<le> rnd ?p" "rnd ?p \<le> of_int (?hi - ?lo)"
    using p(1) rnd_le_int [OF p(2)] b small by (simp_all add: rnd_nonneg)
  have "fin ?p = Fin (rnd ?p)" using p b small by (intro fin_bound) auto
  moreover have "fin (of_int ?lo + rnd ?p) = Fin (linear_value z c)"
  proof -
    have "of_int ?lo + rnd ?p \<le> of_int ?hi" using rp by simp
    then show ?thesis
      unfolding linear_value_def using rp b small by (intro fin_bound [where n = ?hi]) auto
  qed
  moreover have "fmax (Fin 0) (fmin (Fin 1) (ts_confidence s)) = Fin c"
    using c by (auto simp: fmax_def fmin_def)
  ultimately show ?thesis
    using b small by (simp add: linear_size_for_def float_of_int_exact)
qed

lemma linear_value_mono:
  assumes "linear_valid z" "c \<le> d"
  shows "linear_value z c \<le> linear_value z d"
  using assms linear_valid_bounds [OF assms(1)]
  by (auto simp: linear_value_def intro!: rnd_mono add_left_mono mult_left_mono)

section \<open>Properties\<close>

text \<open>
  More confidence never buys fewer shares: for two signals with confidences
  \<open>c \<le> d\<close> in \<open>[0, 1]\<close> the linear sizer's answers are ordered the same way, despite
  the two roundings to binary64 and the rounding to an integer; and every answer is 0 or
  between the configured minimum and maximum.
\<close>

lemma linear_sizer_monotone:
  assumes "linear_valid z" "ls_max_quantity z \<le> 2 ^ 53"
    and "ts_confidence s = Fin c" "ts_confidence s' = Fin d" "0 \<le> c" "c \<le> d" "d \<le> 1"
  shows "\<exists>q q'. linear_size_for z s = Inr q \<and> linear_size_for z s' = Inr q' \<and> q \<le> q' \<and>
     (q = 0 \<or> ls_min_quantity z \<le> q \<and> q \<le> ls_max_quantity z)"
proof -
  note eq = linear_size_for_value [OF assms(1,2)]
  from linear_valid_bounds [OF assms(1)] have b: "0 < ls_min_quantity z" "ls_min_quantity z \<le> ls_max_quantity z"
    "in_range 0 1 (ls_min_confidence z)" by auto
  then obtain m where m: "ls_min_confidence z = Fin m" by (auto elim: in_rangeE)
  have "round_even (linear_value z c) \<le> round_even (linear_value z d)"
    by (rule round_even_mono [OF linear_value_mono [OF assms(1,6)]])
  then show ?thesis
    using assms b(1,2) by (auto simp: eq m max_def min_def)
qed

lemma linear_sizer_monotone_example:
  "let sig = \<lambda>c. \<lparr>ts_symbol = ''A'', ts_action = BUY, ts_confidence = Fin c, ts_score = Fin c,
         ts_contributors = [], ts_ts = 0\<rparr>;
       z = \<lparr>ls_min_quantity = 1, ls_max_quantity = 100, ls_min_confidence = Fin (1 / 10)\<rparr>
   in \<exists>q q'. linear_size_for z (sig (1 / 2)) = Inr q \<and> linear_size_for z (sig 1) = Inr q' \<and> q \<le> q'"
proof -
  let ?sig = "\<lambda>c. \<lparr>ts_symbol = ''A'', ts_action = BUY, ts_confidence = Fin c, ts_score = Fin c,
         ts_contributors = [], ts_ts = 0\<rparr>"
  let ?z = "\<lparr>ls_min_quantity = 1, ls_max_quantity = 100, ls_min_confidence = Fin (1 / 10)\<rparr>"
  have "\<exists>q q'. linear_size_for ?z (?sig (1 / 2)) = Inr q \<and> linear_size_for ?z (?sig 1) = Inr q' \<and> q \<le> q' \<and>
     (q = 0 \<or> ls_min_quantity ?z \<le> q \<and> q \<le> ls_max_quantity ?z)"
    by (rule linear_sizer_monotone [where c = "1 / 2" and d = 1])
      (simp_all add: linear_valid_def ConfidenceLinearSizer_def)
  then show ?thesis by (auto simp: Let_def)
qed

end
