(* ===== verification/Quant_Agent.thy ===== *)
theory Quant_Agent
  imports Tick_Context
begin

text \<open>
  \<open>src/src/domain/trading/quant_agent.py\<close>: Wilder's RSI over the last \<open>period + 1\<close>
  prices of a symbol's window, in binary64, and the signal derived from it. The lemmas show
  that every intermediate float is non-negative or NaN, so that the RSI is in
  \<open>[0, 100]\<close> or NaN, and that \<open>evaluate\<close> returns a well-formed signal for every history.
\<close>

section \<open>The agent\<close>

record quant_agent =
  qa_agent_id :: string
  qa_period :: nat
  qa_oversold :: float64
  qa_overbought :: float64

definition QuantAgent :: "int \<Rightarrow> float64 \<Rightarrow> float64 \<Rightarrow> string \<Rightarrow> quant_agent result" where
  "QuantAgent period oversold overbought agent =
     (if period < 2 then Inl ValueError
      else if \<not> (flt (Fin 0) oversold \<and> flt oversold overbought \<and> flt overbought (Fin 100))
      then Inl ValueError
      else Inr \<lparr>qa_agent_id = agent, qa_period = nat period,
                qa_oversold = oversold, qa_overbought = overbought\<rparr>)"

definition clip :: "float64 \<Rightarrow> float64" where
  "clip x = fmax (Fin 0) (fmin (Fin 1) x)"

text \<open>The loop over the consecutive pairs: the accumulated gains and losses.\<close>

fun rsi_moves :: "float64 list \<Rightarrow> float64 \<Rightarrow> float64 \<Rightarrow> float64 \<times> float64" where
  "rsi_moves (prev # cur # ps) gains losses =
     (let change = fsub cur prev in
      if flt (Fin 0) change
      then rsi_moves (cur # ps) (fadd gains change) losses
      else rsi_moves (cur # ps) gains (fadd losses (fneg change)))"
| "rsi_moves _ gains losses = (gains, losses)"

definition compute_rsi :: "float64 list \<Rightarrow> nat \<Rightarrow> float64 result" where
  "compute_rsi prices period =
     (let window = last_n (period + 1) prices;
          (gains, losses) = rsi_moves window (Fin 0) (Fin 0) in
      bind_result (float_of_int (int period)) (\<lambda>n.
      bind_result (fdiv gains n) (\<lambda>avg_gain.
      bind_result (fdiv losses n) (\<lambda>avg_loss.
      if feq avg_gain (Fin 0) \<and> feq avg_loss (Fin 0) then Inr (Fin 50)
      else if feq avg_loss (Fin 0) then Inr (Fin 100)
      else if feq avg_gain (Fin 0) then Inr (Fin 0)
      else bind_result (fdiv avg_gain avg_loss) (\<lambda>rs.
           bind_result (fdiv (Fin 100) (fadd (Fin 1) rs)) (\<lambda>q.
           Inr (fsub (Fin 100) q)))))))"

definition quant_signal ::
    "quant_agent \<Rightarrow> string \<Rightarrow> action \<Rightarrow> float64 \<Rightarrow> rationale \<Rightarrow> time \<Rightarrow> agent_signal result" where
  "quant_signal a s act conf why now = AgentSignal (qa_agent_id a) s act conf why now"

definition quant_hold :: "quant_agent \<Rightarrow> string \<Rightarrow> rationale \<Rightarrow> time \<Rightarrow> agent_signal result" where
  "quant_hold a s why now = quant_signal a s HOLD (Fin 0) why now"

definition quant_evaluate ::
    "quant_agent \<Rightarrow> tick_context \<Rightarrow> string \<Rightarrow> time \<Rightarrow> agent_signal result" where
  "quant_evaluate a c s now =
     (let prices = recent_prices c s None; n = qa_period a in
      if length prices < n + 1 then quant_hold a s (RsiInsufficient (length prices) (n + 1)) now
      else bind_result (compute_rsi (map float_of_decimal prices) n) (\<lambda>rsi.
        if fle rsi (qa_oversold a) then
          bind_result (fdiv (fsub (qa_oversold a) rsi) (qa_oversold a)) (\<lambda>x.
          quant_signal a s BUY (clip x) (RsiOversold n rsi (qa_oversold a)) now)
        else if fle (qa_overbought a) rsi then
          bind_result (fdiv (fsub rsi (qa_overbought a)) (fsub (Fin 100) (qa_overbought a))) (\<lambda>x.
          quant_signal a s SELL (clip x) (RsiOverbought n rsi (qa_overbought a)) now)
        else quant_hold a s (RsiNeutral n rsi) now))"

section \<open>Ranges\<close>

lemma clip_range: "in_range 0 1 (clip x)"
  using fmax_fmin_range [of 0 1 x] by (auto simp: clip_def)

text \<open>Non-negative or NaN.\<close>

fun nn :: "float64 \<Rightarrow> bool" where
  "nn (Fin x) = (0 \<le> x)"
| "nn PInf = True"
| "nn NInf = False"
| "nn NaN = True"

lemma nn_fin: "0 \<le> x \<Longrightarrow> nn (fin x)"
  using fin_nonneg_cases [of x] by auto

lemma nn_fadd: "nn a \<Longrightarrow> nn b \<Longrightarrow> nn (fadd a b)"
  by (cases a; cases b) (auto simp: nn_fin)

lemma nn_pos: "flt (Fin 0) a \<Longrightarrow> nn a"
  by (cases a) auto

lemma nn_fneg: "\<not> flt (Fin 0) a \<Longrightarrow> nn (fneg a)"
  by (cases a) auto

lemma rsi_moves_nn:
  "nn g \<Longrightarrow> nn l \<Longrightarrow> rsi_moves ps g l = (g', l') \<Longrightarrow> nn g' \<and> nn l'"
proof (induction ps g l arbitrary: g' l' rule: rsi_moves.induct)
  case (1 prev cur ps g l)
  show ?case
  proof (cases "flt (Fin 0) (fsub cur prev)")
    case True
    with "1.prems" show ?thesis
      by (intro "1.IH"(1) [OF refl True]) (simp_all add: nn_fadd nn_pos)
  next
    case False
    with "1.prems" show ?thesis
      by (intro "1.IH"(2) [OF refl False]) (simp_all add: nn_fadd nn_fneg)
  qed
qed auto

lemma fdiv_nn_pos:
  assumes "nn a" "0 < y"
  shows "\<exists>q. fdiv a (Fin y) = Inr q \<and> nn q"
  using assms by (cases a) (auto simp: nn_fin inf_of_sign_def)

lemma fdiv_nn_nonzero:
  assumes "nn a" "nn b" "\<not> feq b (Fin 0)"
  shows "\<exists>q. fdiv a b = Inr q \<and> nn q"
  using assms by (cases b; cases a) (auto simp: nn_fin inf_of_sign_def)

lemma fadd_1_nn:
  assumes "nn a"
  shows "fadd (Fin 1) a = NaN \<or> fadd (Fin 1) a = PInf \<or> (\<exists>y \<ge> 1. fadd (Fin 1) a = Fin y)"
proof (cases a)
  case (Fin x)
  with assms have "1 \<le> rnd (1 + x)" using rnd_ge_int [of 1 "1 + x"] by simp
  with Fin show ?thesis by (auto simp: fin_def Let_def)
qed (use assms in auto)

lemma fdiv_100:
  assumes "1 \<le> y"
  shows "\<exists>q. fdiv (Fin 100) (Fin y) = Inr (Fin q) \<and> 0 \<le> q \<and> q \<le> 100"
proof -
  have r: "0 \<le> 100 / y" "100 / y \<le> 100" using assms by (simp_all add: field_simps)
  then have "fin (100 / y) = Fin (rnd (100 / y))" by (intro fin_Fin) simp
  moreover have "0 \<le> rnd (100 / y)" "rnd (100 / y) \<le> 100"
    using r rnd_le_int [of "100 / y" 100] by (simp_all add: rnd_nonneg)
  ultimately show ?thesis using assms by auto
qed

definition rsi_range :: "float64 \<Rightarrow> bool" where
  "rsi_range r \<longleftrightarrow> r = NaN \<or> in_range 0 100 r"

lemma rsi_formula_range:
  assumes "nn rs"
  shows "\<exists>q r. fdiv (Fin 100) (fadd (Fin 1) rs) = Inr q \<and> r = fsub (Fin 100) q \<and> rsi_range r"
proof -
  have sub: "rsi_range (fsub (Fin 100) (Fin q))" if "0 \<le> q" "q \<le> 100" for q
  proof -
    have "fin (100 - q) = Fin (rnd (100 - q))" using that by (intro fin_Fin) simp
    moreover have "0 \<le> rnd (100 - q)" "rnd (100 - q) \<le> 100"
      using that rnd_le_int [of "100 - q" 100] by (simp_all add: rnd_nonneg)
    ultimately show ?thesis by (simp add: rsi_range_def fsub_def)
  qed
  from fadd_1_nn [OF assms] consider "fadd (Fin 1) rs = NaN" | "fadd (Fin 1) rs = PInf"
    | y where "1 \<le> y" "fadd (Fin 1) rs = Fin y" by blast
  then show ?thesis
  proof cases
    case 1
    then show ?thesis by (simp add: rsi_range_def fsub_def)
  next
    case 2
    with sub [of 0] show ?thesis by simp
  next
    case 3
    with fdiv_100 [of y] sub show ?thesis by fastforce
  qed
qed

lemma float_of_period: "0 < n \<Longrightarrow> n \<le> 2 ^ 53 \<Longrightarrow> float_of_int (int n) = Inr (Fin (of_nat n))"
proof -
  assume n: "0 < n" "n \<le> 2 ^ 53"
  then have "int n \<le> 2 ^ 53" by (metis of_nat_le_iff of_nat_numeral of_nat_power)
  moreover from this have "(of_int (int n) :: rat) \<le> of_int (2 ^ 53)" by (simp only: of_int_le_iff)
  ultimately show ?thesis
    using rnd_of_int [of "int n"] by (simp add: float_of_int_def fin_Fin)
qed

lemma compute_rsi_range:
  assumes "0 < period" "period \<le> 2 ^ 53"
  shows "\<exists>r. compute_rsi prices period = Inr r \<and> rsi_range r"
proof -
  obtain g l where gl: "rsi_moves (last_n (Suc period) prices) (Fin 0) (Fin 0) = (g, l)"
    by (cases "rsi_moves (last_n (Suc period) prices) (Fin 0) (Fin 0)")
  then have nn: "nn g" "nn l" using rsi_moves_nn [OF _ _ gl] by auto
  from assms have n: "float_of_int (int period) = Inr (Fin (of_nat period))" "0 < (of_nat period :: rat)"
    by (simp_all add: float_of_period)
  obtain ag al where ag: "fdiv g (Fin (of_nat period)) = Inr ag" "nn ag"
    and al: "fdiv l (Fin (of_nat period)) = Inr al" "nn al"
    using fdiv_nn_pos [OF nn(1) n(2)] fdiv_nn_pos [OF nn(2) n(2)] by blast
  show ?thesis
  proof (cases "feq al (Fin 0)")
    case True
    then show ?thesis
      by (auto simp: compute_rsi_def gl n(1) ag(1) al(1) rsi_range_def simp del: fdiv.simps)
  next
    case False
    with ag al fdiv_nn_nonzero obtain rs where "fdiv ag al = Inr rs" "nn rs" by blast
    with False rsi_formula_range [of rs] show ?thesis
      by (auto simp: compute_rsi_def gl n(1) ag(1) al(1) rsi_range_def simp del: fdiv.simps)
  qed
qed

definition quant_valid :: "quant_agent \<Rightarrow> bool" where
  "quant_valid a \<longleftrightarrow>
     2 \<le> qa_period a \<and> qa_period a \<le> 2 ^ 53 \<and>
     flt (Fin 0) (qa_oversold a) \<and> flt (qa_oversold a) (qa_overbought a) \<and>
     flt (qa_overbought a) (Fin 100) \<and> is_binary64 (qa_overbought a)"

lemma QuantAgent_valid:
  "QuantAgent period lo hi agent = Inr a \<Longrightarrow> period \<le> 2 ^ 53 \<Longrightarrow> is_binary64 hi \<Longrightarrow> quant_valid a"
  by (auto simp: QuantAgent_def quant_valid_def nat_le_iff le_nat_iff split: if_splits)

lemma quant_signal_clip_ok:
  "\<exists>sig. quant_signal a s act (clip x) why now = Inr sig \<and> as_action sig = act \<and> as_symbol sig = s"
  using clip_range [of x] by (simp add: quant_signal_def AgentSignal_def)

lemma quant_hold_ok:
  "quant_hold a s why now = Inr \<lparr>as_agent_id = qa_agent_id a, as_symbol = s, as_action = HOLD,
     as_confidence = Fin 0, as_rationale = why, as_ts = now\<rparr>"
  by (simp add: quant_hold_def quant_signal_def AgentSignal_def)

lemma quant_valid_thresholds:
  assumes "quant_valid a"
  obtains lo hi where "qa_oversold a = Fin lo" "qa_overbought a = Fin hi"
    "0 < lo" "lo < hi" "hi < 100" "rnd hi = hi"
  using assms by (cases "qa_oversold a"; cases "qa_overbought a") (auto simp: quant_valid_def)

lemma fdiv_nonzero_ok: "y \<noteq> 0 \<Longrightarrow> \<exists>q. fdiv a (Fin y) = Inr q"
  by simp

lemma span_above_nonzero:
  assumes "rnd hi = hi" "0 < hi" "hi < 100"
  shows "\<exists>y. fsub (Fin 100) (Fin hi) = Fin y \<and> y \<noteq> 0"
proof -
  have "rnd 100 = 100" using rnd_of_int [of 100] by simp
  with assms have "0 < rnd (100 - hi)" by (intro rnd_diff_pos)
  moreover have "fin (100 - hi) = Fin (rnd (100 - hi))" using assms by (intro fin_Fin) simp
  ultimately show ?thesis by (simp add: fsub_def)
qed

text \<open>The threshold branches, for any RSI value, never divide by zero.\<close>

lemma quant_decision_ok:
  assumes "quant_valid a"
  shows "\<exists>x y. fdiv (fsub (qa_oversold a) rsi) (qa_oversold a) = Inr x \<and>
     fdiv (fsub rsi (qa_overbought a)) (fsub (Fin 100) (qa_overbought a)) = Inr y"
proof -
  from quant_valid_thresholds [OF assms] obtain lo hi
    where t: "qa_oversold a = Fin lo" "qa_overbought a = Fin hi"
      and b: "0 < lo" "lo < hi" "hi < 100" "rnd hi = hi" by metis
  from b span_above_nonzero [of hi] obtain w where w: "fsub (Fin 100) (Fin hi) = Fin w" "w \<noteq> 0"
    by auto
  from b show ?thesis by (simp add: t w)
qed

lemma quant_evaluate_total:
  assumes "quant_valid a"
  shows "\<exists>sig. quant_evaluate a c s now = Inr sig \<and> as_symbol sig = s"
proof -
  from assms have "0 < qa_period a" "qa_period a \<le> 2 ^ 53" by (simp_all add: quant_valid_def)
  from compute_rsi_range [OF this] obtain rsi
    where rsi: "compute_rsi (map float_of_decimal (recent_prices c s None)) (qa_period a) = Inr rsi"
    by blast
  from quant_decision_ok [OF assms, of rsi] obtain x y
    where xy: "fdiv (fsub (qa_oversold a) rsi) (qa_oversold a) = Inr x"
      "fdiv (fsub rsi (qa_overbought a)) (fsub (Fin 100) (qa_overbought a)) = Inr y" by blast
  show ?thesis
    using quant_signal_clip_ok [of a s BUY x] quant_signal_clip_ok [of a s SELL y]
    by (simp add: quant_evaluate_def Let_def quant_hold_ok rsi xy) blast
qed

section \<open>Properties\<close>

text \<open>
  The RSI is a percentage: for every price list and period it is a number in
  \<open>[0, 100]\<close>, or NaN (when infinities meet), never an error.
\<close>

lemma rsi_is_a_percentage:
  assumes "0 < period" "period \<le> 2 ^ 53"
  shows "\<exists>r. compute_rsi prices period = Inr r \<and> (r = NaN \<or> (\<exists>y. r = Fin y \<and> 0 \<le> y \<and> y \<le> 100))"
  using compute_rsi_range [OF assms, of prices] by (auto simp: rsi_range_def elim!: in_rangeE)

lemma rsi_is_a_percentage_example:
  "\<exists>r. compute_rsi [Fin 1, Fin 2, PInf, Fin 3] 2 = Inr r \<and> (r = NaN \<or> (\<exists>y. r = Fin y \<and> 0 \<le> y \<and> y \<le> 100))"
  by (rule rsi_is_a_percentage) simp_all

text \<open>
  The quantitative agent never fails: built by its constructor, it answers every history of
  every symbol with a signal of its own id for that symbol whose confidence is in \<open>[0, 1]\<close>,
  a HOLD has confidence 0, and with too few prices for the period it holds.
\<close>

lemma quant_agent_total:
  assumes "QuantAgent period lo hi agent = Inr a" "period \<le> 2 ^ 53" "is_binary64 hi"
  shows "\<exists>sig. quant_evaluate a c s now = Inr sig \<and> as_symbol sig = s \<and> as_agent_id sig = agent \<and>
     in_range 0 1 (as_confidence sig) \<and> (as_action sig = HOLD \<longrightarrow> as_confidence sig = Fin 0) \<and>
     (int (length (recent_prices c s None)) \<le> period \<longrightarrow> as_action sig = HOLD)"
proof -
  from QuantAgent_valid [OF assms] have v: "quant_valid a" .
  from quant_evaluate_total [OF v, of c s now] obtain sig where e: "quant_evaluate a c s now = Inr sig" by auto
  from assms(1) have a: "qa_agent_id a = agent" "int (qa_period a) = period"
    by (auto simp: QuantAgent_def split: if_splits)
  from e have "as_symbol sig = s \<and> as_agent_id sig = qa_agent_id a \<and> in_range 0 1 (as_confidence sig) \<and>
     (as_action sig = HOLD \<longrightarrow> as_confidence sig = Fin 0)"
    by (auto simp: quant_evaluate_def quant_hold_def quant_signal_def AgentSignal_def Let_def
        elim!: bind_result_InrE split: if_splits)
  moreover from e a(2) have "int (length (recent_prices c s None)) \<le> period \<longrightarrow> as_action sig = HOLD"
    by (auto simp: quant_evaluate_def Let_def quant_hold_ok)
  ultimately show ?thesis using e a(1) by blast
qed

lemma quant_agent_total_example:
  "\<exists>a sig. QuantAgent 14 (Fin 30) (Fin 70) ''quant'' = Inr a \<and>
     quant_evaluate a \<lparr>tc_max_window = 2, tc_buckets = Map.empty, tc_order = []\<rparr> ''A'' 0 = Inr sig \<and>
     as_action sig = HOLD"
proof -
  obtain a where a: "QuantAgent 14 (Fin 30) (Fin 70) ''quant'' = Inr a" by (simp add: QuantAgent_def)
  have "is_binary64 (Fin 70)" using rnd_of_int [of 70] by simp
  from quant_agent_total [OF a _ this, of "\<lparr>tc_max_window = 2, tc_buckets = Map.empty, tc_order = []\<rparr>" "''A''" 0] a
  show ?thesis by (auto simp: recent_prices_def recent_ticks_def bucket_of_def)
qed

end
