(* ===== verification/Py_Text.thy ===== *)
theory Py_Text
  imports Prelude
begin

text \<open>
  The string operations of Python the code uses. A \<open>str\<close> is a list of characters with
  code points below 256; \<open>py_int\<close> and \<open>py_decimal\<close> are the constructors \<open>int(s)\<close>
  and \<open>Decimal(s)\<close> with their exceptions, the special values of \<open>Decimal\<close> included.
\<close>

section \<open>Characters\<close>

definition code :: "char \<Rightarrow> nat" where
  "code c = of_char c"

definition is_space :: "char \<Rightarrow> bool" where
  "is_space c = (let n = code c in 9 \<le> n \<and> n \<le> 13 \<or> 28 \<le> n \<and> n \<le> 32 \<or> n = 133 \<or> n = 160)"

definition is_digit :: "char \<Rightarrow> bool" where
  "is_digit c = (48 \<le> code c \<and> code c \<le> 57)"

definition digit_val :: "char \<Rightarrow> int" where
  "digit_val c = int (code c) - 48"

definition lower_char :: "char \<Rightarrow> char" where
  "lower_char c =
     (let n = code c in
      if 65 \<le> n \<and> n \<le> 90 \<or> 192 \<le> n \<and> n \<le> 222 \<and> n \<noteq> 215 then char_of (n + 32) else c)"

section \<open>Strings\<close>

definition lower :: "string \<Rightarrow> string" where
  "lower s = map lower_char s"

definition lstrip :: "string \<Rightarrow> string" where
  "lstrip s = dropWhile is_space s"

definition rstrip :: "string \<Rightarrow> string" where
  "rstrip s = rev (dropWhile is_space (rev s))"

definition strip :: "string \<Rightarrow> string" where
  "strip s = rstrip (lstrip s)"

fun starts_with :: "string \<Rightarrow> string \<Rightarrow> bool" where
  "starts_with s [] = True"
| "starts_with [] (p # ps) = False"
| "starts_with (c # s) (p # ps) = (c = p \<and> starts_with s ps)"

definition ends_with :: "string \<Rightarrow> string \<Rightarrow> bool" where
  "ends_with s p = starts_with (rev s) (rev p)"

text \<open>\<open>s.find(c)\<close>: \<open>None\<close> stands for -1.\<close>

fun find_char :: "char \<Rightarrow> string \<Rightarrow> nat option" where
  "find_char c [] = None"
| "find_char c (x # xs) = (if x = c then Some 0 else map_option Suc (find_char c xs))"

text \<open>\<open>s.split(sep)\<close> on one character, and \<open>s.split(sep, n)\<close> with at most \<open>n\<close> cuts.\<close>

fun split_on :: "char \<Rightarrow> string \<Rightarrow> string list" where
  "split_on c [] = [[]]"
| "split_on c (x # xs) =
     (if x = c then [] # split_on c xs
      else case split_on c xs of [] \<Rightarrow> [[x]] | p # ps \<Rightarrow> (x # p) # ps)"

fun split_max :: "char \<Rightarrow> nat \<Rightarrow> string \<Rightarrow> string list" where
  "split_max c 0 s = [s]"
| "split_max c (Suc n) [] = [[]]"
| "split_max c (Suc n) (x # xs) =
     (if x = c then [] # split_max c n xs
      else case split_max c (Suc n) xs of [] \<Rightarrow> [[x]] | p # ps \<Rightarrow> (x # p) # ps)"

fun join_with :: "char \<Rightarrow> string list \<Rightarrow> string" where
  "join_with c [] = []"
| "join_with c [p] = p"
| "join_with c (p # q # ps) = p @ c # join_with c (q # ps)"

subsection \<open>Numbers from text\<close>

text \<open>Digits with single underscores between them, as the literals of Python allow.\<close>

fun digits_acc :: "int \<Rightarrow> string \<Rightarrow> int option" where
  "digits_acc acc [] = Some acc"
| "digits_acc acc (c # cs) =
     (if is_digit c then digits_acc (10 * acc + digit_val c) cs
      else if c = CHR ''_'' then
        (case cs of [] \<Rightarrow> None | d # ds \<Rightarrow> if is_digit d then digits_acc acc cs else None)
      else None)"

definition parse_digits :: "string \<Rightarrow> int option" where
  "parse_digits s = (case s of [] \<Rightarrow> None | c # _ \<Rightarrow> if is_digit c then digits_acc 0 s else None)"

definition py_int :: "string \<Rightarrow> int result" where
  "py_int s =
     (let t = strip s;
          (neg, body) = (case t of
             [] \<Rightarrow> (False, [])
           | c # cs \<Rightarrow> if c = CHR ''-'' then (True, cs) else if c = CHR ''+'' then (False, cs) else (False, t))
      in case parse_digits body of
           None \<Rightarrow> Inl ValueError
         | Some n \<Rightarrow> Inr (if neg then - n else n))"

datatype decimal = DFin rat | DInf bool | DNaN bool

text \<open>The value of a digit string, the empty one included.\<close>

definition all_digits :: "string \<Rightarrow> bool" where
  "all_digits s = list_all is_digit s"

definition digits_value :: "string \<Rightarrow> int" where
  "digits_value s = foldl (\<lambda>acc c. 10 * acc + digit_val c) 0 s"

definition split_sign :: "string \<Rightarrow> bool \<times> string" where
  "split_sign s = (case s of
       [] \<Rightarrow> (False, [])
     | c # cs \<Rightarrow> if c = CHR ''-'' then (True, cs) else if c = CHR ''+'' then (False, cs) else (False, s))"

definition pow10 :: "int \<Rightarrow> rat" where
  "pow10 k = (if 0 \<le> k then 10 ^ nat k else 1 / 10 ^ nat (- k))"

text \<open>The part after the sign: \<open>digits[.digits]\<close> or \<open>.digits\<close>, then \<open>e[sign]digits\<close>.\<close>

definition parse_exponent :: "string option \<Rightarrow> int option" where
  "parse_exponent e = (case e of
       None \<Rightarrow> Some 0
     | Some t \<Rightarrow> (case split_sign t of (neg, ds) \<Rightarrow>
         if ds \<noteq> [] \<and> all_digits ds then Some (if neg then - digits_value ds else digits_value ds)
         else None))"

definition parse_finite :: "string \<Rightarrow> rat option" where
  "parse_finite s =
     (let (mant, ex) = (case split_max (CHR ''e'') 1 s of
             [m, e] \<Rightarrow> (m, Some e) | _ \<Rightarrow> (s, None));
          (whole, frac) = (case split_max (CHR ''.'') 1 mant of
             [w, f] \<Rightarrow> (w, f) | _ \<Rightarrow> (mant, []))
      in if whole @ frac = [] \<or> \<not> all_digits (whole @ frac) then None
         else map_option
           (\<lambda>k. of_int (digits_value (whole @ frac)) * pow10 (k - int (length frac)))
           (parse_exponent ex))"

definition py_decimal :: "string \<Rightarrow> decimal result" where
  "py_decimal s =
     (let (neg, body) = split_sign (lower (filter (\<lambda>c. c \<noteq> CHR ''_'') (strip s)))
      in if body = ''inf'' \<or> body = ''infinity'' then Inr (DInf neg)
         else if starts_with body ''nan'' \<and> all_digits (drop 3 body) then Inr (DNaN False)
         else if starts_with body ''snan'' \<and> all_digits (drop 4 body) then Inr (DNaN True)
         else case parse_finite body of
             None \<Rightarrow> Inl InvalidOperation
           | Some x \<Rightarrow> Inr (DFin (if neg then - x else x)))"

section \<open>Facts\<close>

lemma split_on_nonempty [simp]: "split_on c s \<noteq> []"
  by (induction c s rule: split_on.induct) (auto split: list.splits)

lemma split_max_nonempty [simp]: "split_max c n s \<noteq> []"
  by (induction c n s rule: split_max.induct) (auto split: list.splits)

lemma join_split_on [simp]: "join_with c (split_on c s) = s"
proof (induction c s rule: split_on.induct)
  case (2 c x xs)
  obtain p ps where "split_on c xs = p # ps" by (cases "split_on c xs") auto
  with 2 show ?case by (cases ps) auto
qed simp

lemma split_on_no_sep: "p \<in> set (split_on c s) \<Longrightarrow> c \<notin> set p"
  by (induction c s arbitrary: p rule: split_on.induct) (auto split: if_splits list.splits)

lemma split_on_plain [simp]: "c \<notin> set s \<Longrightarrow> split_on c s = [s]"
  by (induction s) auto

lemma split_on_append:
  "c \<notin> set p \<Longrightarrow> split_on c (p @ c # s) = p # split_on c s"
  by (induction p) auto

lemma split_on_join:
  "ps \<noteq> [] \<Longrightarrow> \<forall>p \<in> set ps. c \<notin> set p \<Longrightarrow> split_on c (join_with c ps) = ps"
  by (induction c ps rule: join_with.induct) (auto simp: split_on_append)

lemma split_max_append:
  "c \<notin> set p \<Longrightarrow> split_max c (Suc n) (p @ c # s) = p # split_max c n s"
  by (induction p) auto

lemma length_split_max: "length (split_max c n s) \<le> Suc n"
  by (induction c n s rule: split_max.induct) (auto split: list.splits)

lemma strip_no_space: "\<forall>c \<in> set s. \<not> is_space c \<Longrightarrow> strip s = s"
proof -
  assume a: "\<forall>c \<in> set s. \<not> is_space c"
  have d: "dropWhile is_space t = t" if "\<forall>c \<in> set t. \<not> is_space c" for t
    using that by (cases t) auto
  from a d [of s] d [of "rev s"] show ?thesis by (simp add: strip_def lstrip_def rstrip_def)
qed

lemma starts_with_iff: "starts_with s p \<longleftrightarrow> take (length p) s = p"
  by (induction s p rule: starts_with.induct) auto

end
