(* ===== verification/Coordinator.thy ===== *)
theory Coordinator
  imports Tick_Context
begin

text \<open>
  \<open>src/src/domain/trading/coordinator.py\<close> and the protocol of \<open>agents.py\<close>. An agent is
  its id and what its \<open>evaluate\<close> answers on the current tick context; agents do not
  interfere, so the concurrent \<open>gather\<close> is the list of their answers in registration order.
  The vote is the code's weighted mean in binary64. The lemmas give the shape of the answer
  on every path: an evaluation never raises, a failing agent only removes its own vote, and
  the emitted score is always a number in \<open>[-1, 1]\<close>.
\<close>

section \<open>The coordinator\<close>

record agent =
  ag_id :: string
  ag_evaluate :: "tick_context \<Rightarrow> string \<Rightarrow> time \<Rightarrow> agent_signal result"

record coordinator =
  co_threshold :: float64
  co_agents :: "(agent \<times> float64) list"

definition TradingCoordinator :: "float64 \<Rightarrow> coordinator result" where
  "TradingCoordinator threshold =
     (if \<not> (fle (Fin 0) threshold \<and> fle threshold (Fin 1)) then Inl ValueError
      else Inr \<lparr>co_threshold = threshold, co_agents = []\<rparr>)"

definition register :: "coordinator \<Rightarrow> agent \<Rightarrow> float64 \<Rightarrow> coordinator result" where
  "register co a weight =
     (if flt weight (Fin 0) then Inl ValueError
      else Inr (co\<lparr>co_agents := co_agents co @ [(a, weight)]\<rparr>))"

definition gather ::
    "coordinator \<Rightarrow> tick_context \<Rightarrow> string \<Rightarrow> time \<Rightarrow> (float64 \<times> agent_signal result) list" where
  "gather co c s now = map (\<lambda>(a, w). (w, ag_evaluate a c s now)) (co_agents co)"

fun survivors :: "string \<Rightarrow> (float64 \<times> agent_signal result) list \<Rightarrow> (agent_signal \<times> float64) list" where
  "survivors s [] = []"
| "survivors s ((w, r) # rs) =
     (case r of
        Inl e \<Rightarrow> survivors s rs
      | Inr sig \<Rightarrow> if as_symbol sig \<noteq> s then survivors s rs else (sig, w) # survivors s rs)"

definition vote :: "agent_signal \<Rightarrow> float64 \<Rightarrow> float64" where
  "vote sig w = fmul (fmul (action_score (as_action sig)) w) (as_confidence sig)"

definition decide :: "float64 \<Rightarrow> float64 \<Rightarrow> action" where
  "decide threshold score =
     (if fle threshold score then BUY else if fle score (fneg threshold) then SELL else HOLD)"

definition aggregate ::
    "coordinator \<Rightarrow> string \<Rightarrow> (agent_signal \<times> float64) list \<Rightarrow> time \<Rightarrow> trade_signal result" where
  "aggregate co s contributors now =
     (let total_weight = fsum (map snd contributors) in
      if fle total_weight (Fin 0) then hold_default s (map fst contributors) now
      else
        let raw = fsum (map (\<lambda>(sig, w). vote sig w) contributors) in
        bind_result (fdiv raw total_weight) (\<lambda>q.
        let score = fmax (Fin (- 1)) (fmin (Fin 1) q) in
        TradeSignal s (decide (co_threshold co) score) (fabs score) score
          (map fst contributors) now))"

definition co_evaluate ::
    "coordinator \<Rightarrow> tick_context \<Rightarrow> string \<Rightarrow> time \<Rightarrow> trade_signal result" where
  "co_evaluate co c s now =
     (if co_agents co = [] then hold_default s [] now
      else aggregate co s (survivors s (gather co c s now)) now)"

section \<open>Shape of the answer\<close>

lemma survivors_iff:
  "(sig, w) \<in> set (survivors s rs) \<longleftrightarrow> (w, Inr sig) \<in> set rs \<and> as_symbol sig = s"
  by (induction s rs rule: survivors.induct) (auto split: sum.splits)

lemma survivors_append: "survivors s (xs @ ys) = survivors s xs @ survivors s ys"
  by (induction s xs rule: survivors.induct) (auto split: sum.splits)

lemma clamp_score:
  obtains y where "fmax (Fin (- 1)) (fmin (Fin 1) q) = Fin y" "- 1 \<le> y" "y \<le> 1"
  using fmax_fmin_range [of "- 1" 1 q] by auto

lemma fdiv_not_le_0: "\<not> fle t (Fin 0) \<Longrightarrow> \<exists>q. fdiv a t = Inr q"
  by (cases t; cases a) auto

lemma aggregate_shape:
  obtains t x where "aggregate co s cs now = Inr t" "ts_symbol t = s" "ts_ts t = now"
    "ts_contributors t = map fst cs" "ts_score t = Fin x" "- 1 \<le> x" "x \<le> 1"
    "ts_confidence t = Fin \<bar>x\<bar>"
    "ts_action t = (if fle (fsum (map snd cs)) (Fin 0) then HOLD
                    else decide (co_threshold co) (Fin x))"
proof (cases "fle (fsum (map snd cs)) (Fin 0)")
  case True
  then show ?thesis
    by (intro that [of "\<lparr>ts_symbol = s, ts_action = HOLD, ts_confidence = Fin 0, ts_score = Fin 0,
        ts_contributors = map fst cs, ts_ts = now\<rparr>" 0]) (simp_all add: aggregate_def hold_default_ok)
next
  case False
  from fdiv_not_le_0 [OF this] obtain q
    where q: "fdiv (fsum (map (\<lambda>(sig, w). vote sig w) cs)) (fsum (map snd cs)) = Inr q" by blast
  obtain x where x: "fmax (Fin (- 1)) (fmin (Fin 1) q) = Fin x" "- 1 \<le> x" "x \<le> 1"
    by (rule clamp_score)
  have "aggregate co s cs now =
      TradeSignal s (decide (co_threshold co) (Fin x)) (Fin \<bar>x\<bar>) (Fin x) (map fst cs) now"
    using False q x by (simp add: aggregate_def Let_def)
  with x False show ?thesis
    by (intro that [of "\<lparr>ts_symbol = s, ts_action = decide (co_threshold co) (Fin x),
        ts_confidence = Fin \<bar>x\<bar>, ts_score = Fin x, ts_contributors = map fst cs, ts_ts = now\<rparr>" x])
      (simp_all add: TradeSignal_def abs_le_iff)
qed

lemma survivors_no_agents: "co_agents co = [] \<Longrightarrow> survivors s (gather co c s now) = []"
  by (simp add: gather_def)

lemma aggregate_empty: "aggregate co s [] now = hold_default s [] now"
  by (simp add: aggregate_def fsum_def)

lemma co_evaluate_aggregate:
  "co_evaluate co c s now = aggregate co s (survivors s (gather co c s now)) now"
  by (simp add: co_evaluate_def survivors_no_agents aggregate_empty)

lemma aggregate_threshold:
  "co_threshold co = co_threshold co' \<Longrightarrow> aggregate co s cs now = aggregate co' s cs now"
proof -
  assume eq: "co_threshold co = co_threshold co'"
  show ?thesis unfolding aggregate_def eq by (rule refl)
qed

section \<open>Votes\<close>

fun opposite :: "action \<Rightarrow> action" where
  "opposite BUY = SELL"
| "opposite HOLD = HOLD"
| "opposite SELL = BUY"

definition opposite_signal :: "agent_signal \<Rightarrow> agent_signal" where
  "opposite_signal sig = sig\<lparr>as_action := opposite (as_action sig)\<rparr>"

lemma vote_opposite: "vote (opposite_signal sig) w = fneg (vote sig w)"
  by (cases "as_action sig") (simp_all add: vote_def opposite_signal_def fmul_fneg [symmetric])

lemma decide_fneg:
  assumes "flt (Fin 0) t"
  shows "decide t (fneg x) = opposite (decide t x)"
proof -
  have "fle t (fneg x) \<longleftrightarrow> fle x (fneg t)" using fle_fneg [of "fneg x" t] fle_fneg [of x "fneg t"] by simp
  moreover have "fle (fneg x) (fneg t) \<longleftrightarrow> fle t x" by (rule fle_fneg)
  moreover have "\<not> (fle t x \<and> fle x (fneg t))"
    using assms by (cases t; cases x) (auto simp: fle_def)
  ultimately show ?thesis by (auto simp: decide_def)
qed

lemma clamp_fneg:
  "q \<noteq> NaN \<Longrightarrow> fmax (Fin (- 1)) (fmin (Fin 1) (fneg q)) = fneg (fmax (Fin (- 1)) (fmin (Fin 1) q))"
  by (cases q) (auto simp: fmax_def fmin_def)

lemma votes_of_holds:
  "\<forall>(sig, w) \<in> set cs. as_action sig = HOLD \<and> (\<exists>x. w = Fin x) \<and> (\<exists>c. as_confidence sig = Fin c) \<Longrightarrow>
   fsum (map (\<lambda>(sig, w). vote sig w) cs) = Fin 0"
proof -
  assume a: "\<forall>(sig, w) \<in> set cs. as_action sig = HOLD \<and> (\<exists>x. w = Fin x) \<and> (\<exists>c. as_confidence sig = Fin c)"
  have "map (\<lambda>(sig, w). vote sig w) cs = replicate (length cs) (Fin 0)"
    using a by (intro replicate_eqI) (auto simp: vote_def fin_def)
  moreover have "foldl fadd (Fin 0) (replicate n (Fin 0)) = Fin 0" for n
    by (induction n) (simp_all add: fin_def)
  ultimately show ?thesis by (simp add: fsum_def)
qed

section \<open>Concrete inputs\<close>

definition demo_vote :: "action \<Rightarrow> agent_signal" where
  "demo_vote act = \<lparr>as_agent_id = ''a'', as_symbol = ''A'', as_action = act, as_confidence = Fin 1,
     as_rationale = Text [], as_ts = 0\<rparr>"

definition demo_voter :: "action \<Rightarrow> agent" where
  "demo_voter act = \<lparr>ag_id = ''a'', ag_evaluate = \<lambda>c s now. Inr (demo_vote act)\<rparr>"

definition demo_panel :: "float64 \<Rightarrow> coordinator" where
  "demo_panel threshold = \<lparr>co_threshold = threshold, co_agents = []\<rparr>"

definition demo_context :: tick_context where
  "demo_context = \<lparr>tc_max_window = 2, tc_buckets = Map.empty, tc_order = []\<rparr>"

lemma fin_unit_simps [simp]: "fin 0 = Fin 0" "fin 1 = Fin 1" "fin (- 1) = Fin (- 1)"
  by (simp_all add: fin_Fin)

section \<open>Properties\<close>

text \<open>
  C8: Evaluating never raises. Whatever the agents answer, and also with no agent at all, the
  coordinator emits a signal for the symbol asked about, its score is a number in
  \<open>[-1, 1]\<close> and its confidence is the score's absolute value; its contributors are exactly
  the agents that answered for this symbol, in registration order.
\<close>

theorem coordinator_total:
  "\<exists>t x. co_evaluate co c s now = Inr t \<and> ts_symbol t = s \<and> ts_score t = Fin x \<and>
     - 1 \<le> x \<and> x \<le> 1 \<and> ts_confidence t = Fin \<bar>x\<bar> \<and>
     ts_contributors t = map fst (survivors s (gather co c s now))"
  by (metis aggregate_shape co_evaluate_aggregate)

text \<open>
  A failing agent is isolated: an agent that raises, or answers for another symbol,
  changes nothing but its own vote. The decision is the one of the coordinator on which it was
  never registered.
\<close>

lemma coordinator_failure_isolation:
  assumes "case ag_evaluate a c s now of Inl e \<Rightarrow> True | Inr sig \<Rightarrow> as_symbol sig \<noteq> s"
  shows "co_evaluate (co\<lparr>co_agents := before @ (a, w) # after\<rparr>) c s now
       = co_evaluate (co\<lparr>co_agents := before @ after\<rparr>) c s now"
proof -
  let ?X = "co\<lparr>co_agents := before @ (a, w) # after\<rparr>" and ?Y = "co\<lparr>co_agents := before @ after\<rparr>"
  have "survivors s (gather ?X c s now) = survivors s (gather ?Y c s now)"
    using assms by (auto simp: gather_def survivors_append split: sum.splits)
  then have "co_evaluate ?X c s now = aggregate ?X s (survivors s (gather ?Y c s now)) now"
    by (simp only: co_evaluate_aggregate)
  also have "\<dots> = aggregate ?Y s (survivors s (gather ?Y c s now)) now"
    by (rule aggregate_threshold) simp
  finally show ?thesis by (simp only: co_evaluate_aggregate)
qed

lemma coordinator_failure_isolation_example:
  "co_evaluate (demo_panel (Fin 0)\<lparr>co_agents := [(demo_voter BUY, Fin 1), (demo_voter SELL, Fin 2)]\<rparr>)
     demo_context ''B'' 0
   = co_evaluate (demo_panel (Fin 0)\<lparr>co_agents := [(demo_voter SELL, Fin 2)]\<rparr>) demo_context ''B'' 0"
  using coordinator_failure_isolation [where a = "demo_voter BUY" and c = demo_context and s = "''B''"
      and now = 0 and co = "demo_panel (Fin 0)" and before = "[]" and w = "Fin 1"
      and after = "[(demo_voter SELL, Fin 2)]"]
  by (simp add: demo_voter_def demo_vote_def)

text \<open>
  The vote is symmetric: when every agent votes the opposite way, the score changes sign,
  the confidence stays, and BUY and SELL change places. The threshold must be positive (at zero
  BUY is tried first) and the weighted mean must be a number.
\<close>

lemma coordinator_symmetric:
  assumes "flt (Fin 0) (co_threshold co)"
    and "fdiv (fsum (map (\<lambda>(sig, w). vote sig w) cs)) (fsum (map snd cs)) \<noteq> Inr NaN"
    and "aggregate co s cs now = Inr t"
  shows "\<exists>t'. aggregate co s (map (\<lambda>(sig, w). (opposite_signal sig, w)) cs) now = Inr t' \<and>
     ts_score t' = fneg (ts_score t) \<and> ts_confidence t' = ts_confidence t \<and>
     ts_action t' = opposite (ts_action t)"
proof -
  let ?cs' = "map (\<lambda>(sig, w). (opposite_signal sig, w)) cs"
  let ?raw = "fsum (map (\<lambda>(sig, w). vote sig w) cs)" and ?tot = "fsum (map snd cs)"
  have weights: "map snd ?cs' = map snd cs" by (simp add: case_prod_unfold comp_def)
  have "map (\<lambda>(sig, w). vote sig w) ?cs' = map fneg (map (\<lambda>(sig, w). vote sig w) cs)"
    by (simp add: case_prod_unfold comp_def vote_opposite)
  then have raw: "fsum (map (\<lambda>(sig, w). vote sig w) ?cs') = fneg ?raw" by (simp only: fsum_fneg)
  show ?thesis
  proof (cases "fle ?tot (Fin 0)")
    case True
    then have "aggregate co s cs now = hold_default s (map fst cs) now"
      "aggregate co s ?cs' now = hold_default s (map fst ?cs') now"
      by (simp_all only: aggregate_def Let_def weights if_True)
    with assms(3) show ?thesis by (auto simp: hold_default_ok)
  next
    case False
    from fdiv_not_le_0 [OF False] obtain q where q: "fdiv ?raw ?tot = Inr q" by blast
    with assms(2) have "q \<noteq> NaN" by auto
    obtain x where x: "fmax (Fin (- 1)) (fmin (Fin 1) q) = Fin x" "- 1 \<le> x" "x \<le> 1"
      by (rule clamp_score)
    have x': "fmax (Fin (- 1)) (fmin (Fin 1) (fneg q)) = Fin (- x)"
      using clamp_fneg [OF \<open>q \<noteq> NaN\<close>] x(1) by simp
    from assms(3) False q x have t: "t = \<lparr>ts_symbol = s, ts_action = decide (co_threshold co) (Fin x),
        ts_confidence = Fin \<bar>x\<bar>, ts_score = Fin x, ts_contributors = map fst cs, ts_ts = now\<rparr>"
      by (simp add: aggregate_def Let_def TradeSignal_def abs_le_iff)
    have "aggregate co s ?cs' now = TradeSignal s (decide (co_threshold co) (Fin (- x))) (Fin \<bar>x\<bar>)
        (Fin (- x)) (map fst ?cs') now"
      using False q x' by (simp only: aggregate_def Let_def weights raw fdiv_fneg) simp
    with t x decide_fneg [OF assms(1), of "Fin x"] show ?thesis
      by (simp add: TradeSignal_def abs_le_iff)
  qed
qed

lemma coordinator_symmetric_example:
  "\<exists>t t'. aggregate (demo_panel (Fin (1 / 2))) ''A'' [(demo_vote BUY, Fin 1)] 0 = Inr t \<and>
     aggregate (demo_panel (Fin (1 / 2))) ''A'' [(opposite_signal (demo_vote BUY), Fin 1)] 0 = Inr t' \<and>
     ts_action t = BUY \<and> ts_action t' = SELL"
proof -
  obtain t where t: "aggregate (demo_panel (Fin (1 / 2))) ''A'' [(demo_vote BUY, Fin 1)] 0 = Inr t"
    "ts_action t = BUY"
    by (simp add: aggregate_def demo_panel_def fsum_def vote_def demo_vote_def TradeSignal_def
        fmax_def fmin_def decide_def Let_def)
  have "\<exists>t'. aggregate (demo_panel (Fin (1 / 2))) ''A''
        (map (\<lambda>(sig, w). (opposite_signal sig, w)) [(demo_vote BUY, Fin 1)]) 0 = Inr t' \<and>
      ts_score t' = fneg (ts_score t) \<and> ts_confidence t' = ts_confidence t \<and>
      ts_action t' = opposite (ts_action t)"
    by (rule coordinator_symmetric [OF _ _ t(1)])
      (simp_all add: demo_panel_def fsum_def vote_def demo_vote_def)
  with t show ?thesis by auto
qed

text \<open>
  C9: The decision rule: with a positive total weight the action is BUY exactly when the score
  reaches the threshold (at the threshold included), SELL exactly when it does not and reaches
  the negated threshold, HOLD otherwise; with no positive total weight it is HOLD with score 0.
\<close>

theorem coordinator_decision:
  "\<exists>t. co_evaluate co c s now = Inr t \<and>
     (if fle (fsum (map snd (survivors s (gather co c s now)))) (Fin 0)
      then ts_action t = HOLD \<and> ts_score t = Fin 0
      else (ts_action t = BUY \<longleftrightarrow> fle (co_threshold co) (ts_score t)) \<and>
           (ts_action t = SELL \<longleftrightarrow>
              \<not> fle (co_threshold co) (ts_score t) \<and> fle (ts_score t) (fneg (co_threshold co))))"
proof -
  let ?cs = "survivors s (gather co c s now)"
  show ?thesis
  proof (cases "fle (fsum (map snd ?cs)) (Fin 0)")
    case True
    then show ?thesis by (simp add: co_evaluate_aggregate aggregate_def hold_default_ok)
  next
    case False
    obtain t x where "aggregate co s ?cs now = Inr t" "ts_score t = Fin x"
      "ts_action t = decide (co_threshold co) (Fin x)"
      using aggregate_shape [of co s ?cs now] False by metis
    with False show ?thesis by (simp add: co_evaluate_aggregate decide_def)
  qed
qed

text \<open>
  A threshold of 0, which the constructor accepts, turns a unanimous HOLD into a BUY: every
  agent holds, the score is 0, and 0 reaches the threshold.
\<close>

lemma zero_threshold_buys_on_hold:
  assumes "co_threshold co = Fin 0"
    and "\<forall>(sig, w) \<in> set cs. as_action sig = HOLD \<and> (\<exists>x. w = Fin x) \<and> (\<exists>c. as_confidence sig = Fin c)"
    and "\<not> fle (fsum (map snd cs)) (Fin 0)"
  shows "\<exists>t. aggregate co s cs now = Inr t \<and> ts_action t = BUY \<and> ts_score t = Fin 0"
proof -
  have "fsum (map (\<lambda>(sig, w). vote sig w) cs) = Fin 0" by (rule votes_of_holds [OF assms(2)])
  moreover from assms(3) have "fdiv (Fin 0) (fsum (map snd cs)) = Inr (Fin 0)
      \<or> fdiv (Fin 0) (fsum (map snd cs)) = Inr NaN \<and> fsum (map snd cs) = NaN"
    by (cases "fsum (map snd cs)") (auto simp: fin_def)
  moreover have "fsum (map snd cs) \<noteq> NaN" using assms(2) by (intro fsum_not_NaN) auto
  ultimately show ?thesis using assms(1,3)
    by (auto simp: aggregate_def Let_def fmin_def fmax_def decide_def TradeSignal_def)
qed

lemma zero_threshold_buys_on_hold_example:
  "\<exists>t. aggregate (demo_panel (Fin 0)) ''A'' [(demo_vote HOLD, Fin 1)] 0 = Inr t \<and> ts_action t = BUY \<and>
     TradingCoordinator (Fin 0) = Inr (demo_panel (Fin 0))"
  using zero_threshold_buys_on_hold [of "demo_panel (Fin 0)" "[(demo_vote HOLD, Fin 1)]" "''A''" 0]
  by (simp add: demo_panel_def demo_vote_def fsum_def TradingCoordinator_def) blast

text \<open>
  A NaN weight passes the check of \<open>register\<close> (NaN is not below 0), and from then on
  every evaluation in which that agent answers is a BUY with confidence 1, whatever the votes.
\<close>

lemma nan_weight_always_buys:
  assumes "in_range 0 1 (co_threshold co)"
    and "register co a NaN = Inr co'"
    and "ag_evaluate a c s now = Inr sig" "as_symbol sig = s"
  shows "\<exists>t. co_evaluate co' c s now = Inr t \<and> ts_action t = BUY \<and> ts_confidence t = Fin 1"
proof -
  let ?cs = "survivors s (gather co' c s now)"
  from assms(2) have co': "co' = co\<lparr>co_agents := co_agents co @ [(a, NaN)]\<rparr>" by (simp add: register_def)
  with assms(3,4) have "(NaN, Inr sig) \<in> set (gather co' c s now)" by (force simp: gather_def)
  with assms(4) have m: "(sig, NaN) \<in> set ?cs" by (simp add: survivors_iff)
  then have "NaN \<in> snd ` set ?cs" by force
  then have w: "fsum (map snd ?cs) = NaN" by (intro fsum_NaN) simp
  have "vote sig NaN = NaN" by (simp add: vote_def)
  with m have "NaN \<in> (\<lambda>(sig, w). vote sig w) ` set ?cs" by force
  then have v: "fsum (map (\<lambda>(sig, w). vote sig w) ?cs) = NaN" by (intro fsum_NaN) simp
  from assms(1) have "decide (co_threshold co') (Fin 1) = BUY"
    by (auto simp: co' decide_def in_range_def)
  with w v show ?thesis
    by (simp add: co_evaluate_aggregate aggregate_def Let_def fmin_def fmax_def TradeSignal_def)
qed

lemma nan_weight_always_buys_example:
  "\<exists>co' t. register (demo_panel (Fin (1 / 2))) (demo_voter SELL) NaN = Inr co' \<and>
     co_evaluate co' demo_context ''A'' 0 = Inr t \<and> ts_action t = BUY"
proof -
  obtain co' where r: "register (demo_panel (Fin (1 / 2))) (demo_voter SELL) NaN = Inr co'"
    by (simp add: register_def)
  from nan_weight_always_buys [OF _ r, of demo_context "''A''" 0 "demo_vote SELL"] r show ?thesis
    by (auto simp add: demo_voter_def demo_vote_def) (auto simp: demo_panel_def)
qed

end
