(* ===== verification/Py_Statistics.thy ===== *)
theory Py_Statistics
  imports Float64
begin

text \<open>
  The two functions of Python 3.11's \<open>statistics\<close> module the code calls. \<open>fmean\<close> adds
  exactly (\<open>math.fsum\<close>) and rounds once before the division; \<open>pstdev\<close> computes the
  variance as an exact fraction and its square root by the integer algorithm of the module
  (round to odd at 109 bits, then one division), so that a window of equal prices has
  deviation exactly 0.
\<close>

fun isqrt :: "nat \<Rightarrow> nat" where
  "isqrt n = (if n = 0 then 0
              else let r = 2 * isqrt (n div 4) in if (r + 1) * (r + 1) \<le> n then r + 1 else r)"

declare isqrt.simps [simp del]

lemma isqrt_0 [simp]: "isqrt 0 = 0"
  by (simp add: isqrt.simps)

lemma isqrt_spec: "isqrt n * isqrt n \<le> n \<and> n < (isqrt n + 1) * (isqrt n + 1)"
proof (induction n rule: isqrt.induct)
  case (1 n)
  show ?case
  proof (cases "n = 0")
    case False
    define r where "r = isqrt (n div 4)"
    from "1.IH" [OF False] have ih: "r * r \<le> n div 4" "n div 4 < (r + 1) * (r + 1)"
      by (simp_all add: r_def)
    then have "(2 * r) * (2 * r) \<le> n" "n < (2 * r + 2) * (2 * r + 2)" by (simp_all add: algebra_simps)
    with False show ?thesis
      by (simp add: isqrt.simps [of n] Let_def r_def [symmetric])
  qed simp
qed

definition integer_sqrt_of_frac_rto :: "nat \<Rightarrow> nat \<Rightarrow> nat" where
  "integer_sqrt_of_frac_rto n m =
     (let a = isqrt (n div m) in if a * a * m \<noteq> n \<and> even a then a + 1 else a)"

definition float_sqrt_of_frac :: "nat \<Rightarrow> nat \<Rightarrow> float64" where
  "float_sqrt_of_frac n m =
     (let q = (int (nbits n) - int (nbits m) - 109) div 2 in
      if 0 \<le> q
      then fin (of_nat (integer_sqrt_of_frac_rto n (m * 2 ^ nat (2 * q)) * 2 ^ nat q))
      else fin (of_nat (integer_sqrt_of_frac_rto (n * 2 ^ nat (- 2 * q)) m) / 2 ^ nat (- q)))"

text \<open>The exact values of a list of finite floats, \<open>None\<close> if one is not finite.\<close>

fun finite_values :: "float64 list \<Rightarrow> rat list option" where
  "finite_values [] = Some []"
| "finite_values (Fin x # xs) = map_option ((#) x) (finite_values xs)"
| "finite_values (_ # xs) = None"

definition variance :: "rat list \<Rightarrow> rat" where
  "variance xs =
     (let n = of_nat (length xs); mu = sum_list xs / n
      in sum_list (map (\<lambda>x. (x - mu) * (x - mu)) xs) / n)"

text \<open>
  \<open>math.fsum\<close>: exact for finite data, \<open>OverflowError\<close> when the sum is too large; the
  infinities of opposite sign raise, one sign or a NaN is the result.
\<close>

definition math_fsum :: "float64 list \<Rightarrow> float64 result" where
  "math_fsum xs = (case finite_values xs of
       Some vs \<Rightarrow> (case fin (sum_list vs) of Fin y \<Rightarrow> Inr (Fin y) | _ \<Rightarrow> Inl OverflowError)
     | None \<Rightarrow> if PInf \<in> set xs \<and> NInf \<in> set xs then Inl ValueError
               else if NaN \<in> set xs then Inr NaN
               else if PInf \<in> set xs then Inr PInf else Inr NInf)"

definition fmean :: "float64 list \<Rightarrow> float64 result" where
  "fmean xs = bind_result (math_fsum xs) (\<lambda>s. fdiv s (Fin (of_nat (length xs))))"

text \<open>Non-finite data make \<open>pstdev\<close> fail on the missing \<open>numerator\<close> of a float.\<close>

definition pstdev :: "float64 list \<Rightarrow> float64 result" where
  "pstdev xs = (case finite_values xs of
       None \<Rightarrow> Inl AttributeError
     | Some vs \<Rightarrow> (case quotient_of (variance vs) of (n, m) \<Rightarrow> Inr (float_sqrt_of_frac (nat n) (nat m))))"

lemma finite_values_map_Fin [simp]: "finite_values (map Fin vs) = Some vs"
  by (induction vs) auto

lemma finite_values_Some: "finite_values xs = Some vs \<Longrightarrow> xs = map Fin vs"
  by (induction xs arbitrary: vs rule: finite_values.induct) auto

lemma variance_replicate: "0 < n \<Longrightarrow> variance (replicate n x) = 0"
  by (simp add: variance_def Let_def sum_list_replicate)

lemma sqrt_of_zero [simp]: "float_sqrt_of_frac 0 m = Fin 0"
  by (simp add: float_sqrt_of_frac_def integer_sqrt_of_frac_rto_def Let_def fin_def)

lemma pstdev_replicate: "0 < n \<Longrightarrow> pstdev (replicate n (Fin x)) = Inr (Fin 0)"
  using finite_values_map_Fin [of "replicate n x"]
  by (simp add: pstdev_def variance_replicate)

lemma float_sqrt_nonneg: "float_sqrt_of_frac n m = Fin y \<Longrightarrow> 0 \<le> y"
  by (auto simp: float_sqrt_of_frac_def Let_def split: if_splits elim!: fin_nonneg [rotated])

end
