(* ===== verification/Guardrails.thy ===== *)
theory Guardrails
  imports Trading_Models Py_Statistics Tick_Context
begin

text \<open>
  \<open>src/src/domain/trading/guardrails.py\<close>: the three hard-limit guards and the pipeline
  that runs them in registration order, first block wins. A guard is its id and its
  \<open>check\<close>; the concrete guards are the code's classes, each with its constructor. The
  reason of a block keeps the values its message interpolates. The contract of the
  protocol \<open>OrderGuardrail\<close> is the locale \<open>directional_guard\<close>: what a guard must
  allow, and that it only looks at the signal's symbol and action.
\<close>

section \<open>Decisions\<close>

record guard_context =
  gc_positions :: "string \<Rightarrow> int option"
  gc_last_trade_at :: "string \<Rightarrow> time option"
  gc_recent_prices :: "string \<Rightarrow> rat list option"
  gc_now :: time

datatype block_reason =
    AlreadyHolding int string int
  | CoolingDown string float64 float64
  | PriceDropped string float64 float64 float64
  | WindowUnstable string float64 nat
  | OtherReason string

datatype guard_decision = Allow | Block block_reason

text \<open>\<open>GuardDecision.block\<close> refuses an empty reason; the interpolated reasons are never empty.\<close>

definition block_decision :: "block_reason \<Rightarrow> guard_decision result" where
  "block_decision why = (case why of OtherReason [] \<Rightarrow> Inl ValueError | _ \<Rightarrow> Inr (Block why))"

record guard =
  g_id :: string
  g_check :: "trade_signal \<Rightarrow> guard_context \<Rightarrow> guard_decision result"

section \<open>The concrete guards\<close>

definition max_position_check ::
    "int \<Rightarrow> trade_signal \<Rightarrow> guard_context \<Rightarrow> guard_decision result" where
  "max_position_check max_shares sig ctx =
     (if ts_action sig \<noteq> BUY then Inr Allow
      else
        let held = (case gc_positions ctx (ts_symbol sig) of None \<Rightarrow> 0 | Some q \<Rightarrow> q) in
        if max_shares \<le> held then block_decision (AlreadyHolding held (ts_symbol sig) max_shares)
        else Inr Allow)"

definition MaxPositionSizeGuard :: "int \<Rightarrow> guard result" where
  "MaxPositionSizeGuard max_shares =
     (if max_shares < 0 then Inl ValueError
      else Inr \<lparr>g_id = ''max_position_size'', g_check = max_position_check max_shares\<rparr>)"

text \<open>\<open>timedelta.total_seconds\<close>: the microseconds over \<open>10 ** 6\<close>, rounded once.\<close>

definition total_seconds :: "time \<Rightarrow> float64" where
  "total_seconds d = fin (of_int d / of_int second)"

definition cooldown_check ::
    "float64 \<Rightarrow> trade_signal \<Rightarrow> guard_context \<Rightarrow> guard_decision result" where
  "cooldown_check cooldown sig ctx =
     (case gc_last_trade_at ctx (ts_symbol sig) of
        None \<Rightarrow> Inr Allow
      | Some last_ts \<Rightarrow>
          let elapsed = total_seconds (gc_now ctx - last_ts) in
          if flt elapsed cooldown then block_decision (CoolingDown (ts_symbol sig) elapsed cooldown)
          else Inr Allow)"

definition CoolDownGuard :: "float64 \<Rightarrow> guard result" where
  "CoolDownGuard cooldown =
     (if flt cooldown (Fin 0) then Inl ValueError
      else Inr \<lparr>g_id = ''cooldown'', g_check = cooldown_check cooldown\<rparr>)"

definition single_tick_drop :: "float64 \<Rightarrow> float64 \<Rightarrow> float64 result" where
  "single_tick_drop prev now = fdiv (fsub prev now) prev"

definition volatility_check ::
    "float64 \<Rightarrow> float64 \<Rightarrow> nat \<Rightarrow> trade_signal \<Rightarrow> guard_context \<Rightarrow> guard_decision result" where
  "volatility_check max_drop max_cv window_size sig ctx =
     (let prices = (case gc_recent_prices ctx (ts_symbol sig) of None \<Rightarrow> [] | Some ps \<Rightarrow> ps) in
      if length prices < 4 then Inr Allow
      else
        let window = last_n window_size prices;
            floats = map float_of_decimal window;
            prev = floats ! (length window - 2);
            final = floats ! (length window - 1);
            cv_part =
              bind_result (fmean floats) (\<lambda>mean.
              if flt (Fin 0) mean then
                bind_result (pstdev floats) (\<lambda>sigma.
                bind_result (fdiv sigma mean) (\<lambda>cv.
                if flt max_cv cv then block_decision (WindowUnstable (ts_symbol sig) cv (length window))
                else Inr Allow))
              else Inr Allow)
        in if flt (Fin 0) prev then
             bind_result (single_tick_drop prev final) (\<lambda>drop.
             if flt max_drop drop
             then block_decision (PriceDropped (ts_symbol sig) drop prev final)
             else cv_part)
           else cv_part)"

definition VolatilityCircuitBreaker :: "float64 \<Rightarrow> float64 \<Rightarrow> int \<Rightarrow> guard result" where
  "VolatilityCircuitBreaker max_drop max_cv window_size =
     (if fle max_drop (Fin 0) \<or> fle max_cv (Fin 0) then Inl ValueError
      else if window_size < 2 then Inl ValueError
      else Inr \<lparr>g_id = ''volatility_circuit_breaker'',
                g_check = volatility_check max_drop max_cv (nat window_size)\<rparr>)"

section \<open>The pipeline\<close>

record guarded_signal =
  gs_signal :: trade_signal
  gs_allowed :: bool
  gs_blocked_by :: "string option"
  gs_reason :: "block_reason option"

definition effective_signal :: "guarded_signal \<Rightarrow> trade_signal" where
  "effective_signal g = (if gs_allowed g then gs_signal g else (gs_signal g)\<lparr>ts_action := HOLD\<rparr>)"

definition allow_signal :: "trade_signal \<Rightarrow> guarded_signal" where
  "allow_signal sig = \<lparr>gs_signal = sig, gs_allowed = True, gs_blocked_by = None, gs_reason = None\<rparr>"

definition block_signal :: "trade_signal \<Rightarrow> string \<Rightarrow> block_reason \<Rightarrow> guarded_signal" where
  "block_signal sig gid why =
     \<lparr>gs_signal = sig, gs_allowed = False, gs_blocked_by = Some gid, gs_reason = Some why\<rparr>"

fun run_guards :: "guard list \<Rightarrow> trade_signal \<Rightarrow> guard_context \<Rightarrow> guarded_signal result" where
  "run_guards [] sig ctx = Inr (allow_signal sig)"
| "run_guards (g # gs) sig ctx =
     (case g_check g sig ctx of
        Inl e \<Rightarrow> Inl e
      | Inr (Block why) \<Rightarrow> Inr (block_signal sig (g_id g) why)
      | Inr Allow \<Rightarrow> run_guards gs sig ctx)"

definition guard_evaluate ::
    "guard list \<Rightarrow> trade_signal \<Rightarrow> guard_context \<Rightarrow> guarded_signal result" where
  "guard_evaluate guards sig ctx =
     (if ts_action sig = HOLD then Inr (allow_signal sig) else run_guards guards sig ctx)"

definition guard_register :: "guard list \<Rightarrow> guard \<Rightarrow> guard list" where
  "guard_register guards g = guards @ [g]"

definition guard_ids :: "guard list \<Rightarrow> string list" where
  "guard_ids guards = map g_id guards"

section \<open>Facts\<close>

lemma block_decision_simps [simp, guard_simps]:
  "block_decision (AlreadyHolding h s m) = Inr (Block (AlreadyHolding h s m))"
  "block_decision (CoolingDown s e c) = Inr (Block (CoolingDown s e c))"
  "block_decision (PriceDropped s d p l) = Inr (Block (PriceDropped s d p l))"
  "block_decision (WindowUnstable s v n) = Inr (Block (WindowUnstable s v n))"
  by (simp_all add: block_decision_def)

lemma effective_allow [simp]: "effective_signal (allow_signal sig) = sig"
  by (simp add: effective_signal_def allow_signal_def)

lemma allow_signal_simps [simp]:
  "gs_signal (allow_signal sig) = sig" "gs_allowed (allow_signal sig)"
  "gs_blocked_by (allow_signal sig) = None" "gs_reason (allow_signal sig) = None"
  by (simp_all add: allow_signal_def)

lemma effective_block [simp]: "ts_action (effective_signal (block_signal sig gid why)) = HOLD"
  by (simp add: effective_signal_def block_signal_def)

lemma run_guards_signal: "run_guards gs sig ctx = Inr g \<Longrightarrow> gs_signal g = sig"
  by (induction gs) (auto simp: allow_signal_def block_signal_def split: sum.splits guard_decision.splits)

lemma run_guards_cases:
  assumes "run_guards gs sig ctx = Inr g"
  obtains (allowed) "g = allow_signal sig" "\<forall>h \<in> set gs. g_check h sig ctx = Inr Allow"
  | (blocked) before h after why where "g = block_signal sig (g_id h) why"
      "gs = before @ h # after" "\<forall>k \<in> set before. g_check k sig ctx = Inr Allow"
      "g_check h sig ctx = Inr (Block why)"
  using assms
proof (induction gs arbitrary: thesis)
  case Nil
  then show ?case by simp
next
  case (Cons k gs)
  show ?case
  proof (cases "g_check k sig ctx")
    case (Inl e)
    with Cons.prems(3) show ?thesis by simp
  next
    case (Inr d)
    show ?thesis
    proof (cases d)
      case (Block why)
      with Inr Cons.prems(2) [of k why "[]" gs] Cons.prems(3) show ?thesis by simp
    next
      case Allow
      with Inr Cons.prems(3) have r: "run_guards gs sig ctx = Inr g" by simp
      show ?thesis
      proof (rule Cons.IH [OF _ _ r])
        assume "g = allow_signal sig" "\<forall>h \<in> set gs. g_check h sig ctx = Inr Allow"
        with Cons.prems(1) Inr Allow show thesis by simp
      next
        fix before h after why
        assume "g = block_signal sig (g_id h) why" "gs = before @ h # after"
          "\<forall>k \<in> set before. g_check k sig ctx = Inr Allow" "g_check h sig ctx = Inr (Block why)"
        with Cons.prems(2) [of h why "k # before" after] Inr Allow show thesis by simp
      qed
    qed
  qed
qed

lemma run_guards_allowed:
  "run_guards gs sig ctx = Inr g \<Longrightarrow> gs_allowed g \<Longrightarrow> h \<in> set gs \<Longrightarrow> g_check h sig ctx = Inr Allow"
  by (erule run_guards_cases) (auto simp: block_signal_def)

text \<open>What reaches the executor with a BUY or a SELL passed every guard, unchanged.\<close>

lemma guard_evaluate_passed:
  assumes "guard_evaluate gs sig ctx = Inr g" "ts_action (effective_signal g) \<noteq> HOLD"
  shows "g = allow_signal sig \<and> (\<forall>h \<in> set gs. g_check h sig ctx = Inr Allow)"
proof (cases "ts_action sig = HOLD")
  case True
  with assms show ?thesis by (auto simp: guard_evaluate_def)
next
  case False
  with assms have "run_guards gs sig ctx = Inr g" by (simp add: guard_evaluate_def)
  then show ?thesis using assms(2) by (cases rule: run_guards_cases) auto
qed

lemma guard_evaluate_symbol:
  "guard_evaluate gs sig ctx = Inr g \<Longrightarrow> ts_symbol (effective_signal g) = ts_symbol sig"
  using run_guards_signal [of gs sig ctx g]
  by (auto simp: guard_evaluate_def effective_signal_def split: if_splits)

section \<open>The contract of a guard\<close>

locale directional_guard =
  fixes check :: "trade_signal \<Rightarrow> guard_context \<Rightarrow> guard_decision result"
  assumes check_local:
    "ts_symbol sig = ts_symbol sig' \<Longrightarrow> ts_action sig = ts_action sig' \<Longrightarrow>
     check sig ctx = check sig' ctx"
    and check_fresh:
    "gc_positions ctx (ts_symbol sig) = None \<Longrightarrow> gc_last_trade_at ctx (ts_symbol sig) = None \<Longrightarrow>
     gc_recent_prices ctx (ts_symbol sig) = None \<Longrightarrow> check sig ctx \<noteq> Inr Allow \<Longrightarrow>
     ts_action sig = BUY"
begin

lemma confidence_irrelevant:
  "check (sig\<lparr>ts_confidence := c, ts_score := x, ts_contributors := cs\<rparr>) ctx = check sig ctx"
  by (rule check_local) simp_all

lemma fresh_sell_allowed:
  assumes "ts_action sig = SELL" "gc_positions ctx (ts_symbol sig) = None"
    "gc_last_trade_at ctx (ts_symbol sig) = None" "gc_recent_prices ctx (ts_symbol sig) = None"
  shows "check sig ctx = Inr Allow"
  using check_fresh [OF assms(2-4)] assms(1) by auto

end

interpretation max_position: directional_guard "max_position_check n" for n
  by unfold_locales (auto simp: max_position_check_def Let_def split: if_splits)

interpretation cooldown: directional_guard "cooldown_check secs" for secs
proof
  fix sig sig' :: trade_signal and ctx
  assume a: "ts_symbol sig = ts_symbol sig'"
  show "cooldown_check secs sig ctx = cooldown_check secs sig' ctx"
    unfolding cooldown_check_def a ..
qed (simp add: cooldown_check_def)

interpretation breaker: directional_guard "volatility_check d v n" for d v n
proof
  fix sig sig' :: trade_signal and ctx
  assume a: "ts_symbol sig = ts_symbol sig'"
  show "volatility_check d v n sig ctx = volatility_check d v n sig' ctx"
    unfolding volatility_check_def a ..
qed (simp add: volatility_check_def)

section \<open>A flat window\<close>

lemma flat_mean:
  assumes "0 < k" "k \<le> 2 ^ 20" "0 \<le> x" "x \<le> 2 ^ 32"
  shows "\<exists>y. fmean (replicate k (Fin x)) = Inr (Fin y)"
proof -
  have "(of_nat k :: rat) \<le> 2 ^ 20" using assms(2) by (metis of_nat_le_iff of_nat_numeral of_nat_power)
  with assms have "of_nat k * x \<le> 2 ^ 20 * 2 ^ 32" by (intro mult_mono) auto
  then have b: "of_nat k * x \<le> of_int (2 ^ 52)" by simp
  then have s: "fin (of_nat k * x) = Fin (rnd (of_nat k * x))"
    using assms by (intro fin_Fin) simp
  have r: "0 \<le> rnd (of_nat k * x)" "rnd (of_nat k * x) \<le> of_int (2 ^ 52)"
    using assms rnd_le_int [OF b] by (simp_all add: rnd_nonneg)
  then have "rnd (of_nat k * x) / of_nat k \<le> rnd (of_nat k * x)"
    using assms(1) by (simp add: divide_le_eq mult_le_cancel_left1)
  with r assms have "fin (rnd (of_nat k * x) / of_nat k) = Fin (rnd (rnd (of_nat k * x) / of_nat k))"
    by (intro fin_Fin) simp
  with s show ?thesis
    using finite_values_map_Fin [of "replicate k x"] assms(1)
    by (simp add: fmean_def math_fsum_def sum_list_replicate)
qed

lemma last_n_replicate: "last_n n (replicate k x) = replicate (min n k) x"
  by (simp add: last_n_def min_def)

section \<open>Properties\<close>

text \<open>
  First block wins. For a BUY or SELL signal the guard pipeline allows exactly when every
  registered guard allows; otherwise it reports the id and the reason of the first guard, in
  registration order, that blocks, after all the earlier ones allowed. In either case the
  signal handed on differs from the input at most in its action, which is HOLD when blocked.
\<close>

lemma guards_first_block_wins:
  assumes "guard_evaluate gs sig ctx = Inr g" "ts_action sig \<noteq> HOLD"
  shows "(if gs_allowed g
          then (\<forall>h \<in> set gs. g_check h sig ctx = Inr Allow) \<and> effective_signal g = sig
          else (\<exists>before h after why. gs = before @ h # after \<and>
                  (\<forall>k \<in> set before. g_check k sig ctx = Inr Allow) \<and>
                  g_check h sig ctx = Inr (Block why) \<and>
                  gs_blocked_by g = Some (g_id h) \<and> gs_reason g = Some why) \<and>
               effective_signal g = sig\<lparr>ts_action := HOLD\<rparr>)"
proof -
  from assms have "run_guards gs sig ctx = Inr g" by (simp add: guard_evaluate_def)
  then show ?thesis
  proof (cases rule: run_guards_cases)
    case allowed
    then show ?thesis by simp
  next
    case (blocked before h after why)
    then show ?thesis by (auto simp: block_signal_def effective_signal_def)
  qed
qed

definition demo_buy :: trade_signal where
  "demo_buy = \<lparr>ts_symbol = ''A'', ts_action = BUY, ts_confidence = Fin 1, ts_score = Fin 1,
     ts_contributors = [], ts_ts = 0\<rparr>"

definition demo_guard_context :: "rat list \<Rightarrow> guard_context" where
  "demo_guard_context prices =
     \<lparr>gc_positions = [''A'' \<mapsto> 3], gc_last_trade_at = [''A'' \<mapsto> 0],
      gc_recent_prices = [''A'' \<mapsto> prices], gc_now = 0\<rparr>"

lemma guards_first_block_wins_example:
  "\<exists>g. guard_evaluate [\<lparr>g_id = ''m'', g_check = max_position_check 3\<rparr>,
        \<lparr>g_id = ''c'', g_check = cooldown_check (Fin 1)\<rparr>] demo_buy (demo_guard_context []) = Inr g \<and>
     effective_signal g = demo_buy\<lparr>ts_action := HOLD\<rparr> \<and> gs_blocked_by g = Some ''m''"
proof -
  let ?gs = "[\<lparr>g_id = ''m'', g_check = max_position_check 3\<rparr>,
    \<lparr>g_id = ''c'', g_check = cooldown_check (Fin 1)\<rparr>]"
  obtain g where g: "guard_evaluate ?gs demo_buy (demo_guard_context []) = Inr g" "\<not> gs_allowed g"
    "gs_blocked_by g = Some ''m''"
    by (simp add: guard_evaluate_def demo_buy_def demo_guard_context_def max_position_check_def
        Let_def block_signal_def)
  with guards_first_block_wins [OF g(1)] show ?thesis by (auto simp: demo_buy_def)
qed

text \<open>
  The circuit breaker lets a quiet market through: a window of equal prices (up to
  \<open>2 ^ 32\<close>, windows up to \<open>2 ^ 20\<close>) is never blocked and never an error, in spite of all
  the rounding in between.
\<close>

lemma breaker_allows_flat_window:
  assumes "fle (Fin 0) max_drop" "fle (Fin 0) max_cv" "2 \<le> window_size" "window_size \<le> 2 ^ 20"
    and "gc_recent_prices ctx (ts_symbol sig) = Some (replicate k price)"
    and "0 < price" "price \<le> 2 ^ 32"
  shows "volatility_check max_drop max_cv window_size sig ctx = Inr Allow"
proof (cases "k < 4")
  case True
  with assms(5) show ?thesis by (simp add: volatility_check_def)
next
  case False
  define n where "n = min window_size k"
  define x where "x = rnd price"
  from False assms have n: "0 < n" "n - 2 < n" "n - 1 < n" "n \<le> 2 ^ 20" by (auto simp: n_def)
  have "fin price = Fin x" unfolding x_def using assms(6,7) by (intro fin_Fin) simp
  then have dec: "float_of_decimal price = Fin x" by (simp add: float_of_decimal_def)
  have win: "last_n window_size (replicate k price) = replicate n price"
    by (simp add: last_n_replicate n_def)
  have x: "0 \<le> x" "x \<le> 2 ^ 32"
    using assms(6,7) rnd_le_int [of price "2 ^ 32"] by (simp_all add: x_def rnd_nonneg)
  obtain y where mean: "fmean (replicate n (Fin x)) = Inr (Fin y)"
    using flat_mean [OF n(1) n(4) x] by blast
  have pos: "\<not> flt max_drop (Fin 0)" "\<not> flt max_cv (Fin 0)"
    using assms(1,2) by (cases max_drop; cases max_cv; simp)+
  have fin0: "fin 0 = Fin 0" by (simp add: fin_Fin)
  show ?thesis
    using False n pos
    by (cases "0 < x"; cases "0 < y")
      (simp_all add: volatility_check_def assms(5) win dec Let_def single_tick_drop_def fsub_def fin0
        mean pstdev_replicate)
qed

lemma breaker_allows_flat_window_example:
  "volatility_check (Fin (1 / 20)) (Fin (1 / 50)) 10 demo_buy (demo_guard_context (replicate 6 79000)) = Inr Allow"
  by (rule breaker_allows_flat_window [where k = 6 and price = 79000])
    (simp_all add: demo_buy_def demo_guard_context_def)

text \<open>
  The circuit breaker trips on a drop: with at least four prices in the window, when the
  relative fall of the last tick against the one before (as the code computes it) exceeds the
  limit, the decision is a block that names the two prices, whatever the rest of the window.
\<close>

lemma breaker_blocks_drop:
  assumes "gc_recent_prices ctx (ts_symbol sig) = Some (ps @ [a, b])" "2 \<le> length ps"
    and "2 \<le> window_size" "flt (Fin 0) (float_of_decimal a)"
    and "single_tick_drop (float_of_decimal a) (float_of_decimal b) = Inr d" "flt max_drop d"
  shows "volatility_check max_drop max_cv window_size sig ctx
    = Inr (Block (PriceDropped (ts_symbol sig) d (float_of_decimal a) (float_of_decimal b)))"
proof -
  obtain qs where w: "last_n window_size (ps @ [a, b]) = qs @ [a, b]"
  proof
    show "last_n window_size (ps @ [a, b]) = drop (length ps + 2 - window_size) ps @ [a, b]"
      using assms(3) by (simp add: last_n_def)
  qed
  have "map float_of_decimal (qs @ [a, b]) ! (length (qs @ [a, b]) - 2) = float_of_decimal a"
    "map float_of_decimal (qs @ [a, b]) ! (length (qs @ [a, b]) - 1) = float_of_decimal b"
    by (simp_all add: nth_append)
  with assms show ?thesis
    by (simp add: volatility_check_def w Let_def)
qed

lemma breaker_blocks_drop_example:
  "\<exists>why. volatility_check (Fin (1 / 20)) (Fin (1 / 50)) 10 demo_buy
     (demo_guard_context ([100, 100] @ [100, 50])) = Inr (Block why)"
proof -
  have f: "fin 100 = Fin 100" "fin 50 = Fin 50" using rnd_of_int [of 100] rnd_of_int [of 50] by (simp_all add: fin_Fin)
  have "fin (1 / 2) = Fin (1 / 2)" using rnd_pow2 [of "- 1"] by (simp add: fin_Fin pow2_def)
  then have "single_tick_drop (float_of_decimal 100) (float_of_decimal 50) = Inr (Fin (1 / 2))"
    by (simp add: single_tick_drop_def float_of_decimal_def fsub_def f)
  then show ?thesis
    using breaker_blocks_drop [of "demo_guard_context ([100, 100] @ [100, 50])" demo_buy "[100, 100]" 100 50 10
        "Fin (1 / 2)" "Fin (1 / 20)" "Fin (1 / 50)"]
    by (simp add: demo_guard_context_def demo_buy_def float_of_decimal_def f)
qed

end
