(* ===== verification/Executor.thy ===== *)
theory Executor
  imports Guardrails Sizer
begin

text \<open>
  \<open>src/src/domain/trading/executor.py\<close>: from a guarded signal to an order. The order
  client (protocol \<open>OrderClient\<close>) and the sizer (protocol \<open>PositionSizer\<close>) are the
  executor's two collaborators. \<open>execute\<close> returns the broker calls it made beside its
  result, so that what reaches the broker can be stated. \<open>except Exception\<close> does not
  catch a task cancellation, which therefore leaves \<open>execute\<close> after the call was made.
\<close>

section \<open>Data\<close>

record order_result =
  or_success :: bool
  or_order_id :: "string option"
  or_message :: string

datatype exec_mode = Live | Shadow | Noop

datatype exec_reason =
    BlockedBy string
  | SizerZero
  | LiveOrdersDisabled
  | ClientRaised py_error
  | BrokerMessage string

record execution_result =
  ex_mode :: exec_mode
  ex_executed :: bool
  ex_action :: action
  ex_symbol :: string
  ex_quantity :: int
  ex_order_id :: "string option"
  ex_reason :: "exec_reason option"
  ex_ts :: time

type_synonym order_call = "string \<times> action \<times> int"
type_synonym place_order = "string \<Rightarrow> action \<Rightarrow> int \<Rightarrow> order_result result"

record executor =
  xr_place_order :: place_order
  xr_allow_live :: bool
  xr_size_for :: "trade_signal \<Rightarrow> int result"

text \<open>Without a sizer the default quantity becomes a \<open>FixedSizer\<close>.\<close>

definition OrderExecutor ::
    "place_order \<Rightarrow> bool \<Rightarrow> int \<Rightarrow> (trade_signal \<Rightarrow> int result) option \<Rightarrow> executor result" where
  "OrderExecutor client allow_live default_quantity sizer =
     (case sizer of
        Some f \<Rightarrow> Inr \<lparr>xr_place_order = client, xr_allow_live = allow_live, xr_size_for = f\<rparr>
      | None \<Rightarrow>
          if default_quantity \<le> 0 then Inl ValueError
          else bind_result (FixedSizer default_quantity) (\<lambda>z.
            Inr \<lparr>xr_place_order = client, xr_allow_live = allow_live,
                 xr_size_for = fixed_size_for z\<rparr>))"

section \<open>One execution\<close>

definition exec_result ::
    "exec_mode \<Rightarrow> bool \<Rightarrow> trade_signal \<Rightarrow> int \<Rightarrow> string option \<Rightarrow> exec_reason option \<Rightarrow> time
     \<Rightarrow> execution_result" where
  "exec_result mode executed sig quantity order_id why now =
     \<lparr>ex_mode = mode, ex_executed = executed, ex_action = ts_action sig, ex_symbol = ts_symbol sig,
      ex_quantity = quantity, ex_order_id = order_id, ex_reason = why, ex_ts = now\<rparr>"

definition execute ::
    "executor \<Rightarrow> guarded_signal \<Rightarrow> time \<Rightarrow> order_call list \<times> execution_result result" where
  "execute x guarded now =
     (let sig = effective_signal guarded in
      if ts_action sig = HOLD then
        ([], Inr (exec_result Noop False sig 0 None (map_option BlockedBy (gs_blocked_by guarded)) now))
      else case xr_size_for x sig of
        Inl e \<Rightarrow> ([], Inl e)
      | Inr quantity \<Rightarrow>
          if quantity \<le> 0 then ([], Inr (exec_result Noop False sig 0 None (Some SizerZero) now))
          else if \<not> xr_allow_live x then
            ([], Inr (exec_result Shadow False sig quantity None (Some LiveOrdersDisabled) now))
          else
            ([(ts_symbol sig, ts_action sig, quantity)],
             case xr_place_order x (ts_symbol sig) (ts_action sig) quantity of
               Inl e \<Rightarrow> if e = CancelledError then Inl e
                        else Inr (exec_result Live False sig quantity None (Some (ClientRaised e)) now)
             | Inr r \<Rightarrow> Inr (exec_result Live (or_success r) sig quantity (or_order_id r)
                          (if or_success r then None else Some (BrokerMessage (or_message r))) now)))"

section \<open>Facts\<close>

lemma exec_result_simps [simp]:
  "ex_mode (exec_result m b sig q i why now) = m"
  "ex_executed (exec_result m b sig q i why now) = b"
  "ex_action (exec_result m b sig q i why now) = ts_action sig"
  "ex_symbol (exec_result m b sig q i why now) = ts_symbol sig"
  "ex_quantity (exec_result m b sig q i why now) = q"
  "ex_order_id (exec_result m b sig q i why now) = i"
  "ex_reason (exec_result m b sig q i why now) = why"
  "ex_ts (exec_result m b sig q i why now) = now"
  by (simp_all add: exec_result_def)

lemma execute_call:
  assumes "execute x g now = (calls, r)" "call \<in> set calls"
  obtains quantity where "calls = [(ts_symbol (effective_signal g), ts_action (effective_signal g), quantity)]"
    "call = (ts_symbol (effective_signal g), ts_action (effective_signal g), quantity)"
    "xr_allow_live x" "xr_size_for x (effective_signal g) = Inr quantity" "0 < quantity"
    "ts_action (effective_signal g) \<noteq> HOLD"
  using assms by (auto simp: execute_def Let_def split: if_splits sum.splits)

lemma execute_executed:
  assumes "execute x g now = (calls, Inr r)" "ex_executed r"
  obtains br where "ex_mode r = Live" "xr_allow_live x" "0 < ex_quantity r" "ex_action r \<noteq> HOLD"
    "calls = [(ex_symbol r, ex_action r, ex_quantity r)]"
    "xr_size_for x (effective_signal g) = Inr (ex_quantity r)"
    "xr_place_order x (ex_symbol r) (ex_action r) (ex_quantity r) = Inr br" "or_success br"
  using assms by (auto simp: execute_def Let_def split: if_splits sum.splits)

lemma execute_fields:
  assumes "execute x g now = (calls, Inr r)"
  shows "ex_symbol r = ts_symbol (effective_signal g)" "ex_action r = ts_action (effective_signal g)"
    "ex_ts r = now" "ex_executed r \<Longrightarrow> ex_mode r = Live" "0 \<le> ex_quantity r"
  using assms by (auto simp: execute_def Let_def split: if_splits sum.splits)

lemma execute_calls_length: "length (fst (execute x g now)) \<le> 1"
  by (simp add: execute_def Let_def split: sum.splits)

lemma execute_hold: "ts_action (effective_signal g) = HOLD \<Longrightarrow> fst (execute x g now) = []"
  by (simp add: execute_def)

text \<open>With a lawful sizer, every order is between one share and the sizer's cap.\<close>

context position_sizer
begin

lemma executor_quantity_bounds:
  assumes "valid z" "xr_size_for x = size_for z" "execute x g now = (calls, r)"
    "(s, act, q) \<in> set calls"
  shows "1 \<le> q \<and> q \<le> cap z"
proof -
  from assms(3,4) obtain quantity
    where "(s, act, q) = (ts_symbol (effective_signal g), ts_action (effective_signal g), quantity)"
      "xr_size_for x (effective_signal g) = Inr quantity" "0 < quantity"
    by (rule execute_call)
  with assms(2) have "size_for z (effective_signal g) = Inr q" "q \<noteq> 0" by auto
  with assms(1) show ?thesis by (intro size_traded)
qed

end

section \<open>Properties\<close>

text \<open>
  What an execution reports is what happened. At most one broker call is made; a result
  that says \<open>executed\<close> is a live one whose single call, for the symbol, action and quantity
  it reports, was answered with success; a shadow or noop result made no call; and a call is
  only made with live orders enabled, for a BUY or SELL of a positive quantity.
\<close>

lemma executor_reports_truthfully:
  assumes "execute x g now = (calls, Inr r)"
  shows "length calls \<le> 1 \<and>
     (ex_executed r \<longrightarrow> ex_mode r = Live \<and>
        (\<exists>br. xr_place_order x (ex_symbol r) (ex_action r) (ex_quantity r) = Inr br \<and> or_success br)) \<and>
     (if ex_mode r = Live
      then calls = [(ex_symbol r, ex_action r, ex_quantity r)] \<and> xr_allow_live x \<and>
           0 < ex_quantity r \<and> ex_action r \<noteq> HOLD
      else calls = [] \<and> \<not> ex_executed r)"
  using assms by (auto simp: execute_def Let_def split: if_splits sum.splits)

lemma executor_reports_truthfully_example:
  "\<exists>calls r. execute \<lparr>xr_place_order = \<lambda>s act q. Inl TimeoutError, xr_allow_live = True,
       xr_size_for = fixed_size_for \<lparr>fs_quantity = 2\<rparr>\<rparr> (allow_signal demo_buy) 7 = (calls, Inr r) \<and>
     calls = [(''A'', BUY, 2)] \<and> \<not> ex_executed r \<and> ex_mode r = Live"
proof -
  let ?x = "\<lparr>xr_place_order = \<lambda>s act q. Inl TimeoutError, xr_allow_live = True,
       xr_size_for = fixed_size_for \<lparr>fs_quantity = 2\<rparr>\<rparr>"
  obtain calls r where e: "execute ?x (allow_signal demo_buy) 7 = (calls, Inr r)"
    "ex_mode r = Live" "\<not> ex_executed r" "ex_symbol r = ''A''" "ex_action r = BUY" "ex_quantity r = 2"
    by (simp add: execute_def demo_buy_def fixed_size_for_def)
  from executor_reports_truthfully [OF e(1)] e show ?thesis by auto
qed

end
