(* ===== verification/Pipeline.thy ===== *)
theory Pipeline
  imports Coordinator Executor Portfolio
begin

text \<open>
  \<open>src/src/domain/trading/pipeline.py\<close>: one tick through context, coordinator, guards,
  executor, portfolio and audit. \<open>on_tick\<close> runs one tick without interruption: the state
  keeps every mutation made before an exception, and an exception other than a cancellation is
  counted, not raised. The same handler cut at its \<open>await\<close> points is in \<open>Interleaving\<close>.

  The clock readings of a tick (guard snapshot and execution) are arguments. The audit
  publisher is the answer of its call: \<open>None\<close> when the pipeline has none.
\<close>

section \<open>State\<close>

record pipeline =
  pl_context :: tick_context
  pl_coordinator :: coordinator
  pl_guards :: "guard list"
  pl_executor :: executor
  pl_portfolio :: portfolio
  pl_volatility_window :: int
  pl_tick_count :: nat
  pl_executed_count :: nat
  pl_error_count :: nat
  pl_audit_failure_count :: nat

record audit_envelope =
  ae_ts :: time
  ae_symbol :: string
  ae_mode :: exec_mode
  ae_executed :: bool
  ae_action :: action
  ae_quantity :: int
  ae_order_id :: "string option"
  ae_blocked_by :: "string option"
  ae_reason :: "exec_reason option"
  ae_signal_action :: action
  ae_confidence :: float64
  ae_score :: float64
  ae_rationale :: "(string \<times> action \<times> float64) list"

definition build_audit_envelope ::
    "trade_signal \<Rightarrow> guarded_signal \<Rightarrow> execution_result \<Rightarrow> audit_envelope" where
  "build_audit_envelope sig guarded r =
     \<lparr>ae_ts = ex_ts r, ae_symbol = ex_symbol r, ae_mode = ex_mode r, ae_executed = ex_executed r,
      ae_action = ex_action r, ae_quantity = ex_quantity r, ae_order_id = ex_order_id r,
      ae_blocked_by = gs_blocked_by guarded, ae_reason = ex_reason r,
      ae_signal_action = ts_action sig, ae_confidence = ts_confidence sig, ae_score = ts_score sig,
      ae_rationale = map (\<lambda>c. (as_agent_id c, as_action c, as_confidence c)) (ts_contributors sig)\<rparr>"

text \<open>What a tick leaves outside the process: broker calls and published audit envelopes.\<close>

record effects =
  ef_orders :: "order_call list"
  ef_audits :: "audit_envelope list"

definition no_effects :: effects where
  "no_effects = \<lparr>ef_orders = [], ef_audits = []\<rparr>"

section \<open>One tick, uninterrupted\<close>

definition guard_snapshot :: "pipeline \<Rightarrow> string \<Rightarrow> time \<Rightarrow> guard_context" where
  "guard_snapshot p s now =
     \<lparr>gc_positions = pf_positions (pl_portfolio p), gc_last_trade_at = pf_last_trade_at (pl_portfolio p),
      gc_recent_prices = [s \<mapsto> recent_prices (pl_context p) s (Some (pl_volatility_window p))],
      gc_now = now\<rparr>"

definition begin_tick :: "pipeline \<Rightarrow> tick \<Rightarrow> pipeline" where
  "begin_tick p t = p\<lparr>pl_context := record_tick (pl_context p) t\<rparr>"

definition apply_fill :: "pipeline \<Rightarrow> execution_result \<Rightarrow> pipeline result" where
  "apply_fill p r =
     (if ex_executed r \<and> ex_action r \<noteq> HOLD then
        bind_result (record_fill (pl_portfolio p) (ex_symbol r) (ex_action r) (ex_quantity r) (ex_ts r))
          (\<lambda>pf. Inr (p\<lparr>pl_portfolio := pf, pl_executed_count := Suc (pl_executed_count p)\<rparr>))
      else Inr p)"

definition publish_audit ::
    "(audit_envelope \<Rightarrow> unit result) option \<Rightarrow> pipeline \<Rightarrow> audit_envelope
     \<Rightarrow> pipeline \<times> audit_envelope list \<times> unit result" where
  "publish_audit audit p env =
     (case audit of
        None \<Rightarrow> (p, [], Inr ())
      | Some publish \<Rightarrow> (case publish env of
            Inr _ \<Rightarrow> (p, [env], Inr ())
          | Inl e \<Rightarrow> if e = CancelledError then (p, [], Inl e)
                     else (p\<lparr>pl_audit_failure_count := Suc (pl_audit_failure_count p)\<rparr>, [], Inr ())))"

text \<open>Guards, executor, fill and audit for a signal and its snapshot.\<close>

definition settle ::
    "(audit_envelope \<Rightarrow> unit result) option \<Rightarrow> pipeline \<Rightarrow> trade_signal \<Rightarrow> guard_context \<Rightarrow> time
     \<Rightarrow> pipeline \<times> effects \<times> unit result" where
  "settle audit p sig ctx now =
     (case guard_evaluate (pl_guards p) sig ctx of
        Inl e \<Rightarrow> (p, no_effects, Inl e)
      | Inr guarded \<Rightarrow> (case execute (pl_executor p) guarded now of
          (calls, Inl e) \<Rightarrow> (p, \<lparr>ef_orders = calls, ef_audits = []\<rparr>, Inl e)
        | (calls, Inr r) \<Rightarrow> (case apply_fill p r of
            Inl e \<Rightarrow> (p, \<lparr>ef_orders = calls, ef_audits = []\<rparr>, Inl e)
          | Inr p1 \<Rightarrow> (case publish_audit audit p1 (build_audit_envelope sig guarded r) of
              (p2, audits, res) \<Rightarrow> (p2, \<lparr>ef_orders = calls, ef_audits = audits\<rparr>, res)))))"

definition process ::
    "(audit_envelope \<Rightarrow> unit result) option \<Rightarrow> pipeline \<Rightarrow> tick \<Rightarrow> time \<Rightarrow> time
     \<Rightarrow> pipeline \<times> effects \<times> unit result" where
  "process audit p t now1 now2 =
     (let p1 = begin_tick p t; ctx = guard_snapshot p1 (t_symbol t) now1 in
      case co_evaluate (pl_coordinator p1) (pl_context p1) (t_symbol t) now1 of
        Inl e \<Rightarrow> (p1, no_effects, Inl e)
      | Inr sig \<Rightarrow> settle audit p1 sig ctx now2)"

definition on_tick ::
    "(audit_envelope \<Rightarrow> unit result) option \<Rightarrow> pipeline \<Rightarrow> tick \<Rightarrow> time \<Rightarrow> time
     \<Rightarrow> pipeline \<times> effects \<times> unit result" where
  "on_tick audit p t now1 now2 =
     (case process audit (p\<lparr>pl_tick_count := Suc (pl_tick_count p)\<rparr>) t now1 now2 of
        (p', eff, Inr u) \<Rightarrow> (p', eff, Inr u)
      | (p', eff, Inl e) \<Rightarrow>
          if e = CancelledError then (p', eff, Inl e)
          else (p'\<lparr>pl_error_count := Suc (pl_error_count p')\<rparr>, eff, Inr ()))"

text \<open>A run of ticks, each with its two clock readings; the orders of the whole run.\<close>

fun run_ticks ::
    "(audit_envelope \<Rightarrow> unit result) option \<Rightarrow> pipeline \<Rightarrow> (tick \<times> time \<times> time) list
     \<Rightarrow> pipeline \<times> order_call list" where
  "run_ticks audit p [] = (p, [])"
| "run_ticks audit p ((t, n1, n2) # ts) =
     (case on_tick audit p t n1 n2 of (p', eff, _) \<Rightarrow>
        (case run_ticks audit p' ts of (p'', orders) \<Rightarrow> (p'', ef_orders eff @ orders)))"

section \<open>Facts about a settlement\<close>

lemma record_fill_of_executed:
  assumes "ex_executed r" "execute x g now = (calls, Inr r)"
  shows "\<exists>pf'. record_fill pf (ex_symbol r) (ex_action r) (ex_quantity r) (ex_ts r) = Inr pf'"
  using execute_executed [OF assms(2,1)]
    record_fill_ok_iff [of pf "ex_symbol r" "ex_action r" "ex_quantity r" "ex_ts r"]
  by (metis is_ok_simps(2) sumE)

lemma publish_audit_state:
  "publish_audit audit p env = (p', as, res) \<Longrightarrow>
     p' = p \<or> p' = p\<lparr>pl_audit_failure_count := Suc (pl_audit_failure_count p)\<rparr>"
  by (auto simp: publish_audit_def split: option.splits sum.splits if_splits)

text \<open>
  A settlement changes only the portfolio and two counters. The portfolio changes exactly
  when an order was executed, by the fill of that order.
\<close>

lemma settle_cases:
  assumes "settle audit p sig ctx now = (p', eff, res)"
  obtains (quiet) "pl_portfolio p' = pl_portfolio p" "pl_executed_count p' = pl_executed_count p"
  | (fill) q act pf where
      "guard_evaluate (pl_guards p) sig ctx = Inr (allow_signal sig)"
      "\<forall>h \<in> set (pl_guards p). g_check h sig ctx = Inr Allow"
      "ef_orders eff = [(ts_symbol sig, act, q)]" "act = ts_action sig" "act \<noteq> HOLD" "0 < q"
      "xr_allow_live (pl_executor p)" "xr_size_for (pl_executor p) sig = Inr q"
      "record_fill (pl_portfolio p) (ts_symbol sig) act q now = Inr pf"
      "pl_portfolio p' = pf" "pl_executed_count p' = Suc (pl_executed_count p)"
proof (cases "guard_evaluate (pl_guards p) sig ctx")
  case (Inl e)
  with assms that(1) show ?thesis by (auto simp: settle_def)
next
  case (Inr g)
  obtain calls rr where ex: "execute (pl_executor p) g now = (calls, rr)"
    by (cases "execute (pl_executor p) g now")
  show ?thesis
  proof (cases rr)
    case (Inl e)
    with assms Inr ex that(1) show ?thesis by (auto simp: settle_def)
  next
    case r: (Inr r)
    note fields = execute_fields [OF ex [unfolded r]]
    show ?thesis
    proof (cases "ex_executed r \<and> ex_action r \<noteq> HOLD")
      case False
      then have "apply_fill p r = Inr p" by (simp only: apply_fill_def if_False)
      with assms Inr ex r that(1) show ?thesis
        by (auto simp: settle_def split: prod.splits dest!: publish_audit_state)
    next
      case True
      then have exec: "ex_executed r" by simp
      from execute_executed [OF ex [unfolded r] exec]
      have x: "xr_allow_live (pl_executor p)" "0 < ex_quantity r"
        "calls = [(ex_symbol r, ex_action r, ex_quantity r)]"
        "xr_size_for (pl_executor p) (effective_signal g) = Inr (ex_quantity r)" by auto
      from True fields(2) have "ts_action (effective_signal g) \<noteq> HOLD" by simp
      from guard_evaluate_passed [OF Inr this]
      have g: "g = allow_signal sig" "\<forall>h \<in> set (pl_guards p). g_check h sig ctx = Inr Allow" by auto
      from record_fill_of_executed [OF exec ex [unfolded r], of "pl_portfolio p"] obtain pf
        where pf: "record_fill (pl_portfolio p) (ex_symbol r) (ex_action r) (ex_quantity r) (ex_ts r) = Inr pf"
        by blast
      let ?p1 = "p\<lparr>pl_portfolio := pf, pl_executed_count := Suc (pl_executed_count p)\<rparr>"
      from True pf have fill: "apply_fill p r = Inr ?p1" by (simp add: apply_fill_def)
      obtain p2 as2 res2 where a: "publish_audit audit ?p1 (build_audit_envelope sig g r) = (p2, as2, res2)"
        by (cases "publish_audit audit ?p1 (build_audit_envelope sig g r)")
      from assms have e: "p' = p2" "ef_orders eff = calls"
        by (auto simp: settle_def Inr ex r fill a)
      show ?thesis
      proof (rule that(2))
        show "record_fill (pl_portfolio p) (ts_symbol sig) (ts_action sig) (ex_quantity r) now = Inr pf"
          using pf fields g by simp
      qed (use True x g fields e publish_audit_state [OF a] Inr in auto)
    qed
  qed
qed

text \<open>What neither a fill nor the audit touches.\<close>

definition same_setup :: "pipeline \<Rightarrow> pipeline \<Rightarrow> bool" where
  "same_setup p p' \<longleftrightarrow>
     pl_context p' = pl_context p \<and> pl_guards p' = pl_guards p \<and> pl_executor p' = pl_executor p \<and>
     pl_coordinator p' = pl_coordinator p \<and> pl_tick_count p' = pl_tick_count p \<and>
     pl_error_count p' = pl_error_count p \<and> pl_volatility_window p' = pl_volatility_window p"

lemma same_setup_refl [simp]: "same_setup p p"
  by (simp add: same_setup_def)

lemma same_setup_trans: "same_setup p q \<Longrightarrow> same_setup q r \<Longrightarrow> same_setup p r"
  by (simp add: same_setup_def)

lemma apply_fill_setup: "apply_fill p r = Inr p' \<Longrightarrow> same_setup p p'"
  by (auto simp: apply_fill_def same_setup_def split: if_splits elim!: bind_result_InrE)

lemma publish_audit_setup: "publish_audit audit p env = (p', as, res) \<Longrightarrow> same_setup p p'"
  by (auto simp: same_setup_def dest!: publish_audit_state)

lemma settle_setup:
  assumes "settle audit p sig ctx now = (p', eff, res)"
  shows "same_setup p p'"
proof (cases "guard_evaluate (pl_guards p) sig ctx")
  case (Inl e)
  with assms show ?thesis by (simp add: settle_def)
next
  case (Inr g)
  obtain calls rr where ex: "execute (pl_executor p) g now = (calls, rr)"
    by (cases "execute (pl_executor p) g now")
  show ?thesis
  proof (cases rr)
    case (Inl e)
    with assms Inr ex show ?thesis by (simp add: settle_def)
  next
    case r: (Inr r)
    show ?thesis
    proof (cases "apply_fill p r")
      case (Inl e)
      with assms Inr ex r show ?thesis by (simp add: settle_def)
    next
      case fill: (Inr p1)
      obtain p2 as2 res2 where a: "publish_audit audit p1 (build_audit_envelope sig g r) = (p2, as2, res2)"
        by (cases "publish_audit audit p1 (build_audit_envelope sig g r)")
      with assms Inr ex r fill have "p' = p2" by (simp add: settle_def)
      with apply_fill_setup [OF fill] publish_audit_setup [OF a] show ?thesis
        by (blast intro: same_setup_trans)
    qed
  qed
qed

lemma settle_order:
  assumes "settle audit p sig ctx now = (p', eff, res)" "(s, act, q) \<in> set (ef_orders eff)"
  shows "s = ts_symbol sig \<and> act = ts_action sig \<and> act \<noteq> HOLD \<and> 0 < q \<and>
     xr_allow_live (pl_executor p) \<and> ef_orders eff = [(s, act, q)] \<and>
     xr_size_for (pl_executor p) sig = Inr q \<and>
     (\<forall>h \<in> set (pl_guards p). g_check h sig ctx = Inr Allow)"
proof (cases "guard_evaluate (pl_guards p) sig ctx")
  case (Inl e)
  with assms show ?thesis by (auto simp: settle_def no_effects_def)
next
  case (Inr g)
  obtain calls rr where ex: "execute (pl_executor p) g now = (calls, rr)"
    by (cases "execute (pl_executor p) g now")
  from assms(1) Inr ex have eff: "ef_orders eff = calls"
    by (auto simp: settle_def split: sum.splits prod.splits)
  with assms(2) have "(s, act, q) \<in> set calls" by simp
  with ex obtain quantity
    where c: "calls = [(ts_symbol (effective_signal g), ts_action (effective_signal g), quantity)]"
      "(s, act, q) = (ts_symbol (effective_signal g), ts_action (effective_signal g), quantity)"
      "xr_allow_live (pl_executor p)" "xr_size_for (pl_executor p) (effective_signal g) = Inr quantity"
      "0 < quantity" "ts_action (effective_signal g) \<noteq> HOLD"
    by (rule execute_call)
  from guard_evaluate_passed [OF Inr c(6)]
  have "effective_signal g = sig" "\<forall>h \<in> set (pl_guards p). g_check h sig ctx = Inr Allow" by auto
  with c eff show ?thesis by simp
qed

section \<open>Facts about a tick\<close>

lemma begin_tick_simps [simp]:
  "pl_portfolio (begin_tick p t) = pl_portfolio p" "pl_guards (begin_tick p t) = pl_guards p"
  "pl_executor (begin_tick p t) = pl_executor p" "pl_coordinator (begin_tick p t) = pl_coordinator p"
  "pl_context (begin_tick p t) = record_tick (pl_context p) t"
  "pl_tick_count (begin_tick p t) = pl_tick_count p" "pl_error_count (begin_tick p t) = pl_error_count p"
  "pl_executed_count (begin_tick p t) = pl_executed_count p"
  by (simp_all add: begin_tick_def)

lemma co_evaluate_symbol: "\<exists>sig. co_evaluate co c s now = Inr sig \<and> ts_symbol sig = s"
  by (metis aggregate_shape co_evaluate_aggregate)

text \<open>A tick is a settlement of the coordinator's signal on the state after \<open>begin_tick\<close>.\<close>

lemma process_settle:
  obtains sig where "ts_symbol sig = t_symbol t"
    "process audit p t n1 n2 =
       settle audit (begin_tick p t) sig (guard_snapshot (begin_tick p t) (t_symbol t) n1) n2"
proof -
  obtain sig where "co_evaluate (pl_coordinator p) (record_tick (pl_context p) t) (t_symbol t) n1 = Inr sig"
    "ts_symbol sig = t_symbol t"
    using co_evaluate_symbol by blast
  then show ?thesis by (intro that [of sig]) (simp_all add: process_def Let_def)
qed

definition counted :: "pipeline \<Rightarrow> pipeline" where
  "counted p = p\<lparr>pl_tick_count := Suc (pl_tick_count p)\<rparr>"

lemma counted_simps [simp]:
  "pl_portfolio (counted p) = pl_portfolio p" "pl_guards (counted p) = pl_guards p"
  "pl_executor (counted p) = pl_executor p" "pl_context (counted p) = pl_context p"
  "pl_tick_count (counted p) = Suc (pl_tick_count p)" "pl_error_count (counted p) = pl_error_count p"
  "pl_executed_count (counted p) = pl_executed_count p" "pl_coordinator (counted p) = pl_coordinator p"
  by (simp_all add: counted_def)

lemma on_tick_process:
  assumes "on_tick audit p t n1 n2 = (p', eff, res)"
  obtains q r where "process audit (counted p) t n1 n2 = (q, eff, r)"
    "p' = q \<or> p' = q\<lparr>pl_error_count := Suc (pl_error_count q)\<rparr> \<and> \<not> is_ok r"
    "is_ok res \<or> res = Inl CancelledError"
  using assms by (auto simp: on_tick_def counted_def split: prod.splits sum.splits if_splits)

text \<open>What a tick counts: at most one error, or one executed order, never both.\<close>

lemma publish_audit_counts:
  "publish_audit audit p env = (p', as, res) \<Longrightarrow>
     pl_executed_count p' = pl_executed_count p \<and> (is_ok res \<or> res = Inl CancelledError)"
  by (cases res) (auto simp: publish_audit_def split: option.splits sum.splits if_splits)

lemma settle_counts:
  assumes "settle audit p sig ctx now = (p', eff, res)"
  shows "pl_executed_count p' = pl_executed_count p \<or>
     pl_executed_count p' = Suc (pl_executed_count p) \<and> length (ef_orders eff) = 1 \<and>
       (is_ok res \<or> res = Inl CancelledError)"
proof -
  have "pl_executed_count p' = pl_executed_count p \<or> is_ok res \<or> res = Inl CancelledError"
    using assms
    by (auto simp: settle_def split: sum.splits prod.splits dest!: publish_audit_counts)
  moreover from assms have "pl_executed_count p' = pl_executed_count p \<or>
     pl_executed_count p' = Suc (pl_executed_count p) \<and> length (ef_orders eff) = 1"
    by (cases rule: settle_cases) auto
  ultimately show ?thesis by auto
qed

lemma on_tick_counts:
  assumes "on_tick audit p t n1 n2 = (p', eff, res)"
  shows "(pl_error_count p' = pl_error_count p \<and> pl_executed_count p' \<le> Suc (pl_executed_count p)
      \<or> pl_error_count p' = Suc (pl_error_count p) \<and> pl_executed_count p' = pl_executed_count p \<and> is_ok res) \<and>
     pl_executed_count p' \<le> pl_executed_count p + length (ef_orders eff)"
proof -
  obtain p1 r1 where pr: "process audit (counted p) t n1 n2 = (p1, eff, r1)"
    by (cases "process audit (counted p) t n1 n2") (use assms in \<open>auto simp: on_tick_def counted_def split: sum.splits if_splits\<close>)
  obtain sig where sig: "process audit (counted p) t n1 n2 = settle audit (begin_tick (counted p) t) sig
       (guard_snapshot (begin_tick (counted p) t) (t_symbol t) n1) n2"
    by (rule process_settle)
  from settle_counts [OF pr [unfolded sig]] settle_setup [OF pr [unfolded sig]] pr assms
  show ?thesis
    by (auto simp: on_tick_def counted_def same_setup_def split: sum.splits if_splits)
qed

text \<open>The order of a tick, and the guard snapshot it passed.\<close>

lemma on_tick_order:
  assumes "on_tick audit p t n1 n2 = (p', eff, res)" "(s, act, q) \<in> set (ef_orders eff)"
  shows "s = t_symbol t \<and> act \<noteq> HOLD \<and> 0 < q \<and> xr_allow_live (pl_executor p) \<and>
     ef_orders eff = [(s, act, q)] \<and>
     (\<exists>sig. ts_symbol sig = s \<and> ts_action sig = act \<and> xr_size_for (pl_executor p) sig = Inr q \<and>
        (\<forall>h \<in> set (pl_guards p).
           g_check h sig (guard_snapshot (begin_tick (counted p) t) s n1) = Inr Allow))"
proof -
  from assms(1) obtain p1 r1 where pr: "process audit (counted p) t n1 n2 = (p1, eff, r1)"
    by (rule on_tick_process)
  obtain sig where sig: "ts_symbol sig = t_symbol t"
    "process audit (counted p) t n1 n2 = settle audit (begin_tick (counted p) t) sig
       (guard_snapshot (begin_tick (counted p) t) (t_symbol t) n1) n2"
    by (rule process_settle)
  from settle_order [OF pr [unfolded sig(2)] assms(2)] sig(1) show ?thesis by auto
qed

lemma on_tick_portfolio:
  assumes "on_tick audit p t n1 n2 = (p', eff, res)"
  obtains (quiet) "pl_portfolio p' = pl_portfolio p"
  | (fill) act q where "ef_orders eff = [(t_symbol t, act, q)]"
      "record_fill (pl_portfolio p) (t_symbol t) act q n2 = Inr (pl_portfolio p')"
proof -
  from assms obtain p1 r1 where pr: "process audit (counted p) t n1 n2 = (p1, eff, r1)"
    and p': "p' = p1 \<or> p' = p1\<lparr>pl_error_count := Suc (pl_error_count p1)\<rparr> \<and> \<not> is_ok r1"
    by (rule on_tick_process)
  obtain sig where sig: "ts_symbol sig = t_symbol t"
    "process audit (counted p) t n1 n2 = settle audit (begin_tick (counted p) t) sig
       (guard_snapshot (begin_tick (counted p) t) (t_symbol t) n1) n2"
    by (rule process_settle)
  from p' have pf: "pl_portfolio p' = pl_portfolio p1" by auto
  show ?thesis
    using pr [unfolded sig(2)]
  proof (cases rule: settle_cases)
    case quiet
    with pf that(1) show ?thesis by simp
  next
    case (fill q act pfo)
    with pf sig(1) that(2) show ?thesis by simp
  qed
qed

lemma on_tick_setup:
  assumes "on_tick audit p t n1 n2 = (p', eff, res)"
  shows "pl_guards p' = pl_guards p" "pl_executor p' = pl_executor p"
    "pl_coordinator p' = pl_coordinator p" "pl_context p' = record_tick (pl_context p) t"
    "pl_tick_count p' = Suc (pl_tick_count p)"
proof -
  from assms obtain p1 r1 where pr: "process audit (counted p) t n1 n2 = (p1, eff, r1)"
    and p': "p' = p1 \<or> p' = p1\<lparr>pl_error_count := Suc (pl_error_count p1)\<rparr> \<and> \<not> is_ok r1"
    by (rule on_tick_process)
  obtain sig where sig: "process audit (counted p) t n1 n2 = settle audit (begin_tick (counted p) t) sig
       (guard_snapshot (begin_tick (counted p) t) (t_symbol t) n1) n2"
    by (rule process_settle)
  from settle_setup [OF pr [unfolded sig]] p'
  show "pl_guards p' = pl_guards p" "pl_executor p' = pl_executor p"
    "pl_coordinator p' = pl_coordinator p" "pl_context p' = record_tick (pl_context p) t"
    "pl_tick_count p' = Suc (pl_tick_count p)"
    by (auto simp: same_setup_def)
qed

section \<open>Invariants of a run of ticks\<close>

lemma run_ticks_shadow:
  assumes "\<not> xr_allow_live (pl_executor p)" and "run_ticks audit p ts = (p', orders)"
  shows "orders = [] \<and> pl_portfolio p' = pl_portfolio p"
  using assms
proof (induction ts arbitrary: p orders)
  case Nil
  then show ?case by simp
next
  case (Cons x ts)
  obtain t n1 n2 where x: "x = (t, n1, n2)" by (cases x)
  obtain p1 eff res where o: "on_tick audit p t n1 n2 = (p1, eff, res)"
    by (cases "on_tick audit p t n1 n2")
  have none: "ef_orders eff = []"
    using on_tick_order [OF o] Cons.prems(1) by (metis list.set_intros(1) neq_Nil_conv prod_cases3)
  from o have "pl_portfolio p1 = pl_portfolio p" by (cases rule: on_tick_portfolio) (simp_all add: none)
  with Cons.IH [of p1] Cons.prems on_tick_setup(2) [OF o] none show ?case
    by (auto simp: x o split: prod.splits)
qed

text \<open>Induction over a run: what one tick keeps, the run keeps.\<close>

lemma run_ticks_invariant:
  assumes step: "\<And>p t n1 n2 p' eff res. I p \<Longrightarrow> on_tick audit p t n1 n2 = (p', eff, res) \<Longrightarrow> I p'"
    and "I p" "run_ticks audit p ts = (p', orders)"
  shows "I p'"
  using assms(2,3)
proof (induction ts arbitrary: p orders)
  case Nil
  then show ?case by simp
next
  case (Cons x ts)
  obtain t n1 n2 where x: "x = (t, n1, n2)" by (cases x)
  obtain p1 eff res where o: "on_tick audit p t n1 n2 = (p1, eff, res)"
    by (cases "on_tick audit p t n1 n2")
  obtain p2 os where r: "run_ticks audit p1 ts = (p2, os)" by (cases "run_ticks audit p1 ts")
  from Cons.prems(2) x o r have "p2 = p'" by simp
  with Cons.IH [OF step [OF Cons.prems(1) o]] r show ?case by simp
qed

definition long_only_pipeline :: "pipeline \<Rightarrow> bool" where
  "long_only_pipeline p \<longleftrightarrow> long_only (pl_portfolio p)"

lemma on_tick_long_only:
  assumes "long_only_pipeline p" "on_tick audit p t n1 n2 = (p', eff, res)"
  shows "long_only_pipeline p'"
  using assms(2)
proof (cases rule: on_tick_portfolio)
  case quiet
  with assms(1) show ?thesis by (simp add: long_only_pipeline_def)
next
  case (fill act q)
  with assms(1) record_fill_long_only show ?thesis by (auto simp: long_only_pipeline_def)
qed

text \<open>
  With a position guard of \<open>m\<close> shares and orders of at most \<open>k\<close> shares, no position
  exceeds \<open>m + k - 1\<close>: the guard looks at what is held, not at what is about to be bought.
\<close>

definition position_bounded :: "int \<Rightarrow> int \<Rightarrow> pipeline \<Rightarrow> bool" where
  "position_bounded m k p \<longleftrightarrow> 0 \<le> m \<and>
     (\<exists>h \<in> set (pl_guards p). g_check h = max_position_check m) \<and>
     (\<forall>sig q. xr_size_for (pl_executor p) sig = Inr q \<longrightarrow> q \<le> k) \<and>
     (\<forall>s. position_of (pl_portfolio p) s \<le> m + k - 1)"

lemma max_position_allows:
  "max_position_check m sig ctx = Inr Allow \<Longrightarrow> ts_action sig = BUY \<Longrightarrow>
     (case gc_positions ctx (ts_symbol sig) of None \<Rightarrow> 0 | Some q \<Rightarrow> q) < m"
  by (auto simp: max_position_check_def Let_def split: if_splits)

lemma guard_snapshot_simps [simp]:
  "gc_positions (guard_snapshot p s n) = pf_positions (pl_portfolio p)"
  "gc_last_trade_at (guard_snapshot p s n) = pf_last_trade_at (pl_portfolio p)"
  "gc_now (guard_snapshot p s n) = n"
  by (simp_all add: guard_snapshot_def)

lemma on_tick_position_bounded:
  assumes inv: "position_bounded m k p" and o: "on_tick audit p t n1 n2 = (p', eff, res)"
  shows "position_bounded m k p'"
  using o
proof (cases rule: on_tick_portfolio)
  case quiet
  with inv on_tick_setup [OF o] show ?thesis by (simp add: position_bounded_def)
next
  case (fill act q)
  then have "(t_symbol t, act, q) \<in> set (ef_orders eff)" by simp
  from on_tick_order [OF o this] obtain sig
    where sig: "ts_symbol sig = t_symbol t" "ts_action sig = act"
      "xr_size_for (pl_executor p) sig = Inr q" "act \<noteq> HOLD" "0 < q"
      and pass: "\<forall>h \<in> set (pl_guards p).
        g_check h sig (guard_snapshot (begin_tick (counted p) t) (t_symbol t) n1) = Inr Allow" by blast
  from inv obtain h where "h \<in> set (pl_guards p)" "g_check h = max_position_check m"
    by (auto simp: position_bounded_def)
  with pass sig(1,2) have held: "act = BUY \<Longrightarrow> position_of (pl_portfolio p) (t_symbol t) < m"
    by (fastforce dest!: max_position_allows simp: position_of_def)
  from inv sig(3) have "q \<le> k" by (auto simp: position_bounded_def)
  have "position_of (pl_portfolio p') s \<le> m + k - 1" for s
  proof -
    from inv have old: "position_of (pl_portfolio p) s \<le> m + k - 1" "0 \<le> m"
      by (simp_all add: position_bounded_def)
    show ?thesis
    proof (cases "s = t_symbol t")
      case False
      with old show ?thesis by (simp add: record_fill_position [OF fill(2)])
    next
      case True
      with old held \<open>q \<le> k\<close> \<open>0 < q\<close> show ?thesis
        by (cases "act = BUY") (auto simp: record_fill_position [OF fill(2)])
    qed
  qed
  with inv on_tick_setup [OF o] show ?thesis by (simp add: position_bounded_def)
qed

lemma run_ticks_long_only:
  "long_only_pipeline p \<Longrightarrow> run_ticks audit p ts = (p', orders) \<Longrightarrow> long_only_pipeline p'"
  by (rule run_ticks_invariant [where I = long_only_pipeline]) (blast intro: on_tick_long_only)+

lemma run_ticks_position_bounded:
  "position_bounded m k p \<Longrightarrow> run_ticks audit p ts = (p', orders) \<Longrightarrow> position_bounded m k p'"
  by (rule run_ticks_invariant [where I = "position_bounded m k"])
    (blast intro: on_tick_position_bounded)+

end
