(* ===== verification/Interleaving.thy ===== *)
theory Interleaving
  imports Pipeline
begin

text \<open>
  The tick handler of \<open>pipeline.py\<close> cut at its \<open>await\<close> points. Ticks of several
  publishers are sibling tasks of one event loop: \<open>Begin\<close> is the code up to the first
  \<open>await\<close> (count, record, guard snapshot), \<open>Finish\<close> resumes one of the ticks in
  flight with the snapshot it took. A schedule that finishes each tick before the next begins
  is \<open>run_ticks\<close>; the other schedules are the ones the limits of the guards do not survive.
\<close>

record in_flight =
  if_tick :: tick
  if_snapshot :: guard_context

record tick_system =
  sy_pipeline :: pipeline
  sy_in_flight :: "in_flight list"
  sy_orders :: "order_call list"

datatype event = Begin tick time | Finish nat time time

definition finish_tick ::
    "(audit_envelope \<Rightarrow> unit result) option \<Rightarrow> pipeline \<Rightarrow> in_flight \<Rightarrow> time \<Rightarrow> time
     \<Rightarrow> pipeline \<times> effects" where
  "finish_tick audit p f n1 n2 =
     (case (case co_evaluate (pl_coordinator p) (pl_context p) (t_symbol (if_tick f)) n1 of
              Inl e \<Rightarrow> (p, no_effects, Inl e)
            | Inr sig \<Rightarrow> settle audit p sig (if_snapshot f) n2) of
        (p', eff, Inr u) \<Rightarrow> (p', eff)
      | (p', eff, Inl e) \<Rightarrow>
          (if e = CancelledError then p' else p'\<lparr>pl_error_count := Suc (pl_error_count p')\<rparr>, eff))"

fun tick_event ::
    "(audit_envelope \<Rightarrow> unit result) option \<Rightarrow> tick_system \<Rightarrow> event \<Rightarrow> tick_system" where
  "tick_event audit s (Begin t n1) =
     (let p = begin_tick (counted (sy_pipeline s)) t in
      s\<lparr>sy_pipeline := p,
        sy_in_flight := sy_in_flight s @ [\<lparr>if_tick = t, if_snapshot = guard_snapshot p (t_symbol t) n1\<rparr>]\<rparr>)"
| "tick_event audit s (Finish i n1 n2) =
     (if i < length (sy_in_flight s) then
        (case finish_tick audit (sy_pipeline s) (sy_in_flight s ! i) n1 n2 of (p, eff) \<Rightarrow>
           s\<lparr>sy_pipeline := p,
             sy_in_flight := take i (sy_in_flight s) @ drop (Suc i) (sy_in_flight s),
             sy_orders := sy_orders s @ ef_orders eff\<rparr>)
      else s)"

definition run_events ::
    "(audit_envelope \<Rightarrow> unit result) option \<Rightarrow> tick_system \<Rightarrow> event list \<Rightarrow> tick_system" where
  "run_events audit s es = foldl (tick_event audit) s es"

definition idle_system :: "pipeline \<Rightarrow> tick_system" where
  "idle_system p = \<lparr>sy_pipeline = p, sy_in_flight = [], sy_orders = []\<rparr>"

section \<open>Serial schedules\<close>

fun serial :: "(tick \<times> time \<times> time) list \<Rightarrow> event list" where
  "serial [] = []"
| "serial ((t, n1, n2) # ts) = Begin t n1 # Finish 0 n1 n2 # serial ts"

lemma finish_tick_on_tick:
  "on_tick audit p t n1 n2 = (p', eff, res) \<Longrightarrow>
   finish_tick audit (begin_tick (counted p) t)
     \<lparr>if_tick = t, if_snapshot = guard_snapshot (begin_tick (counted p) t) (t_symbol t) n1\<rparr> n1 n2
   = (p', eff)"
  by (auto simp: on_tick_def finish_tick_def process_def Let_def counted_def
      split: prod.splits sum.splits if_splits)

lemma serial_run:
  "run_ticks audit p ts = (p', orders) \<Longrightarrow>
   run_events audit \<lparr>sy_pipeline = p, sy_in_flight = [], sy_orders = os\<rparr> (serial ts)
   = \<lparr>sy_pipeline = p', sy_in_flight = [], sy_orders = os @ orders\<rparr>"
proof (induction ts arbitrary: p os orders)
  case Nil
  then show ?case by (simp add: run_events_def)
next
  case (Cons x ts)
  obtain t n1 n2 where x: "x = (t, n1, n2)" by (cases x)
  obtain p1 eff res where o: "on_tick audit p t n1 n2 = (p1, eff, res)"
    by (cases "on_tick audit p t n1 n2")
  obtain p2 os2 where r: "run_ticks audit p1 ts = (p2, os2)" by (cases "run_ticks audit p1 ts")
  from Cons.prems x o r have e: "p2 = p'" "orders = ef_orders eff @ os2" by auto
  from Cons.IH [OF r [unfolded e(1)], of "os @ ef_orders eff"] e finish_tick_on_tick [OF o] show ?case
    by (simp add: x run_events_def Let_def)
qed

section \<open>A concrete pipeline\<close>

text \<open>One agent that always buys, a one-share position guard and a one-minute cooldown, live.\<close>

definition eager_agent :: agent where
  "eager_agent = \<lparr>ag_id = ''eager'',
     ag_evaluate = (\<lambda>c s now. AgentSignal ''eager'' s BUY (Fin 1) (Text []) now)\<rparr>"

definition always_filled :: place_order where
  "always_filled s act q = Inr \<lparr>or_success = True, or_order_id = Some ''A1'', or_message = ''ok''\<rparr>"

definition demo_guards :: "guard list" where
  "demo_guards =
     [\<lparr>g_id = ''max_position_size'', g_check = max_position_check 1\<rparr>,
      \<lparr>g_id = ''cooldown'', g_check = cooldown_check (Fin 60)\<rparr>]"

definition demo_pipeline :: "bool \<Rightarrow> pipeline" where
  "demo_pipeline allow_live =
     \<lparr>pl_context = \<lparr>tc_max_window = 256, tc_buckets = Map.empty, tc_order = []\<rparr>,
      pl_coordinator = \<lparr>co_threshold = Fin (1 / 2), co_agents = [(eager_agent, Fin 1)]\<rparr>,
      pl_guards = demo_guards,
      pl_executor = \<lparr>xr_place_order = always_filled, xr_allow_live = allow_live,
                     xr_size_for = fixed_size_for \<lparr>fs_quantity = 1\<rparr>\<rparr>,
      pl_portfolio = empty_portfolio, pl_volatility_window = 10,
      pl_tick_count = 0, pl_executed_count = 0, pl_error_count = 0, pl_audit_failure_count = 0\<rparr>"

definition demo_tick :: tick where
  "demo_tick = \<lparr>t_symbol = ''005930'', t_ts = 0, t_price = 79000, t_volume = 10, t_side = SideBuy\<rparr>"

lemma demo_signal:
  "co_evaluate (pl_coordinator (demo_pipeline b)) c s n =
     Inr \<lparr>ts_symbol = s, ts_action = BUY, ts_confidence = Fin 1, ts_score = Fin 1,
          ts_contributors = [\<lparr>as_agent_id = ''eager'', as_symbol = s, as_action = BUY,
             as_confidence = Fin 1, as_rationale = Text [], as_ts = n\<rparr>], ts_ts = n\<rparr>"
  by (simp add: demo_pipeline_def co_evaluate_def gather_def eager_agent_def AgentSignal_def
      aggregate_def fsum_def vote_def Let_def decide_def TradeSignal_def fmax_def fmin_def)

lemmas demo_defs =
  idle_system_def run_events_def counted_def begin_tick_def finish_tick_def guard_snapshot_def
  demo_guards_def settle_def guard_evaluate_def execute_def apply_fill_def publish_audit_def
  max_position_check_def cooldown_check_def total_seconds_def fixed_size_for_def always_filled_def
  record_fill_def position_of_def empty_portfolio_def exec_result_def no_effects_def demo_tick_def

lemma demo_race:
  "sy_orders (run_events None (idle_system (demo_pipeline True))
     [Begin demo_tick 0, Begin demo_tick 0, Finish 0 0 0, Finish 0 0 0])
   = [(''005930'', BUY, 1), (''005930'', BUY, 1)]"
  "position_of (pl_portfolio (sy_pipeline (run_events None (idle_system (demo_pipeline True))
     [Begin demo_tick 0, Begin demo_tick 0, Finish 0 0 0, Finish 0 0 0]))) ''005930'' = 2"
  using demo_signal [of True]
  by (simp_all add: demo_defs demo_pipeline_def Let_def record_tick_def)

lemma demo_serial:
  "length (sy_orders (run_events None (idle_system (demo_pipeline True))
     (serial [(demo_tick, 0, 0), (demo_tick, 0, 0)]))) = 1"
  "position_of (pl_portfolio (sy_pipeline (run_events None (idle_system (demo_pipeline True))
     (serial [(demo_tick, 0, 0), (demo_tick, 0, 0)])))) ''005930'' = 1"
  using demo_signal [of True]
  by (simp_all add: demo_defs demo_pipeline_def Let_def record_tick_def)

end
