(* ===== verification/Json.thy ===== *)
theory Json
  imports Py_Text Float64
begin

text \<open>
  The values \<open>json.loads\<close> returns and what the code does with them: \<open>.get\<close>, \<open>[...]\<close>,
  \<open>isinstance\<close> and truth. The parser itself is the standard library's and is an argument of
  the definitions that call it (type \<open>loads\<close>); a Python \<open>dict\<close> is a list of
  key-value pairs with the first entry of a key the one that counts.
\<close>

datatype json =
    JNull
  | JBool bool
  | JInt int
  | JFloat float64
  | JStr string
  | JList "json list"
  | JObj "(string \<times> json) list"

type_synonym loads = "string \<Rightarrow> json result"

text \<open>The truth value of a Python object.\<close>

fun truthy :: "json \<Rightarrow> bool" where
  "truthy JNull = False"
| "truthy (JBool b) = b"
| "truthy (JInt n) = (n \<noteq> 0)"
| "truthy (JFloat x) = (\<not> feq x (Fin 0))"
| "truthy (JStr s) = (s \<noteq> [])"
| "truthy (JList xs) = (xs \<noteq> [])"
| "truthy (JObj kvs) = (kvs \<noteq> [])"

definition j_or :: "json \<Rightarrow> json \<Rightarrow> json" where
  "j_or a b = (if truthy a then a else b)"

text \<open>\<open>x.get(k)\<close>: only a \<open>dict\<close> has it. \<open>x[k]\<close> with a string key: a missing key is a
  \<open>KeyError\<close>, anything but a \<open>dict\<close> a \<open>TypeError\<close>.\<close>

fun j_get :: "json \<Rightarrow> string \<Rightarrow> json option result" where
  "j_get (JObj kvs) k = Inr (map_of kvs k)"
| "j_get _ k = Inl AttributeError"

fun j_item :: "json \<Rightarrow> string \<Rightarrow> json result" where
  "j_item (JObj kvs) k = (case map_of kvs k of None \<Rightarrow> Inl KeyError | Some v \<Rightarrow> Inr v)"
| "j_item _ k = Inl TypeError"

definition j_get_or :: "json \<Rightarrow> string \<Rightarrow> json \<Rightarrow> json result" where
  "j_get_or x k d = bind_result (j_get x k) (\<lambda>v. Inr (case v of None \<Rightarrow> d | Some y \<Rightarrow> y))"

fun is_obj :: "json \<Rightarrow> bool" where
  "is_obj (JObj _) = True"
| "is_obj _ = False"

text \<open>
  The rest of the standard library the code applies to such values: the parser, \<open>str\<close> of a
  value that is not a string, \<open>datetime.fromisoformat\<close> and \<open>float\<close> of a string.
\<close>

record python =
  py_loads :: loads
  py_str :: "json \<Rightarrow> string"
  py_fromisoformat :: "string \<Rightarrow> time result"
  py_float_str :: "string \<Rightarrow> float64 result"

definition j_str :: "python \<Rightarrow> json \<Rightarrow> string" where
  "j_str py v = (case v of JStr s \<Rightarrow> s | _ \<Rightarrow> py_str py v)"

fun j_int :: "json \<Rightarrow> int result" where
  "j_int (JInt n) = Inr n"
| "j_int (JBool b) = Inr (if b then 1 else 0)"
| "j_int (JFloat x) = int_of_float x"
| "j_int (JStr s) = py_int s"
| "j_int _ = Inl TypeError"

fun j_float :: "python \<Rightarrow> json \<Rightarrow> float64 result" where
  "j_float py (JFloat x) = Inr x"
| "j_float py (JInt n) = float_of_int n"
| "j_float py (JBool b) = Inr (Fin (if b then 1 else 0))"
| "j_float py (JStr s) = py_float_str py s"
| "j_float py _ = Inl TypeError"

text \<open>\<open>x[0]\<close>.\<close>

fun j_first :: "json \<Rightarrow> json result" where
  "j_first (JList xs) = (case xs of [] \<Rightarrow> Inl IndexError | x # _ \<Rightarrow> Inr x)"
| "j_first (JStr s) = (case s of [] \<Rightarrow> Inl IndexError | c # _ \<Rightarrow> Inr (JStr [c]))"
| "j_first (JObj kvs) = Inl KeyError"
| "j_first _ = Inl TypeError"

text \<open>Iterating a value: a list, the characters of a string, the keys of a dictionary.\<close>

fun j_elements :: "json \<Rightarrow> json list result" where
  "j_elements (JList xs) = Inr xs"
| "j_elements (JStr s) = Inr (map (\<lambda>c. JStr [c]) s)"
| "j_elements (JObj kvs) = Inr (map (\<lambda>(k, v). JStr k) kvs)"
| "j_elements _ = Inl TypeError"

text \<open>
  What an HTTP call with \<open>httpx\<close> comes to: its timeout and its other errors, any other
  exception, or a status with the body's JSON (a body that is not JSON is a \<open>ValueError\<close>).
\<close>

datatype http = HttpTimeout | HttpNetworkError | HttpRaises py_error | HttpResponse int "json result"

lemma is_objE: "is_obj x \<Longrightarrow> (\<And>kvs. x = JObj kvs \<Longrightarrow> P) \<Longrightarrow> P"
  by (cases x) simp_all

lemma j_get_ok: "is_obj x \<Longrightarrow> is_ok (j_get x k)"
  by (erule is_objE) simp

lemma j_get_or_obj [simp]:
  "j_get_or (JObj kvs) k d = Inr (case map_of kvs k of None \<Rightarrow> d | Some y \<Rightarrow> y)"
  by (simp add: j_get_or_def)

end
