(* ===== verification/Kis_Wire.thy ===== *)
theory Kis_Wire
  imports Json Trading_Models
begin

text \<open>
  The realtime wire of \<open>src/src/infrastructure/kis_client.py\<close>: the routing of WebSocket
  frames by shape, the control frames (heartbeat, acknowledgement), and the two parsers of
  pipe- and caret-delimited data frames. A clock reading is an argument wherever the code
  calls \<open>datetime.now\<close>. Times are microseconds since the epoch, so a wall clock time in
  Seoul is nine hours ahead of the number.
\<close>

section \<open>Field layout\<close>

definition TR_ID_TICK :: string where "TR_ID_TICK = ''H0STCNT0''"
definition TR_ID_QUOTE :: string where "TR_ID_QUOTE = ''H0STASP0''"

definition record_width :: nat where "record_width = 46"

text \<open>\<open>xs[i]\<close>, which raises outside the list.\<close>

definition field_at :: "string list \<Rightarrow> nat \<Rightarrow> string result" where
  "field_at xs i = (if i < length xs then Inr (xs ! i) else Inl IndexError)"

text \<open>\<open>xs[i].strip() or "0"\<close>.\<close>

definition or_zero :: "string \<Rightarrow> string" where
  "or_zero s = (if strip s = [] then ''0'' else strip s)"

definition int_field :: "string list \<Rightarrow> nat \<Rightarrow> int result" where
  "int_field xs i = bind_result (field_at xs i) (\<lambda>s. py_int (or_zero s))"

section \<open>Wall clock times\<close>

definition hour :: time where "hour = 3600 * second"
definition kst_offset :: time where "kst_offset = 9 * hour"
definition day :: time where "day = 24 * hour"

text \<open>\<open>now_kst.replace(hour=h, minute=m, second=s, microsecond=0)\<close>, back in UTC.\<close>

definition kst_today :: "time \<Rightarrow> int \<Rightarrow> int \<Rightarrow> int \<Rightarrow> time result" where
  "kst_today now h m s =
     (if 0 \<le> h \<and> h < 24 \<and> 0 \<le> m \<and> m < 60 \<and> 0 \<le> s \<and> s < 60
      then Inr ((now + kst_offset) div day * day - kst_offset + (h * 3600 + m * 60 + s) * second)
      else Inl ValueError)"

definition hms_time :: "time \<Rightarrow> string \<Rightarrow> time result" where
  "hms_time now hms =
     bind_result (py_int (take 2 hms)) (\<lambda>h.
     bind_result (py_int (take 2 (drop 2 hms))) (\<lambda>m.
     bind_result (py_int (take 2 (drop 4 hms))) (\<lambda>s.
     kst_today now h m s)))"

section \<open>Execution ticks\<close>

text \<open>
  One record. The first part of the code runs under a handler for \<open>IndexError\<close>,
  \<open>ValueError\<close> and \<open>InvalidOperation\<close>; the comparison of the price with 0 does not, and
  raises for a NaN; nor does the construction of the tick, which refuses an infinite price.
\<close>

definition record_fields ::
    "string list \<Rightarrow> (string \<times> string \<times> decimal \<times> int \<times> string) result" where
  "record_fields r =
     bind_result (field_at r 0) (\<lambda>symb.
     bind_result (field_at r 1) (\<lambda>hms.
     bind_result (bind_result (field_at r 2) (\<lambda>s. py_decimal (or_zero s))) (\<lambda>price.
     bind_result (int_field r 12) (\<lambda>volume.
     bind_result (field_at r 21) (\<lambda>ccld.
     Inr (strip symb, strip hms, price, volume, strip ccld))))))"

fun not_positive :: "decimal \<Rightarrow> bool result" where
  "not_positive (DFin x) = Inr (x \<le> 0)"
| "not_positive (DInf neg) = Inr neg"
| "not_positive (DNaN _) = Inl InvalidOperation"

definition make_tick :: "string \<Rightarrow> time \<Rightarrow> decimal \<Rightarrow> int \<Rightarrow> tick_side \<Rightarrow> tick result" where
  "make_tick symb ts price volume side = (case price of
       DFin x \<Rightarrow> Inr \<lparr>t_symbol = symb, t_ts = ts, t_price = x, t_volume = volume, t_side = side\<rparr>
     | _ \<Rightarrow> Inl ValueError)"

definition record_to_tick :: "time \<Rightarrow> string list \<Rightarrow> tick option result" where
  "record_to_tick now r =
     (case record_fields r of
        Inl e \<Rightarrow> Inr None
      | Inr (symb, hms, price, volume, ccld) \<Rightarrow>
          if symb = [] \<or> length hms \<noteq> 6 then Inr None
          else bind_result (not_positive price) (\<lambda>bad.
            if bad then Inr None
            else case hms_time now hms of
                Inl e \<Rightarrow> Inr None
              | Inr ts \<Rightarrow> bind_result
                  (make_tick symb ts price volume (if ccld = ''5'' then SideSell else SideBuy))
                  (\<lambda>t. Inr (Some t))))"

text \<open>The loop over the records: the first exception ends it.\<close>

fun parse_records :: "time \<Rightarrow> string list list \<Rightarrow> tick list result" where
  "parse_records now [] = Inr []"
| "parse_records now (r # rs) =
     bind_result (record_to_tick now r) (\<lambda>t.
     bind_result (parse_records now rs) (\<lambda>ts.
     Inr (case t of None \<Rightarrow> ts | Some x \<Rightarrow> x # ts)))"

definition chunk :: "string list \<Rightarrow> nat \<Rightarrow> string list" where
  "chunk flds i = take record_width (drop (i * record_width) flds)"

text \<open>\<open>frame.split("|", 3)\<close> unpacked into four names.\<close>

definition frame_parts :: "string \<Rightarrow> (string \<times> string \<times> string) result" where
  "frame_parts frame = (case split_max (CHR ''|'') 3 frame of
       [flag, tr, cnt, payload] \<Rightarrow> Inr (tr, cnt, payload)
     | _ \<Rightarrow> Inl ValueError)"

definition parse_h0stcnt0_frame :: "time \<Rightarrow> string \<Rightarrow> tick list result" where
  "parse_h0stcnt0_frame now frame =
     (case bind_result (frame_parts frame) (\<lambda>(tr, cs, payload).
             bind_result (py_int cs) (\<lambda>cnt. Inr (tr, cnt, payload))) of
        Inl e \<Rightarrow> Inr []
      | Inr (tr, cnt, payload) \<Rightarrow>
          if tr \<noteq> TR_ID_TICK then Inr []
          else
            let flds = split_on (CHR ''^'') payload;
                n = (if int (length flds) < cnt * int record_width
                     then int (length flds div record_width) else cnt)
            in parse_records now (map (chunk flds) [0 ..< nat n]))"

section \<open>Order book snapshots\<close>

definition asp_depth :: nat where "asp_depth = 5"

text \<open>One level: ask price, bid price, ask volume, bid volume, in the order the code reads them.\<close>

definition asp_level :: "string list \<Rightarrow> nat \<Rightarrow> (int \<times> int \<times> int \<times> int) result" where
  "asp_level flds i =
     bind_result (int_field flds (2 + i)) (\<lambda>ap.
     bind_result (int_field flds (7 + i)) (\<lambda>bp.
     bind_result (int_field flds (12 + i)) (\<lambda>av.
     bind_result (int_field flds (17 + i)) (\<lambda>bv.
     Inr (ap, bp, av, bv)))))"

fun asp_levels ::
    "string list \<Rightarrow> nat list \<Rightarrow> quote_level list \<Rightarrow> quote_level list
     \<Rightarrow> (quote_level list \<times> quote_level list) result" where
  "asp_levels flds [] asks bids = Inr (asks, bids)"
| "asp_levels flds (i # is) asks bids =
     bind_result (asp_level flds i) (\<lambda>(ap, bp, av, bv).
     asp_levels flds is
       (if 0 < ap then asks @ [\<lparr>l_price = ap, l_volume = av\<rparr>] else asks)
       (if 0 < bp then bids @ [\<lparr>l_price = bp, l_volume = bv\<rparr>] else bids))"

definition parse_h0stasp0_frame :: "time \<Rightarrow> string \<Rightarrow> quote list" where
  "parse_h0stasp0_frame now frame =
     (case frame_parts frame of
        Inl e \<Rightarrow> []
      | Inr (tr, cs, payload) \<Rightarrow>
          let flds = split_on (CHR ''^'') payload in
          if length flds < 22 then []
          else case asp_levels flds [0 ..< asp_depth] [] [] of
              Inl e \<Rightarrow> []
            | Inr (asks, bids) \<Rightarrow>
                let symb = strip (flds ! 0); hms = strip (flds ! 1) in
                if symb = [] \<or> asks = [] \<or> bids = [] then []
                else [\<lparr>q_symbol = symb,
                       q_ts = (case hms_time now hms of Inl e \<Rightarrow> now | Inr ts \<Rightarrow> ts),
                       q_bids = bids, q_asks = asks\<rparr>])"

section \<open>Control frames and routing\<close>

datatype control = BadJson | Pong | SubscribeAck | SubscribeError | OtherJson

definition handle_control_frame :: "loads \<Rightarrow> string \<Rightarrow> control result" where
  "handle_control_frame loads raw =
     (case loads raw of
        Inl e \<Rightarrow> if e = ValueError then Inr BadJson else Inl e
      | Inr payload \<Rightarrow>
          bind_result (j_get_or payload ''header'' JNull) (\<lambda>h.
          bind_result (j_get_or payload ''body'' JNull) (\<lambda>b.
          let header = j_or h (JObj []); body = j_or b (JObj []) in
          bind_result (j_get_or header ''tr_id'' (JStr [])) (\<lambda>tr.
          if tr = JStr ''PINGPONG'' then Inr Pong
          else case body of
              JObj kvs \<Rightarrow> (case map_of kvs ''rt_cd'' of
                  None \<Rightarrow> Inr OtherJson
                | Some rt \<Rightarrow> Inr (if rt = JStr ''0'' then SubscribeAck else SubscribeError))
            | _ \<Rightarrow> Inr OtherJson))))"

datatype item = TickItem tick | QuoteItem quote

text \<open>One frame: the items it yields and the frames it sends back.\<close>

definition route_frame :: "loads \<Rightarrow> time \<Rightarrow> string \<Rightarrow> (item list \<times> string list) result" where
  "route_frame loads now raw =
     (if starts_with raw ''{'' then
        bind_result (handle_control_frame loads raw) (\<lambda>c.
        Inr ([], if c = Pong then [raw] else []))
      else if starts_with raw ''0|'' then
        (case split_max (CHR ''|'') 3 raw of
           flag # tr # rest \<Rightarrow>
             if tr = TR_ID_QUOTE then Inr (map QuoteItem (parse_h0stasp0_frame now raw), [])
             else bind_result (parse_h0stcnt0_frame now raw) (\<lambda>ts. Inr (map TickItem ts, []))
         | _ \<Rightarrow> bind_result (parse_h0stcnt0_frame now raw) (\<lambda>ts. Inr (map TickItem ts, [])))
      else Inr ([], []))"

text \<open>The stream until the connection closes (the end of the list) or a frame raises.\<close>

fun stream_ticks :: "loads \<Rightarrow> (time \<times> string) list \<Rightarrow> item list \<times> string list \<times> unit result" where
  "stream_ticks loads [] = ([], [], Inr ())"
| "stream_ticks loads ((now, raw) # frames) =
     (case route_frame loads now raw of
        Inl e \<Rightarrow> ([], [], Inl e)
      | Inr (items, sent) \<Rightarrow> (case stream_ticks loads frames of
          (items', sent', r) \<Rightarrow> (items @ items', sent @ sent', r)))"

section \<open>Facts\<close>

lemma map_chunk_concat:
  "\<forall>r \<in> set rs. length r = record_width \<Longrightarrow>
   map (chunk (concat rs)) [0 ..< length rs] = rs"
proof (induction rs)
  case Nil
  then show ?case by simp
next
  case (Cons r rs)
  then have r: "length r = record_width" by simp
  have "chunk (concat (r # rs)) 0 = r" using r by (simp add: chunk_def)
  moreover have "chunk (concat (r # rs)) (Suc i) = chunk (concat rs) i" for i
    using r by (simp add: chunk_def add.commute)
  ultimately show ?case
    using Cons by (simp add: map_upt_Suc del: upt_Suc)
qed

lemma length_concat_records:
  "\<forall>r \<in> set rs. length r = record_width \<Longrightarrow> length (concat rs) = length rs * record_width"
  by (induction rs) auto

text \<open>A data frame with the given cnt text and fields.\<close>

definition tick_frame :: "string \<Rightarrow> string list \<Rightarrow> string" where
  "tick_frame cs flds = ''0|H0STCNT0|'' @ cs @ CHR ''|'' # join_with (CHR ''^'') flds"

lemma split_tick_frame:
  assumes "CHR ''|'' \<notin> set cs"
  shows "split_max (CHR ''|'') 3 (tick_frame cs flds)
    = [''0'', TR_ID_TICK, cs, join_with (CHR ''^'') flds]"
proof -
  have "split_max (CHR ''|'') (Suc (Suc (Suc 0)))
      (''0'' @ CHR ''|'' # ''H0STCNT0'' @ CHR ''|'' # cs @ CHR ''|'' # join_with (CHR ''^'') flds)
    = [''0'', ''H0STCNT0'', cs, join_with (CHR ''^'') flds]"
    using assms by (subst split_max_append, simp)+ simp
  then show ?thesis by (simp add: tick_frame_def TR_ID_TICK_def numeral_3_eq_3)
qed

lemma parse_tick_frame:
  assumes "CHR ''|'' \<notin> set cs" "py_int cs = Inr (int (length rs))" "rs \<noteq> []"
    and "\<forall>r \<in> set rs. length r = record_width" "\<forall>r \<in> set rs. \<forall>f \<in> set r. CHR ''^'' \<notin> set f"
  shows "parse_h0stcnt0_frame now (tick_frame cs (concat rs)) = parse_records now rs"
proof -
  from assms(3,4) have ne: "concat rs \<noteq> []" by (cases rs) (auto simp: record_width_def)
  have f: "split_on (CHR ''^'') (join_with (CHR ''^'') (concat rs)) = concat rs"
    using assms(5) ne by (intro split_on_join) auto
  have "map (chunk (concat rs)) [0 ..< length rs] = rs" by (rule map_chunk_concat [OF assms(4)])
  then show ?thesis
    using length_concat_records [OF assms(4)] assms(2)
    by (simp add: parse_h0stcnt0_frame_def frame_parts_def split_tick_frame [OF assms(1)] f Let_def)
qed

lemma starts_with_tick_frame:
  "starts_with (tick_frame cs flds) ''0|''" "\<not> starts_with (tick_frame cs flds) ''{''"
  by (simp_all add: tick_frame_def)

lemma route_tick_frame:
  assumes "CHR ''|'' \<notin> set cs"
  shows "route_frame loads now (tick_frame cs flds)
    = bind_result (parse_h0stcnt0_frame now (tick_frame cs flds)) (\<lambda>ts. Inr (map TickItem ts, []))"
  by (simp add: route_frame_def starts_with_tick_frame split_tick_frame [OF assms]
      TR_ID_TICK_def TR_ID_QUOTE_def)

lemma asp_levels_bounds:
  assumes "asp_levels flds is asks bids = Inr (asks', bids')"
  shows "length asks' \<le> length asks + length is \<and> length bids' \<le> length bids + length is \<and>
     (\<forall>l \<in> set asks'. l \<in> set asks \<or> 0 < l_price l) \<and> (\<forall>l \<in> set bids'. l \<in> set bids \<or> 0 < l_price l)"
  using assms
proof (induction "is" arbitrary: asks bids)
  case (Cons i "is")
  from Cons.prems obtain ap bp av bv where "asp_levels flds is
      (if 0 < ap then asks @ [\<lparr>l_price = ap, l_volume = av\<rparr>] else asks)
      (if 0 < bp then bids @ [\<lparr>l_price = bp, l_volume = bv\<rparr>] else bids) = Inr (asks', bids')"
    by (auto elim!: bind_result_InrE)
  from Cons.IH [OF this] show ?case by (auto split: if_splits)
qed simp

lemma parse_records_InrE:
  assumes "parse_records now rs = Inr ts" "r \<in> set rs"
  obtains t where "record_to_tick now r = Inr t"
  using assms by (induction rs arbitrary: ts) (auto elim!: bind_result_InrE)

section \<open>Properties\<close>

text \<open>
  C18: Frames of well-formed records round-trip: a frame that carries \<open>n\<close> records of 46
  caret-free fields with the cnt \<open>n\<close> is taken apart into exactly those records, in order;
  the ticks delivered are those of the valid records, and each record that is refused (bad
  number, bad time, missing symbol, price not above 0) is dropped without affecting the others.
\<close>

theorem tick_frame_roundtrip:
  assumes "CHR ''|'' \<notin> set cs" "py_int cs = Inr (int (length rs))" "rs \<noteq> []"
    and "\<forall>r \<in> set rs. length r = record_width" "\<forall>r \<in> set rs. \<forall>f \<in> set r. CHR ''^'' \<notin> set f"
    and "\<forall>r \<in> set rs. record_to_tick now r = Inr (tick_of r)"
  shows "route_frame loads now (tick_frame cs (concat rs))
    = Inr (map TickItem (List.map_filter tick_of rs), [])"
proof -
  have "parse_records now rs = Inr (List.map_filter tick_of rs)"
    using assms(6) by (induction rs) (simp_all add: List.map_filter_simps split: option.splits)
  then show ?thesis by (simp add: route_tick_frame [OF assms(1)] parse_tick_frame [OF assms(1-5)])
qed

definition no_json :: loads where
  "no_json s = Inl ValueError"

definition sample_record :: "string \<Rightarrow> string list" where
  "sample_record price = [''005930'', ''093000'', price] @ replicate 9 [] @ [''7''] @ replicate 8 []
     @ [''5''] @ replicate 24 []"

lemma sample_record_simps:
  "length (sample_record price) = record_width" "record_width \<le> length (sample_record price)"
  "f \<in> set (sample_record price) \<Longrightarrow> CHR ''^'' \<in> set f \<Longrightarrow> CHR ''^'' \<in> set price"
  by (auto simp: sample_record_def record_width_def)

theorem tick_frame_roundtrip_witness:
  "route_frame no_json 0 (tick_frame ''2'' (concat [sample_record ''79000'', sample_record []]))
   = Inr ([TickItem \<lparr>t_symbol = ''005930'', t_ts = 30 * 60 * second, t_price = 79000, t_volume = 7,
       t_side = SideSell\<rparr>], [])"
proof -
  let ?t = "\<lparr>t_symbol = ''005930'', t_ts = 30 * 60 * second, t_price = 79000, t_volume = 7, t_side = SideSell\<rparr>"
  have a: "record_to_tick 0 (sample_record ''79000'') = Inr (Some ?t)"
    by code_simp
  have b: "record_to_tick 0 (sample_record []) = Inr None"
    by code_simp
  have c: "py_int ''2'' = Inr 2" by code_simp
  have "route_frame no_json 0 (tick_frame ''2'' (concat [sample_record ''79000'', sample_record []]))
    = Inr (map TickItem (List.map_filter (\<lambda>r. if r = sample_record ''79000'' then Some ?t else None)
        [sample_record ''79000'', sample_record []]), [])"
    by (rule tick_frame_roundtrip)
      (use a b c sample_record_simps(3) in \<open>auto simp: sample_record_simps(1) sample_record_def [of "[]"] sample_record_def [of "''79000''"] record_width_def\<close>)
  then show ?thesis by (simp add: List.map_filter_simps sample_record_def)
qed

text \<open>
  An order book frame never raises and gives at most one snapshot; a snapshot has a
  symbol and one to five levels on each side, every one with a positive price.
\<close>

lemma quote_frame_well_formed:
  "length (parse_h0stasp0_frame now frame) \<le> 1 \<and>
   (\<forall>q \<in> set (parse_h0stasp0_frame now frame).
      q_symbol q \<noteq> [] \<and> q_asks q \<noteq> [] \<and> q_bids q \<noteq> [] \<and>
      length (q_asks q) \<le> 5 \<and> length (q_bids q) \<le> 5 \<and>
      (\<forall>l \<in> set (q_asks q) \<union> set (q_bids q). 0 < l_price l))"
proof (cases "parse_h0stasp0_frame now frame")
  case (Cons q qs)
  then obtain flds asks bids where "asp_levels flds [0 ..< asp_depth] [] [] = Inr (asks, bids)"
    "q_symbol q \<noteq> []" "asks \<noteq> []" "bids \<noteq> []" "q_asks q = asks" "q_bids q = bids" "qs = []"
    by (auto simp: parse_h0stasp0_frame_def Let_def split: sum.splits if_splits)
  with asp_levels_bounds [OF this(1)] Cons show ?thesis by (auto simp: asp_depth_def)
qed simp

definition sample_quote_frame :: string where
  "sample_quote_frame = ''0|H0STASP0|1|'' @ join_with (CHR ''^'')
     ([''005930'', ''093000''] @ replicate 5 ''101'' @ replicate 5 ''99'' @ replicate 10 ''7'')"

lemma quote_frame_well_formed_example:
  "\<exists>q. parse_h0stasp0_frame 0 sample_quote_frame = [q] \<and> 0 < l_price (hd (q_asks q))"
proof -
  have "length (parse_h0stasp0_frame 0 sample_quote_frame) = 1" by code_simp
  then obtain q where q: "parse_h0stasp0_frame 0 sample_quote_frame = [q]" by (auto simp: length_Suc_conv)
  with quote_frame_well_formed [of 0 sample_quote_frame] show ?thesis
    by (auto intro!: hd_in_set)
qed

text \<open>
  One record with a NaN price ends the stream. The comparison with 0 is outside the
  handler: however well-formed the rest, nothing of that frame is delivered and nothing after
  it is read, although a bad record is meant to be skipped.
\<close>

lemma nan_price_ends_stream:
  assumes "CHR ''|'' \<notin> set cs" "py_int cs = Inr (int (length rs))"
    and "\<forall>r \<in> set rs. length r = record_width" "\<forall>r \<in> set rs. \<forall>f \<in> set r. CHR ''^'' \<notin> set f"
    and "bad \<in> set rs" "record_fields bad = Inr (symb, hms, DNaN s, volume, ccld)"
    and "symb \<noteq> []" "length hms = 6"
  shows "\<exists>e. stream_ticks loads ((now, tick_frame cs (concat rs)) # frames) = ([], [], Inl e)"
proof -
  from assms(6-8) have bad: "record_to_tick now bad = Inl InvalidOperation"
    by (simp add: record_to_tick_def)
  from assms(5) have "rs \<noteq> []" by auto
  note parse = parse_tick_frame [OF assms(1,2) this assms(3,4), of now]
  obtain e where "parse_records now rs = Inl e"
  proof (cases "parse_records now rs")
    case (Inr ts)
    then show ?thesis using assms(5) bad by (auto elim: parse_records_InrE)
  qed
  then show ?thesis by (simp add: route_tick_frame [OF assms(1)] parse)
qed

lemma nan_price_ends_stream_example:
  "\<exists>e. stream_ticks no_json [(0, tick_frame ''2'' (concat [sample_record ''79000'', sample_record ''NaN'']))]
     = ([], [], Inl e)"
proof (rule nan_price_ends_stream)
  show "record_fields (sample_record ''NaN'') = Inr (''005930'', ''093000'', DNaN False, 7, ''5'')"
    by code_simp
  show "py_int ''2'' = Inr (int (length [sample_record ''79000'', sample_record ''NaN'']))"
    by code_simp
qed (auto simp: sample_record_simps(1) dest: sample_record_simps(3))

end
