(* ===== verification/Kis_Session.thy ===== *)
theory Kis_Session
  imports Json Trading_Models
begin

text \<open>
  The session of \<open>src/src/infrastructure/kis_client.py\<close>: the connection state machine, the
  access token of the REST side and the approval key of the WebSocket side. What the network
  answers (the HTTP call, the WebSocket handshake, its close) and the clock readings are
  arguments. Every operation returns the client beside its result, so that the state left
  behind by an exception is visible. \<open>strptime\<close> is the standard library's parser with the
  format of the code; its result is the wall clock time read as UTC.
\<close>

section \<open>State\<close>

datatype connection_state =
  Disconnected | Authenticating | Authenticated | Connecting | Connected | Reconnecting | Failed

text \<open>
  The token and its type are whatever JSON value the server sent (\<open>JNull\<close> is Python's
  \<open>None\<close>); an open WebSocket is the number of its connection.
\<close>

record kis_client =
  kc_app_key :: string
  kc_app_secret :: string
  kc_state :: connection_state
  kc_access_token :: json
  kc_token_type :: json
  kc_expires_at :: "time option"
  kc_approval_key :: "string option"
  kc_ws :: "nat option"

definition KisClient :: "string \<Rightarrow> string \<Rightarrow> kis_client" where
  "KisClient key secret =
     \<lparr>kc_app_key = key, kc_app_secret = secret, kc_state = Disconnected, kc_access_token = JNull,
      kc_token_type = JStr ''Bearer'', kc_expires_at = None, kc_approval_key = None, kc_ws = None\<rparr>"

definition is_token_valid :: "kis_client \<Rightarrow> time \<Rightarrow> bool" where
  "is_token_valid c now =
     (kc_access_token c \<noteq> JNull \<and>
      (case kc_expires_at c of None \<Rightarrow> False | Some ex \<Rightarrow> now + 60 * second < ex))"

definition is_ws_open :: "kis_client \<Rightarrow> bool" where
  "is_ws_open c = (kc_ws c \<noteq> None \<and> kc_state c = Connected)"

definition authorization_header :: "kis_client \<Rightarrow> (json \<times> json) result" where
  "authorization_header c =
     (if kc_access_token c = JNull then Inl KisAuthError
      else Inr (kc_token_type c, kc_access_token c))"

section \<open>Masking\<close>

definition mask_token :: "string \<Rightarrow> string" where
  "mask_token token =
     (if length token \<le> 12 then ''***''
      else take 6 token @ ''...'' @ drop (length token - 4) token)"

text \<open>The same function on a token that is not a string: \<open>len\<close> or the slice may refuse it.\<close>

fun mask_token_json :: "json \<Rightarrow> unit result" where
  "mask_token_json (JStr s) = Inr ()"
| "mask_token_json (JList xs) = Inr ()"
| "mask_token_json (JObj kvs) = (if length kvs \<le> 12 then Inr () else Inl TypeError)"
| "mask_token_json _ = Inl TypeError"

section \<open>Expiry\<close>

definition max_datetime :: time where "max_datetime = 253402300799999999"
definition min_datetime :: time where "min_datetime = - 62135596800000000"

text \<open>
  \<open>timedelta(seconds=x)\<close>: the whole seconds exactly, the fraction times \<open>10 ** 6\<close> in
  binary64, rounded to even; then the addition to a \<open>datetime\<close>, which overflows past the
  year 9999.
\<close>

fun timedelta_seconds :: "float64 \<Rightarrow> time result" where
  "timedelta_seconds (Fin x) =
     (let whole = rat_trunc x in
      case fin ((x - of_int whole) * 1000000) of
        Fin us \<Rightarrow> Inr (whole * second + round_even us)
      | _ \<Rightarrow> Inl OverflowError)"
| "timedelta_seconds NaN = Inl ValueError"
| "timedelta_seconds _ = Inl OverflowError"

definition in_datetime :: "time \<Rightarrow> time result" where
  "in_datetime t = (if min_datetime \<le> t \<and> t \<le> max_datetime then Inr t else Inl OverflowError)"

text \<open>\<open>isinstance(v, (int, float)) and v > 0\<close>, then \<open>float(v)\<close>; a \<open>bool\<close> is an \<open>int\<close>.\<close>

fun positive_number :: "json \<Rightarrow> float64 result option" where
  "positive_number (JBool b) = (if b then Some (Inr (Fin 1)) else None)"
| "positive_number (JInt n) = (if 0 < n then Some (float_of_int n) else None)"
| "positive_number (JFloat x) = (if flt (Fin 0) x then Some (Inr x) else None)"
| "positive_number _ = None"

definition wall_expiry :: "(string \<Rightarrow> time result) \<Rightarrow> json \<Rightarrow> time option result" where
  "wall_expiry strptime payload =
     bind_result (j_get_or payload ''access_token_token_expired'' JNull) (\<lambda>wall.
     case wall of
       JStr s \<Rightarrow> (case strptime s of
           Inl e \<Rightarrow> if e = ValueError then Inr None else Inl e
         | Inr naive \<Rightarrow> bind_result (in_datetime (naive - 9 * 3600 * second)) (\<lambda>t. Inr (Some t)))
     | _ \<Rightarrow> Inr None)"

definition compute_expiry :: "(string \<Rightarrow> time result) \<Rightarrow> json \<Rightarrow> time \<Rightarrow> time option result" where
  "compute_expiry strptime payload now =
     bind_result (j_get_or payload ''expires_in'' JNull) (\<lambda>expires_in.
     case positive_number expires_in of
       Some secs \<Rightarrow>
         bind_result secs (\<lambda>x.
         bind_result (timedelta_seconds x) (\<lambda>d.
         bind_result (in_datetime (now + d)) (\<lambda>t. Inr (Some t))))
     | None \<Rightarrow> wall_expiry strptime payload)"

section \<open>REST calls\<close>

text \<open>What both calls do with the answer before they read its body.\<close>

definition http_body :: "http \<Rightarrow> json result result" where
  "http_body h = (case h of
       HttpTimeout \<Rightarrow> Inl KisUpstreamError
     | HttpNetworkError \<Rightarrow> Inl KisUpstreamError
     | HttpRaises e \<Rightarrow> Inl e
     | HttpResponse status body \<Rightarrow>
         if status = 401 \<or> status = 403 then Inl KisAuthError
         else if 400 \<le> status then Inl KisUpstreamError
         else Inr body)"

definition is_kis_error :: "py_error \<Rightarrow> bool" where
  "is_kis_error e = (e = KisAuthError \<or> e = KisUpstreamError)"

text \<open>\<open>except (ValueError, KeyError, TypeError)\<close> around the reading of the body.\<close>

definition malformed :: "'a result \<Rightarrow> 'a result" where
  "malformed r = (case r of
       Inl e \<Rightarrow> Inl (if e = ValueError \<or> e = KeyError \<or> e = TypeError then KisAuthError else e)
     | Inr v \<Rightarrow> Inr v)"

definition token_payload :: "json result \<Rightarrow> (json \<times> json \<times> json) result" where
  "token_payload body = malformed
     (bind_result body (\<lambda>payload.
      bind_result (j_item payload ''access_token'') (\<lambda>token.
      bind_result (j_get_or payload ''token_type'' (JStr ''Bearer'')) (\<lambda>typ.
      Inr (payload, token, typ)))))"

definition authenticate ::
    "(string \<Rightarrow> time result) \<Rightarrow> kis_client \<Rightarrow> bool \<Rightarrow> time \<Rightarrow> http \<Rightarrow> time
     \<Rightarrow> kis_client \<times> unit result" where
  "authenticate strptime c force now h later =
     (if \<not> force \<and> is_token_valid c now then (c, Inr ())
      else if kc_app_key c = [] \<or> kc_app_secret c = [] then (c\<lparr>kc_state := Failed\<rparr>, Inl KisAuthError)
      else
        let trying = c\<lparr>kc_state := Authenticating\<rparr>; failed = c\<lparr>kc_state := Failed\<rparr> in
        case http_body h of
          Inl e \<Rightarrow> (if is_kis_error e then failed else trying, Inl e)
        | Inr body \<Rightarrow> (case token_payload body of
            Inl e \<Rightarrow> (if is_kis_error e then failed else trying, Inl e)
          | Inr (payload, token, typ) \<Rightarrow> (case compute_expiry strptime payload later of
              Inl e \<Rightarrow> (trying, Inl e)
            | Inr ex \<Rightarrow>
                (c\<lparr>kc_access_token := token, kc_token_type := typ, kc_expires_at := ex,
                   kc_state := Authenticated\<rparr>, mask_token_json token))))"

definition issue_approval_key :: "http \<Rightarrow> string result" where
  "issue_approval_key h =
     bind_result (http_body h) (\<lambda>body.
     bind_result (malformed (bind_result body (\<lambda>payload. j_item payload ''approval_key''))) (\<lambda>key.
     case key of
       JStr s \<Rightarrow> if s = [] then Inl KisAuthError else Inr s
     | _ \<Rightarrow> Inl KisAuthError))"

section \<open>WebSocket\<close>

datatype ws_answer = WsOpened nat | WsRaises py_error

definition connect :: "kis_client \<Rightarrow> time \<Rightarrow> http \<Rightarrow> ws_answer \<Rightarrow> kis_client \<times> unit result" where
  "connect c now h w =
     (if \<not> is_token_valid c now then (c, Inl KisAuthError)
      else if kc_state c = Connected \<and> kc_ws c \<noteq> None then (c, Inr ())
      else
        let trying = c\<lparr>kc_state := Connecting\<rparr>; failed = c\<lparr>kc_state := Failed\<rparr> in
        case issue_approval_key h of
          Inl e \<Rightarrow> (if is_kis_error e then failed else trying, Inl e)
        | Inr key \<Rightarrow> (case w of
            WsRaises e \<Rightarrow> if e = CancelledError then (trying, Inl e) else (failed, Inl KisUpstreamError)
          | WsOpened i \<Rightarrow>
              (c\<lparr>kc_approval_key := Some key, kc_ws := Some i, kc_state := Connected\<rparr>, Inr ())))"

text \<open>A subscribe frame: the values \<open>json.dumps\<close> receives.\<close>

definition build_subscribe_frame :: "string \<Rightarrow> string \<Rightarrow> string \<Rightarrow> json" where
  "build_subscribe_frame approval_key tr_id tr_key =
     JObj [(''header'', JObj [(''approval_key'', JStr approval_key), (''custtype'', JStr ''P''),
                              (''tr_type'', JStr ''1''), (''content-type'', JStr ''utf-8'')]),
           (''body'', JObj [(''input'', JObj [(''tr_id'', JStr tr_id), (''tr_key'', JStr tr_key)])])]"

text \<open>The frames sent, until a send raises.\<close>

fun send_all :: "(json \<Rightarrow> unit result) \<Rightarrow> json list \<Rightarrow> json list \<times> unit result" where
  "send_all send [] = ([], Inr ())"
| "send_all send (f # fs) = (case send f of
       Inl e \<Rightarrow> ([], Inl e)
     | Inr _ \<Rightarrow> (case send_all send fs of (sent, r) \<Rightarrow> (f # sent, r)))"

definition subscribe ::
    "(json \<Rightarrow> unit result) \<Rightarrow> kis_client \<Rightarrow> string list \<Rightarrow> string \<Rightarrow> json list \<times> unit result" where
  "subscribe send c symbols tr_id =
     (if kc_state c \<noteq> Connected \<or> kc_ws c = None then ([], Inl RuntimeError)
      else case kc_approval_key c of
          None \<Rightarrow> ([], Inl KisAuthError)
        | Some key \<Rightarrow> send_all send (map (build_subscribe_frame key tr_id) symbols))"

text \<open>The guard of \<open>stream_ticks\<close>; what follows it is in \<open>Kis_Wire\<close>.\<close>

definition stream_start :: "kis_client \<Rightarrow> unit result" where
  "stream_start c =
     (if kc_state c \<noteq> Connected \<or> kc_ws c = None then Inl RuntimeError else Inr ())"

definition close :: "kis_client \<Rightarrow> unit result \<Rightarrow> kis_client \<times> unit result" where
  "close c r =
     (if kc_ws c \<noteq> None \<and> r = Inl CancelledError then (c, r)
      else (c\<lparr>kc_ws := None, kc_state := Disconnected\<rparr>, Inr ()))"

section \<open>Reachable sessions\<close>

datatype session_op =
    Authenticate bool time http time
  | Connect time http ws_answer
  | Close "unit result"

fun session_step :: "(string \<Rightarrow> time result) \<Rightarrow> kis_client \<Rightarrow> session_op \<Rightarrow> kis_client \<times> unit result" where
  "session_step sp c (Authenticate force now h later) = authenticate sp c force now h later"
| "session_step sp c (Connect now h w) = connect c now h w"
| "session_step sp c (Close r) = close c r"

inductive reachable_session :: "(string \<Rightarrow> time result) \<Rightarrow> kis_client \<Rightarrow> bool" for sp where
  fresh: "reachable_session sp (KisClient key secret)"
| step: "reachable_session sp c \<Longrightarrow> session_step sp c opr = (c', r) \<Longrightarrow> reachable_session sp c'"

definition session_inv :: "kis_client \<Rightarrow> bool" where
  "session_inv c \<longleftrightarrow>
     (kc_ws c \<noteq> None \<longrightarrow> (\<exists>key. kc_approval_key c = Some key \<and> key \<noteq> [])) \<and>
     (kc_state c = Connected \<longrightarrow> kc_ws c \<noteq> None) \<and> kc_state c \<noteq> Reconnecting"

lemma issue_approval_key_nonempty: "issue_approval_key h = Inr key \<Longrightarrow> key \<noteq> []"
  by (auto simp: issue_approval_key_def elim!: bind_result_InrE split: json.splits if_splits)

lemma authenticate_keeps:
  assumes "authenticate sp c force now h later = (c', r)"
  shows "kc_ws c' = kc_ws c" "kc_approval_key c' = kc_approval_key c"
    "kc_app_key c' = kc_app_key c" "kc_app_secret c' = kc_app_secret c"
    "c' = c \<or> kc_state c' \<in> {Failed, Authenticating, Authenticated}"
  using assms by (auto simp: authenticate_def Let_def split: if_splits sum.splits prod.splits)

lemma connect_cases:
  assumes "connect c now h w = (c', r)"
  obtains (same) "c' = c"
  | (down) "c' = c\<lparr>kc_state := kc_state c'\<rparr>" "kc_state c' \<in> {Failed, Connecting}"
  | (up) key i where "c' = c\<lparr>kc_approval_key := Some key, kc_ws := Some i, kc_state := Connected\<rparr>"
      "key \<noteq> []" "w = WsOpened i" "r = Inr ()" "is_token_valid c now"
  using assms
  by (auto simp: connect_def Let_def dest!: issue_approval_key_nonempty
      split: if_splits sum.splits ws_answer.splits)

lemma session_inv_step:
  assumes "session_inv c" "session_step sp c opr = (c', r)"
  shows "session_inv c'"
proof (cases opr)
  case (Authenticate force now h later)
  with assms authenticate_keeps [of sp c force now h later c' r] show ?thesis
    by (auto simp: session_inv_def)
next
  case (Connect now h w)
  with assms(2) have "connect c now h w = (c', r)" by simp
  then show ?thesis
    using assms(1)
  proof (cases rule: connect_cases)
    case down
    then have "kc_ws c' = kc_ws c" "kc_approval_key c' = kc_approval_key c"
      by (metis kis_client.select_convs kis_client.surjective kis_client.update_convs(3))+
    with down(2) assms(1) show ?thesis by (auto simp: session_inv_def)
  qed (auto simp: session_inv_def)
next
  case (Close q)
  with assms show ?thesis by (auto simp: close_def session_inv_def split: if_splits)
qed

lemma reachable_session_inv: "reachable_session sp c \<Longrightarrow> session_inv c"
proof (induction rule: reachable_session.induct)
  case (fresh key secret)
  show ?case by (simp add: KisClient_def session_inv_def)
qed (blast intro: session_inv_step)

lemma send_all_ok: "(\<And>f. f \<in> set fs \<Longrightarrow> send f = Inr ()) \<Longrightarrow> send_all send fs = (fs, Inr ())"
  by (induction fs) simp_all

text \<open>No KIS error comes out of the reading of an expiry or the masking of a token.\<close>

definition quiet :: "'a result \<Rightarrow> bool" where
  "quiet r \<longleftrightarrow> (\<forall>e. r = Inl e \<longrightarrow> \<not> is_kis_error e)"

lemma quiet_Inr [simp]: "quiet (Inr x)"
  by (simp add: quiet_def)

lemma quiet_Inl [simp]: "quiet (Inl e) \<longleftrightarrow> \<not> is_kis_error e"
  by (simp add: quiet_def)

lemma not_kis_error [simp]:
  "\<not> is_kis_error OverflowError" "\<not> is_kis_error ValueError" "\<not> is_kis_error AttributeError"
  "\<not> is_kis_error TypeError"
  by (simp_all add: is_kis_error_def)

lemma quiet_bind: "quiet r \<Longrightarrow> (\<And>x. quiet (f x)) \<Longrightarrow> quiet (bind_result r f)"
  by (cases r) auto

lemma quiet_j_get_or: "quiet (j_get_or x k d)"
  by (cases x) (simp_all add: j_get_or_def)

lemma quiet_in_datetime: "quiet (in_datetime t)"
  by (simp add: in_datetime_def)

lemma quiet_timedelta: "quiet (timedelta_seconds x)"
  by (cases x) (simp_all add: Let_def split: float64.splits)

lemma quiet_positive_number: "positive_number v = Some r \<Longrightarrow> quiet r"
  by (cases v) (auto simp: float_of_int_def split: if_splits float64.splits)

lemma quiet_wall_expiry:
  assumes "\<And>s e. sp s = Inl e \<Longrightarrow> e = ValueError"
  shows "quiet (wall_expiry sp payload)"
  unfolding wall_expiry_def
  using assms
  by (intro quiet_bind quiet_j_get_or)
    (auto split: json.splits sum.splits intro!: quiet_bind quiet_in_datetime)

lemma quiet_compute_expiry:
  assumes "\<And>s e. sp s = Inl e \<Longrightarrow> e = ValueError"
  shows "quiet (compute_expiry sp payload now)"
  unfolding compute_expiry_def
  by (intro quiet_bind quiet_j_get_or)
    (auto split: option.splits intro!: quiet_bind quiet_in_datetime quiet_timedelta
      quiet_wall_expiry [OF assms] dest: quiet_positive_number)

lemma quiet_mask_token: "quiet (mask_token_json t)"
  by (cases t) simp_all

section \<open>Properties\<close>

text \<open>
  A session that says connected is connected. In every state reachable by authentications,
  connections and closes, with any answers of the network, CONNECTED implies an open WebSocket
  with a non-empty approval key; so the missing-key branch of \<open>subscribe\<close> is dead code and a
  subscription with a working socket sends one frame per symbol, in order.
\<close>

lemma connected_session_is_open:
  assumes "reachable_session sp c" "kc_state c = Connected"
  shows "\<exists>i key. kc_ws c = Some i \<and> kc_approval_key c = Some key \<and> key \<noteq> [] \<and> is_ws_open c \<and>
     stream_start c = Inr () \<and>
     subscribe (\<lambda>f. Inr ()) c symbols tr = (map (build_subscribe_frame key tr) symbols, Inr ())"
  using reachable_session_inv [OF assms(1)] assms(2)
  by (auto simp: session_inv_def is_ws_open_def stream_start_def subscribe_def send_all_ok)

definition sample_token :: http where
  "sample_token = HttpResponse 200 (Inr (JObj [(''access_token'', JStr ''t''), (''expires_in'', JInt 86400)]))"

definition sample_approval :: http where
  "sample_approval = HttpResponse 200 (Inr (JObj [(''approval_key'', JStr ''k'')]))"

definition no_strptime :: "string \<Rightarrow> time result" where
  "no_strptime s = Inl ValueError"

definition authenticated_sample :: kis_client where
  "authenticated_sample = (KisClient ''a'' ''b'')\<lparr>kc_access_token := JStr ''t'',
     kc_token_type := JStr ''Bearer'', kc_expires_at := Some (86400 * second), kc_state := Authenticated\<rparr>"

definition connected_sample :: kis_client where
  "connected_sample = authenticated_sample
     \<lparr>kc_approval_key := Some ''k'', kc_ws := Some 1, kc_state := Connected\<rparr>"

lemma timedelta_whole: "timedelta_seconds (Fin (of_int n)) = Inr (n * second)"
  using round_even_of_int [of 0] by (simp add: rat_trunc_def fin_Fin del: round_even_of_int)

lemma sample_session_answers:
  "token_payload (Inr (JObj [(''access_token'', JStr ''t''), (''expires_in'', JInt 86400)]))
   = Inr (JObj [(''access_token'', JStr ''t''), (''expires_in'', JInt 86400)], JStr ''t'', JStr ''Bearer'')"
  "compute_expiry no_strptime (JObj [(''access_token'', JStr ''t''), (''expires_in'', JInt 86400)]) 0
   = Inr (Some (86400 * second))"
  "issue_approval_key sample_approval = Inr ''k''"
  using timedelta_whole [of 86400] float_of_int_exact [of 86400]
  by (simp_all add: token_payload_def malformed_def compute_expiry_def in_datetime_def min_datetime_def
      max_datetime_def second_def issue_approval_key_def sample_approval_def http_body_def)

lemmas sample_session_defs =
  authenticate_def connect_def KisClient_def authenticated_sample_def connected_sample_def
  is_token_valid_def http_body_def Let_def second_def

lemma sample_session:
  "authenticate no_strptime (KisClient ''a'' ''b'') False 0 sample_token 0 = (authenticated_sample, Inr ())"
  "connect authenticated_sample 0 sample_approval (WsOpened 1) = (connected_sample, Inr ())"
  using sample_session_answers
  by (simp_all add: sample_session_defs sample_token_def)

lemma connected_sample_reachable: "reachable_session no_strptime connected_sample"
proof -
  have "reachable_session no_strptime authenticated_sample"
    by (rule reachable_session.step [OF reachable_session.fresh [of _ "''a''" "''b''"],
          where opr = "Authenticate False 0 sample_token 0"]) (simp add: sample_session)
  then show ?thesis
    by (rule reachable_session.step [where opr = "Connect 0 sample_approval (WsOpened 1)"])
      (use sample_session(2) in simp)
qed

lemma connected_session_is_open_example:
  "subscribe (\<lambda>f. Inr ()) connected_sample [''005930''] ''H0STCNT0''
   = ([build_subscribe_frame ''k'' ''H0STCNT0'' ''005930''], Inr ())"
  using connected_session_is_open [OF connected_sample_reachable, of "[''005930'']" "''H0STCNT0''"]
  by (simp add: connected_sample_def)

text \<open>
  C19: Authentication is transactional. A call that returns either was skipped because the token
  held was still valid, and changed nothing, or holds the token of the response and is
  AUTHENTICATED. A call that raises a KIS error leaves FAILED and every other field, the old
  token included, as it was.
\<close>

theorem authenticate_transactional:
  assumes "\<And>s e. sp s = Inl e \<Longrightarrow> e = ValueError"
  shows "case authenticate sp c force now h later of
     (c', Inr _) \<Rightarrow>
        c' = c \<and> \<not> force \<and> is_token_valid c now
        \<or> (\<exists>status payload token. h = HttpResponse status (Inr payload) \<and> status < 400 \<and>
             j_item payload ''access_token'' = Inr token \<and> kc_access_token c' = token \<and>
             kc_state c' = Authenticated \<and> kc_ws c' = kc_ws c)
   | (c', Inl e) \<Rightarrow> is_kis_error e \<longrightarrow> c' = c\<lparr>kc_state := Failed\<rparr>"
proof -
  have ok: "\<exists>status payload token. h = HttpResponse status (Inr payload) \<and> status < 400 \<and>
      j_item payload ''access_token'' = Inr token \<and> t = token"
    if "http_body h = Inr body" "token_payload body = Inr (payload, t, y)" for body payload t y
    using that
    by (auto simp: http_body_def token_payload_def malformed_def
        split: http.splits sum.splits if_splits elim!: bind_result_InrE)
  have q: "compute_expiry sp payload later = Inl e \<Longrightarrow> \<not> is_kis_error e"
    "mask_token_json token = Inl e \<Longrightarrow> \<not> is_kis_error e" for payload token e
    using quiet_compute_expiry [where payload = payload and now = later, OF assms] quiet_mask_token [of token]
    by (auto simp: quiet_def)
  show ?thesis
    unfolding authenticate_def Let_def
    using q
    by (auto split: sum.splits prod.splits if_splits dest!: ok)
qed

theorem authenticate_transactional_witness:
  "fst (authenticate no_strptime authenticated_sample True 0 (HttpResponse 403 (Inl ValueError)) 0)
   = authenticated_sample\<lparr>kc_state := Failed\<rparr>"
  using authenticate_transactional [of no_strptime authenticated_sample True 0 "HttpResponse 403 (Inl ValueError)" 0]
  by (simp add: no_strptime_def sample_session_defs is_kis_error_def)

text \<open>
  C20: A token refresh breaks a live session. The publisher refreshes the token of a connected
  client; a successful refresh leaves the WebSocket open but the state AUTHENTICATED, so the
  session no longer counts as open, \<open>subscribe\<close> and \<open>stream_ticks\<close> raise, and the next
  \<open>connect\<close> opens a second WebSocket over the first, which nothing closes any more.
\<close>

theorem refresh_breaks_live_session:
  assumes "kc_state c = Connected" "kc_ws c = Some i"
    and "authenticate sp c True now h later = (c', Inr ())"
  shows "kc_state c' = Authenticated \<and> kc_ws c' = Some i \<and> \<not> is_ws_open c' \<and>
     snd (subscribe send c' symbols tr) = Inl RuntimeError \<and> stream_start c' = Inl RuntimeError \<and>
     (is_token_valid c' now' \<longrightarrow> issue_approval_key h' = Inr key \<longrightarrow>
        kc_ws (fst (connect c' now' h' (WsOpened j))) = Some j)"
proof -
  from assms(3) have s: "kc_state c' = Authenticated" "kc_ws c' = kc_ws c"
    by (auto simp: authenticate_def Let_def split: if_splits sum.splits prod.splits)
  with assms(2) show ?thesis
    by (auto simp: is_ws_open_def subscribe_def stream_start_def connect_def)
qed

theorem refresh_breaks_live_session_witness:
  "\<exists>c'. authenticate no_strptime connected_sample True 0 sample_token 0 = (c', Inr ()) \<and>
     stream_start c' = Inl RuntimeError \<and> kc_ws (fst (connect c' 0 sample_approval (WsOpened 2))) = Some 2"
proof -
  let ?c = "connected_sample\<lparr>kc_state := Authenticated\<rparr>"
  have a: "authenticate no_strptime connected_sample True 0 sample_token 0 = (?c, Inr ())"
    using sample_session_answers by (simp add: sample_session_defs sample_token_def)
  have k: "is_token_valid ?c 0" by (simp add: sample_session_defs)
  note k = k sample_session_answers(3)
  from refresh_breaks_live_session [OF _ _ a, of 1 "\<lambda>f. Inr ()" "[]" "[]" 0 sample_approval "''k''" 2] a k
  show ?thesis by (simp add: connected_sample_def)
qed

end
