(* ===== verification/Tasks.thy ===== *)
theory Tasks
  imports Prelude
begin

text \<open>
  The \<open>asyncio\<close> tasks of the services and the protocol their owners follow
  (\<open>_PublisherLike\<close> in \<open>src/src/infrastructure/publisher_supervisor.py\<close>, and the \<open>start\<close> and
  \<open>stop\<close> of every other background service).

  A task is absent, running, or done: returned or ended by an exception. Cancelling a done task
  does nothing; a running one ends with \<open>CancelledError\<close>, as every loop of the program re-raises
  it. Awaiting a task that ended by an exception raises that exception again.
\<close>

section \<open>Tasks\<close>

datatype task_state = NoTask | Running | Returned | Ended py_error

definition cancelled_task :: "task_state \<Rightarrow> task_state" where
  "cancelled_task t = (if t = Running then Ended CancelledError else t)"

definition await_task :: "task_state \<Rightarrow> unit result" where
  "await_task t = (case t of Ended e \<Rightarrow> Inl e | _ \<Rightarrow> Inr ())"

text \<open>
  The \<open>stop\<close> of a task: cancel, await, swallow only \<open>CancelledError\<close>, and forget the task. An
  exception of the task leaves by the \<open>await\<close>, and the task stays where it is.
\<close>

definition cancel_and_await :: "task_state \<Rightarrow> task_state \<times> unit result" where
  "cancel_and_await t = (case await_task (cancelled_task t) of
       Inr _ \<Rightarrow> (NoTask, Inr ())
     | Inl e \<Rightarrow> if e = CancelledError then (NoTask, Inr ()) else (cancelled_task t, Inl e))"

text \<open>How a coroutine's result ends its task, unless the task is done already.\<close>

definition end_task :: "unit result \<Rightarrow> task_state \<Rightarrow> task_state" where
  "end_task r t = (if t = Running then (case r of Inl e \<Rightarrow> Ended e | Inr _ \<Rightarrow> Returned) else t)"

text \<open>A round of an endless loop: its task goes on unless the round raised.\<close>

definition loop_task :: "unit result \<Rightarrow> task_state \<Rightarrow> task_state" where
  "loop_task r t = (case r of Inl e \<Rightarrow> end_task (Inl e) t | Inr _ \<Rightarrow> t)"

definition crashed :: "task_state \<Rightarrow> py_error \<Rightarrow> bool" where
  "crashed t e \<longleftrightarrow> t = Ended e \<and> e \<noteq> CancelledError"

lemma cancel_and_await_simps [simp]:
  "cancel_and_await NoTask = (NoTask, Inr ())"
  "cancel_and_await Running = (NoTask, Inr ())"
  "cancel_and_await Returned = (NoTask, Inr ())"
  "cancel_and_await (Ended e) = (if e = CancelledError then (NoTask, Inr ()) else (Ended e, Inl e))"
  by (simp_all add: cancel_and_await_def cancelled_task_def await_task_def)

lemma cancel_and_await_cases:
  assumes "cancel_and_await t = (t', r)"
  obtains (stopped) "t' = NoTask" "r = Inr ()" "\<nexists>e. crashed t e"
  | (raises) e where "crashed t e" "t' = t" "r = Inl e"
  using assms by (cases t) (auto simp: crashed_def split: if_splits)

lemma end_task_simps [simp]:
  "end_task r NoTask = NoTask" "end_task r Returned = Returned" "end_task r (Ended e) = Ended e"
  "end_task (Inl e) Running = Ended e" "end_task (Inr x) Running = Returned"
  by (simp_all add: end_task_def)

lemma loop_task_simps [simp]:
  "loop_task (Inr x) t = t" "loop_task (Inl e) t = end_task (Inl e) t"
  by (simp_all add: loop_task_def)

lemma end_task_not_running [simp]: "end_task r t \<noteq> Running"
  by (simp add: end_task_def split: sum.splits)

section \<open>The protocol of a publisher\<close>

text \<open>
  What the owner of a background service relies on: \<open>start\<close> leaves it running and is the
  identity on a running one; a service just started can be stopped; a stop that returns leaves
  it not running and can be repeated.
\<close>

locale background_service =
  fixes running :: "'s \<Rightarrow> bool"
    and start :: "'s \<Rightarrow> 's"
    and stop :: "'s \<Rightarrow> 's \<times> unit result"
  assumes start_running: "running (start s)"
    and start_again: "running s \<Longrightarrow> start s = s"
    and stop_started: "\<not> running s \<Longrightarrow> snd (stop (start s)) = Inr ()"
    and stop_stops: "stop s = (s', Inr ()) \<Longrightarrow> \<not> running s' \<and> stop s' = (s', Inr ())"
begin

lemma start_twice: "start (start s) = start s"
  by (simp add: start_again start_running)

text \<open>A restart of a stopped service works and can be undone.\<close>

lemma restart:
  assumes "stop s = (s', Inr ())"
  shows "running (start s')" "\<exists>s''. stop (start s') = (s'', Inr ()) \<and> \<not> running s''"
proof -
  from stop_stops [OF assms] have "\<not> running s'" by simp
  with stop_started [of s'] obtain s'' where "stop (start s') = (s'', Inr ())"
    by (cases "stop (start s')") auto
  with stop_stops [OF this] show "\<exists>s''. stop (start s') = (s'', Inr ()) \<and> \<not> running s''" by blast
qed (rule start_running)

text \<open>Any row of starts and stops that all return: what runs is decided by the last call.\<close>

fun calls :: "bool list \<Rightarrow> 's \<Rightarrow> 's option" where
  "calls [] s = Some s"
| "calls (up # cs) s = (if up then calls cs (start s)
     else (case stop s of (s', Inl e) \<Rightarrow> None | (s', Inr _) \<Rightarrow> calls cs s'))"

lemma calls_last:
  "calls cs s = Some s' \<Longrightarrow> cs \<noteq> [] \<Longrightarrow> running s' = last cs"
proof (induction cs arbitrary: s)
  case (Cons up cs)
  show ?case
  proof (cases up)
    case True
    then have "calls cs (start s) = Some s'" using Cons.prems(1) by simp
    with Cons.IH [OF this] True show ?thesis by (cases cs) (auto simp: start_running)
  next
    case False
    with Cons.prems(1) obtain s1 where s1: "stop s = (s1, Inr ())" "calls cs s1 = Some s'"
      by (auto split: prod.splits sum.splits)
    with Cons.IH [OF s1(2)] stop_stops [OF s1(1)] False show ?thesis by (cases cs) auto
  qed
qed simp

end

end
