(* ===== verification/Publishers.thy ===== *)
theory Publishers
  imports Kis_Wire Kis_Session Tasks
begin

text \<open>
  \<open>src/src/infrastructure/kis_publisher.py\<close>: the loop from the KIS stream to the Redis
  channels and the trading pipeline, the token refresh loop beside it and the tasks of both. Redis
  and the observer are arguments (what their calls answer).
\<close>

section \<open>Wire format\<close>

datatype channel = CHANNEL_TICK | CHANNEL_QUOTE | CHANNEL_ANOMALY | CHANNEL_AUDIT

text \<open>Times go over the wire in whole milliseconds (\<open>isoformat(timespec="milliseconds")\<close>).\<close>

record wire_tick =
  wt_symbol :: string
  wt_ms :: int
  wt_price :: float64
  wt_volume :: int
  wt_side :: string

record wire_quote =
  wq_symbol :: string
  wq_ms :: int
  wq_bids :: "(int \<times> int) list"
  wq_asks :: "(int \<times> int) list"

datatype message = MsgTick wire_tick | MsgQuote wire_quote

fun side_value :: "tick_side \<Rightarrow> string" where
  "side_value SideBuy = ''buy''"
| "side_value SideSell = ''sell''"

definition tick_to_wire :: "tick \<Rightarrow> wire_tick" where
  "tick_to_wire t =
     \<lparr>wt_symbol = t_symbol t, wt_ms = t_ts t div 1000, wt_price = float_of_decimal (t_price t),
      wt_volume = t_volume t, wt_side = side_value (t_side t)\<rparr>"

definition quote_to_wire :: "quote \<Rightarrow> wire_quote" where
  "quote_to_wire q =
     \<lparr>wq_symbol = q_symbol q, wq_ms = q_ts q div 1000,
      wq_bids = map (\<lambda>l. (l_price l, l_volume l)) (q_bids q),
      wq_asks = map (\<lambda>l. (l_price l, l_volume l)) (q_asks q)\<rparr>"

text \<open>
  \<open>Decimal(str(price))\<close> is the shortest decimal that reads back as the float; which one is
  the standard library's choice, the argument \<open>repr\<close>.
\<close>

definition dict_to_tick :: "(rat \<Rightarrow> rat) \<Rightarrow> wire_tick \<Rightarrow> tick result" where
  "dict_to_tick repr d =
     make_tick (wt_symbol d) (wt_ms d * 1000)
       (case wt_price d of Fin x \<Rightarrow> DFin (repr x) | PInf \<Rightarrow> DInf False | NInf \<Rightarrow> DInf True | NaN \<Rightarrow> DNaN False)
       (wt_volume d) (if lower (wt_side d) = ''sell'' then SideSell else SideBuy)"

section \<open>The loop of the KIS publisher\<close>

type_synonym redis = "channel \<Rightarrow> message \<Rightarrow> unit result"
type_synonym observer = "tick \<Rightarrow> unit result"

record delivery =
  dl_published :: nat
  dl_messages :: "message list"
  dl_observed :: "tick list"

definition message_of :: "item \<Rightarrow> channel \<times> message" where
  "message_of i = (case i of
       TickItem t \<Rightarrow> (CHANNEL_TICK, MsgTick (tick_to_wire t))
     | QuoteItem q \<Rightarrow> (CHANNEL_QUOTE, MsgQuote (quote_to_wire q)))"

definition deliver :: "redis \<Rightarrow> observer option \<Rightarrow> delivery \<Rightarrow> item \<Rightarrow> delivery \<times> unit result" where
  "deliver publish obs d i =
     (case publish (fst (message_of i)) (snd (message_of i)) of
        Inl e \<Rightarrow> (d, Inl e)
      | Inr _ \<Rightarrow>
          let d1 = d\<lparr>dl_published := Suc (dl_published d), dl_messages := dl_messages d @ [snd (message_of i)]\<rparr>
          in case (i, obs) of
               (TickItem t, Some f) \<Rightarrow>
                 (d1\<lparr>dl_observed := dl_observed d1 @ [t]\<rparr>,
                  if f t = Inl CancelledError then Inl CancelledError else Inr ())
             | _ \<Rightarrow> (d1, Inr ()))"

fun deliver_all ::
    "redis \<Rightarrow> observer option \<Rightarrow> delivery \<Rightarrow> item list \<Rightarrow> delivery \<times> unit result" where
  "deliver_all publish obs d [] = (d, Inr ())"
| "deliver_all publish obs d (i # is) = (case deliver publish obs d i of
       (d1, Inl e) \<Rightarrow> (d1, Inl e)
     | (d1, Inr _) \<Rightarrow> deliver_all publish obs d1 is)"

definition publisher_run ::
    "(json \<Rightarrow> unit result) \<Rightarrow> kis_client \<Rightarrow> string list \<Rightarrow> loads \<Rightarrow> (time \<times> string) list
     \<Rightarrow> redis \<Rightarrow> observer option \<Rightarrow> delivery \<Rightarrow> delivery \<times> unit result" where
  "publisher_run send c symbols loads frames publish obs d =
     (case bind_result (snd (subscribe send c symbols TR_ID_TICK)) (\<lambda>_.
           bind_result (snd (subscribe send c symbols TR_ID_QUOTE)) (\<lambda>_. stream_start c)) of
        Inl e \<Rightarrow> (d, Inl e)
      | Inr _ \<Rightarrow> (case stream_ticks loads frames of (items, sent, r) \<Rightarrow>
          (case deliver_all publish obs d items of
             (d', Inl e) \<Rightarrow> (d', Inl e)
           | (d', Inr _) \<Rightarrow> (d', r))))"

section \<open>Token refresh\<close>

text \<open>
  \<open>_TokenRefreshLoop\<close>. The client is an object it shares with the publisher and the supervisor:
  its state is passed to each round and returned.
\<close>

record refresh_loop =
  rl_headroom :: time
  rl_refresh_count :: nat
  rl_failure_count :: nat
  rl_task :: task_state

definition TokenRefreshLoop :: "time \<Rightarrow> refresh_loop" where
  "TokenRefreshLoop headroom =
     \<lparr>rl_headroom = headroom, rl_refresh_count = 0, rl_failure_count = 0, rl_task = NoTask\<rparr>"

definition needs_refresh :: "kis_client \<Rightarrow> time \<Rightarrow> time \<Rightarrow> bool" where
  "needs_refresh c headroom now = (case kc_expires_at c of None \<Rightarrow> True | Some ex \<Rightarrow> ex \<le> now + headroom)"

text \<open>One round after the sleep; an exception that is not a \<open>KisError\<close> ends the loop.\<close>

definition refresh_round ::
    "(string \<Rightarrow> time result) \<Rightarrow> kis_client \<Rightarrow> refresh_loop \<Rightarrow> time \<Rightarrow> http \<Rightarrow> time
     \<Rightarrow> kis_client \<times> refresh_loop \<times> unit result" where
  "refresh_round sp c l now h later =
     (if \<not> needs_refresh c (rl_headroom l) now then (c, l, Inr ())
      else case authenticate sp c True now h later of
          (c', Inr _) \<Rightarrow> (c', l\<lparr>rl_refresh_count := Suc (rl_refresh_count l)\<rparr>, Inr ())
        | (c', Inl e) \<Rightarrow>
            if is_kis_error e
            then (c', l\<lparr>rl_failure_count := Suc (rl_failure_count l)\<rparr>, Inr ())
            else (c', l, Inl e))"

text \<open>The round as a step of the loop's task: nothing happens once the task is gone.\<close>

definition refresh_step ::
    "(string \<Rightarrow> time result) \<Rightarrow> kis_client \<Rightarrow> refresh_loop \<Rightarrow> time \<Rightarrow> http \<Rightarrow> time
     \<Rightarrow> kis_client \<times> refresh_loop" where
  "refresh_step sp c l now h later =
     (if rl_task l \<noteq> Running then (c, l)
      else case refresh_round sp c l now h later of
        (c', l', r) \<Rightarrow> (c', l'\<lparr>rl_task := loop_task r (rl_task l')\<rparr>))"

definition refresh_start :: "refresh_loop \<Rightarrow> refresh_loop" where
  "refresh_start l = (if rl_task l = Running then l else l\<lparr>rl_task := Running\<rparr>)"

definition refresh_stop :: "refresh_loop \<Rightarrow> refresh_loop \<times> unit result" where
  "refresh_stop l = (case cancel_and_await (rl_task l) of (t, r) \<Rightarrow> (l\<lparr>rl_task := t\<rparr>, r))"

interpretation refresh_service: background_service "\<lambda>l. rl_task l = Running" refresh_start refresh_stop
proof unfold_locales
  fix s s' assume "refresh_stop s = (s', Inr ())"
  then show "rl_task s' \<noteq> Running \<and> refresh_stop s' = (s', Inr ())"
    by (cases "rl_task s") (auto simp: refresh_stop_def split: if_splits)
qed (simp_all add: refresh_start_def refresh_stop_def)

section \<open>The KIS publisher and its two tasks\<close>

record kis_publisher =
  kp_symbols :: "string list"
  kp_published :: nat
  kp_task :: task_state
  kp_refresh :: refresh_loop

definition default_headroom :: time where
  "default_headroom = 30 * 60 * second"

definition KisPublisher :: "string list \<Rightarrow> time \<Rightarrow> kis_publisher" where
  "KisPublisher symbols headroom =
     \<lparr>kp_symbols = symbols, kp_published = 0, kp_task = NoTask, kp_refresh = TokenRefreshLoop headroom\<rparr>"

definition kis_publisher_running :: "kis_publisher \<Rightarrow> bool" where
  "kis_publisher_running p \<longleftrightarrow> kp_task p = Running"

definition kis_publisher_start :: "kis_publisher \<Rightarrow> kis_publisher" where
  "kis_publisher_start p =
     (if kis_publisher_running p then p
      else p\<lparr>kp_refresh := refresh_start (kp_refresh p), kp_task := Running\<rparr>)"

text \<open>The refresh loop is stopped first; when that raises, the publisher's own task is not reached.\<close>

definition kis_publisher_stop :: "kis_publisher \<Rightarrow> kis_publisher \<times> unit result" where
  "kis_publisher_stop p = (case refresh_stop (kp_refresh p) of
       (l, Inl e) \<Rightarrow> (p\<lparr>kp_refresh := l\<rparr>, Inl e)
     | (l, Inr _) \<Rightarrow> (case cancel_and_await (kp_task p) of
         (t, r) \<Rightarrow> (p\<lparr>kp_refresh := l, kp_task := t\<rparr>, r)))"

text \<open>The main task after its coroutine ended with \<open>publisher_run\<close>'s outcome.\<close>

definition kis_publisher_ends :: "kis_publisher \<Rightarrow> delivery \<times> unit result \<Rightarrow> kis_publisher" where
  "kis_publisher_ends p out = (case out of (d, r) \<Rightarrow>
     p\<lparr>kp_published := dl_published d, kp_task := end_task r (kp_task p)\<rparr>)"

lemma kis_publisher_stop_cases:
  assumes "kis_publisher_stop p = (p', r)"
  obtains (stopped) "kp_task p' = NoTask" "rl_task (kp_refresh p') = NoTask" "r = Inr ()"
    "\<nexists>e. crashed (kp_task p) e"
  | (refresh) e where "crashed (rl_task (kp_refresh p)) e" "p' = p" "r = Inl e"
  | (main) e where "crashed (kp_task p) e" "kp_task p' = kp_task p" "rl_task (kp_refresh p') = NoTask"
      "r = Inl e"
  using assms
  by (cases "rl_task (kp_refresh p)"; cases "kp_task p")
    (auto simp: kis_publisher_stop_def refresh_stop_def crashed_def split: if_splits)

interpretation kis_service: background_service kis_publisher_running kis_publisher_start kis_publisher_stop
proof unfold_locales
  fix s s' assume "kis_publisher_stop s = (s', Inr ())"
  then show "\<not> kis_publisher_running s' \<and> kis_publisher_stop s' = (s', Inr ())"
    by (cases rule: kis_publisher_stop_cases)
      (auto simp: kis_publisher_running_def kis_publisher_stop_def refresh_stop_def)
qed (simp_all add: kis_publisher_running_def kis_publisher_start_def kis_publisher_stop_def refresh_start_def
      refresh_stop_def)

section \<open>Facts\<close>

fun ticks_of :: "item list \<Rightarrow> tick list" where
  "ticks_of [] = []"
| "ticks_of (TickItem t # is) = t # ticks_of is"
| "ticks_of (QuoteItem q # is) = ticks_of is"

lemma deliver_all_ok:
  assumes "\<And>ch m. publish ch m = Inr ()" "\<And>t. f t \<noteq> Inl CancelledError"
  shows "deliver_all publish (Some f) d items =
     (d\<lparr>dl_published := dl_published d + length items,
        dl_messages := dl_messages d @ map (snd \<circ> message_of) items,
        dl_observed := dl_observed d @ ticks_of items\<rparr>, Inr ())"
proof (induction items arbitrary: d)
  case Nil
  then show ?case by simp
next
  case (Cons i "is")
  from assms Cons show ?case by (cases i) (simp_all add: deliver_def Let_def)
qed

lemma deliver_counts:
  "deliver publish obs d i = (d', r) \<Longrightarrow>
     dl_published d' + length (dl_messages d) = dl_published d + length (dl_messages d')"
  by (auto simp: deliver_def Let_def split: sum.splits item.splits option.splits if_splits)

text \<open>The two directions of the wire agree.\<close>

lemma dict_to_tick_wire:
  assumes "dict_to_tick repr w = Inr t" "wt_side w \<in> {''buy'', ''sell''}"
    and "\<And>x. wt_price w = Fin x \<Longrightarrow> fin (repr x) = Fin x"
  shows "tick_to_wire t = w"
proof -
  have l: "lower ''buy'' = ''buy''" "lower ''sell'' = ''sell''" by code_simp+
  from assms show ?thesis
    by (cases "wt_price w")
      (auto simp: dict_to_tick_def make_tick_def tick_to_wire_def float_of_decimal_def l)
qed

text \<open>A token that needs no refresh is good for the headroom.\<close>

lemma no_refresh_valid:
  assumes "\<not> needs_refresh c headroom now" "60 * second \<le> headroom" "kc_access_token c \<noteq> JNull"
  shows "is_token_valid c now"
  using assms by (auto simp: needs_refresh_def is_token_valid_def split: option.splits)

section \<open>Properties\<close>

text \<open>
  C21: The publisher delivers everything, once and in order. On a connected session with a
  working socket and a working Redis, whatever the observer raises short of a cancellation,
  every tick and quote of the stream becomes one message, in order, the observer sees exactly
  the ticks, in order, and the counter counts the messages; the loop then ends as the stream
  does.
\<close>

theorem publisher_delivers_in_order:
  assumes "reachable_session sp c" "kc_state c = Connected"
    and "\<And>ch m. publish ch m = Inr ()" "\<And>t. f t \<noteq> Inl CancelledError"
    and "stream_ticks loads frames = (items, sent, r)"
  shows "publisher_run (\<lambda>j. Inr ()) c symbols loads frames publish (Some f)
       \<lparr>dl_published = 0, dl_messages = [], dl_observed = []\<rparr>
     = (\<lparr>dl_published = length items, dl_messages = map (snd \<circ> message_of) items,
          dl_observed = ticks_of items\<rparr>, r)"
proof -
  from reachable_session_inv [OF assms(1)] assms(2)
  have "snd (subscribe (\<lambda>j. Inr ()) c symbols tr) = Inr ()" "stream_start c = Inr ()" for tr
    by (auto simp: session_inv_def subscribe_def stream_start_def send_all_ok)
  then show ?thesis
    by (simp add: publisher_run_def assms(5) deliver_all_ok [OF assms(3,4)])
qed

theorem publisher_delivers_in_order_witness:
  "fst (publisher_run (\<lambda>j. Inr ()) connected_sample [''005930''] no_json
      [(0, ''1|secret''), (0, ''?'')] (\<lambda>ch m. Inr ()) (Some (\<lambda>t. Inl RuntimeError))
      \<lparr>dl_published = 0, dl_messages = [], dl_observed = []\<rparr>)
   = \<lparr>dl_published = 0, dl_messages = [], dl_observed = []\<rparr>"
proof -
  have s: "stream_ticks no_json [(0, ''1|secret''), (0, ''?'')] = ([], [], Inr ())"
    by (simp add: route_frame_def)
  have "kc_state connected_sample = Connected" by (simp add: connected_sample_def)
  from publisher_delivers_in_order [OF connected_sample_reachable this _ _ s] show ?thesis by simp
qed

end
