(* ===== verification/Mock_Publisher.thy ===== *)
theory Mock_Publisher
  imports Publishers
begin

text \<open>
  \<open>src/src/infrastructure/mock_publisher.py\<close>: synthetic ticks and quotes in the wire format of
  \<open>Publishers\<close>. Random draws are arguments.
\<close>

section \<open>State\<close>

definition seeded_tickers :: "string list" where
  "seeded_tickers = [''005930'', ''000660'', ''035420'', ''035720'', ''105560'', ''055550'', ''086790'',
     ''005380'', ''005490'', ''051910'', ''207940'', ''068270'']"

definition base_prices :: "(string \<times> float64) list" where
  "base_prices = [(''005930'', Fin 79000), (''000660'', Fin 197000), (''035420'', Fin 215000),
     (''035720'', Fin 50500), (''105560'', Fin 84300), (''055550'', Fin 47900), (''086790'', Fin 65700),
     (''005380'', Fin 245000), (''005490'', Fin 412000), (''051910'', Fin 387000),
     (''207940'', Fin 1055000), (''068270'', Fin 198500)]"

record mock_publisher =
  mp_prices :: "string \<Rightarrow> float64 option"
  mp_published :: nat
  mp_quote_counter :: nat
  mp_task :: task_state

definition MockPublisher :: mock_publisher where
  "MockPublisher = \<lparr>mp_prices = map_of base_prices, mp_published = 0, mp_quote_counter = 0, mp_task = NoTask\<rparr>"

definition mock_running :: "mock_publisher \<Rightarrow> bool" where
  "mock_running m \<longleftrightarrow> mp_task m = Running"

definition mock_start :: "mock_publisher \<Rightarrow> mock_publisher" where
  "mock_start m = (if mock_running m then m else m\<lparr>mp_task := Running\<rparr>)"

definition mock_stop :: "mock_publisher \<Rightarrow> mock_publisher \<times> unit result" where
  "mock_stop m = (case cancel_and_await (mp_task m) of (t, r) \<Rightarrow> (m\<lparr>mp_task := t\<rparr>, r))"

section \<open>Draws\<close>

text \<open>The draws of one tick: symbol, Gaussian, volume, side.\<close>

record mock_draw =
  md_symbol :: string
  md_gauss :: float64
  md_volume :: int
  md_side :: string

text \<open>What \<open>random.choice\<close> and \<open>random.randint\<close> may return.\<close>

definition drawable :: "mock_draw \<Rightarrow> bool" where
  "drawable r \<longleftrightarrow> md_symbol r \<in> set seeded_tickers \<and> 100 \<le> md_volume r \<and> md_volume r \<le> 10000 \<and>
     md_side r \<in> {''buy'', ''sell''}"

definition drift_std :: float64 where "drift_std = fin (2 / 1000)"

definition mock_next_tick :: "mock_publisher \<Rightarrow> mock_draw \<Rightarrow> time \<Rightarrow> (mock_publisher \<times> wire_tick) result" where
  "mock_next_tick m r now = (case mp_prices m (md_symbol r) of
       None \<Rightarrow> Inl KeyError
     | Some price \<Rightarrow>
         let s = md_symbol r; drift = fmul (md_gauss r) drift_std;
             p = fmax (Fin 1) (fmul price (fadd (Fin 1) drift))
         in Inr (m\<lparr>mp_prices := (mp_prices m)(s \<mapsto> p)\<rparr>,
              \<lparr>wt_symbol = s, wt_ms = now div 1000, wt_price = round_digits 2 p,
               wt_volume = md_volume r, wt_side = md_side r\<rparr>))"

definition mock_next_quote ::
    "string \<Rightarrow> float64 \<Rightarrow> (nat \<Rightarrow> int) \<Rightarrow> (nat \<Rightarrow> int) \<Rightarrow> time \<Rightarrow> wire_quote result" where
  "mock_next_quote s mid_price ask_volume bid_volume now =
     bind_result (int_of_float mid_price) (\<lambda>mid.
     Inr \<lparr>wq_symbol = s, wq_ms = now div 1000,
          wq_bids = map (\<lambda>i. (mid - 100 * (int i + 1), bid_volume i)) [0 ..< 5],
          wq_asks = map (\<lambda>i. (mid + 100 * (int i + 1), ask_volume i)) [0 ..< 5]\<rparr>)"

section \<open>The loop\<close>

text \<open>One round of the loop, up to the sleep: the messages sent and the ticks observed.\<close>

definition mock_round ::
    "(rat \<Rightarrow> rat) \<Rightarrow> redis \<Rightarrow> observer option \<Rightarrow> mock_publisher \<Rightarrow> mock_draw \<Rightarrow> (nat \<Rightarrow> int) \<Rightarrow> (nat \<Rightarrow> int)
     \<Rightarrow> time \<Rightarrow> mock_publisher \<times> message list \<times> tick list \<times> unit result" where
  "mock_round repr publish obs m r av bv now =
     (case mock_next_tick m r now of
        Inl e \<Rightarrow> (m, [], [], Inl e)
      | Inr (m1, w) \<Rightarrow> (case publish CHANNEL_TICK (MsgTick w) of
          Inl e \<Rightarrow> (m1, [], [], Inl e)
        | Inr _ \<Rightarrow>
           let m2 = m1\<lparr>mp_published := Suc (mp_published m1)\<rparr>;
               (seen, cancelled) = (case obs of
                   None \<Rightarrow> ([], False)
                 | Some f \<Rightarrow> (case dict_to_tick repr w of
                     Inl e \<Rightarrow> ([], False)
                   | Inr t \<Rightarrow> ([t], f t = Inl CancelledError)))
           in if cancelled then (m2, [MsgTick w], seen, Inl CancelledError)
              else if mp_quote_counter m2 + 1 < 4
              then (m2\<lparr>mp_quote_counter := mp_quote_counter m2 + 1\<rparr>, [MsgTick w], seen, Inr ())
              else
                let m3 = m2\<lparr>mp_quote_counter := 0\<rparr> in
                case mock_next_quote (wt_symbol w) (wt_price w) av bv now of
                  Inl e \<Rightarrow> (m3, [MsgTick w], seen, Inl e)
                | Inr q \<Rightarrow> (case publish CHANNEL_QUOTE (MsgQuote q) of
                    Inl e \<Rightarrow> (m3, [MsgTick w], seen, Inl e)
                  | Inr _ \<Rightarrow> (m3\<lparr>mp_published := Suc (mp_published m3)\<rparr>, [MsgTick w, MsgQuote q], seen, Inr ()))))"

text \<open>Rounds with their draws and clock readings, up to the first that raises and ends the task.\<close>

record round_input =
  ri_draw :: mock_draw
  ri_asks :: "nat \<Rightarrow> int"
  ri_bids :: "nat \<Rightarrow> int"
  ri_now :: time

fun mock_rounds ::
    "(rat \<Rightarrow> rat) \<Rightarrow> redis \<Rightarrow> observer option \<Rightarrow> mock_publisher \<Rightarrow> round_input list
     \<Rightarrow> mock_publisher \<times> message list \<times> unit result" where
  "mock_rounds repr publish obs m [] = (m, [], Inr ())"
| "mock_rounds repr publish obs m (i # is) =
     (case mock_round repr publish obs m (ri_draw i) (ri_asks i) (ri_bids i) (ri_now i) of
        (m1, ms, seen, Inl e) \<Rightarrow> (m1\<lparr>mp_task := end_task (Inl e) (mp_task m1)\<rparr>, ms, Inl e)
      | (m1, ms, seen, Inr _) \<Rightarrow> (case mock_rounds repr publish obs m1 is of
          (m2, ms', r) \<Rightarrow> (m2, ms @ ms', r)))"

section \<open>Facts\<close>

interpretation mock_service: background_service mock_running mock_start mock_stop
proof unfold_locales
  fix s s' assume "mock_stop s = (s', Inr ())"
  then show "\<not> mock_running s' \<and> mock_stop s' = (s', Inr ())"
    by (cases "mp_task s") (auto simp: mock_running_def mock_stop_def split: if_splits)
qed (simp_all add: mock_running_def mock_start_def mock_stop_def)

lemma mock_quote_levels:
  assumes "mock_next_quote s p av bv now = Inr q" "int_of_float p = Inr mid"
  shows "wq_bids q = map (\<lambda>i. (mid - 100 * (int i + 1), bv i)) [0 ..< 5]"
    "wq_asks q = map (\<lambda>i. (mid + 100 * (int i + 1), av i)) [0 ..< 5]"
  using assms by (auto simp: mock_next_quote_def)

text \<open>A price never falls below one won; it may overflow to infinity, never to NaN.\<close>

definition floored :: "float64 \<Rightarrow> bool" where
  "floored p \<longleftrightarrow> p = PInf \<or> (\<exists>x \<ge> 1. p = Fin x)"

definition mock_ok :: "mock_publisher \<Rightarrow> bool" where
  "mock_ok m \<longleftrightarrow> (\<forall>s \<in> set seeded_tickers. \<exists>p. mp_prices m s = Some p \<and> floored p) \<and> mp_quote_counter m < 4"

lemma MockPublisher_ok: "mock_ok MockPublisher"
  by (simp add: mock_ok_def MockPublisher_def seeded_tickers_def base_prices_def floored_def)

lemma floored_fmax: "floored (fmax (Fin 1) x)"
  by (cases x) (auto simp: floored_def fmax_def)

lemma floored_round: "floored p \<Longrightarrow> floored (round_digits 2 p)"
proof (cases p)
  case (Fin x)
  assume "floored p"
  with Fin have "of_int 100 \<le> x * 10 ^ 2" by (simp add: floored_def)
  then have "100 \<le> round_even (x * 10 ^ 2)" by (rule round_even_ge_int)
  then have "(1 :: rat) \<le> of_int (round_even (x * 10 ^ 2)) / 10 ^ 2" by simp
  then have "1 \<le> rnd (of_int (round_even (x * 10 ^ 2)) / 10 ^ 2)" (is "1 \<le> ?y")
    using rnd_ge_int [of 1 "of_int (round_even (x * 10 ^ 2)) / 10 ^ 2"] by simp
  with Fin show ?thesis by (auto simp: floored_def fin_def Let_def)
qed (auto simp: floored_def)

text \<open>A quote is one book of five levels a side around the price, never crossed.\<close>

definition mock_book :: "wire_quote \<Rightarrow> bool" where
  "mock_book q \<longleftrightarrow> length (wq_bids q) = 5 \<and> length (wq_asks q) = 5 \<and>
     (\<forall>b \<in> set (wq_bids q). \<forall>a \<in> set (wq_asks q). fst b < fst a)"

lemma mock_next_quote_book: "mock_next_quote s p av bv now = Inr q \<Longrightarrow> mock_book q \<and> wq_symbol q = s"
  by (auto simp: mock_next_quote_def mock_book_def elim!: bind_result_InrE)

lemma mock_next_quote_floored:
  "floored p \<Longrightarrow> mock_next_quote s p av bv now = Inl e \<Longrightarrow> p = PInf \<and> e = OverflowError"
  by (auto simp: mock_next_quote_def floored_def bind_result_Inl_iff)

definition seeded_message :: "message \<Rightarrow> bool" where
  "seeded_message x = (case x of
       MsgTick w \<Rightarrow> wt_symbol w \<in> set seeded_tickers \<and> floored (wt_price w)
     | MsgQuote q \<Rightarrow> wq_symbol q \<in> set seeded_tickers \<and> mock_book q)"

fun is_tick_message :: "message \<Rightarrow> bool" where
  "is_tick_message (MsgTick w) = True"
| "is_tick_message (MsgQuote q) = False"

definition never_cancels :: "observer option \<Rightarrow> bool" where
  "never_cancels obs \<longleftrightarrow> (\<forall>f t. obs = Some f \<longrightarrow> f t \<noteq> Inl CancelledError)"

lemma mock_next_tick_ok:
  assumes "mock_ok m" "drawable r"
  obtains p where "mock_next_tick m r now = Inr (m\<lparr>mp_prices := (mp_prices m)(md_symbol r \<mapsto> p)\<rparr>,
      \<lparr>wt_symbol = md_symbol r, wt_ms = now div 1000, wt_price = round_digits 2 p, wt_volume = md_volume r,
       wt_side = md_side r\<rparr>)" "floored p" "mock_ok (m\<lparr>mp_prices := (mp_prices m)(md_symbol r \<mapsto> p)\<rparr>)"
proof -
  from assms obtain price where "mp_prices m (md_symbol r) = Some price"
    by (auto simp: mock_ok_def drawable_def)
  moreover have "mock_ok (m\<lparr>mp_prices := (mp_prices m)(md_symbol r \<mapsto> fmax (Fin 1) x)\<rparr>)" for x
    using assms floored_fmax by (auto simp: mock_ok_def)
  ultimately show ?thesis
    by (intro that [OF _ floored_fmax]) (simp_all add: mock_next_tick_def Let_def)
qed

lemma mock_round_shape:
  assumes "mock_ok m" "drawable r" "\<And>ch x. publish ch x = Inr ()" "never_cancels obs"
    and "mock_round repr publish obs m r av bv now = (m', ms, seen, res)"
  shows "mock_ok m'" "mp_task m' = mp_task m" "mp_published m' = mp_published m + length ms"
    "list_all seeded_message ms" "length (filter is_tick_message ms) = 1"
    "res = Inr () \<and> mp_quote_counter m' = (mp_quote_counter m + 1) mod 4 \<and>
       length ms = (if mp_quote_counter m = 3 then 2 else 1)
     \<or> res = Inl OverflowError \<and> (\<exists>w. MsgTick w \<in> set ms \<and> wt_price w = PInf)"
proof -
  obtain p where n: "mock_next_tick m r now = Inr (m\<lparr>mp_prices := (mp_prices m)(md_symbol r \<mapsto> p)\<rparr>,
      \<lparr>wt_symbol = md_symbol r, wt_ms = now div 1000, wt_price = round_digits 2 p, wt_volume = md_volume r,
       wt_side = md_side r\<rparr>)" "floored p" "mock_ok (m\<lparr>mp_prices := (mp_prices m)(md_symbol r \<mapsto> p)\<rparr>)"
    by (rule mock_next_tick_ok [OF assms(1,2)])
  from floored_round [OF n(2)] have f: "floored (round_digits 2 p)" .
  have s: "md_symbol r \<in> set seeded_tickers" using assms(2) by (simp add: drawable_def)
  have c: "mp_quote_counter m < 4" using assms(1) by (simp add: mock_ok_def)
  define w where "w = \<lparr>wt_symbol = md_symbol r, wt_ms = now div 1000, wt_price = round_digits 2 p,
     wt_volume = md_volume r, wt_side = md_side r\<rparr>"
  define seen' where "seen' = (case obs of None \<Rightarrow> [] | Some f \<Rightarrow>
     (case dict_to_tick repr w of Inl e \<Rightarrow> [] | Inr t \<Rightarrow> [t]))"
  let ?m = "m\<lparr>mp_prices := (mp_prices m)(md_symbol r \<mapsto> p), mp_published := Suc (mp_published m)\<rparr>"
  have obs: "(case obs of None \<Rightarrow> ([], False) | Some f \<Rightarrow> (case dict_to_tick repr w of
      Inl e \<Rightarrow> ([], False) | Inr t \<Rightarrow> ([t], f t = Inl CancelledError))) = (seen', False)"
    using assms(4) by (auto simp: seen'_def never_cancels_def split: option.splits sum.splits)
  have run: "(m', ms, seen, res) = (if mp_quote_counter m + 1 < 4
         then (?m\<lparr>mp_quote_counter := mp_quote_counter m + 1\<rparr>, [MsgTick w], seen', Inr ())
         else case mock_next_quote (md_symbol r) (wt_price w) av bv now of
             Inl e \<Rightarrow> (?m\<lparr>mp_quote_counter := 0\<rparr>, [MsgTick w], seen', Inl e)
           | Inr q \<Rightarrow> (?m\<lparr>mp_quote_counter := 0, mp_published := Suc (Suc (mp_published m))\<rparr>,
                       [MsgTick w, MsgQuote q], seen', Inr ()))"
    unfolding assms(5) [symmetric] mock_round_def n(1) w_def [symmetric] sum.case prod.case assms(3) obs Let_def
    by (simp add: w_def split: sum.splits)
  have w: "wt_symbol w = md_symbol r" "floored (wt_price w)" using f by (simp_all add: w_def)
  show "mock_ok m'" "mp_task m' = mp_task m" "mp_published m' = mp_published m + length ms"
    "list_all seeded_message ms" "length (filter is_tick_message ms) = 1"
    using run n(3) w s
    by (auto simp: seeded_message_def mock_ok_def split: sum.splits if_splits dest!: mock_next_quote_book)
  show "res = Inr () \<and> mp_quote_counter m' = (mp_quote_counter m + 1) mod 4 \<and>
       length ms = (if mp_quote_counter m = 3 then 2 else 1)
     \<or> res = Inl OverflowError \<and> (\<exists>w. MsgTick w \<in> set ms \<and> wt_price w = PInf)"
    using run c by (auto split: sum.splits if_splits dest!: mock_next_quote_floored [OF w(2)])
qed

lemma mock_rounds_shape:
  assumes "mock_ok m" "\<And>ch x. publish ch x = Inr ()" "never_cancels obs"
    and "\<forall>i \<in> set is. drawable (ri_draw i)" and "mock_rounds repr publish obs m is = (m', ms, res)"
  shows "mock_ok m' \<and> mp_published m' = mp_published m + length ms \<and> list_all seeded_message ms \<and>
     (res = Inr () \<and> mp_task m' = mp_task m \<and> length (filter is_tick_message ms) = length is \<and>
        length ms = length is + (mp_quote_counter m + length is) div 4
      \<or> res = Inl OverflowError \<and> mp_task m' = end_task res (mp_task m) \<and>
        (\<exists>w. MsgTick w \<in> set ms \<and> wt_price w = PInf))"
  using assms(1,4,5)
proof (induction "is" arbitrary: m ms)
  case Nil
  then show ?case by (simp add: mock_ok_def)
next
  case (Cons i "is")
  obtain m1 ms1 seen r1 where r: "mock_round repr publish obs m (ri_draw i) (ri_asks i) (ri_bids i) (ri_now i)
      = (m1, ms1, seen, r1)" by (cases "mock_round repr publish obs m (ri_draw i) (ri_asks i) (ri_bids i) (ri_now i)")
  have d: "drawable (ri_draw i)" "\<forall>i \<in> set is. drawable (ri_draw i)" using Cons.prems(2) by simp_all
  note one = mock_round_shape [OF Cons.prems(1) d(1) assms(2,3) r]
  show ?case
  proof (cases r1)
    case (Inl e)
    with one Cons.prems(3) r show ?thesis by (auto simp: mock_ok_def)
  next
    case (Inr u)
    obtain m2 ms2 r2 where t: "mock_rounds repr publish obs m1 is = (m2, ms2, r2)"
      by (cases "mock_rounds repr publish obs m1 is")
    from Cons.prems(3) r Inr t have e: "m' = m2" "ms = ms1 @ ms2" "res = r2" by simp_all
    have c: "mp_quote_counter m < 4" using Cons.prems(1) by (simp add: mock_ok_def)
    have k: "mp_quote_counter m1 = (mp_quote_counter m + 1) mod 4"
      "length ms1 = (if mp_quote_counter m = 3 then 2 else 1)" using one(6) Inr by auto
    have "(if mp_quote_counter m = 3 then 2 else 1) + (length is + ((mp_quote_counter m + 1) mod 4 + length is) div 4)
        = length (i # is) + (mp_quote_counter m + length (i # is)) div 4"
      using c by (cases "mp_quote_counter m = 3") simp_all
    with Cons.IH [OF one(1) d(2) t [folded e(1,3)]] one k e show ?thesis by auto
  qed
qed

section \<open>Properties\<close>

text \<open>
  The mock keeps the canvas alive. With a working Redis and whatever the observer raises
  short of a cancellation, \<open>n\<close> rounds of a started mock publisher send \<open>n\<close> ticks and an
  uncrossed five-level quote after each fourth, all for seeded symbols and at one won or more,
  counted one by one, and leave it running; the one way it can die is a price that has overflowed
  to infinity.
\<close>

lemma mock_stream_shape:
  assumes "\<And>ch x. publish ch x = Inr ()" "never_cancels obs"
    and "\<forall>i \<in> set is. drawable (ri_draw i)"
    and "mock_rounds repr publish obs (mock_start MockPublisher) is = (m', ms, res)"
  shows "mp_published m' = length ms \<and> list_all seeded_message ms \<and>
     (res = Inr () \<and> mock_running m' \<and> length (filter is_tick_message ms) = length is \<and>
        length ms = length is + length is div 4
      \<or> res = Inl OverflowError \<and> mp_task m' = Ended OverflowError \<and> (\<exists>w. MsgTick w \<in> set ms \<and> wt_price w = PInf))"
proof -
  have "mock_ok (mock_start MockPublisher)" using MockPublisher_ok by (simp add: mock_ok_def mock_start_def)
  from mock_rounds_shape [OF this assms] show ?thesis
    by (auto simp: mock_start_def MockPublisher_def mock_running_def)
qed

definition still_draw :: round_input where
  "still_draw = \<lparr>ri_draw = \<lparr>md_symbol = ''005930'', md_gauss = Fin 0, md_volume = 100, md_side = ''buy''\<rparr>,
     ri_asks = (\<lambda>i. 500), ri_bids = (\<lambda>i. 500), ri_now = 0\<rparr>"

lemma mock_stream_shape_example:
  "\<exists>m' ms res. mock_rounds id (\<lambda>ch x. Inr ()) None (mock_start MockPublisher) [still_draw, still_draw] = (m', ms, res) \<and>
     mp_published m' = length ms"
proof -
  obtain m' ms res where r: "mock_rounds id (\<lambda>ch x. Inr ()) None (mock_start MockPublisher) [still_draw, still_draw]
      = (m', ms, res)" by (cases "mock_rounds id (\<lambda>ch x. Inr ()) None (mock_start MockPublisher) [still_draw, still_draw]")
  have "\<forall>i \<in> set [still_draw, still_draw]. drawable (ri_draw i)"
    by (simp add: still_draw_def drawable_def seeded_tickers_def)
  from mock_stream_shape [OF _ _ this r] r show ?thesis by (auto simp: never_cancels_def)
qed

end
