(* ===== verification/Supervisor.thy ===== *)
theory Supervisor
  imports Mock_Publisher
begin

text \<open>
  \<open>src/src/infrastructure/publisher_supervisor.py\<close>: which publisher runs. The supervisor owns the
  active publisher with its tasks, the KIS client they share, and the watchdog. What the network
  answers during bring-up and close are arguments.
\<close>

section \<open>State\<close>

datatype publisher_kind = KisPub | MockPub

datatype active_publisher = ActiveKis kis_publisher | ActiveMock mock_publisher

record supervisor =
  sv_development :: bool
  sv_app_key :: string
  sv_app_secret :: string
  sv_symbols :: "string list"
  sv_active :: "active_publisher option"
  sv_kis_client :: "kis_client option"
  sv_watchdog :: task_state
  sv_failover_count :: nat

definition PublisherSupervisor :: "bool \<Rightarrow> string \<Rightarrow> string \<Rightarrow> string list \<Rightarrow> supervisor" where
  "PublisherSupervisor dev key secret symbols =
     \<lparr>sv_development = dev, sv_app_key = key, sv_app_secret = secret, sv_symbols = symbols,
      sv_active = None, sv_kis_client = None, sv_watchdog = NoTask, sv_failover_count = 0\<rparr>"

definition has_kis_creds :: "supervisor \<Rightarrow> bool" where
  "has_kis_creds s \<longleftrightarrow> sv_app_key s \<noteq> [] \<and> sv_app_secret s \<noteq> []"

definition active_kind :: "supervisor \<Rightarrow> publisher_kind option" where
  "active_kind s = map_option (\<lambda>a. case a of ActiveKis _ \<Rightarrow> KisPub | ActiveMock _ \<Rightarrow> MockPub) (sv_active s)"

text \<open>The protocol the two publishers share.\<close>

fun active_running :: "active_publisher \<Rightarrow> bool" where
  "active_running (ActiveKis p) = kis_publisher_running p"
| "active_running (ActiveMock m) = mock_running m"

fun active_start :: "active_publisher \<Rightarrow> active_publisher" where
  "active_start (ActiveKis p) = ActiveKis (kis_publisher_start p)"
| "active_start (ActiveMock m) = ActiveMock (mock_start m)"

fun active_stop :: "active_publisher \<Rightarrow> active_publisher \<times> unit result" where
  "active_stop (ActiveKis p) = (case kis_publisher_stop p of (p', r) \<Rightarrow> (ActiveKis p', r))"
| "active_stop (ActiveMock m) = (case mock_stop m of (m', r) \<Rightarrow> (ActiveMock m', r))"

interpretation active_service: background_service active_running active_start active_stop
proof unfold_locales
  show "active_running (active_start a)" for a
    by (cases a) (simp_all add: kis_service.start_running mock_service.start_running)
  show "active_start a = a" if "active_running a" for a
    using that by (cases a) (simp_all add: kis_service.start_again mock_service.start_again)
  show "snd (active_stop (active_start a)) = Inr ()" if "\<not> active_running a" for a
    using that by (cases a) (simp_all add: case_prod_beta kis_service.stop_started mock_service.stop_started)
  show "\<not> active_running a' \<and> active_stop a' = (a', Inr ())" if "active_stop a = (a', Inr ())" for a a'
    using that kis_service.stop_stops mock_service.stop_stops
    by (cases a) (auto split: prod.splits)
qed

section \<open>Bring-up\<close>

text \<open>The clock readings and answers of one bring-up.\<close>

record bringup =
  bu_now :: time
  bu_token :: http
  bu_later :: time
  bu_connect_now :: time
  bu_approval :: http
  bu_ws :: ws_answer
  bu_close :: "unit result"

definition bring_up :: "(string \<Rightarrow> time result) \<Rightarrow> kis_client \<Rightarrow> bringup \<Rightarrow> kis_client \<times> unit result" where
  "bring_up sp c b = (case authenticate sp c False (bu_now b) (bu_token b) (bu_later b) of
       (c1, Inl e) \<Rightarrow> (c1, Inl e)
     | (c1, Inr _) \<Rightarrow> connect c1 (bu_connect_now b) (bu_approval b) (bu_ws b))"

text \<open>A KIS error is a failed bring-up; only a cancellation leaves the clean-up of its client.\<close>

definition try_start_kis ::
    "(string \<Rightarrow> time result) \<Rightarrow> supervisor \<Rightarrow> bringup \<Rightarrow> supervisor \<times> bool result" where
  "try_start_kis sp s b = (case bring_up sp (KisClient (sv_app_key s) (sv_app_secret s)) b of
       (c, Inl e) \<Rightarrow> (s, if is_kis_error e then bind_result (snd (close c (bu_close b))) (\<lambda>_. Inr False) else Inl e)
     | (c, Inr _) \<Rightarrow>
         (s\<lparr>sv_kis_client := Some c,
            sv_active := Some (active_start (ActiveKis (KisPublisher (sv_symbols s) default_headroom)))\<rparr>, Inr True))"

definition start_mock :: "supervisor \<Rightarrow> supervisor" where
  "start_mock s = s\<lparr>sv_active := Some (active_start (ActiveMock MockPublisher))\<rparr>"

definition start_fallback :: "supervisor \<Rightarrow> supervisor" where
  "start_fallback s = (if sv_development s then start_mock s else s)"

definition supervisor_start ::
    "(string \<Rightarrow> time result) \<Rightarrow> supervisor \<Rightarrow> bringup \<Rightarrow> supervisor \<times> unit result" where
  "supervisor_start sp s b =
     (if has_kis_creds s then
        (case try_start_kis sp s b of
           (s1, Inl e) \<Rightarrow> (s1, Inl e)
         | (s1, Inr True) \<Rightarrow> (s1\<lparr>sv_watchdog := Running\<rparr>, Inr ())
         | (s1, Inr False) \<Rightarrow> (start_fallback s1, Inr ()))
      else (start_fallback s, Inr ()))"

section \<open>Stop and failover\<close>

definition stop_active :: "supervisor \<Rightarrow> supervisor \<times> unit result" where
  "stop_active s = (case sv_active s of
       None \<Rightarrow> (s, Inr ())
     | Some a \<Rightarrow> (case active_stop a of (a', r) \<Rightarrow> (s\<lparr>sv_active := Some a'\<rparr>, r)))"

definition close_kis_client :: "supervisor \<Rightarrow> unit result \<Rightarrow> supervisor \<times> unit result" where
  "close_kis_client s ws_close = (case sv_kis_client s of
       None \<Rightarrow> (s, Inr ())
     | Some c \<Rightarrow> (case close c ws_close of
         (c', Inl e) \<Rightarrow> (s\<lparr>sv_kis_client := Some c'\<rparr>, Inl e)
       | (c', Inr _) \<Rightarrow> (s\<lparr>sv_kis_client := None\<rparr>, Inr ())))"

definition supervisor_stop :: "supervisor \<Rightarrow> unit result \<Rightarrow> supervisor \<times> unit result" where
  "supervisor_stop s ws_close = (case cancel_and_await (sv_watchdog s) of
       (t, Inl e) \<Rightarrow> (s\<lparr>sv_watchdog := t\<rparr>, Inl e)
     | (t, Inr _) \<Rightarrow> (case stop_active (s\<lparr>sv_watchdog := t\<rparr>) of
         (s1, Inl e) \<Rightarrow> (s1, Inl e)
       | (s1, Inr _) \<Rightarrow> close_kis_client (s1\<lparr>sv_active := None\<rparr>) ws_close))"

text \<open>\<open>except Exception\<close> around each clean-up call: only a cancellation gets through.\<close>

definition failover_to_mock :: "supervisor \<Rightarrow> unit result \<Rightarrow> supervisor \<times> unit result" where
  "failover_to_mock s ws_close =
     (case stop_active (s\<lparr>sv_failover_count := Suc (sv_failover_count s)\<rparr>) of (s1, r1) \<Rightarrow>
      if r1 = Inl CancelledError then (s1, r1)
      else case close_kis_client s1 ws_close of
          (s2, Inl e) \<Rightarrow> if e = CancelledError then (s2, Inl e) else (start_mock (s2\<lparr>sv_kis_client := None\<rparr>), Inr ())
        | (s2, Inr _) \<Rightarrow> (start_mock s2, Inr ()))"

text \<open>One round of the watchdog after its sleep; it ends after a failover.\<close>

definition watch_round :: "supervisor \<Rightarrow> unit result \<Rightarrow> supervisor \<times> unit result" where
  "watch_round s ws_close =
     (if sv_watchdog s \<noteq> Running then (s, Inr ())
      else case sv_active s of
          None \<Rightarrow> (s, Inr ())
        | Some a \<Rightarrow>
            if active_running a then (s, Inr ())
            else (case failover_to_mock s ws_close of
                (s1, r) \<Rightarrow> (s1\<lparr>sv_watchdog := end_task r (sv_watchdog s1)\<rparr>, r)))"

section \<open>Reachable supervisors\<close>

text \<open>
  \<open>MainEnds r\<close> is the active publisher's main coroutine ending with \<open>r\<close>; \<open>Refresh\<close> is a round
  of the KIS publisher's refresh loop.
\<close>

datatype supervisor_op =
    Start bringup
  | Stop "unit result"
  | Watch "unit result"
  | Refresh time http time
  | MainEnds "unit result"

fun main_ends :: "unit result \<Rightarrow> active_publisher \<Rightarrow> active_publisher" where
  "main_ends r (ActiveKis p) = ActiveKis (p\<lparr>kp_task := end_task r (kp_task p)\<rparr>)"
| "main_ends r (ActiveMock m) = ActiveMock (m\<lparr>mp_task := end_task r (mp_task m)\<rparr>)"

definition active_refresh ::
    "(string \<Rightarrow> time result) \<Rightarrow> supervisor \<Rightarrow> time \<Rightarrow> http \<Rightarrow> time \<Rightarrow> supervisor" where
  "active_refresh sp s now h later = (case (sv_active s, sv_kis_client s) of
       (Some (ActiveKis p), Some c) \<Rightarrow> (case refresh_step sp c (kp_refresh p) now h later of
         (c', l) \<Rightarrow> s\<lparr>sv_kis_client := Some c', sv_active := Some (ActiveKis (p\<lparr>kp_refresh := l\<rparr>))\<rparr>)
     | _ \<Rightarrow> s)"

fun supervisor_step :: "(string \<Rightarrow> time result) \<Rightarrow> supervisor \<Rightarrow> supervisor_op \<Rightarrow> supervisor" where
  "supervisor_step sp s (Start b) = fst (supervisor_start sp s b)"
| "supervisor_step sp s (Stop r) = fst (supervisor_stop s r)"
| "supervisor_step sp s (Watch r) = fst (watch_round s r)"
| "supervisor_step sp s (Refresh now h later) = active_refresh sp s now h later"
| "supervisor_step sp s (MainEnds r) = s\<lparr>sv_active := map_option (main_ends r) (sv_active s)\<rparr>"

abbreviation supervisor_steps ::
    "(string \<Rightarrow> time result) \<Rightarrow> supervisor \<Rightarrow> supervisor_op list \<Rightarrow> supervisor" where
  "supervisor_steps sp \<equiv> foldl (supervisor_step sp)"

section \<open>Invariants\<close>

text \<open>
  The KIS publisher never runs without its client, there is no client without credentials, the
  client is always a state of the session machine, and the watchdog ends by nothing but itself or
  a cancellation, so that \<open>stop\<close> never fails on it.
\<close>

definition supervisor_inv :: "(string \<Rightarrow> time result) \<Rightarrow> supervisor \<Rightarrow> bool" where
  "supervisor_inv sp s \<longleftrightarrow>
     (active_kind s = Some KisPub \<longrightarrow> sv_kis_client s \<noteq> None) \<and>
     (\<not> has_kis_creds s \<longrightarrow> sv_kis_client s = None) \<and>
     (\<forall>c. sv_kis_client s = Some c \<longrightarrow> reachable_session sp c) \<and>
     (\<forall>e. \<not> crashed (sv_watchdog s) e)"

lemma close_answers: "close c r = (c', q) \<Longrightarrow> q = Inr () \<or> q = Inl CancelledError"
  by (auto simp: close_def split: if_splits)

lemma refresh_step_session:
  assumes "reachable_session sp c" "refresh_step sp c l now h later = (c', l')"
  shows "reachable_session sp c'" "kc_ws c' = kc_ws c"
proof -
  have "c' = c \<or> (\<exists>r. authenticate sp c True now h later = (c', r))"
    using assms(2) by (auto simp: refresh_step_def refresh_round_def split: if_splits prod.splits sum.splits)
  then show "reachable_session sp c'" "kc_ws c' = kc_ws c"
    using assms(1) reachable_session.step [of sp c "Authenticate True now h later"] authenticate_keeps(1)
    by auto
qed

lemma bring_up_session:
  assumes "bring_up sp (KisClient key secret) b = (c, r)"
  shows "reachable_session sp c" "r = Inr () \<Longrightarrow> kc_state c = Connected \<and> kc_ws c \<noteq> None"
proof -
  obtain c1 r1 where a: "authenticate sp (KisClient key secret) False (bu_now b) (bu_token b) (bu_later b) = (c1, r1)"
    by (cases "authenticate sp (KisClient key secret) False (bu_now b) (bu_token b) (bu_later b)")
  have c1: "reachable_session sp c1"
    by (rule reachable_session.step [OF reachable_session.fresh,
          where opr = "Authenticate False (bu_now b) (bu_token b) (bu_later b)"]) (use a in simp)
  show "reachable_session sp c"
  proof (cases r1)
    case (Inl e)
    with assms a c1 show ?thesis by (simp add: bring_up_def)
  next
    case (Inr u)
    with assms a have "connect c1 (bu_connect_now b) (bu_approval b) (bu_ws b) = (c, r)" by (simp add: bring_up_def)
    with c1 show ?thesis
      by (intro reachable_session.step [OF c1, where opr = "Connect (bu_connect_now b) (bu_approval b) (bu_ws b)"]) simp
  qed
  have "kc_ws c1 = None" using authenticate_keeps(1) [OF a] by (simp add: KisClient_def)
  then show "kc_state c = Connected \<and> kc_ws c \<noteq> None" if "r = Inr ()"
    using assms a that
    by (auto simp: bring_up_def connect_def Let_def split: sum.splits if_splits ws_answer.splits)
qed

text \<open>A client that failed to come up has no WebSocket: the clean-up cannot fail either.\<close>

lemma failed_bring_up:
  assumes "bring_up sp (KisClient key secret) b = (c, Inl e)"
  shows "kc_ws c = None" "snd (close c r) = Inr ()"
proof -
  obtain c1 r1 where a: "authenticate sp (KisClient key secret) False (bu_now b) (bu_token b) (bu_later b) = (c1, r1)"
    by (cases "authenticate sp (KisClient key secret) False (bu_now b) (bu_token b) (bu_later b)")
  have "kc_ws c1 = None" using authenticate_keeps(1) [OF a] by (simp add: KisClient_def)
  then show "kc_ws c = None"
    using assms a
    by (auto simp: bring_up_def connect_def Let_def split: sum.splits if_splits ws_answer.splits)
  then show "snd (close c r) = Inr ()" by (simp add: close_def)
qed

lemma stop_active_keeps:
  assumes "stop_active s = (s', r)"
  shows "sv_kis_client s' = sv_kis_client s" "sv_watchdog s' = sv_watchdog s" "active_kind s' = active_kind s"
    "has_kis_creds s' = has_kis_creds s" "r \<noteq> Inl CancelledError"
  using assms
  by (auto simp: stop_active_def active_kind_def has_kis_creds_def mock_stop_def crashed_def
      split: option.splits prod.splits active_publisher.splits
      elim!: active_stop.elims kis_publisher_stop_cases cancel_and_await_cases)

lemma close_kis_client_keeps:
  assumes "close_kis_client s r = (s', q)"
  shows "sv_active s' = sv_active s" "sv_watchdog s' = sv_watchdog s" "has_kis_creds s' = has_kis_creds s"
    "q = Inr () \<Longrightarrow> sv_kis_client s' = None" "q = Inr () \<or> q = Inl CancelledError"
    "sv_kis_client s = None \<Longrightarrow> sv_kis_client s' = None" "q \<noteq> Inr () \<Longrightarrow> sv_kis_client s' = sv_kis_client s"
  using assms
  by (auto simp: close_kis_client_def close_def has_kis_creds_def split: option.splits prod.splits sum.splits if_splits)

lemma start_inv: "supervisor_inv sp s \<Longrightarrow> supervisor_inv sp (fst (supervisor_start sp s b))"
  using bring_up_session(1) [of sp "sv_app_key s" "sv_app_secret s" b]
  by (cases "bring_up sp (KisClient (sv_app_key s) (sv_app_secret s)) b")
    (auto simp: supervisor_inv_def active_kind_def supervisor_start_def try_start_kis_def
      start_fallback_def start_mock_def has_kis_creds_def crashed_def
      split: sum.splits bool.splits if_splits prod.splits)

lemma stop_inv: "supervisor_inv sp s \<Longrightarrow> supervisor_inv sp (fst (supervisor_stop s r))"
proof -
  assume inv: "supervisor_inv sp s"
  obtain t q where w: "cancel_and_await (sv_watchdog s) = (t, q)" by (cases "cancel_and_await (sv_watchdog s)")
  with inv have t: "t = NoTask" "q = Inr ()" by (auto simp: supervisor_inv_def elim: cancel_and_await_cases)
  obtain s1 q1 where a: "stop_active (s\<lparr>sv_watchdog := NoTask\<rparr>) = (s1, q1)"
    by (cases "stop_active (s\<lparr>sv_watchdog := NoTask\<rparr>)")
  obtain s2 q2 where k: "close_kis_client (s1\<lparr>sv_active := None\<rparr>) r = (s2, q2)"
    by (cases "close_kis_client (s1\<lparr>sv_active := None\<rparr>) r")
  from stop_active_keeps [OF a] inv have s1: "supervisor_inv sp s1"
    by (auto simp: supervisor_inv_def crashed_def active_kind_def has_kis_creds_def)
  moreover have "supervisor_inv sp s2"
    using close_kis_client_keeps [OF k] s1
    by (cases "q2 = Inr ()") (auto simp: supervisor_inv_def active_kind_def has_kis_creds_def)
  ultimately show ?thesis
    using w t a k by (auto simp: supervisor_stop_def split: sum.splits)
qed

lemma failover_result:
  assumes "failover_to_mock s r = (s', q)"
  shows "q = Inr () \<and> s' = s\<lparr>sv_failover_count := Suc (sv_failover_count s), sv_kis_client := None,
       sv_active := Some (ActiveMock (mock_start MockPublisher))\<rparr>
     \<or> q = Inl CancelledError \<and> r = Inl CancelledError \<and> sv_kis_client s' = sv_kis_client s \<and>
       active_kind s' = active_kind s \<and> sv_watchdog s' = sv_watchdog s \<and> has_kis_creds s' = has_kis_creds s"
proof -
  let ?s = "s\<lparr>sv_failover_count := Suc (sv_failover_count s)\<rparr>"
  obtain s1 r1 where a: "stop_active ?s = (s1, r1)" by (cases "stop_active ?s")
  obtain s2 r2 where k: "close_kis_client s1 r = (s2, r2)" by (cases "close_kis_client s1 r")
  note sa = stop_active_keeps [OF a]
  note ka = close_kis_client_keeps [OF k]
  obtain x where f: "s1 = s\<lparr>sv_failover_count := Suc (sv_failover_count s), sv_active := x\<rparr>"
    using a that [of "sv_active ?s"]
    by (cases "sv_active s") (auto simp: stop_active_def split: prod.splits)
  have g: "r2 = Inr () \<Longrightarrow> s2 = s1\<lparr>sv_kis_client := None\<rparr>" "r2 \<noteq> Inr () \<Longrightarrow> r = Inl CancelledError"
    using k by (auto simp: close_kis_client_def close_def split: option.splits prod.splits sum.splits if_splits)
  show ?thesis
  proof (cases "r2 = Inr ()")
    case True
    with assms a k sa(5) g(1) have "q = Inr ()" "s' = start_mock (s1\<lparr>sv_kis_client := None\<rparr>)"
      by (auto simp: failover_to_mock_def)
    then show ?thesis by (simp add: f start_mock_def)
  next
    case False
    with ka(5) assms a k sa(5) have "q = Inl CancelledError" "s' = s2" by (auto simp: failover_to_mock_def)
    with False g(2) sa ka(1-3,7) show ?thesis by (auto simp: active_kind_def has_kis_creds_def)
  qed
qed

lemma watch_round_cases:
  obtains (calm) "watch_round s r = (s, Inr ())"
  | (failover) a s1 q where "sv_watchdog s = Running" "sv_active s = Some a" "\<not> active_running a"
      "failover_to_mock s r = (s1, q)" "watch_round s r = (s1\<lparr>sv_watchdog := end_task q (sv_watchdog s1)\<rparr>, q)"
proof (cases "sv_watchdog s = Running \<and> (\<exists>a. sv_active s = Some a \<and> \<not> active_running a)")
  case True
  then obtain a where "sv_watchdog s = Running" "sv_active s = Some a" "\<not> active_running a" by blast
  then show ?thesis
    using failover [of a "fst (failover_to_mock s r)" "snd (failover_to_mock s r)"]
    by (simp add: watch_round_def case_prod_beta)
next
  case False
  then show ?thesis by (intro calm) (auto simp: watch_round_def split: option.splits)
qed

lemma watch_inv:
  assumes "supervisor_inv sp s"
  shows "supervisor_inv sp (fst (watch_round s r))"
proof (cases rule: watch_round_cases [of s r])
  case (failover a s1 q)
  from failover_result [OF failover(4)] show ?thesis
  proof (elim disjE conjE)
    assume "q = Inr ()" "s1 = s\<lparr>sv_failover_count := Suc (sv_failover_count s), sv_kis_client := None,
       sv_active := Some (ActiveMock (mock_start MockPublisher))\<rparr>"
    with failover(1,5) show ?thesis by (simp add: supervisor_inv_def active_kind_def crashed_def)
  next
    assume "q = Inl CancelledError" "sv_kis_client s1 = sv_kis_client s" "active_kind s1 = active_kind s"
      "sv_watchdog s1 = sv_watchdog s" "has_kis_creds s1 = has_kis_creds s"
    with failover(1,5) assms show ?thesis
      by (simp add: supervisor_inv_def active_kind_def has_kis_creds_def crashed_def)
  qed
qed (simp add: assms)

lemma refresh_inv:
  assumes "supervisor_inv sp s"
  shows "supervisor_inv sp (active_refresh sp s now h later)"
proof -
  consider (kis) p c where "sv_active s = Some (ActiveKis p)" "sv_kis_client s = Some c"
    | (other) "active_refresh sp s now h later = s"
    using that by (cases "sv_active s"; cases "sv_kis_client s"; cases "the (sv_active s)")
      (simp_all add: active_refresh_def)
  then show ?thesis
  proof cases
    case kis
    obtain c' l where r: "refresh_step sp c (kp_refresh p) now h later = (c', l)"
      by (cases "refresh_step sp c (kp_refresh p) now h later")
    have "reachable_session sp c" using assms kis(2) by (simp add: supervisor_inv_def)
    then have "reachable_session sp c'" using r by (rule refresh_step_session)
    with assms kis r show ?thesis
      by (auto simp: supervisor_inv_def active_refresh_def active_kind_def has_kis_creds_def)
  qed (simp add: assms)
qed

lemma active_kind_main_ends:
  "active_kind (s\<lparr>sv_active := map_option (main_ends r) (sv_active s)\<rparr>) = active_kind s"
  by (cases "sv_active s") (auto simp: active_kind_def split: active_publisher.splits elim!: main_ends.elims)

lemma supervisor_step_inv:
  assumes "supervisor_inv sp s"
  shows "supervisor_inv sp (supervisor_step sp s opr)"
proof (cases opr)
  case (MainEnds r)
  with assms active_kind_main_ends [of r s] show ?thesis by (simp add: supervisor_inv_def has_kis_creds_def)
qed (simp_all add: assms start_inv stop_inv watch_inv refresh_inv)

lemma supervisor_steps_inv:
  "supervisor_inv sp (supervisor_steps sp (PublisherSupervisor dev key secret symbols) oprs)"
proof (induction oprs rule: rev_induct)
  case Nil
  show ?case by (simp add: supervisor_inv_def active_kind_def PublisherSupervisor_def crashed_def)
next
  case (snoc opr oprs)
  then show ?case using supervisor_step_inv by (simp del: supervisor_step.simps)
qed

section \<open>Runs of the KIS publisher\<close>

text \<open>
  What can happen while the KIS publisher is active without a failover: refreshes; rounds of the
  watchdog while the main task runs; ends of the main task once it is done (they change nothing).
\<close>

definition steady :: "bool \<Rightarrow> supervisor_op \<Rightarrow> bool" where
  "steady up opr = (case opr of Refresh _ _ _ \<Rightarrow> True | Watch _ \<Rightarrow> up | MainEnds _ \<Rightarrow> \<not> up | _ \<Rightarrow> False)"

lemma steady_step:
  assumes "sv_active s = Some (ActiveKis p)" "sv_kis_client s = Some c" "steady (kis_publisher_running p) opr"
  shows "\<exists>l c'. supervisor_step sp s opr = s\<lparr>sv_active := Some (ActiveKis (p\<lparr>kp_refresh := l\<rparr>)), sv_kis_client := Some c'\<rparr>
     \<and> kc_ws c' = kc_ws c \<and> (rl_task (kp_refresh p) \<noteq> Running \<longrightarrow> l = kp_refresh p \<and> c' = c)"
proof (cases opr)
  case (Refresh now h later)
  obtain c' l where r: "refresh_step sp c (kp_refresh p) now h later = (c', l)"
    by (cases "refresh_step sp c (kp_refresh p) now h later")
  have "kc_ws c' = kc_ws c"
    using r authenticate_keeps(1) [of sp c True now h later]
    by (auto simp: refresh_step_def refresh_round_def split: if_splits prod.splits sum.splits)
  with Refresh r assms show ?thesis
    by (intro exI [of _ l] exI [of _ c']) (auto simp: active_refresh_def refresh_step_def)
next
  case (Watch r)
  with assms show ?thesis
    by (intro exI [of _ "kp_refresh p"] exI [of _ c]) (simp add: steady_def watch_round_def)
next
  case (MainEnds r)
  with assms have "end_task r (kp_task p) = kp_task p" by (simp add: steady_def kis_publisher_running_def end_task_def)
  with MainEnds assms show ?thesis
    by (intro exI [of _ "kp_refresh p"] exI [of _ c]) simp
qed (use assms(3) in \<open>simp_all add: steady_def\<close>)

lemma steady_run:
  assumes "sv_active s = Some (ActiveKis p)" "sv_kis_client s = Some c"
    and "list_all (steady (kis_publisher_running p)) oprs"
  obtains l c' where "supervisor_steps sp s oprs =
       s\<lparr>sv_active := Some (ActiveKis (p\<lparr>kp_refresh := l\<rparr>)), sv_kis_client := Some c'\<rparr>" "kc_ws c' = kc_ws c"
    "rl_task (kp_refresh p) \<noteq> Running \<Longrightarrow> l = kp_refresh p \<and> c' = c"
  using assms
proof (induction oprs arbitrary: s p c thesis)
  case Nil
  show ?case by (rule Nil.prems(1) [where l = "kp_refresh p" and c' = c]) (use Nil.prems in simp_all)
next
  case (Cons opr oprs)
  obtain l c' where one: "supervisor_step sp s opr =
      s\<lparr>sv_active := Some (ActiveKis (p\<lparr>kp_refresh := l\<rparr>)), sv_kis_client := Some c'\<rparr>" "kc_ws c' = kc_ws c"
    "rl_task (kp_refresh p) \<noteq> Running \<longrightarrow> l = kp_refresh p \<and> c' = c"
    using steady_step [OF Cons.prems(2,3), of opr sp] Cons.prems(4) by auto
  let ?s = "supervisor_step sp s opr" and ?p = "p\<lparr>kp_refresh := l\<rparr>"
  have pre: "sv_active ?s = Some (ActiveKis ?p)" "sv_kis_client ?s = Some c'"
    "list_all (steady (kis_publisher_running ?p)) oprs"
    using one(1) Cons.prems(4) by (simp_all add: kis_publisher_running_def)
  obtain l2 c2 where two: "supervisor_steps sp ?s oprs =
       ?s\<lparr>sv_active := Some (ActiveKis (?p\<lparr>kp_refresh := l2\<rparr>)), sv_kis_client := Some c2\<rparr>" "kc_ws c2 = kc_ws c'"
    "rl_task (kp_refresh ?p) \<noteq> Running \<Longrightarrow> l2 = kp_refresh ?p \<and> c2 = c'"
    using Cons.IH [OF _ pre] by blast
  show ?case
  proof (rule Cons.prems(1))
    show "supervisor_steps sp s (opr # oprs) =
        s\<lparr>sv_active := Some (ActiveKis (p\<lparr>kp_refresh := l2\<rparr>)), sv_kis_client := Some c2\<rparr>"
      using two(1) one(1) by simp
    show "kc_ws c2 = kc_ws c" using two(2) one(2) by simp
    show "l2 = kp_refresh p \<and> c2 = c" if "rl_task (kp_refresh p) \<noteq> Running"
      using two(3) one(3) that by simp
  qed
qed

text \<open>A mock that nobody watches.\<close>

definition unattended :: "supervisor_op \<Rightarrow> bool" where
  "unattended opr = (case opr of Refresh _ _ _ \<Rightarrow> True | Watch _ \<Rightarrow> True | MainEnds _ \<Rightarrow> True | _ \<Rightarrow> False)"

lemma unattended_run:
  assumes "sv_watchdog s \<noteq> Running" "sv_active s = Some (ActiveMock m)" "list_all unattended oprs"
  shows "\<exists>m'. supervisor_steps sp s oprs = s\<lparr>sv_active := Some (ActiveMock m')\<rparr> \<and>
     (mock_running m' \<longleftrightarrow> mock_running m \<and> (\<nexists>r. MainEnds r \<in> set oprs))"
  using assms
proof (induction oprs arbitrary: s m)
  case Nil
  then show ?case by (intro exI [of _ m]) simp
next
  case (Cons opr oprs)
  define m1 where "m1 = (case opr of MainEnds r \<Rightarrow> m\<lparr>mp_task := end_task r (mp_task m)\<rparr> | _ \<Rightarrow> m)"
  have m1: "supervisor_step sp s opr = s\<lparr>sv_active := Some (ActiveMock m1)\<rparr>"
    "mock_running m1 \<longleftrightarrow> mock_running m \<and> (\<nexists>r. opr = MainEnds r)"
    using Cons.prems
    by (cases opr; simp add: m1_def unattended_def watch_round_def active_refresh_def mock_running_def)+
  from Cons.IH [of "supervisor_step sp s opr" m1] Cons.prems m1 show ?case by auto
qed

text \<open>The state right after a successful bring-up.\<close>

lemma brought_up:
  assumes "key \<noteq> []" "secret \<noteq> []" "bring_up sp (KisClient key secret) b = (c, Inr ())"
    and "s = supervisor_step sp (PublisherSupervisor dev key secret symbols) (Start b)"
  shows "sv_active s = Some (ActiveKis (kis_publisher_start (KisPublisher symbols default_headroom)))"
    "sv_kis_client s = Some c" "sv_watchdog s = Running" "sv_failover_count s = 0"
  using assms
  by (simp_all add: supervisor_start_def try_start_kis_def has_kis_creds_def PublisherSupervisor_def)

lemma fresh_publisher:
  "kp_task (kis_publisher_start (KisPublisher symbols headroom)) = Running"
  "rl_task (kp_refresh (kis_publisher_start (KisPublisher symbols headroom))) = Running"
  by (simp_all add: kis_publisher_start_def KisPublisher_def kis_publisher_running_def refresh_start_def TokenRefreshLoop_def)

text \<open>The round of the watchdog after a crash of the main task.\<close>

lemma failover_run:
  assumes "key \<noteq> []" "secret \<noteq> []" "bring_up sp (KisClient key secret) b = (c, Inr ())"
    and "list_all (steady True) calm" "list_all (steady False) crashes" "r \<noteq> Inl CancelledError"
    and "s = supervisor_steps sp (PublisherSupervisor dev key secret symbols) ([Start b] @ calm @ [MainEnds out] @ crashes)"
  obtains c' where "sv_kis_client s = Some c'" "active_kind s = Some KisPub"
    "supervisor_step sp s (Watch r) = s\<lparr>sv_failover_count := 1, sv_kis_client := None,
      sv_active := Some (ActiveMock (mock_start MockPublisher)), sv_watchdog := Returned\<rparr>"
proof -
  define s1 where "s1 = supervisor_step sp (PublisherSupervisor dev key secret symbols) (Start b)"
  let ?p = "kis_publisher_start (KisPublisher symbols default_headroom)"
  have s1: "sv_active s1 = Some (ActiveKis ?p)" "sv_kis_client s1 = Some c" "sv_watchdog s1 = Running"
    "sv_failover_count s1 = 0" by (rule brought_up [OF assms(1-3) s1_def])+
  have up: "kis_publisher_running ?p" by (simp add: kis_publisher_running_def fresh_publisher)
  obtain l2 c2 where s2: "supervisor_steps sp s1 calm =
      s1\<lparr>sv_active := Some (ActiveKis (?p\<lparr>kp_refresh := l2\<rparr>)), sv_kis_client := Some c2\<rparr>"
    using steady_run [OF s1(1,2), of calm sp] assms(4) up by metis
  define s3 where "s3 = supervisor_step sp (supervisor_steps sp s1 calm) (MainEnds out)"
  let ?q = "?p\<lparr>kp_refresh := l2, kp_task := end_task out Running\<rparr>"
  have s3: "sv_active s3 = Some (ActiveKis ?q)" "sv_kis_client s3 = Some c2" "sv_watchdog s3 = Running"
    "sv_failover_count s3 = 0"
    using s1 by (simp_all add: s3_def s2 fresh_publisher)
  have down: "\<not> kis_publisher_running ?q" by (simp add: kis_publisher_running_def)
  obtain l4 c4 where s4: "supervisor_steps sp s3 crashes =
      s3\<lparr>sv_active := Some (ActiveKis (?q\<lparr>kp_refresh := l4\<rparr>)), sv_kis_client := Some c4\<rparr>"
    using steady_run [OF s3(1,2), of crashes sp] assms(5) down by metis
  have s: "s = supervisor_steps sp s3 crashes"
    by (simp add: assms(7) s1_def s3_def del: supervisor_step.simps)
  obtain s5 q where f: "failover_to_mock s r = (s5, q)" by (cases "failover_to_mock s r")
  have "watch_round s r = (s5\<lparr>sv_watchdog := end_task q (sv_watchdog s5)\<rparr>, q)"
    using s3(3) f by (simp add: s s4 watch_round_def kis_publisher_running_def)
  moreover from failover_result [OF f] assms(6) have "q = Inr ()"
    "s5 = s\<lparr>sv_failover_count := Suc (sv_failover_count s), sv_kis_client := None,
       sv_active := Some (ActiveMock (mock_start MockPublisher))\<rparr>" by auto
  ultimately have "supervisor_step sp s (Watch r) = s\<lparr>sv_failover_count := 1, sv_kis_client := None,
      sv_active := Some (ActiveMock (mock_start MockPublisher)), sv_watchdog := Returned\<rparr>"
    using s3(3,4) by (simp add: s s4)
  moreover have "sv_kis_client s = Some c4" "active_kind s = Some KisPub" by (simp_all add: s s4 active_kind_def)
  ultimately show ?thesis by (intro that [of c4])
qed

section \<open>Properties\<close>

text \<open>
  C22: Failover lands on the mock, once. After a successful KIS bring-up, in every environment,
  whatever rounds of the watchdog and of the token refresh pass before and after the crash: when
  the KIS publisher's main task ends, the watchdog's next round leaves a live mock publisher, no
  KIS client and one counted failover, even if the refresh task has crashed as well. From then on
  nobody watches: if the mock's task ends too (it publishes to the same Redis), it stays dead
  through every later round and no second failover is counted.
\<close>

theorem failover_lands_on_mock:
  assumes "key \<noteq> []" "secret \<noteq> []" "bring_up sp (KisClient key secret) b = (c, Inr ())"
    and "list_all (steady True) calm" "list_all (steady False) crashes"
    and "r \<noteq> Inl CancelledError" "list_all unattended after"
    and "s = supervisor_steps sp (PublisherSupervisor dev key secret symbols)
           ([Start b] @ calm @ [MainEnds out] @ crashes @ [Watch r] @ after)"
  shows "\<exists>m. sv_active s = Some (ActiveMock m) \<and> (mock_running m \<longleftrightarrow> (\<nexists>x. MainEnds x \<in> set after)) \<and>
     sv_kis_client s = None \<and> sv_failover_count s = 1"
proof -
  let ?ops = "[Start b] @ calm @ [MainEnds out] @ crashes"
  define s4 where "s4 = supervisor_steps sp (PublisherSupervisor dev key secret symbols) ?ops"
  obtain c' where s5: "supervisor_step sp s4 (Watch r) = s4\<lparr>sv_failover_count := 1, sv_kis_client := None,
      sv_active := Some (ActiveMock (mock_start MockPublisher)), sv_watchdog := Returned\<rparr>"
    by (rule failover_run [OF assms(1-6) s4_def])
  have "s = supervisor_steps sp (supervisor_step sp s4 (Watch r)) after"
    by (simp add: assms(8) s4_def del: supervisor_step.simps)
  with unattended_run [of "supervisor_step sp s4 (Watch r)" "mock_start MockPublisher" after sp] assms(7)
  show ?thesis by (auto simp: s5 mock_service.start_running simp del: supervisor_step.simps)
qed

definition sample_bringup :: bringup where
  "sample_bringup = \<lparr>bu_now = 0, bu_token = sample_token, bu_later = 0, bu_connect_now = 0,
     bu_approval = sample_approval, bu_ws = WsOpened 1, bu_close = Inr ()\<rparr>"

lemma sample_bring_up: "bring_up no_strptime (KisClient ''a'' ''b'') sample_bringup = (connected_sample, Inr ())"
  using sample_session by (simp add: bring_up_def sample_bringup_def)

theorem failover_lands_on_mock_witness:
  "\<exists>m. sv_active (supervisor_steps no_strptime (PublisherSupervisor False ''a'' ''b'' [''005930''])
     [Start sample_bringup, Watch (Inr ()), MainEnds (Inl RuntimeError), Watch (Inr ()), MainEnds (Inl OSError),
      Watch (Inr ())]) = Some (ActiveMock m) \<and> \<not> mock_running m"
  using failover_lands_on_mock [OF _ _ sample_bring_up _ _ _ _ refl, of "[Watch (Inr ())]" "[]" "Inr ()"
      "[MainEnds (Inl OSError), Watch (Inr ())]" False "[''005930'']" "Inl RuntimeError"]
  by (simp add: steady_def unattended_def del: supervisor_step.simps) blast



text \<open>
  C25: A dead token refresh goes unnoticed. The refresh loop survives KIS errors only; once any other
  exception has ended its task (a server's absurd \<open>expires_in\<close> overflows a \<open>datetime\<close>), the
  publisher still counts as running, every later round of the watchdog and of the dead loop
  changes nothing, so the token is never refreshed again and no failover happens; and the
  shutdown raises that exception before it reaches the main task, which goes on publishing on a
  session that is never closed.
\<close>

theorem dead_refresh_is_silent:
  assumes "key \<noteq> []" "secret \<noteq> []" "bring_up sp (KisClient key secret) b = (c0, Inr ())"
    and "s = supervisor_steps sp (PublisherSupervisor dev key secret symbols) ([Start b] @ before)"
    and "list_all (steady True) before" "list_all (steady True) after"
    and "sv_active s = Some (ActiveKis p)" "crashed (rl_task (kp_refresh p)) e"
  shows "kis_publisher_running p \<and> supervisor_steps sp s after = s \<and> sv_failover_count s = 0 \<and>
     (\<exists>c. sv_kis_client s = Some c \<and> kc_ws c \<noteq> None \<and>
        supervisor_stop s r = (s\<lparr>sv_watchdog := NoTask\<rparr>, Inl e))"
proof -
  define s1 where "s1 = supervisor_step sp (PublisherSupervisor dev key secret symbols) (Start b)"
  let ?p = "kis_publisher_start (KisPublisher symbols default_headroom)"
  note s1 = brought_up [OF assms(1-3) s1_def]
  have up: "kis_publisher_running ?p" by (simp add: kis_publisher_running_def fresh_publisher)
  obtain l c where s2: "supervisor_steps sp s1 before =
      s1\<lparr>sv_active := Some (ActiveKis (?p\<lparr>kp_refresh := l\<rparr>)), sv_kis_client := Some c\<rparr>" "kc_ws c = kc_ws c0"
    using steady_run [OF s1(1,2), of before sp] assms(5) up by metis
  have "s = supervisor_steps sp s1 before" by (simp add: assms(4) s1_def del: supervisor_step.simps)
  with s2(1) have s: "s = s1\<lparr>sv_active := Some (ActiveKis (?p\<lparr>kp_refresh := l\<rparr>)), sv_kis_client := Some c\<rparr>" by simp
  then have p: "p = ?p\<lparr>kp_refresh := l\<rparr>" "sv_kis_client s = Some c" "sv_watchdog s = Running" "sv_failover_count s = 0"
    using assms(7) s1(3,4) by simp_all
  from p(1) have run: "kis_publisher_running p" by (simp add: kis_publisher_running_def fresh_publisher)
  obtain l2 c2 where a: "supervisor_steps sp s after =
      s\<lparr>sv_active := Some (ActiveKis (p\<lparr>kp_refresh := l2\<rparr>)), sv_kis_client := Some c2\<rparr>"
    "rl_task (kp_refresh p) \<noteq> Running \<Longrightarrow> l2 = kp_refresh p \<and> c2 = c"
    using steady_run [OF assms(7) p(2), of after sp] assms(6) run by metis
  have "rl_task (kp_refresh p) \<noteq> Running" using assms(8) by (simp add: crashed_def)
  with a have same: "supervisor_steps sp s after = s" using assms(7) p(2) by simp
  have "kis_publisher_stop p = (p, Inl e)"
    using assms(8) by (simp add: kis_publisher_stop_def refresh_stop_def crashed_def)
  with assms(7) p(3) have "supervisor_stop s r = (s\<lparr>sv_watchdog := NoTask\<rparr>, Inl e)"
    by (simp add: supervisor_stop_def stop_active_def)
  with run same p s2(2) bring_up_session(2) [OF assms(3)] show ?thesis by simp
qed

definition endless_token :: http where
  "endless_token = HttpResponse 200 (Inr (JObj [(''access_token'', JStr ''t''), (''expires_in'', JInt 1000000000000)]))"

lemma endless_token_overflows:
  "authenticate no_strptime connected_sample True now endless_token 0
   = (connected_sample\<lparr>kc_state := Authenticating\<rparr>, Inl OverflowError)"
proof -
  have "compute_expiry no_strptime (JObj [(''access_token'', JStr ''t''), (''expires_in'', JInt 1000000000000)]) 0
      = Inl OverflowError"
    using timedelta_whole [of 1000000000000] float_of_int_exact [of 1000000000000]
    by (simp add: compute_expiry_def in_datetime_def min_datetime_def max_datetime_def second_def)
  then show ?thesis
    by (simp add: authenticate_def endless_token_def http_body_def token_payload_def malformed_def Let_def
        connected_sample_def authenticated_sample_def KisClient_def)
qed

theorem dead_refresh_is_silent_witness:
  "\<exists>s p. s = supervisor_steps no_strptime (PublisherSupervisor False ''a'' ''b'' [])
      ([Start sample_bringup] @ [Refresh (86400 * second) endless_token 0]) \<and>
     sv_active s = Some (ActiveKis p) \<and> kis_publisher_running p \<and> snd (supervisor_stop s (Inr ())) = Inl OverflowError"
proof -
  let ?before = "[Refresh (86400 * second) endless_token 0]"
  have ne: "''a'' \<noteq> []" "''b'' \<noteq> []" by simp_all
  define s where "s = supervisor_steps no_strptime (PublisherSupervisor False ''a'' ''b'' []) ([Start sample_bringup] @ ?before)"
  define s1 where "s1 = supervisor_step no_strptime (PublisherSupervisor False ''a'' ''b'' []) (Start sample_bringup)"
  note s1 = brought_up [OF ne sample_bring_up s1_def]
  have n: "needs_refresh connected_sample default_headroom (86400 * second)"
    by (simp add: needs_refresh_def connected_sample_def authenticated_sample_def default_headroom_def second_def)
  have "s = active_refresh no_strptime s1 (86400 * second) endless_token 0"
    by (simp add: s_def s1_def del: supervisor_step.simps(1))
  then obtain p where p: "sv_active s = Some (ActiveKis p)" "crashed (rl_task (kp_refresh p)) OverflowError"
    using n by (auto simp: active_refresh_def s1 refresh_step_def refresh_round_def endless_token_overflows
        kis_publisher_start_def KisPublisher_def kis_publisher_running_def refresh_start_def
        TokenRefreshLoop_def crashed_def is_kis_error_def)
  have "list_all (steady True) ?before" "list_all (steady True) []" by (simp_all add: steady_def)
  from dead_refresh_is_silent [OF ne sample_bring_up s_def this p, of "Inr ()"]
  have "kis_publisher_running p" "snd (supervisor_stop s (Inr ())) = Inl OverflowError" by auto
  with s_def p(1) show ?thesis by (intro exI [of _ s] exI [of _ p] conjI)
qed

end
