(* ===== verification/Database.thy ===== *)
theory Database
  imports Prelude
begin

text \<open>
  What the repositories share: the driver errors they turn into empty results, rows read one by
  one, and \<open>src/src/infrastructure/database.py\<close>: the process-wide pool and the check of the
  schema version. What a query answers is an argument, an exception or its rows; an exception
  of the PostgreSQL driver is \<open>OtherError\<close> with the name of its class.
\<close>

section \<open>Answers\<close>

definition db_error :: "py_error \<Rightarrow> bool" where
  "db_error e = (e \<in> {OSError, TimeoutError, OtherError ''PostgresError'', OtherError ''InterfaceError'',
     OtherError ''UndefinedTableError''})"

text \<open>The read policy: a driver error reads as no rows, any other exception is raised.\<close>

definition tolerant :: "'a list result \<Rightarrow> 'a list result" where
  "tolerant r = (case r of Inl e \<Rightarrow> if db_error e then Inr [] else Inl e | Inr rows \<Rightarrow> Inr rows)"

lemma tolerant_simps [simp]:
  "tolerant (Inr rows) = Inr rows"
  "tolerant (Inl e) = (if db_error e then Inr [] else Inl e)"
  by (simp_all add: tolerant_def)

fun map_result :: "('a \<Rightarrow> 'b result) \<Rightarrow> 'a list \<Rightarrow> 'b list result" where
  "map_result f [] = Inr []"
| "map_result f (x # xs) = bind_result (f x) (\<lambda>y. bind_result (map_result f xs) (\<lambda>ys. Inr (y # ys)))"

lemma map_result_total: "\<forall>x \<in> set xs. f x = Inr (g x) \<Longrightarrow> map_result f xs = Inr (map g xs)"
  by (induction xs) auto

lemma map_result_InrD:
  "map_result f xs = Inr ys \<Longrightarrow> length ys = length xs \<and> list_all2 (\<lambda>x y. f x = Inr y) xs ys"
  by (induction xs arbitrary: ys) (auto elim!: bind_result_InrE)

section \<open>The pool\<close>

text \<open>The global pool: \<open>'p\<close> is whatever the driver created.\<close>

definition init_pool :: "'p option \<Rightarrow> 'p result \<Rightarrow> 'p option \<times> 'p result" where
  "init_pool pool created = (case pool of
       Some p \<Rightarrow> (pool, Inr p)
     | None \<Rightarrow> (case created of Inl e \<Rightarrow> (None, Inl e) | Inr p \<Rightarrow> (Some p, Inr p)))"

definition close_pool :: "'p option \<Rightarrow> unit result \<Rightarrow> 'p option \<times> unit result" where
  "close_pool pool closed_answer = (case pool of
       None \<Rightarrow> (None, Inr ())
     | Some p \<Rightarrow> (case closed_answer of Inl e \<Rightarrow> (Some p, Inl e) | Inr _ \<Rightarrow> (None, Inr ())))"

definition get_pool :: "'p option \<Rightarrow> 'p result" where
  "get_pool pool = (case pool of None \<Rightarrow> Inl RuntimeError | Some p \<Rightarrow> Inr p)"

section \<open>The schema version\<close>

definition expected_schema_version :: int where "expected_schema_version = 3"

datatype schema_reason = TableMissing | DatabaseError py_error | TableEmpty | StaleSchema int int | Unreachable

record schema_check =
  sc_applied :: "int option"
  sc_expected :: int
  sc_ok :: bool
  sc_reason :: "schema_reason option"

text \<open>
  The probe answers the maximum, which is NULL for an empty table. The handlers cover
  \<open>UndefinedTableError\<close>, the rest of \<open>PostgresError\<close> and \<open>OSError\<close>, of which
  \<open>TimeoutError\<close> is a subclass, but not the driver's \<open>InterfaceError\<close>.
\<close>

definition verify_schema :: "int option result \<Rightarrow> int \<Rightarrow> schema_check result" where
  "verify_schema answer expected = (case answer of
       Inl e \<Rightarrow>
         if e = OtherError ''UndefinedTableError''
         then Inr \<lparr>sc_applied = None, sc_expected = expected, sc_ok = False, sc_reason = Some TableMissing\<rparr>
         else if e = OtherError ''PostgresError'' \<or> e = OSError \<or> e = TimeoutError
         then Inr \<lparr>sc_applied = None, sc_expected = expected, sc_ok = False, sc_reason = Some (DatabaseError e)\<rparr>
         else Inl e
     | Inr None \<Rightarrow> Inr \<lparr>sc_applied = Some 0, sc_expected = expected, sc_ok = False, sc_reason = Some TableEmpty\<rparr>
     | Inr (Some applied) \<Rightarrow>
         if expected \<le> applied
         then Inr \<lparr>sc_applied = Some applied, sc_expected = expected, sc_ok = True, sc_reason = None\<rparr>
         else Inr \<lparr>sc_applied = Some applied, sc_expected = expected, sc_ok = False,
                   sc_reason = Some (StaleSchema applied expected)\<rparr>)"

lemma verify_schema_ok_iff:
  "(\<exists>c. verify_schema answer expected = Inr c \<and> sc_ok c) \<longleftrightarrow> (\<exists>n \<ge> expected. answer = Inr (Some n))"
  by (auto simp: verify_schema_def split: sum.splits option.splits)

end
