(* ===== verification/Persistence.thy ===== *)
theory Persistence
  imports Kis_Wire Pipeline Database Tasks
begin

text \<open>
  \<open>src/src/infrastructure/persistence_worker.py\<close> with its two repositories
  (\<open>tick_repository.py\<close>, \<open>execution_repository.py\<close>): ticks from the Redis channel are
  buffered and inserted in batches, audit envelopes are inserted one by one. The database, the
  JSON parser, \<open>datetime.fromisoformat\<close>, \<open>float(str)\<close> and \<open>str\<close> of a value that is not a
  string are arguments. A message is what \<open>get_message\<close> returned: \<open>None\<close> for a timeout.
\<close>

section \<open>Ticks\<close>

definition dict_to_tick :: "python \<Rightarrow> json \<Rightarrow> tick result" where
  "dict_to_tick py d =
     bind_result (j_get_or d ''side'' (JStr ''buy'')) (\<lambda>side.
     bind_result (j_item d ''symbol'') (\<lambda>symb.
     bind_result (bind_result (j_item d ''ts'') (\<lambda>v. py_fromisoformat py (j_str py v))) (\<lambda>ts.
     bind_result (bind_result (j_item d ''price'') (\<lambda>v. py_decimal (j_str py v))) (\<lambda>price.
     bind_result (bind_result (j_item d ''volume'') j_int) (\<lambda>volume.
     make_tick (j_str py symb) ts price volume
       (if lower (j_str py side) = ''sell'' then SideSell else SideBuy))))))"

text \<open>\<open>TickRepository.insert_batch\<close>: the database answers the whole batch.\<close>

type_synonym 'r db = "'r \<Rightarrow> unit result"

definition insert_batch :: "tick list db \<Rightarrow> tick list \<Rightarrow> nat result" where
  "insert_batch db ticks =
     (if ticks = [] then Inr 0
      else case db ticks of
          Inr _ \<Rightarrow> Inr (length ticks)
        | Inl e \<Rightarrow> if db_error e then Inr 0 else Inl e)"

record worker =
  pw_flush_threshold :: nat
  pw_flush_interval :: time
  pw_buffer_max :: nat
  pw_buffer :: "tick list"
  pw_ticks_inserted :: nat
  pw_ticks_dropped :: nat
  pw_executions_inserted :: nat
  pw_executions_failed :: nat
  pw_tick_task :: task_state
  pw_audit_task :: task_state

definition PersistenceWorker :: "int \<Rightarrow> time \<Rightarrow> int \<Rightarrow> worker result" where
  "PersistenceWorker threshold interval buffer_max =
     (if threshold < 1 then Inl ValueError
      else if interval \<le> 0 then Inl ValueError
      else if buffer_max < threshold then Inl ValueError
      else Inr \<lparr>pw_flush_threshold = nat threshold, pw_flush_interval = interval,
                pw_buffer_max = nat buffer_max, pw_buffer = [], pw_ticks_inserted = 0,
                pw_ticks_dropped = 0, pw_executions_inserted = 0, pw_executions_failed = 0,
                pw_tick_task = NoTask, pw_audit_task = NoTask\<rparr>)"

definition parse_tick :: "python \<Rightarrow> string \<Rightarrow> tick result" where
  "parse_tick py raw = bind_result (py_loads py raw) (dict_to_tick py)"

definition enqueue_tick :: "python \<Rightarrow> worker \<Rightarrow> string \<Rightarrow> worker \<times> unit result" where
  "enqueue_tick py w raw =
     (case parse_tick py raw of
        Inl e \<Rightarrow> (w, if e \<in> {ValueError, KeyError, TypeError} then Inr () else Inl e)
      | Inr t \<Rightarrow>
          (w\<lparr>pw_buffer := deque_append (pw_buffer_max w) (pw_buffer w) t,
             pw_ticks_dropped := pw_ticks_dropped w + (if length (pw_buffer w) = pw_buffer_max w then 1 else 0)\<rparr>,
           Inr ()))"

text \<open>The buffer is emptied before the insert is awaited.\<close>

definition flush_ticks :: "tick list db \<Rightarrow> worker \<Rightarrow> worker \<times> unit result" where
  "flush_ticks db w =
     (if pw_buffer w = [] then (w, Inr ())
      else
        let batch = pw_buffer w; w1 = w\<lparr>pw_buffer := []\<rparr> in
        case insert_batch db batch of
          Inl e \<Rightarrow> (w1, Inl e)
        | Inr n \<Rightarrow> (w1\<lparr>pw_ticks_inserted := pw_ticks_inserted w1 + n,
                       pw_ticks_dropped := pw_ticks_dropped w1 + (length batch - n)\<rparr>, Inr ()))"

text \<open>One round of the session loop, with the time of the last flush.\<close>

record event_in =
  ev_message :: "string option"
  ev_now :: time

definition flush_at :: "tick list db \<Rightarrow> worker \<Rightarrow> time \<Rightarrow> time \<Rightarrow> worker \<times> time \<times> unit result" where
  "flush_at db w last_flush now = (case flush_ticks db w of
       (w1, Inl e) \<Rightarrow> (w1, last_flush, Inl e)
     | (w1, Inr _) \<Rightarrow> (w1, now, Inr ()))"

definition tick_round ::
    "python \<Rightarrow> tick list db \<Rightarrow> worker \<Rightarrow> time \<Rightarrow> event_in \<Rightarrow> worker \<times> time \<times> unit result" where
  "tick_round py db w last_flush ev =
     (let now = ev_now ev;
          (w1, lf1, r1) = (case ev_message ev of
              None \<Rightarrow> (w, last_flush, Inr ())
            | Some raw \<Rightarrow> (case enqueue_tick py w raw of
                (w1, Inl e) \<Rightarrow> (w1, last_flush, Inl e)
              | (w1, Inr _) \<Rightarrow>
                  if pw_flush_threshold w1 \<le> length (pw_buffer w1)
                  then flush_at db w1 last_flush now
                  else (w1, last_flush, Inr ())))
      in case r1 of
           Inl e \<Rightarrow> (w1, lf1, Inl e)
         | Inr _ \<Rightarrow> if pw_flush_interval w1 \<le> now - lf1 \<and> pw_buffer w1 \<noteq> []
                    then flush_at db w1 lf1 now else (w1, lf1, Inr ()))"

text \<open>
  \<open>_tick_loop\<close>: a session that raises is logged and a new one starts two seconds later, with
  a new flush clock; a cancellation ends the loop.
\<close>

fun tick_loop ::
    "python \<Rightarrow> tick list db \<Rightarrow> worker \<Rightarrow> time \<Rightarrow> event_in list \<Rightarrow> worker" where
  "tick_loop py db w last_flush [] = w"
| "tick_loop py db w last_flush (ev # evs) =
     (case tick_round py db w last_flush ev of
        (w1, lf1, Inr _) \<Rightarrow> tick_loop py db w1 lf1 evs
      | (w1, lf1, Inl e) \<Rightarrow> if e = CancelledError then w1\<lparr>pw_tick_task := end_task (Inl e) (pw_tick_task w1)\<rparr>
          else tick_loop py db w1 (ev_now ev + 2 * second) evs)"

section \<open>The two tasks\<close>

definition worker_running :: "worker \<Rightarrow> bool" where
  "worker_running w \<longleftrightarrow> pw_tick_task w = Running \<or> pw_audit_task w = Running"

definition worker_start :: "worker \<Rightarrow> worker" where
  "worker_start w =
     (let w1 = (if pw_tick_task w = Running then w else w\<lparr>pw_tick_task := Running\<rparr>)
      in if pw_audit_task w1 = Running then w1 else w1\<lparr>pw_audit_task := Running\<rparr>)"

text \<open>Both tasks are cancelled and awaited in turn; the fields are cleared after the second.\<close>

definition stop_tasks :: "worker \<Rightarrow> worker \<times> unit result" where
  "stop_tasks w = (case cancel_and_await (pw_tick_task w) of
       (t, Inl e) \<Rightarrow> (w\<lparr>pw_tick_task := t\<rparr>, Inl e)
     | (_, Inr _) \<Rightarrow> (case cancel_and_await (pw_audit_task w) of
         (t, Inl e) \<Rightarrow> (w\<lparr>pw_tick_task := cancelled_task (pw_tick_task w), pw_audit_task := t\<rparr>, Inl e)
       | (_, Inr _) \<Rightarrow> (w\<lparr>pw_tick_task := NoTask, pw_audit_task := NoTask\<rparr>, Inr ())))"

text \<open>Then the final drain.\<close>

definition worker_stop :: "tick list db \<Rightarrow> worker \<Rightarrow> worker \<times> unit result" where
  "worker_stop db w = (case stop_tasks w of
       (w1, Inl e) \<Rightarrow> (w1, Inl e)
     | (w1, Inr _) \<Rightarrow> flush_ticks db w1)"

section \<open>Audit rows\<close>

record audit_row =
  ar_ts :: time
  ar_symbol :: string
  ar_mode :: string
  ar_executed :: bool
  ar_intended_action :: string
  ar_intended_quantity :: int
  ar_order_id :: "string option"
  ar_blocked_by :: "string option"
  ar_reason :: "string option"
  ar_signal_action :: string
  ar_signal_confidence :: float64
  ar_signal_score :: float64
  ar_signal_rationale :: json

text \<open>\<open>str(env[k]) if env.get(k) is not None else None\<close>.\<close>

definition opt_str :: "python \<Rightarrow> json \<Rightarrow> string \<Rightarrow> string option result" where
  "opt_str py env k = bind_result (j_get_or env k JNull) (\<lambda>v.
     Inr (if v = JNull then None else Some (j_str py v)))"

definition item_str :: "python \<Rightarrow> json \<Rightarrow> string \<Rightarrow> string result" where
  "item_str py env k = bind_result (j_item env k) (\<lambda>v. Inr (j_str py v))"

definition envelope_to_row :: "python \<Rightarrow> json \<Rightarrow> audit_row result" where
  "envelope_to_row py env =
     bind_result (j_item env ''signal'') (\<lambda>sig.
     bind_result (bind_result (item_str py env ''ts'') (py_fromisoformat py)) (\<lambda>ts.
     bind_result (item_str py env ''symbol'') (\<lambda>symb.
     bind_result (item_str py env ''mode'') (\<lambda>mode.
     bind_result (j_item env ''executed'') (\<lambda>executed.
     bind_result (item_str py env ''intended_action'') (\<lambda>action.
     bind_result (bind_result (j_get_or env ''intended_quantity'' (JInt 0)) j_int) (\<lambda>quantity.
     bind_result (opt_str py env ''order_id'') (\<lambda>order.
     bind_result (opt_str py env ''blocked_by'') (\<lambda>blocked.
     bind_result (opt_str py env ''reason'') (\<lambda>reason.
     bind_result (item_str py sig ''action'') (\<lambda>sig_action.
     bind_result (bind_result (j_item sig ''confidence'') (j_float py)) (\<lambda>conf.
     bind_result (bind_result (j_item sig ''score'') (j_float py)) (\<lambda>score.
     bind_result (j_get_or sig ''rationale'' (JList [])) (\<lambda>rationale.
     Inr \<lparr>ar_ts = ts, ar_symbol = symb, ar_mode = mode, ar_executed = truthy executed,
          ar_intended_action = action, ar_intended_quantity = quantity, ar_order_id = order,
          ar_blocked_by = blocked, ar_reason = reason, ar_signal_action = sig_action,
          ar_signal_confidence = conf, ar_signal_score = score, ar_signal_rationale = rationale\<rparr>
     ))))))))))))))"

definition insert_execution :: "python \<Rightarrow> audit_row db \<Rightarrow> json \<Rightarrow> bool result" where
  "insert_execution py db env =
     (case envelope_to_row py env of
        Inl e \<Rightarrow> if e \<in> {KeyError, ValueError, TypeError} then Inr False else Inl e
      | Inr row \<Rightarrow> (case db row of
            Inr _ \<Rightarrow> Inr True
          | Inl e \<Rightarrow> if db_error e then Inr False else Inl e))"

definition handle_audit :: "python \<Rightarrow> audit_row db \<Rightarrow> worker \<Rightarrow> string \<Rightarrow> worker \<times> unit result" where
  "handle_audit py db w raw =
     (case py_loads py raw of
        Inl e \<Rightarrow> if e = ValueError
                 then (w\<lparr>pw_executions_failed := Suc (pw_executions_failed w)\<rparr>, Inr ())
                 else (w, Inl e)
      | Inr env \<Rightarrow> (case insert_execution py db env of
            Inl e \<Rightarrow> (w, Inl e)
          | Inr ok \<Rightarrow>
              (if ok then w\<lparr>pw_executions_inserted := Suc (pw_executions_inserted w)\<rparr>
               else w\<lparr>pw_executions_failed := Suc (pw_executions_failed w)\<rparr>, Inr ())))"

text \<open>
  \<open>_audit_loop\<close>: what \<open>listen\<close> yields, \<open>None\<close> for a message of another type. A session that raises
  is logged and a new one starts; a cancellation ends the loop.
\<close>

fun audit_loop :: "python \<Rightarrow> audit_row db \<Rightarrow> worker \<Rightarrow> string option list \<Rightarrow> worker" where
  "audit_loop py db w [] = w"
| "audit_loop py db w (None # ms) = audit_loop py db w ms"
| "audit_loop py db w (Some raw # ms) = (case handle_audit py db w raw of
       (w1, Inr _) \<Rightarrow> audit_loop py db w1 ms
     | (w1, Inl e) \<Rightarrow> if e = CancelledError then w1\<lparr>pw_audit_task := end_task (Inl e) (pw_audit_task w1)\<rparr>
         else audit_loop py db w1 ms)"

text \<open>Reading back: a rationale column is JSON text or already parsed.\<close>

definition row_rationale :: "python \<Rightarrow> json \<Rightarrow> json result" where
  "row_rationale py v = (case v of
       JStr s \<Rightarrow> (case py_loads py s of
           Inl e \<Rightarrow> if e \<in> {ValueError, TypeError} then Inr (JList []) else Inl e
         | Inr x \<Rightarrow> Inr x)
     | JList xs \<Rightarrow> Inr v
     | _ \<Rightarrow> Inr (JList []))"

definition row_to_dict :: "python \<Rightarrow> audit_row \<Rightarrow> audit_row result" where
  "row_to_dict py row = bind_result (row_rationale py (ar_signal_rationale row))
     (\<lambda>r. Inr (row\<lparr>ar_signal_rationale := r\<rparr>))"

definition fetch_recent ::
    "python \<Rightarrow> (string \<Rightarrow> int \<Rightarrow> audit_row list result) \<Rightarrow> string \<Rightarrow> int \<Rightarrow> audit_row list result" where
  "fetch_recent py db symb limit =
     (if limit < 1 then Inr []
      else case db symb limit of
          Inl e \<Rightarrow> if db_error e then Inr [] else Inl e
        | Inr rows \<Rightarrow> map_result (row_to_dict py) rows)"

section \<open>Conservation\<close>

text \<open>Every parsed tick is inserted, dropped or still in the buffer.\<close>

definition accounted :: "worker \<Rightarrow> nat" where
  "accounted w = pw_ticks_inserted w + pw_ticks_dropped w + length (pw_buffer w)"

definition worker_ok :: "worker \<Rightarrow> bool" where
  "worker_ok w \<longleftrightarrow> 1 \<le> pw_flush_threshold w \<and> pw_flush_threshold w \<le> pw_buffer_max w \<and>
     length (pw_buffer w) \<le> pw_buffer_max w"

definition below_threshold :: "worker \<Rightarrow> bool" where
  "below_threshold w \<longleftrightarrow> worker_ok w \<and> length (pw_buffer w) < pw_flush_threshold w"

definition lawful_db :: "tick list db \<Rightarrow> bool" where
  "lawful_db db \<longleftrightarrow> (\<forall>b e. db b = Inl e \<longrightarrow> db_error e)"

definition parses :: "python \<Rightarrow> event_in \<Rightarrow> nat" where
  "parses py ev = (case ev_message ev of None \<Rightarrow> 0 | Some raw \<Rightarrow> if is_ok (parse_tick py raw) then 1 else 0)"

lemma PersistenceWorker_ok:
  "PersistenceWorker threshold interval buffer_max = Inr w \<Longrightarrow>
     below_threshold w \<and> accounted w = 0 \<and> int (pw_flush_threshold w) = threshold"
  by (auto simp: PersistenceWorker_def below_threshold_def worker_ok_def accounted_def split: if_splits)

lemma insert_batch_lawful:
  "lawful_db db \<Longrightarrow> \<exists>n \<le> length b. insert_batch db b = Inr n"
  by (auto simp: insert_batch_def lawful_db_def split: sum.splits)

lemma flush_lawful:
  assumes "lawful_db db"
  obtains w' where "flush_ticks db w = (w', Inr ())" "pw_buffer w' = []" "accounted w' = accounted w"
    "pw_flush_threshold w' = pw_flush_threshold w" "pw_buffer_max w' = pw_buffer_max w"
    "pw_flush_interval w' = pw_flush_interval w"
proof (cases "pw_buffer w = []")
  case True
  then show ?thesis by (intro that [of w]) (simp_all add: flush_ticks_def)
next
  case False
  from insert_batch_lawful [OF assms] obtain n
    where n: "n \<le> length (pw_buffer w)" "insert_batch db (pw_buffer w) = Inr n" by blast
  with False show ?thesis
    by (intro that [of "fst (flush_ticks db w)"]) (auto simp: flush_ticks_def accounted_def Let_def)
qed

lemma enqueue_accounts:
  assumes "worker_ok w" "enqueue_tick py w raw = (w', r)"
  shows "accounted w' = accounted w + (if is_ok (parse_tick py raw) then 1 else 0)"
    "worker_ok w'" "pw_flush_threshold w' = pw_flush_threshold w"
    "\<not> is_ok (parse_tick py raw) \<Longrightarrow> w' = w"
    "r = Inr () \<or> (\<exists>e. parse_tick py raw = Inl e \<and> r = Inl e)"
  using assms
  by (auto simp: enqueue_tick_def accounted_def worker_ok_def split: sum.splits if_splits)

lemma flush_at_lawful:
  assumes "lawful_db db" "worker_ok w"
  obtains w' lf where "flush_at db w last_flush now = (w', lf, Inr ())" "below_threshold w'"
    "accounted w' = accounted w" "pw_flush_threshold w' = pw_flush_threshold w"
proof -
  obtain w' where "flush_ticks db w = (w', Inr ())" "pw_buffer w' = []" "accounted w' = accounted w"
    "pw_flush_threshold w' = pw_flush_threshold w" "pw_buffer_max w' = pw_buffer_max w"
    by (rule flush_lawful [OF assms(1)])
  with assms(2) show ?thesis
    by (intro that [of w' now]) (auto simp: flush_at_def below_threshold_def worker_ok_def)
qed

lemma tick_round_accounts:
  assumes "lawful_db db" "below_threshold w" "tick_round py db w lf ev = (w', lf', r)"
  shows "accounted w' = accounted w + parses py ev" "below_threshold w'"
    "pw_flush_threshold w' = pw_flush_threshold w"
    "r = Inr () \<or> (\<exists>raw e. parse_tick py raw = Inl e \<and> r = Inl e)"
proof -
  define first where "first = (case ev_message ev of
       None \<Rightarrow> (w, lf, Inr ())
     | Some raw \<Rightarrow> (case enqueue_tick py w raw of
         (w1, Inl e) \<Rightarrow> (w1, lf, Inl e)
       | (w1, Inr _) \<Rightarrow> if pw_flush_threshold w1 \<le> length (pw_buffer w1)
           then flush_at db w1 lf (ev_now ev) else (w1, lf, Inr ())))"
  obtain w1 lf1 r1 where f: "first = (w1, lf1, r1)" by (cases first)
  have ok: "worker_ok w" using assms(2) by (simp add: below_threshold_def)
  have one: "accounted w1 = accounted w + parses py ev \<and> below_threshold w1 \<and>
      pw_flush_threshold w1 = pw_flush_threshold w \<and>
      (r1 = Inr () \<or> (\<exists>raw e. parse_tick py raw = Inl e \<and> r1 = Inl e))"
  proof (cases "ev_message ev")
    case None
    with f assms(2) show ?thesis by (auto simp: first_def parses_def)
  next
    case (Some raw)
    obtain w2 r2 where e: "enqueue_tick py w raw = (w2, r2)" by (cases "enqueue_tick py w raw")
    note acc = enqueue_accounts [OF ok e]
    show ?thesis
    proof (cases "r2 = Inr () \<and> pw_flush_threshold w2 \<le> length (pw_buffer w2)")
      case True
      obtain w3 lf3 where "flush_at db w2 lf (ev_now ev) = (w3, lf3, Inr ())" "below_threshold w3"
        "accounted w3 = accounted w2" "pw_flush_threshold w3 = pw_flush_threshold w2"
        by (rule flush_at_lawful [OF assms(1) acc(2)])
      with True f Some e acc show ?thesis by (auto simp: first_def parses_def)
    next
      case False
      with f Some e acc have "w1 = w2" "r1 = r2" "lf1 = lf" by (auto simp: first_def split: sum.splits)
      moreover have "below_threshold w2"
        using False acc assms(2) by (cases "is_ok (parse_tick py raw)") (auto simp: below_threshold_def)
      ultimately show ?thesis using Some acc by (auto simp: parses_def)
    qed
  qed
  have step: "tick_round py db w lf ev = (case r1 of
      Inl e \<Rightarrow> (w1, lf1, Inl e)
    | Inr _ \<Rightarrow> if pw_flush_interval w1 \<le> ev_now ev - lf1 \<and> pw_buffer w1 \<noteq> []
        then flush_at db w1 lf1 (ev_now ev) else (w1, lf1, Inr ()))"
    unfolding tick_round_def Let_def first_def [symmetric] f by simp
  have "worker_ok w1" using one by (simp add: below_threshold_def)
  then obtain w4 lf4 where "flush_at db w1 lf1 (ev_now ev) = (w4, lf4, Inr ())" "below_threshold w4"
    "accounted w4 = accounted w1" "pw_flush_threshold w4 = pw_flush_threshold w1"
    by (rule flush_at_lawful [OF assms(1)])
  with one assms(3) show "accounted w' = accounted w + parses py ev" "below_threshold w'"
    "pw_flush_threshold w' = pw_flush_threshold w"
    "r = Inr () \<or> (\<exists>raw e. parse_tick py raw = Inl e \<and> r = Inl e)"
    unfolding step by (auto split: sum.splits if_splits)
qed

text \<open>Neither loop ever dies of an exception of its own, so the tasks can always be stopped.\<close>

definition stoppable :: "worker \<Rightarrow> bool" where
  "stoppable w \<longleftrightarrow> (\<forall>e. \<not> crashed (pw_tick_task w) e \<and> \<not> crashed (pw_audit_task w) e)"

lemma stop_tasks_stoppable:
  "stoppable w \<Longrightarrow> stop_tasks w = (w\<lparr>pw_tick_task := NoTask, pw_audit_task := NoTask\<rparr>, Inr ())"
  by (cases "pw_tick_task w"; cases "pw_audit_task w") (simp_all add: stoppable_def stop_tasks_def crashed_def)

lemma flush_tasks:
  "flush_ticks db w = (w', r) \<Longrightarrow> pw_tick_task w' = pw_tick_task w \<and> pw_audit_task w' = pw_audit_task w"
  by (auto simp: flush_ticks_def Let_def split: if_splits sum.splits)

lemma tick_round_tasks:
  assumes "tick_round py db w lf ev = (w', lf', r)"
  shows "pw_tick_task w' = pw_tick_task w \<and> pw_audit_task w' = pw_audit_task w"
proof -
  have e: "enqueue_tick py w raw = (w1, r1) \<Longrightarrow> pw_tick_task w1 = pw_tick_task w \<and> pw_audit_task w1 = pw_audit_task w"
    for raw w1 r1 by (auto simp: enqueue_tick_def split: sum.splits)
  have f: "flush_at db w1 l n = (w2, l2, r2) \<Longrightarrow> pw_tick_task w2 = pw_tick_task w1 \<and> pw_audit_task w2 = pw_audit_task w1"
    for w1 l n w2 l2 r2 using flush_tasks [of db w1] by (auto simp: flush_at_def split: prod.splits sum.splits)
  from assms show ?thesis
    by (auto simp: tick_round_def Let_def split: option.splits prod.splits sum.splits if_splits dest!: e f)
qed

lemma tick_loop_stoppable: "stoppable w \<Longrightarrow> stoppable (tick_loop py db w lf evs)"
proof (induction evs arbitrary: w lf)
  case (Cons ev evs)
  obtain w1 lf1 r where t: "tick_round py db w lf ev = (w1, lf1, r)" by (cases "tick_round py db w lf ev")
  with tick_round_tasks [OF t] Cons.prems have "stoppable w1" by (simp add: stoppable_def)
  with Cons.IH [OF this] t show ?case
    by (auto simp: stoppable_def crashed_def end_task_def split: sum.splits)
qed simp

lemma worker_start_stoppable [simp]: "stoppable (worker_start w)"
  by (simp add: stoppable_def worker_start_def crashed_def Let_def)

lemma worker_start_data [simp]:
  "accounted (worker_start w) = accounted w" "below_threshold (worker_start w) = below_threshold w"
  "pw_flush_threshold (worker_start w) = pw_flush_threshold w"
  by (simp_all add: worker_start_def Let_def accounted_def below_threshold_def worker_ok_def)

lemma tick_loop_accounts:
  assumes "lawful_db db" "\<And>raw. parse_tick py raw \<noteq> Inl CancelledError" "below_threshold w"
  shows "accounted (tick_loop py db w lf evs) = accounted w + sum_list (map (parses py) evs) \<and>
     below_threshold (tick_loop py db w lf evs) \<and>
     pw_flush_threshold (tick_loop py db w lf evs) = pw_flush_threshold w"
  using assms(3)
proof (induction evs arbitrary: w lf)
  case Nil
  then show ?case by simp
next
  case (Cons ev evs)
  obtain w1 lf1 r where t: "tick_round py db w lf ev = (w1, lf1, r)"
    by (cases "tick_round py db w lf ev")
  note acc = tick_round_accounts [OF assms(1) Cons.prems t]
  from acc(4) have "r \<noteq> Inl CancelledError" using assms(2) by auto
  with Cons.IH [OF acc(2)] acc(1,3) t show ?case by (auto split: sum.splits)
qed

section \<open>Audit envelopes on the wire\<close>

fun mode_value :: "exec_mode \<Rightarrow> string" where
  "mode_value Live = ''live''"
| "mode_value Shadow = ''shadow''"
| "mode_value Noop = ''noop''"

definition j_opt :: "string option \<Rightarrow> json" where
  "j_opt v = (case v of None \<Rightarrow> JNull | Some s \<Rightarrow> JStr s)"

text \<open>
  The envelope as the dictionary \<open>pipeline.py\<close> builds; \<open>isoformat\<close> is \<open>datetime.isoformat\<close> and
  \<open>txt\<close> the text of a reason.
\<close>

definition envelope_json :: "(time \<Rightarrow> string) \<Rightarrow> (exec_reason \<Rightarrow> string) \<Rightarrow> audit_envelope \<Rightarrow> json" where
  "envelope_json isoformat txt e =
     JObj [(''ts'', JStr (isoformat (ae_ts e))), (''symbol'', JStr (ae_symbol e)),
           (''mode'', JStr (mode_value (ae_mode e))), (''executed'', JBool (ae_executed e)),
           (''intended_action'', JStr (action_value (ae_action e))),
           (''intended_quantity'', JInt (ae_quantity e)), (''order_id'', j_opt (ae_order_id e)),
           (''blocked_by'', j_opt (ae_blocked_by e)), (''reason'', j_opt (map_option txt (ae_reason e))),
           (''signal'', JObj [(''action'', JStr (action_value (ae_signal_action e))),
              (''confidence'', JFloat (ae_confidence e)), (''score'', JFloat (ae_score e)),
              (''rationale'', JList (map (\<lambda>(i, a, c). JObj [(''agent_id'', JStr i),
                 (''action'', JStr (action_value a)), (''confidence'', JFloat c)]) (ae_rationale e)))])]"

lemma opt_str_item:
  "map_of kvs k = Some (j_opt v) \<Longrightarrow> opt_str py (JObj kvs) k = Inr v"
  by (simp add: opt_str_def j_opt_def j_str_def split: option.splits)

section \<open>Properties\<close>

text \<open>
  C26: No tick goes missing. However messages, timeouts and malformed payloads arrive, and
  however often the database fails, every tick that parses is exactly one of inserted, dropped
  or buffered, by the worker's own counters; the buffer stays below the flush threshold, and
  stopping the worker empties it into the counters.
\<close>

theorem persistence_conserves_ticks:
  assumes "PersistenceWorker threshold interval buffer_max = Inr w0"
    and "\<And>b e. db b = Inl e \<Longrightarrow> db_error e"
    and "\<And>raw. parse_tick py raw \<noteq> Inl CancelledError"
    and "worker_stop db (tick_loop py db (worker_start w0) t0 evs) = (stopped, res)"
  shows "let w = tick_loop py db (worker_start w0) t0 evs; parsed = sum_list (map (parses py) evs)
         in pw_ticks_inserted w + pw_ticks_dropped w + length (pw_buffer w) = parsed \<and>
            int (length (pw_buffer w)) < threshold \<and> res = Inr () \<and> \<not> worker_running stopped \<and>
            pw_buffer stopped = [] \<and> pw_ticks_inserted stopped + pw_ticks_dropped stopped = parsed"
proof -
  let ?w = "tick_loop py db (worker_start w0) t0 evs"
  let ?v = "?w\<lparr>pw_tick_task := NoTask, pw_audit_task := NoTask\<rparr>"
  have db: "lawful_db db" using assms(2) by (auto simp: lawful_db_def)
  note w0 = PersistenceWorker_ok [OF assms(1)]
  from w0 tick_loop_accounts [OF db assms(3), of "worker_start w0" t0 evs]
  have w: "accounted ?w = sum_list (map (parses py) evs)" "below_threshold ?w"
    "int (pw_flush_threshold ?w) = threshold" by auto
  have st: "stop_tasks ?w = (?v, Inr ())" by (intro stop_tasks_stoppable tick_loop_stoppable) simp
  obtain w' where f: "flush_ticks db ?v = (w', Inr ())" "pw_buffer w' = []" "accounted w' = accounted ?v"
    by (rule flush_lawful [OF db])
  with assms(4) st have "stopped = w'" "res = Inr ()" by (simp_all add: worker_stop_def)
  moreover have "accounted ?v = accounted ?w" by (simp add: accounted_def)
  ultimately show ?thesis
    using w f flush_tasks [OF f(1)]
    by (auto simp: Let_def accounted_def below_threshold_def worker_running_def)
qed

definition sample_python :: python where
  "sample_python = \<lparr>py_loads = \<lambda>s. if s = ''t'' then
       Inr (JObj [(''symbol'', JStr ''A''), (''ts'', JStr ''0''), (''price'', JStr ''5''), (''volume'', JInt 1)])
       else Inl ValueError,
     py_str = \<lambda>v. [], py_fromisoformat = py_int, py_float_str = \<lambda>s. Inl ValueError\<rparr>"

lemma sample_parse:
  "parse_tick sample_python raw = (if raw = ''t''
     then Inr \<lparr>t_symbol = ''A'', t_ts = 0, t_price = 5, t_volume = 1, t_side = SideBuy\<rparr> else Inl ValueError)"
proof -
  have "py_int ''0'' = Inr 0" "py_decimal ''5'' = Inr (DFin 5)" "lower ''buy'' = ''buy''" by code_simp+
  then show ?thesis
    by (simp add: parse_tick_def sample_python_def dict_to_tick_def j_str_def make_tick_def)
qed

theorem persistence_conserves_ticks_witness:
  "\<exists>w stopped. PersistenceWorker 500 (5 * second) 5000 = Inr w \<and>
     worker_stop (\<lambda>b. Inl OSError) (tick_loop sample_python (\<lambda>b. Inl OSError) (worker_start w) 0
       [\<lparr>ev_message = Some ''t'', ev_now = 1\<rparr>, \<lparr>ev_message = Some ''x'', ev_now = 2\<rparr>]) = (stopped, Inr ()) \<and>
     pw_ticks_inserted stopped + pw_ticks_dropped stopped = 1"
proof -
  let ?evs = "[\<lparr>ev_message = Some ''t'', ev_now = 1\<rparr>, \<lparr>ev_message = Some ''x'', ev_now = 2\<rparr>]"
  obtain w where w: "PersistenceWorker 500 (5 * second) 5000 = Inr w"
    by (simp add: PersistenceWorker_def second_def)
  let ?w = "tick_loop sample_python (\<lambda>b. Inl OSError) (worker_start w) 0 ?evs"
  obtain stopped res where s: "worker_stop (\<lambda>b. Inl OSError) ?w = (stopped, res)"
    by (cases "worker_stop (\<lambda>b. Inl OSError) ?w")
  have "db_error OSError" by (simp add: db_error_def)
  with persistence_conserves_ticks [OF w _ _ s]
  have "res = Inr () \<and> pw_ticks_inserted stopped + pw_ticks_dropped stopped = sum_list (map (parses sample_python) ?evs)"
    by (auto simp: sample_parse Let_def split: if_splits)
  with w s show ?thesis by (auto simp: parses_def sample_parse)
qed

lemma envelope_row:
  assumes "\<And>t. py_fromisoformat py (isoformat t) = Inr t"
  shows "\<exists>row. envelope_to_row py (envelope_json isoformat txt (build_audit_envelope sig g r)) = Inr row \<and>
     ar_ts row = ex_ts r \<and> ar_symbol row = ex_symbol r \<and> ar_mode row = mode_value (ex_mode r) \<and>
     ar_executed row = ex_executed r \<and> ar_intended_action row = action_value (ex_action r) \<and>
     ar_intended_quantity row = ex_quantity r \<and> ar_order_id row = ex_order_id r \<and>
     ar_blocked_by row = gs_blocked_by g \<and> ar_reason row = map_option txt (ex_reason r) \<and>
     ar_signal_action row = action_value (ts_action sig) \<and>
     ar_signal_confidence row = ts_confidence sig \<and> ar_signal_score row = ts_score sig"
  using assms
  by (simp add: envelope_to_row_def envelope_json_def build_audit_envelope_def item_str_def j_str_def
      opt_str_item)

text \<open>
  A cancellation during a flush loses the batch without a trace: the buffer was emptied
  before the insert, so the ticks are neither inserted, nor dropped, nor buffered, and the
  final drain of \<open>stop\<close> finds nothing.
\<close>

lemma cancelled_flush_loses_batch:
  assumes "pw_buffer w \<noteq> []" "db (pw_buffer w) = Inl CancelledError"
  shows "\<exists>w'. flush_ticks db w = (w', Inl CancelledError) \<and> accounted w' + length (pw_buffer w) = accounted w \<and>
     flush_ticks db' w' = (w', Inr ())"
  using assms
  by (simp add: flush_ticks_def insert_batch_def db_error_def accounted_def Let_def)

definition sample_worker :: worker where
  "sample_worker = \<lparr>pw_flush_threshold = 1, pw_flush_interval = 1, pw_buffer_max = 1,
     pw_buffer = [\<lparr>t_symbol = ''A'', t_ts = 0, t_price = 5, t_volume = 1, t_side = SideBuy\<rparr>],
     pw_ticks_inserted = 0, pw_ticks_dropped = 0, pw_executions_inserted = 0, pw_executions_failed = 0,
     pw_tick_task = Running, pw_audit_task = Running\<rparr>"

lemma cancelled_flush_loses_batch_example:
  "\<exists>w'. flush_ticks (\<lambda>b. Inl CancelledError) sample_worker = (w', Inl CancelledError) \<and>
     accounted w' + 1 = accounted sample_worker"
proof -
  have "length (pw_buffer sample_worker) = 1" by (simp add: sample_worker_def)
  moreover have "pw_buffer sample_worker \<noteq> []" by (simp add: sample_worker_def)
  note cancelled_flush_loses_batch [OF this, of "\<lambda>b. Inl CancelledError" "\<lambda>b. Inr ()"]
  ultimately show ?thesis by auto
qed


definition unary_iso :: "time \<Rightarrow> string" where
  "unary_iso t = (if 0 \<le> t then replicate (nat t) (CHR ''+'') else replicate (nat (- t)) (CHR ''-''))"

definition unary_python :: python where
  "unary_python = sample_python\<lparr>py_fromisoformat := \<lambda>s.
     Inr (if s = [] \<or> hd s = CHR ''+'' then int (length s) else - int (length s))\<rparr>"


text \<open>The message of a decision, the only one of the audit channel; \<open>None\<close> stands for a subscription notice.\<close>

definition audit_message ::
    "(json \<Rightarrow> string) \<Rightarrow> (time \<Rightarrow> string) \<Rightarrow> (exec_reason \<Rightarrow> string)
     \<Rightarrow> (trade_signal \<times> guarded_signal \<times> execution_result) option \<Rightarrow> string option" where
  "audit_message dumps isoformat txt d = (case d of
       None \<Rightarrow> None
     | Some (sig, g, r) \<Rightarrow> Some (dumps (envelope_json isoformat txt (build_audit_envelope sig g r))))"

definition stored_by :: "python \<Rightarrow> audit_row db \<Rightarrow> (time \<Rightarrow> string) \<Rightarrow> (exec_reason \<Rightarrow> string)
     \<Rightarrow> trade_signal \<times> guarded_signal \<times> execution_result \<Rightarrow> bool" where
  "stored_by py db isoformat txt d = (case d of (sig, g, r) \<Rightarrow>
     (case envelope_to_row py (envelope_json isoformat txt (build_audit_envelope sig g r)) of
        Inl e \<Rightarrow> False
      | Inr row \<Rightarrow> is_ok (db row)))"

lemma audit_loop_counts:
  assumes "\<And>t. py_fromisoformat py (isoformat t) = Inr t" and "\<And>row e. db row = Inl e \<Longrightarrow> db_error e"
    and "\<forall>(sig, g, r) \<in> set (List.map_filter id ds). py_loads py
       (dumps (envelope_json isoformat txt (build_audit_envelope sig g r)))
       = Inr (envelope_json isoformat txt (build_audit_envelope sig g r))"
  shows "audit_loop py db w (map (audit_message dumps isoformat txt) ds) = (let decs = List.map_filter id ds in
     w\<lparr>pw_executions_inserted := pw_executions_inserted w + length (filter (stored_by py db isoformat txt) decs),
       pw_executions_failed := pw_executions_failed w + length (filter (\<lambda>d. \<not> stored_by py db isoformat txt d) decs)\<rparr>)"
  using assms(3)
proof (induction ds arbitrary: w)
  case Nil
  then show ?case by (simp add: List.map_filter_def)
next
  case (Cons d ds)
  show ?case
  proof (cases d)
    case None
    with Cons show ?thesis by (simp add: audit_message_def List.map_filter_def)
  next
    case (Some x)
    obtain sig g r where x: "x = (sig, g, r)" by (cases x)
    let ?j = "envelope_json isoformat txt (build_audit_envelope sig g r)"
    have l: "py_loads py (dumps ?j) = Inr ?j" using Cons.prems Some x by (simp add: List.map_filter_def)
    from envelope_row [OF assms(1)] obtain row where row: "envelope_to_row py ?j = Inr row" by blast
    have h: "handle_audit py db w (dumps ?j) = (if stored_by py db isoformat txt x
        then w\<lparr>pw_executions_inserted := Suc (pw_executions_inserted w)\<rparr>
        else w\<lparr>pw_executions_failed := Suc (pw_executions_failed w)\<rparr>, Inr ())"
      using assms(2) [of row] by (auto simp: handle_audit_def l insert_execution_def row stored_by_def x split: sum.splits)
    have ds: "\<forall>(sig, g, r) \<in> set (List.map_filter id ds). py_loads py
       (dumps (envelope_json isoformat txt (build_audit_envelope sig g r)))
       = Inr (envelope_json isoformat txt (build_audit_envelope sig g r))"
      using Cons.prems Some by (simp add: List.map_filter_def)
    show ?thesis
      using Cons.IH [OF ds] Some
      by (simp add: audit_message_def x h List.map_filter_def Let_def)
  qed
qed

text \<open>
  C27: No decision goes missing from the audit. When the worker reads the envelopes the pipeline
  published, each of them is counted exactly once: inserted if the database takes the row it
  becomes, failed otherwise; nothing else of the worker changes, and messages of other types are
  passed over.
\<close>

theorem audit_trail_complete:
  assumes "\<And>t. py_fromisoformat py (isoformat t) = Inr t" and "\<And>row e. db row = Inl e \<Longrightarrow> db_error e"
    and "\<forall>(sig, g, r) \<in> set (List.map_filter id ds). py_loads py
       (dumps (envelope_json isoformat txt (build_audit_envelope sig g r)))
       = Inr (envelope_json isoformat txt (build_audit_envelope sig g r))"
    and "w' = audit_loop py db w (map (audit_message dumps isoformat txt) ds)"
  shows "pw_executions_inserted w' + pw_executions_failed w'
       = pw_executions_inserted w + pw_executions_failed w + length (filter (\<lambda>d. d \<noteq> None) ds) \<and>
     pw_executions_inserted w' = pw_executions_inserted w
       + length (filter (stored_by py db isoformat txt) (List.map_filter id ds)) \<and>
     accounted w' = accounted w \<and> pw_audit_task w' = pw_audit_task w"
proof -
  have "length (filter (stored_by py db isoformat txt) xs) + length (filter (\<lambda>d. \<not> stored_by py db isoformat txt d) xs)
      = length xs" for xs by (rule sum_length_filter_compl)
  moreover have "length (List.map_filter id ds) = length (filter (\<lambda>d. d \<noteq> None) ds)"
    by (simp add: List.map_filter_def id_def)
  ultimately show ?thesis
    using audit_loop_counts [OF assms(1-3), where w = w]
    by (simp add: assms(4) Let_def accounted_def)
qed

theorem audit_trail_complete_witness:
  "let j = envelope_json unary_iso (\<lambda>x. []) (build_audit_envelope demo_buy (allow_signal demo_buy)
         (exec_result Shadow False demo_buy 3 None None 7));
       w = audit_loop (unary_python\<lparr>py_loads := \<lambda>s. Inr j\<rparr>) (\<lambda>row. Inl OSError) sample_worker [None, Some ''e'']
   in pw_executions_inserted w + pw_executions_failed w = 1"
proof -
  define d where "d = (demo_buy, allow_signal demo_buy, exec_result Shadow False demo_buy 3 None None 7)"
  define j where "j = envelope_json unary_iso (\<lambda>x. []) (build_audit_envelope demo_buy (allow_signal demo_buy)
         (exec_result Shadow False demo_buy 3 None None 7))"
  let ?py = "unary_python\<lparr>py_loads := \<lambda>s. Inr j\<rparr>"
  have iso: "py_fromisoformat ?py (unary_iso t) = Inr t" for t
    by (cases "0 < t") (auto simp: unary_python_def unary_iso_def hd_replicate)
  have db: "Inl OSError = Inl e \<Longrightarrow> db_error e" for e by (simp add: db_error_def)
  have l: "\<forall>(sig, g, r) \<in> set (List.map_filter id [None, Some d]). py_loads ?py
       ((\<lambda>j. ''e'') (envelope_json unary_iso (\<lambda>x. []) (build_audit_envelope sig g r)))
       = Inr (envelope_json unary_iso (\<lambda>x. []) (build_audit_envelope sig g r))"
    by (simp add: List.map_filter_def d_def j_def)
  have m: "map (audit_message (\<lambda>j. ''e'') unary_iso (\<lambda>x. [])) [None, Some d] = [None, Some ''e'']"
    by (simp add: audit_message_def d_def)
  have z: "pw_executions_inserted sample_worker = 0" "pw_executions_failed sample_worker = 0"
    by (simp_all add: sample_worker_def)
  note t = audit_trail_complete [OF iso db l refl, of "\<lambda>row. Inl OSError" sample_worker, unfolded m]
  show ?thesis
    unfolding Let_def j_def [symmetric] using conjunct1 [OF t] by (simp add: z d_def del: audit_loop.simps)
qed

end
