(* ===== verification/Logging.thy ===== *)
theory Logging
  imports Json
begin

text \<open>
  \<open>src/src/core/logging.py\<close>: the JSON payload of a log record and the set-up of the loggers. A
  record is what the standard library hands the formatter: its attributes in the order of its
  dictionary, the formatted message and traceback. The rendering of the payload as text and of
  the clock as a timestamp is the standard library's.
\<close>

section \<open>The request id on the record\<close>

type_synonym attributes = "(string \<times> json) list"

text \<open>Assignment to a key of a dictionary: in place, or at the end.\<close>

fun put_key :: "string \<Rightarrow> 'v \<Rightarrow> (string \<times> 'v) list \<Rightarrow> (string \<times> 'v) list" where
  "put_key k v [] = [(k, v)]"
| "put_key k v ((k', v') # kvs) = (if k = k' then (k, v) # kvs else (k', v') # put_key k v kvs)"

text \<open>\<open>RequestIdFilter.filter\<close> with the value of the context variable; it lets every record pass.\<close>

definition request_id_filter :: "string \<Rightarrow> attributes \<Rightarrow> attributes \<times> bool" where
  "request_id_filter rid attrs = (put_key ''request_id'' (JStr rid) attrs, True)"

section \<open>The formatter\<close>

record log_record =
  lr_attributes :: attributes
  lr_levelname :: string
  lr_name :: string
  lr_timestamp :: string
  lr_message :: "string result"
  lr_exc_text :: "string option"
  lr_stack :: "string option"

definition reserved_attrs :: "string list" where
  "reserved_attrs = [''name'', ''msg'', ''args'', ''levelname'', ''levelno'', ''pathname'', ''filename'',
     ''module'', ''exc_info'', ''exc_text'', ''stack_info'', ''lineno'', ''funcName'', ''created'', ''msecs'',
     ''relativeCreated'', ''thread'', ''threadName'', ''processName'', ''process'', ''message'', ''asctime'',
     ''taskName'']"

text \<open>The loop over the attributes: an attribute goes in unless its key is taken, reserved or private.\<close>

fun merge_extra :: "attributes \<Rightarrow> attributes \<Rightarrow> attributes" where
  "merge_extra payload [] = payload"
| "merge_extra payload ((k, v) # kvs) =
     (if k \<in> set reserved_attrs \<or> k \<in> fst ` set payload \<or> starts_with k ''_'' then merge_extra payload kvs
      else if k = ''request_id'' then merge_extra payload kvs
      else merge_extra (payload @ [(k, v)]) kvs)"

definition standard_payload :: "log_record \<Rightarrow> string \<Rightarrow> attributes" where
  "standard_payload r message =
     [(''timestamp'', JStr (lr_timestamp r)), (''level'', JStr (lr_levelname r)), (''logger'', JStr (lr_name r)),
      (''message'', JStr message),
      (''request_id'', case map_of (lr_attributes r) ''request_id'' of None \<Rightarrow> JStr ''-'' | Some v \<Rightarrow> v)]
     @ (case lr_exc_text r of None \<Rightarrow> [] | Some t \<Rightarrow> [(''exc_info'', JStr t)])
     @ (case lr_stack r of None \<Rightarrow> [] | Some t \<Rightarrow> if t = [] then [] else [(''stack_info'', JStr t)])"

definition json_format :: "log_record \<Rightarrow> attributes result" where
  "json_format r = bind_result (lr_message r) (\<lambda>message.
     Inr (merge_extra (standard_payload r message) (lr_attributes r)))"

section \<open>Set-up\<close>

datatype handler = JsonHandler | ForeignHandler nat

record logger =
  lg_handlers :: "handler list"
  lg_propagate :: bool

record loggers =
  ls_root :: "handler list"
  ls_level :: string
  ls_named :: "string \<Rightarrow> logger"

definition upper_char :: "char \<Rightarrow> char" where
  "upper_char c = (if 97 \<le> code c \<and> code c \<le> 122 then char_of (code c - 32) else c)"

text \<open>Only ASCII letters matter: no level name has others.\<close>

definition upper :: "string \<Rightarrow> string" where
  "upper s = map upper_char s"

definition level_names :: "string list" where
  "level_names = [''CRITICAL'', ''FATAL'', ''ERROR'', ''WARN'', ''WARNING'', ''INFO'', ''DEBUG'', ''NOTSET'']"

definition noisy_loggers :: "string list" where
  "noisy_loggers = [''uvicorn'', ''uvicorn.access'', ''uvicorn.error'']"

text \<open>The handlers are replaced before the level is read: an unknown level raises in between.\<close>

definition configure_logging :: "loggers \<Rightarrow> string \<Rightarrow> loggers \<times> unit result" where
  "configure_logging ls level =
     (let ls1 = ls\<lparr>ls_root := [JsonHandler]\<rparr> in
      if upper level \<notin> set level_names then (ls1, Inl ValueError)
      else (ls1\<lparr>ls_level := upper level,
              ls_named := (\<lambda>n. if n \<in> set noisy_loggers then \<lparr>lg_handlers = [], lg_propagate = True\<rparr>
                               else ls_named ls n)\<rparr>, Inr ()))"

section \<open>Facts\<close>

lemma map_of_put_key: "map_of (put_key k v kvs) = (map_of kvs)(k \<mapsto> v)"
  by (induction kvs) (auto simp: fun_eq_iff)

lemma set_keys_put_key: "fst ` set (put_key k v kvs) = insert k (fst ` set kvs)"
  by (induction k v kvs rule: put_key.induct) (auto simp: insert_commute simp del: set_map)

lemma keys_put_key: "distinct (map fst kvs) \<Longrightarrow> distinct (map fst (put_key k v kvs))"
  by (induction kvs) (auto simp: set_keys_put_key)

definition mergeable :: "string \<Rightarrow> bool" where
  "mergeable k \<longleftrightarrow> k \<notin> set reserved_attrs \<and> \<not> starts_with k ''_'' \<and> k \<noteq> ''request_id''"

lemma merge_extra_lookup:
  assumes "distinct (map fst kvs)"
  shows "map_of (merge_extra payload kvs) k = (case map_of payload k of
     Some v \<Rightarrow> Some v
   | None \<Rightarrow> if mergeable k then map_of kvs k else None)"
  using assms
proof (induction payload kvs rule: merge_extra.induct)
  case (1 payload)
  then show ?case by (simp split: option.splits)
next
  case (2 payload k' v' kvs)
  then have d: "distinct (map fst kvs)" "map_of kvs k' = None" by (auto simp: map_of_eq_None_iff)
  have p: "k' \<in> fst ` set payload \<longleftrightarrow> map_of payload k' \<noteq> None" by (simp add: map_of_eq_None_iff)
  show ?case
  proof (cases "k' \<in> set reserved_attrs \<or> k' \<in> fst ` set payload \<or> starts_with k' ''_''")
    case True
    with 2(1) [OF True d(1)] d(2) p show ?thesis
      by (cases "k = k'") (auto simp: mergeable_def split: option.splits)
  next
    case free: False
    show ?thesis
    proof (cases "k' = ''request_id''")
      case True
      with 2(2) [OF free True d(1)] d(2) free show ?thesis
        by (cases "k = k'") (auto simp: mergeable_def split: option.splits)
    next
      case False
      with 2(3) [OF free False d(1)] d(2) free p show ?thesis
        by (cases "k = k'") (auto simp: mergeable_def map_add_def split: option.splits)
    qed
  qed
qed

lemma merge_extra_keys: "distinct (map fst payload) \<Longrightarrow> distinct (map fst (merge_extra payload kvs))"
  by (induction payload kvs rule: merge_extra.induct) auto

lemma standard_distinct: "distinct (map fst (standard_payload r m))"
  by (cases "lr_exc_text r"; cases "lr_stack r") (auto simp: standard_payload_def)

section \<open>Properties\<close>

text \<open>
  A log line never lies about itself. When the message can be formatted, the payload has each
  key once; the timestamp, level, logger, message and request id are the record's, whatever the
  caller passed under those names; a caller's own field appears unchanged exactly if its key is
  not one of the record's attributes, not private and not taken by a standard field; and the
  request id is the one of the context when the filter has seen the record.
\<close>

lemma log_payload_faithful:
  assumes "lr_message r = Inr m" "distinct (map fst attrs)"
    and "lr_attributes r = fst (request_id_filter rid attrs)"
  shows "\<exists>payload. json_format r = Inr payload \<and> distinct (map fst payload) \<and>
     map_of payload ''timestamp'' = Some (JStr (lr_timestamp r)) \<and> map_of payload ''level'' = Some (JStr (lr_levelname r)) \<and>
     map_of payload ''logger'' = Some (JStr (lr_name r)) \<and> map_of payload ''message'' = Some (JStr m) \<and>
     map_of payload ''request_id'' = Some (JStr rid) \<and>
     map_of payload ''exc_info'' = map_option JStr (lr_exc_text r) \<and>
     (\<forall>k. k \<notin> {''timestamp'', ''level'', ''logger'', ''message'', ''request_id'', ''exc_info'', ''stack_info''} \<longrightarrow>
        map_of payload k = (if k \<in> set reserved_attrs \<or> starts_with k ''_'' then None else map_of attrs k))"
proof -
  let ?p = "merge_extra (standard_payload r m) (lr_attributes r)"
  have d: "distinct (map fst (lr_attributes r))"
    using keys_put_key [OF assms(2)] by (simp add: assms(3) request_id_filter_def)
  have rid: "map_of (lr_attributes r) k = (if k = ''request_id'' then Some (JStr rid) else map_of attrs k)" for k
    by (simp add: assms(3) request_id_filter_def map_of_put_key)
  note look = merge_extra_lookup [OF d, of "standard_payload r m"]
  have std: "map_of (standard_payload r m) ''timestamp'' = Some (JStr (lr_timestamp r))"
    "map_of (standard_payload r m) ''level'' = Some (JStr (lr_levelname r))"
    "map_of (standard_payload r m) ''logger'' = Some (JStr (lr_name r))"
    "map_of (standard_payload r m) ''message'' = Some (JStr m)"
    "map_of (standard_payload r m) ''request_id'' = Some (JStr rid)"
    "map_of (standard_payload r m) ''exc_info'' = map_option JStr (lr_exc_text r)"
    by (simp_all add: standard_payload_def rid map_add_def split: option.splits)
  have "\<not> mergeable ''exc_info''" by (simp add: mergeable_def reserved_attrs_def)
  with look std have "map_of ?p ''timestamp'' = Some (JStr (lr_timestamp r))" "map_of ?p ''level'' = Some (JStr (lr_levelname r))"
    "map_of ?p ''logger'' = Some (JStr (lr_name r))" "map_of ?p ''message'' = Some (JStr m)"
    "map_of ?p ''request_id'' = Some (JStr rid)" "map_of ?p ''exc_info'' = map_option JStr (lr_exc_text r)"
    by (auto split: option.splits)
  moreover have "map_of ?p k = (if k \<in> set reserved_attrs \<or> starts_with k ''_'' then None else map_of attrs k)"
    if "k \<notin> {''timestamp'', ''level'', ''logger'', ''message'', ''request_id'', ''exc_info'', ''stack_info''}" for k
  proof -
    have "map_of (standard_payload r m) k = None"
      using that by (simp add: standard_payload_def map_add_def split: option.splits)
    with that show ?thesis by (simp add: look mergeable_def rid)
  qed
  moreover have "json_format r = Inr ?p" by (simp add: json_format_def assms(1))
  moreover have "distinct (map fst ?p)" by (intro merge_extra_keys standard_distinct)
  ultimately show ?thesis by blast
qed

definition sample_record :: log_record where
  "sample_record = \<lparr>lr_attributes = fst (request_id_filter ''r1''
       [(''name'', JStr ''nexus''), (''event'', JStr ''started''), (''level'', JStr ''shout''), (''_x'', JNull)]),
     lr_levelname = ''INFO'', lr_name = ''nexus'', lr_timestamp = ''2026'', lr_message = Inr ''hello'',
     lr_exc_text = None, lr_stack = None\<rparr>"

lemma log_payload_faithful_example:
  "\<exists>payload. json_format sample_record = Inr payload \<and> map_of payload ''level'' = Some (JStr ''INFO'') \<and>
     map_of payload ''event'' = Some (JStr ''started'') \<and> map_of payload ''_x'' = None"
proof -
  have "lr_message sample_record = Inr ''hello''"
    "distinct (map fst [(''name'', JStr ''nexus''), (''event'', JStr ''started''), (''level'', JStr ''shout''), (''_x'', JNull)])"
    by (simp_all add: sample_record_def)
  from log_payload_faithful [OF this, of "''r1''"] obtain payload where
    p: "json_format sample_record = Inr payload" "map_of payload ''level'' = Some (JStr (lr_levelname sample_record))"
    "\<And>k. k \<notin> {''timestamp'', ''level'', ''logger'', ''message'', ''request_id'', ''exc_info'', ''stack_info''} \<Longrightarrow>
       map_of payload k = (if k \<in> set reserved_attrs \<or> starts_with k ''_'' then None
         else map_of [(''name'', JStr ''nexus''), (''event'', JStr ''started''), (''level'', JStr ''shout''), (''_x'', JNull)] k)"
    by (auto simp: sample_record_def)
  from p(3) [of "''event''"] p(3) [of "''_x''"] p(1,2) show ?thesis
    by (auto simp: reserved_attrs_def sample_record_def)
qed

text \<open>
  Setting up the loggers again changes nothing, and leaves one handler on the root and none on the
  loggers of the server; an unknown level raises with the handlers already replaced.
\<close>

lemma configure_logging_again:
  "configure_logging ls level = (ls', Inr ()) \<Longrightarrow>
     configure_logging ls' level = (ls', Inr ()) \<and> ls_root ls' = [JsonHandler] \<and>
     (\<forall>n \<in> set noisy_loggers. ls_named ls' n = \<lparr>lg_handlers = [], lg_propagate = True\<rparr>)"
  by (auto simp: configure_logging_def Let_def fun_eq_iff split: if_splits)

lemma configure_logging_bad_level:
  "upper level \<notin> set level_names \<Longrightarrow>
     configure_logging ls level = (ls\<lparr>ls_root := [JsonHandler]\<rparr>, Inl ValueError)"
  by (simp add: configure_logging_def)

end
