(* ===== verification/Anomaly.thy ===== *)
theory Anomaly
  imports Py_Statistics Trading_Models
begin

text \<open>
  \<open>src/src/domain/analysis/anomaly.py\<close>: the deviation of the latest price from its window, squashed
  into \<open>[0, 1]\<close>. \<open>math.tanh\<close> is an argument.
\<close>

section \<open>The score\<close>

text \<open>\<open>statistics.mean\<close>: the exact mean, rounded once; the sum of non-finite data is theirs.\<close>

definition stat_mean :: "float64 list \<Rightarrow> float64 result" where
  "stat_mean xs = (case finite_values xs of
       Some vs \<Rightarrow> (case fin (sum_list vs / of_nat (length vs)) of Fin y \<Rightarrow> Inr (Fin y) | _ \<Rightarrow> Inl OverflowError)
     | None \<Rightarrow> Inr (if NaN \<in> set xs \<or> PInf \<in> set xs \<and> NInf \<in> set xs then NaN
                     else if PInf \<in> set xs then PInf else NInf))"

definition WINDOW :: nat where "WINDOW = 64"

definition NOISE_FLOOR :: float64 where "NOISE_FLOOR = fin (1 / 10 ^ 9)"

definition zscore_anomaly :: "(float64 \<Rightarrow> float64) \<Rightarrow> tick list \<Rightarrow> float64 result" where
  "zscore_anomaly math_tanh ticks =
     (if length ticks < 8 then Inr (Fin 0)
      else
        let prices = map (\<lambda>t. float_of_decimal (t_price t)) (last_n WINDOW ticks) in
        bind_result (stat_mean prices) (\<lambda>mu.
        bind_result (pstdev prices) (\<lambda>sd.
        let sigma = (if feq sd (Fin 0) then NOISE_FLOOR else sd) in
        bind_result (fdiv (fabs (fsub (last prices) mu)) sigma) (\<lambda>z.
        bind_result (fdiv z (Fin 3)) (\<lambda>q. Inr (math_tanh q))))))"

section \<open>Facts\<close>

text \<open>A float that is zero or more, infinity included.\<close>

definition nonneg :: "float64 \<Rightarrow> bool" where
  "nonneg x \<longleftrightarrow> x = PInf \<or> (\<exists>y \<ge> 0. x = Fin y)"

lemma nonneg_fin: "0 \<le> x \<Longrightarrow> nonneg (fin x)"
  using fin_nonneg_cases [of x] by (auto simp: nonneg_def)

text \<open>What the score needs of \<open>tanh\<close> on what it is given.\<close>

definition squashes :: "(float64 \<Rightarrow> float64) \<Rightarrow> bool" where
  "squashes math_tanh \<longleftrightarrow> math_tanh (Fin 0) = Fin 0 \<and> (\<forall>x. nonneg x \<longrightarrow> (\<exists>y. math_tanh x = Fin y \<and> 0 \<le> y \<and> y \<le> 1))"

definition price_ok :: "tick \<Rightarrow> bool" where
  "price_ok t \<longleftrightarrow> 0 \<le> t_price t \<and> t_price t \<le> 2 ^ 53"

lemma NOISE_FLOOR_pos: "\<exists>y > 0. NOISE_FLOOR = Fin y"
proof -
  have "rnd (pow2 (- 30)) \<le> rnd (1 / 10 ^ 9)" by (intro rnd_mono) (simp add: pow2_def)
  moreover have "rnd (pow2 (- 30)) = 1 / 2 ^ 30" using rnd_pow2 [of "- 30"] by (simp add: pow2_def)
  ultimately have "0 < rnd (1 / 10 ^ 9)" by simp
  then show ?thesis by (simp add: NOISE_FLOOR_def fin_Fin)
qed

lemma price_values:
  assumes "list_all price_ok ts"
  shows "map (\<lambda>t. float_of_decimal (t_price t)) ts = map Fin (map (\<lambda>t. rnd (t_price t)) ts)"
    "\<forall>v \<in> set (map (\<lambda>t. rnd (t_price t)) ts). 0 \<le> v \<and> v \<le> 2 ^ 53"
proof -
  have v: "float_of_decimal (t_price t) = Fin (rnd (t_price t)) \<and> 0 \<le> rnd (t_price t) \<and> rnd (t_price t) \<le> 2 ^ 53"
    if "t \<in> set ts" for t
  proof -
    from that assms have "price_ok t" by (simp add: list_all_iff)
    then show ?thesis
      using rnd_le_int [of "t_price t" "2 ^ 53"] rnd_nonneg [of "t_price t"]
      by (simp add: price_ok_def float_of_decimal_def fin_Fin)
  qed
  then show "map (\<lambda>t. float_of_decimal (t_price t)) ts = map Fin (map (\<lambda>t. rnd (t_price t)) ts)"
    "\<forall>v \<in> set (map (\<lambda>t. rnd (t_price t)) ts). 0 \<le> v \<and> v \<le> 2 ^ 53" by auto
qed

lemma mean_range:
  fixes vs :: "rat list"
  assumes "vs \<noteq> []" "\<forall>v \<in> set vs. 0 \<le> v \<and> v \<le> b"
  shows "0 \<le> sum_list vs / of_nat (length vs) \<and> sum_list vs / of_nat (length vs) \<le> b"
proof -
  have "0 \<le> sum_list vs \<and> sum_list vs \<le> of_nat (length vs) * b"
    using assms(2) by (induction vs) (auto simp: algebra_simps)
  moreover have "(0 :: rat) < of_nat (length vs)" using assms(1) by simp
  ultimately show ?thesis by (simp add: divide_le_eq mult.commute)
qed

lemma pstdev_finite:
  assumes "vs \<noteq> []"
  obtains sd where "pstdev (map Fin vs) = Inr sd" "nonneg sd"
proof -
  have "nonneg (float_sqrt_of_frac n m)" for n m
    unfolding float_sqrt_of_frac_def Let_def by (simp add: nonneg_fin)
  then show ?thesis
    using that by (cases "quotient_of (variance vs)") (simp add: pstdev_def)
qed

lemma fdiv_nonneg:
  assumes "nonneg a" "a \<noteq> PInf" "nonneg b" "b \<noteq> Fin 0"
  shows "\<exists>q. fdiv a b = Inr q \<and> nonneg q"
proof (cases b)
  case (Fin y)
  from assms(1,2) obtain x where "a = Fin x" "0 \<le> x" by (auto simp: nonneg_def)
  with Fin assms(3,4) nonneg_fin [of "x / y"] show ?thesis by (auto simp: nonneg_def)
qed (use assms in \<open>auto simp: nonneg_def\<close>)

lemma fdiv_pos: "nonneg a \<Longrightarrow> 0 < y \<Longrightarrow> \<exists>q. fdiv a (Fin y) = Inr q \<and> nonneg q"
proof (cases a)
  case (Fin x)
  assume "nonneg a" "0 < y"
  with Fin nonneg_fin [of "x / y"] show ?thesis by (simp add: nonneg_def)
qed (auto simp: nonneg_def inf_of_sign_def)

lemma zscore_value:
  assumes "squashes math_tanh" "list_all price_ok ts" "8 \<le> length ts"
  obtains z where "zscore_anomaly math_tanh ts = Inr (math_tanh z)" "nonneg z"
    "\<forall>t \<in> set (last_n WINDOW ts). t_price t = p \<Longrightarrow> z = Fin 0"
proof -
  let ?w = "last_n WINDOW ts"
  let ?vs = "map (\<lambda>t. rnd (t_price t)) ?w"
  have ne: "?vs \<noteq> []" using assms(3) by (auto simp: last_n_def WINDOW_def)
  have ok: "list_all price_ok ?w" using assms(2) set_last_n [of WINDOW ts] by (auto simp: list_all_iff)
  note pv = price_values [OF ok]
  let ?mu = "sum_list ?vs / of_nat (length ?vs)"
  have mu: "0 \<le> ?mu" "?mu \<le> 2 ^ 53" using mean_range [OF ne pv(2)] by simp_all
  have rmu: "0 \<le> rnd ?mu" "rnd ?mu \<le> 2 ^ 53"
    using rnd_nonneg [OF mu(1)] rnd_le_int [of ?mu "2 ^ 53"] mu(2) by simp_all
  have m: "stat_mean (map Fin ?vs) = Inr (Fin (rnd ?mu))"
    unfolding stat_mean_def finite_values_map_Fin option.case using mu by (simp add: fin_Fin)
  obtain sd where sd: "pstdev (map Fin ?vs) = Inr sd" "nonneg sd" by (rule pstdev_finite [OF ne])
  define sigma where "sigma = (if feq sd (Fin 0) then NOISE_FLOOR else sd)"
  have sigma: "nonneg sigma" "sigma \<noteq> Fin 0"
  proof -
    obtain y where y: "NOISE_FLOOR = Fin y" "0 < y" using NOISE_FLOOR_pos by blast
    then have "nonneg NOISE_FLOOR \<and> NOISE_FLOOR \<noteq> Fin 0" unfolding y(1) by (simp add: nonneg_def)
    moreover have "nonneg sd \<and> sd \<noteq> Fin 0" if "\<not> feq sd (Fin 0)" using sd(2) that by auto
    ultimately show "nonneg sigma" "sigma \<noteq> Fin 0" by (simp_all add: sigma_def)
  qed
  let ?l = "last ?vs"
  have l: "0 \<le> ?l" "?l \<le> 2 ^ 53" using pv(2) last_in_set [OF ne] by blast+
  let ?d = "fabs (fsub (Fin ?l) (Fin (rnd ?mu)))"
  have "\<bar>?l - rnd ?mu\<bar> \<le> 2 ^ 53" using l rmu by linarith
  then have d: "?d = Fin \<bar>rnd (?l - rnd ?mu)\<bar>" by (simp add: fsub_def fin_Fin)
  then have "nonneg ?d" "?d \<noteq> PInf" by (simp_all add: nonneg_def)
  from fdiv_nonneg [OF this sigma] obtain z where z: "fdiv ?d sigma = Inr z" "nonneg z" by blast
  obtain q where q: "fdiv z (Fin 3) = Inr q" "nonneg q" using fdiv_pos [OF z(2), of 3] by auto
  have la: "last (map Fin ?vs) = Fin ?l" using ne by (simp add: last_map)
  have "zscore_anomaly math_tanh ts = Inr (math_tanh q)"
    using assms(3) z(1) q(1)
    unfolding zscore_anomaly_def pv(1) Let_def m sd(1) bind_result_simps sigma_def [symmetric] la by simp
  moreover have "q = Fin 0" if flat: "\<forall>t \<in> set ?w. t_price t = p"
  proof -
    have eq: "?vs = replicate (length ?w) (rnd p)" using flat by (intro replicate_eqI) auto
    have w: "?w \<noteq> []" "length ?w \<noteq> 0" using ne by (simp_all del: length_last_n)
    have "?mu = rnd p" unfolding eq using w(2) by (simp add: sum_list_replicate del: length_last_n)
    moreover have "?l = rnd p" unfolding eq using w(2) by (simp del: length_last_n)
    ultimately have "?d = Fin 0" using d by simp
    with z(1) have "fdiv (Fin 0) sigma = Inr z" by simp
    then have "z = Fin 0" using sigma by (cases sigma) (simp_all add: fin_def nonneg_def)
    with q(1) show ?thesis by (simp add: fin_def)
  qed
  ultimately show ?thesis using that q(2) by blast
qed

section \<open>Properties\<close>

text \<open>
  C0: The anomaly score is a number in \<open>[0, 1]\<close>. For any ticks with prices up to \<open>2 ^ 53\<close>
  the call returns, and the score lies in the unit interval; it is 0 below eight ticks and on a
  window of equal prices (the noise floor keeps that from dividing by zero); and only the
  last 64 ticks count.
\<close>

theorem anomaly_score_unit:
  assumes "squashes math_tanh" "list_all price_ok ts"
  shows "\<exists>y. zscore_anomaly math_tanh ts = Inr (Fin y) \<and> 0 \<le> y \<and> y \<le> 1 \<and>
     (length ts < 8 \<longrightarrow> y = 0) \<and> (\<forall>p. (\<forall>t \<in> set (last_n 64 ts). t_price t = p) \<longrightarrow> y = 0) \<and>
     (64 \<le> length ts \<longrightarrow> zscore_anomaly math_tanh ts = zscore_anomaly math_tanh (last_n 64 ts))"
proof (cases "length ts < 8")
  case True
  then show ?thesis by (simp add: zscore_anomaly_def)
next
  case False
  then have len: "8 \<le> length ts" by simp
  obtain z where z: "zscore_anomaly math_tanh ts = Inr (math_tanh z)" "nonneg z"
    by (rule zscore_value [OF assms len, of undefined])
  obtain y where y: "math_tanh z = Fin y" "0 \<le> y" "y \<le> 1" using assms(1) z(2) by (auto simp: squashes_def)
  have "y = 0" if flat: "\<forall>t \<in> set (last_n 64 ts). t_price t = p" for p
  proof -
    have w: "\<forall>t \<in> set (last_n WINDOW ts). t_price t = p" using flat by (simp add: WINDOW_def)
    obtain z' where "zscore_anomaly math_tanh ts = Inr (math_tanh z')" "z' = Fin 0"
      by (rule zscore_value [OF assms len, of p]) (use w in blast)
    then have "zscore_anomaly math_tanh ts = Inr (math_tanh (Fin 0))" by simp
    with z y assms(1) show ?thesis by (simp add: squashes_def)
  qed
  moreover have "last_n WINDOW (last_n 64 ts) = last_n WINDOW ts" by (simp add: WINDOW_def)
  then have "zscore_anomaly math_tanh ts = zscore_anomaly math_tanh (last_n 64 ts)" if "64 \<le> length ts"
    using that by (simp add: zscore_anomaly_def)
  ultimately show ?thesis using z y len by auto
qed

definition step_tanh :: "float64 \<Rightarrow> float64" where
  "step_tanh x = (if flt (Fin 0) x then Fin 1 else Fin 0)"

definition price_tick :: "rat \<Rightarrow> tick" where
  "price_tick p = \<lparr>t_symbol = ''A'', t_ts = 0, t_price = p, t_volume = 1, t_side = SideBuy\<rparr>"

theorem anomaly_score_unit_witness:
  "\<exists>y. zscore_anomaly step_tanh (replicate 7 (price_tick 5) @ [price_tick 9]) = Inr (Fin y) \<and> 0 \<le> y \<and> y \<le> 1"
proof -
  have "squashes step_tanh" by (auto simp: squashes_def step_tanh_def nonneg_def)
  moreover have "list_all price_ok (replicate 7 (price_tick 5) @ [price_tick 9])"
    by (simp add: price_ok_def price_tick_def list_all_iff)
  ultimately show ?thesis using anomaly_score_unit by blast
qed

end
