(* ===== verification/Mock_Agents.thy ===== *)
theory Mock_Agents
  imports Coordinator
begin

text \<open>
  The stand-in agents of \<open>src/src/domain/trading/agents.py\<close>: they cycle through a script, or draw
  at random without one. What the generator draws is an argument.
\<close>

section \<open>The agents\<close>

record mock_agent =
  ma_id :: string
  ma_script :: "(action \<times> float64) list"
  ma_cursor :: nat

definition ScriptedMockAgent :: "string \<Rightarrow> (action \<times> float64) list option \<Rightarrow> mock_agent" where
  "ScriptedMockAgent aid script =
     \<lparr>ma_id = aid, ma_script = (case script of None \<Rightarrow> [] | Some s \<Rightarrow> s), ma_cursor = 0\<rparr>"

definition MockQuantAgent :: "(action \<times> float64) list option \<Rightarrow> mock_agent" where
  "MockQuantAgent script = ScriptedMockAgent ''mock.quant'' script"

definition MockMacroAgent :: "(action \<times> float64) list option \<Rightarrow> mock_agent" where
  "MockMacroAgent script = ScriptedMockAgent ''mock.macro'' script"

text \<open>The draws of one call: \<open>choice\<close> among the actions and \<open>uniform(0, 1)\<close>.\<close>

definition mock_evaluate ::
    "mock_agent \<Rightarrow> action \<Rightarrow> float64 \<Rightarrow> string \<Rightarrow> time \<Rightarrow> mock_agent \<times> agent_signal result" where
  "mock_evaluate m drawn u s now =
     (if ma_script m \<noteq> [] then
        let i = ma_cursor m mod length (ma_script m); (act, conf) = ma_script m ! i
        in (m\<lparr>ma_cursor := Suc (ma_cursor m)\<rparr>, AgentSignal (ma_id m) s act conf (ScriptedAt i) now)
      else (m, AgentSignal (ma_id m) s drawn (round_digits 3 u) (Text ''random'') now))"

text \<open>As the coordinator sees it: the answer of the next call.\<close>

definition mock_as_agent :: "mock_agent \<Rightarrow> action \<Rightarrow> float64 \<Rightarrow> agent" where
  "mock_as_agent m drawn u = \<lparr>ag_id = ma_id m, ag_evaluate = (\<lambda>c s now. snd (mock_evaluate m drawn u s now))\<rparr>"

text \<open>Calls one after the other, each with its draws, symbol and time.\<close>

fun mock_calls ::
    "mock_agent \<Rightarrow> (action \<times> float64 \<times> string \<times> time) list \<Rightarrow> mock_agent \<times> agent_signal result list" where
  "mock_calls m [] = (m, [])"
| "mock_calls m ((a, u, s, now) # cs) = (case mock_evaluate m a u s now of
       (m1, r) \<Rightarrow> (case mock_calls m1 cs of (m2, rs) \<Rightarrow> (m2, r # rs)))"

section \<open>Facts\<close>

lemma round_digits_unit:
  assumes "0 \<le> x" "x \<le> 1"
  shows "\<exists>y. round_digits 3 (Fin x) = Fin y \<and> 0 \<le> y \<and> y \<le> 1"
proof -
  let ?r = "of_int (round_even (x * 10 ^ 3)) / 10 ^ 3 :: rat"
  have "0 \<le> round_even (x * 10 ^ 3)" "round_even (x * 10 ^ 3) \<le> 1000"
    using assms by (intro round_even_ge_int round_even_le_int; simp)+
  then have r: "0 \<le> ?r" "?r \<le> 1" by simp_all
  from rnd_unit [OF r] r show ?thesis by (simp add: fin_Fin)
qed

lemma scripted_calls:
  assumes "ma_script m \<noteq> []"
  shows "mock_calls m cs = (m\<lparr>ma_cursor := ma_cursor m + length cs\<rparr>,
     map (\<lambda>k. case cs ! k of (a, u, s, now) \<Rightarrow>
       let i = (ma_cursor m + k) mod length (ma_script m) in
       AgentSignal (ma_id m) s (fst (ma_script m ! i)) (snd (ma_script m ! i)) (ScriptedAt i) now) [0 ..< length cs])"
  using assms
proof (induction cs arbitrary: m)
  case Nil
  then show ?case by simp
next
  case (Cons c cs)
  obtain a u s now where c: "c = (a, u, s, now)" by (cases c)
  let ?m = "m\<lparr>ma_cursor := Suc (ma_cursor m)\<rparr>"
  have one: "mock_evaluate m a u s now = (?m, let i = ma_cursor m mod length (ma_script m) in
      AgentSignal (ma_id m) s (fst (ma_script m ! i)) (snd (ma_script m ! i)) (ScriptedAt i) now)"
    using Cons.prems by (simp add: mock_evaluate_def Let_def case_prod_beta)
  have up: "[0 ..< length (c # cs)] = 0 # map Suc [0 ..< length cs]"
    by (simp only: length_Cons upt_conv_Cons [of 0 "Suc (length cs)"] zero_less_Suc map_Suc_upt)
  from Cons.IH [of ?m] Cons.prems show ?case
    unfolding up by (simp add: c one comp_def Let_def)
qed

section \<open>Properties\<close>

text \<open>
  The stand-ins do as they are told. With a script, the \<open>k\<close>th call answers its \<open>k\<close>th entry,
  starting over at the end, and raises exactly when the entry's confidence is outside
  \<open>[0, 1]\<close>; the cursor moves either way. Without a script no call raises and nothing changes.
\<close>

lemma mock_agents_follow_script:
  assumes "m = ScriptedMockAgent aid script" and "mock_calls m cs = (m', rs)"
    and "\<forall>(a, u, s, now) \<in> set cs. \<exists>x. u = Fin x \<and> 0 \<le> x \<and> x \<le> 1" and "k < length cs"
  shows "length rs = length cs \<and>
     (case script of
        Some (e # es) \<Rightarrow>
          let (act, conf) = (e # es) ! (k mod length (e # es)) in
          (if in_range 0 1 conf
           then \<exists>sig. rs ! k = Inr sig \<and> as_action sig = act \<and> as_confidence sig = conf \<and>
             as_agent_id sig = aid \<and> as_symbol sig = fst (snd (snd (cs ! k)))
           else rs ! k = Inl ValueError) \<and> ma_cursor m' = length cs
      | _ \<Rightarrow> m' = m \<and> is_ok (rs ! k))"
proof (cases "ma_script m = []")
  case False
  then obtain e es where s: "script = Some (e # es)"
    using assms(1) by (cases script) (auto simp: ScriptedMockAgent_def neq_Nil_conv)
  have m: "ma_script m = e # es" "ma_cursor m = 0" "ma_id m = aid"
    using assms(1) by (simp_all add: s ScriptedMockAgent_def)
  obtain a u sy now where c: "cs ! k = (a, u, sy, now)" by (cases "cs ! k")
  let ?i = "k mod length (e # es)"
  have r: "rs ! k = AgentSignal aid sy (fst ((e # es) ! ?i)) (snd ((e # es) ! ?i)) (ScriptedAt ?i) now"
    "length rs = length cs" "ma_cursor m' = length cs"
    using scripted_calls [OF False, of cs] assms(2,4) by (auto simp: m c Let_def)
  then show ?thesis
    by (simp add: s c Let_def case_prod_beta AgentSignal_def del: nth_Cons_Suc)
next
  case True
  have "m' = m \<and> length rs = length cs \<and> list_all is_ok rs"
    using assms(2,3)
  proof (induction cs arbitrary: rs)
    case (Cons c cs)
    obtain a u s now where c: "c = (a, u, s, now)" by (cases c)
    from Cons.prems(2) obtain x where "u = Fin x" "0 \<le> x" "x \<le> 1" by (auto simp: c)
    with round_digits_unit [of x] have "is_ok (AgentSignal (ma_id m) s a (round_digits 3 u) (Text ''random'') now)"
      by (auto simp: AgentSignal_def simp del: round_digits.simps)
    with Cons True show ?case by (auto simp: c mock_evaluate_def split: prod.splits)
  qed simp
  moreover have "\<nexists>e es. script = Some (e # es)" using True assms(1) by (auto simp: ScriptedMockAgent_def)
  ultimately show ?thesis
    using assms(4) by (auto simp: list_all_length split: option.splits list.splits)
qed

lemma mock_agents_follow_script_example:
  "\<exists>m' rs sig. mock_calls (ScriptedMockAgent ''a'' (Some [(BUY, Fin 1), (SELL, Fin 2)]))
     [(HOLD, Fin 0, ''S'', 1), (HOLD, Fin 0, ''S'', 2), (HOLD, Fin 0, ''T'', 3)] = (m', rs) \<and>
     rs ! 2 = Inr sig \<and> as_action sig = BUY \<and> as_symbol sig = ''T'' \<and> rs ! 1 = Inl ValueError"
proof -
  let ?m = "ScriptedMockAgent ''a'' (Some [(BUY, Fin 1), (SELL, Fin 2)])"
  let ?cs = "[(HOLD, Fin 0, ''S'', 1), (HOLD, Fin 0, ''S'', 2), (HOLD, Fin 0, ''T'', 3)]"
  obtain m' rs where r: "mock_calls ?m ?cs = (m', rs)" by (cases "mock_calls ?m ?cs")
  have d: "\<forall>(a, u, s, now) \<in> set ?cs. \<exists>x. u = Fin x \<and> 0 \<le> x \<and> x \<le> 1" by simp
  note two = mock_agents_follow_script [OF refl r d]
  have "\<exists>sig. rs ! 2 = Inr sig \<and> as_action sig = BUY \<and> as_symbol sig = ''T''" "rs ! 1 = Inl ValueError"
    using two [of 2] two [of 1] by (auto simp: Let_def numeral_2_eq_2)
  with r show ?thesis by blast
qed

end
