(* ===== verification/Alarms.thy ===== *)
theory Alarms
  imports Json Trading_Models "HOL-Library.Product_Lexorder" "HOL-Library.List_Lexorder"
    "HOL-Library.Char_ord" "HOL-Library.Multiset"
begin

text \<open>
  Operator alarms: the value with its lifecycle invariants
  (\<open>src/src/domain/alarms/models.py\<close>), the filters and the repository protocol
  (\<open>domain/alarms/repository.py\<close>), and the in-memory repository
  (\<open>infrastructure/alarms/in_memory_repo.py\<close>). The protocol is the locale
  \<open>alarm_repository\<close>; the in-memory repository interprets it. Its lock makes every
  operation one atomic step.
\<close>

section \<open>Alarms\<close>

datatype severity = INFO | WARN | ANOMALY | CRITICAL
datatype status = ACTIVE | ACKNOWLEDGED | RESOLVED

text \<open>A \<open>datetime\<close> with or without a time zone; only aware ones are accepted.\<close>

datatype stamp = Aware time | Naive time

record alarm =
  al_id :: string
  al_severity :: severity
  al_status :: status
  al_source :: string
  al_code :: string
  al_title :: string
  al_message :: string
  al_occurred_at :: time
  al_entity_id :: "string option"
  al_acknowledged_at :: "time option"
  al_resolved_at :: "time option"
  al_metadata :: "json option"

definition require_len :: "string \<Rightarrow> nat \<Rightarrow> nat \<Rightarrow> unit result" where
  "require_len s lo hi = (if length s < lo \<or> hi < length s then Inl ValueError else Inr ())"

fun require_aware :: "stamp \<Rightarrow> time result" where
  "require_aware (Aware t) = Inr t"
| "require_aware (Naive t) = Inl ValueError"

fun require_aware_opt :: "stamp option \<Rightarrow> time option result" where
  "require_aware_opt None = Inr None"
| "require_aware_opt (Some s) = bind_result (require_aware s) (\<lambda>t. Inr (Some t))"

text \<open>Status against timestamps, then the order of the timestamps.\<close>

definition lifecycle_ok :: "status \<Rightarrow> time option \<Rightarrow> time option \<Rightarrow> bool" where
  "lifecycle_ok st acked resolved = (case st of
       ACTIVE \<Rightarrow> acked = None \<and> resolved = None
     | ACKNOWLEDGED \<Rightarrow> acked \<noteq> None \<and> resolved = None
     | RESOLVED \<Rightarrow> resolved \<noteq> None)"

definition ordered_opt :: "time option \<Rightarrow> time option \<Rightarrow> bool" where
  "ordered_opt a b = (case (a, b) of (Some x, Some y) \<Rightarrow> x \<le> y | _ \<Rightarrow> True)"

definition Alarm ::
    "string \<Rightarrow> severity \<Rightarrow> status \<Rightarrow> string \<Rightarrow> string \<Rightarrow> string \<Rightarrow> string \<Rightarrow> stamp \<Rightarrow> string option
     \<Rightarrow> stamp option \<Rightarrow> stamp option \<Rightarrow> json option \<Rightarrow> alarm result" where
  "Alarm aid sev st source cde title message occurred entity acked resolved metadata =
     (if aid = [] then Inl ValueError
      else bind_result (require_len source 1 64) (\<lambda>_.
      bind_result (require_len cde 1 64) (\<lambda>_.
      bind_result (require_len title 1 48) (\<lambda>_.
      bind_result (require_len message 1 240) (\<lambda>_.
      if entity = Some [] then Inl ValueError
      else bind_result (require_aware occurred) (\<lambda>t0.
      bind_result (require_aware_opt acked) (\<lambda>ta.
      bind_result (require_aware_opt resolved) (\<lambda>tr.
      if \<not> lifecycle_ok st ta tr then Inl ValueError
      else if \<not> ordered_opt (Some t0) ta then Inl ValueError
      else if \<not> ordered_opt (Some t0) tr then Inl ValueError
      else if \<not> ordered_opt ta tr then Inl ValueError
      else Inr \<lparr>al_id = aid, al_severity = sev, al_status = st, al_source = source, al_code = cde,
                al_title = title, al_message = message, al_occurred_at = t0, al_entity_id = entity,
                al_acknowledged_at = ta, al_resolved_at = tr, al_metadata = metadata\<rparr>))))))))"

section \<open>Filters\<close>

record alarm_filters =
  fl_statuses :: "status set"
  fl_severities :: "severity set option"
  fl_sources :: "string list option"
  fl_since :: "time option"
  fl_limit :: nat

definition AlarmListFilters ::
    "status set \<Rightarrow> severity set option \<Rightarrow> string list option \<Rightarrow> stamp option \<Rightarrow> int
     \<Rightarrow> alarm_filters result" where
  "AlarmListFilters statuses severities sources since limit =
     (if statuses = {} then Inl ValueError
      else if severities = Some {} then Inl ValueError
      else if (case sources of None \<Rightarrow> False
               | Some ss \<Rightarrow> ss = [] \<or> \<not> list_all (\<lambda>s. s \<noteq> [] \<and> length s \<le> 64) ss) then Inl ValueError
      else if limit < 1 \<or> 200 < limit then Inl ValueError
      else bind_result (require_aware_opt since) (\<lambda>t.
        Inr \<lparr>fl_statuses = statuses, fl_severities = severities, fl_sources = sources,
             fl_since = t, fl_limit = nat limit\<rparr>))"

definition alarm_matches :: "alarm_filters \<Rightarrow> alarm \<Rightarrow> bool" where
  "alarm_matches f a =
     (al_status a \<in> fl_statuses f \<and>
      (case fl_severities f of None \<Rightarrow> True | Some S \<Rightarrow> al_severity a \<in> S) \<and>
      (case fl_sources f of None \<Rightarrow> True | Some ss \<Rightarrow> al_source a \<in> set ss) \<and>
      (case fl_since f of None \<Rightarrow> True | Some t \<Rightarrow> t \<le> al_occurred_at a))"

section \<open>The in-memory repository\<close>

record alarm_repo =
  rp_alarms :: "alarm list"

definition InMemoryAlarmRepository :: "alarm list \<Rightarrow> alarm_repo" where
  "InMemoryAlarmRepository alarms = \<lparr>rp_alarms = alarms\<rparr>"

definition repo_add :: "alarm_repo \<Rightarrow> alarm \<Rightarrow> alarm_repo" where
  "repo_add r a = r\<lparr>rp_alarms := rp_alarms r @ [a]\<rparr>"

definition repo_replace_all :: "alarm_repo \<Rightarrow> alarm list \<Rightarrow> alarm_repo" where
  "repo_replace_all r alarms = r\<lparr>rp_alarms := alarms\<rparr>"

definition alarm_key :: "alarm \<Rightarrow> time \<times> string" where
  "alarm_key a = (al_occurred_at a, al_id a)"

definition repo_list :: "alarm_repo \<Rightarrow> alarm_filters \<Rightarrow> alarm list \<times> nat" where
  "repo_list r f =
     (let matched = sort_desc alarm_key (filter (alarm_matches f) (rp_alarms r))
      in (take (fl_limit f) matched, length matched))"

definition repo_count_active :: "alarm_repo \<Rightarrow> nat" where
  "repo_count_active r = length (filter (\<lambda>a. al_status a = ACTIVE) (rp_alarms r))"

section \<open>The repository contract\<close>

definition newest_first :: "alarm list \<Rightarrow> bool" where
  "newest_first xs \<longleftrightarrow> sorted_wrt (\<lambda>a b. alarm_key b \<le> alarm_key a) xs"

locale alarm_repository =
  fixes lst :: "'r \<Rightarrow> alarm_filters \<Rightarrow> alarm list \<times> nat"
    and unack :: "'r \<Rightarrow> nat"
    and contents :: "'r \<Rightarrow> alarm multiset"
  assumes total_counts: "snd (lst r f) = size (filter_mset (alarm_matches f) (contents r))"
    and page_is_top: "\<exists>rest. newest_first (fst (lst r f) @ rest) \<and>
      mset (fst (lst r f) @ rest) = filter_mset (alarm_matches f) (contents r)"
    and page_length: "length (fst (lst r f)) = min (fl_limit f) (snd (lst r f))"
    and unack_counts: "unack r = size (filter_mset (\<lambda>a. al_status a = ACTIVE) (contents r))"
begin

lemma page_sound: "a \<in> set (fst (lst r f)) \<Longrightarrow> a \<in># contents r \<and> alarm_matches f a"
proof -
  assume a: "a \<in> set (fst (lst r f))"
  obtain rest where m: "mset (fst (lst r f) @ rest) = filter_mset (alarm_matches f) (contents r)"
    using page_is_top by blast
  from a have "a \<in># mset (fst (lst r f) @ rest)" by simp
  then show ?thesis unfolding m by simp
qed

lemma page_newest_first: "newest_first (fst (lst r f))"
proof -
  obtain rest where "newest_first (fst (lst r f) @ rest)" using page_is_top by blast
  then show ?thesis by (simp add: newest_first_def sorted_wrt_append)
qed

text \<open>Whatever matches and is not on the page is not newer than anything on it.\<close>

lemma page_top:
  assumes "b \<in># contents r" "alarm_matches f b" "b \<notin> set (fst (lst r f))" "a \<in> set (fst (lst r f))"
  shows "alarm_key b \<le> alarm_key a"
proof -
  obtain rest where n: "newest_first (fst (lst r f) @ rest)"
    and m: "mset (fst (lst r f) @ rest) = filter_mset (alarm_matches f) (contents r)"
    using page_is_top by blast
  from assms(1,2) have "b \<in># mset (fst (lst r f) @ rest)" unfolding m by simp
  with assms(3) have "b \<in> set rest" by simp
  with n assms(4) show ?thesis by (simp add: newest_first_def sorted_wrt_append)
qed

text \<open>A page shorter than the limit holds every match.\<close>

lemma short_page_complete:
  assumes "length (fst (lst r f)) < fl_limit f"
  shows "mset (fst (lst r f)) = filter_mset (alarm_matches f) (contents r)"
proof -
  obtain rest where m: "mset (fst (lst r f) @ rest) = filter_mset (alarm_matches f) (contents r)"
    using page_is_top by blast
  have "length (fst (lst r f)) = snd (lst r f)" using page_length [of r f] assms by simp
  also have "\<dots> = size (mset (fst (lst r f) @ rest))" by (simp only: total_counts m)
  finally have "rest = []" by simp
  with m show ?thesis by simp
qed

text \<open>The unacknowledged badge is the total of the unfiltered active list.\<close>

lemma badge_is_active_total:
  assumes "fl_statuses f = {ACTIVE}" "fl_severities f = None" "fl_sources f = None" "fl_since f = None"
  shows "unack r = snd (lst r f)"
proof -
  have "alarm_matches f = (\<lambda>a. al_status a = ACTIVE)"
    using assms by (auto simp: alarm_matches_def fun_eq_iff)
  then show ?thesis by (simp add: unack_counts total_counts)
qed

end

interpretation in_memory: alarm_repository repo_list repo_count_active "\<lambda>r :: alarm_repo. mset (rp_alarms r)"
proof
  fix r :: alarm_repo and f
  let ?m = "sort_desc alarm_key (filter (alarm_matches f) (rp_alarms r))"
  show "snd (repo_list r f) = size (filter_mset (alarm_matches f) (mset (rp_alarms r)))"
    by (simp add: repo_list_def Let_def flip: mset_filter)
  show "\<exists>rest. newest_first (fst (repo_list r f) @ rest) \<and>
      mset (fst (repo_list r f) @ rest) = filter_mset (alarm_matches f) (mset (rp_alarms r))"
  proof (intro exI conjI)
    show "newest_first (fst (repo_list r f) @ drop (fl_limit f) ?m)"
      using sorted_sort_desc [of alarm_key "filter (alarm_matches f) (rp_alarms r)"]
      by (simp add: repo_list_def Let_def newest_first_def)
    show "mset (fst (repo_list r f) @ drop (fl_limit f) ?m) = filter_mset (alarm_matches f) (mset (rp_alarms r))"
      by (simp only: repo_list_def Let_def fst_conv append_take_drop_id mset_sort_desc mset_filter)
  qed
  show "length (fst (repo_list r f)) = min (fl_limit f) (snd (repo_list r f))"
    by (simp add: repo_list_def Let_def min.commute)
  show "repo_count_active r = size (filter_mset (\<lambda>a. al_status a = ACTIVE) (mset (rp_alarms r)))"
    by (simp add: repo_count_active_def flip: mset_filter)
qed

section \<open>Properties\<close>

text \<open>
  An alarm page is the top of the matches. The rows of a listing are alarms of the
  repository that pass every filter, newest first with the id as tie-breaker, at most
  \<open>limit\<close> of them; a match that is not on the page is not newer than any row; the total counts
  all matches; and a page shorter than the limit holds every match.
\<close>

lemma alarm_page_is_top:
  "newest_first (fst (repo_list r f)) \<and>
   length (fst (repo_list r f)) = min (fl_limit f) (snd (repo_list r f)) \<and>
   snd (repo_list r f) = length (filter (alarm_matches f) (rp_alarms r)) \<and>
   (\<forall>a \<in> set (fst (repo_list r f)). a \<in> set (rp_alarms r) \<and> alarm_matches f a \<and>
      (\<forall>b \<in> set (rp_alarms r). alarm_matches f b \<longrightarrow> b \<notin> set (fst (repo_list r f)) \<longrightarrow>
         alarm_key b \<le> alarm_key a)) \<and>
   (length (fst (repo_list r f)) < fl_limit f \<longrightarrow>
      mset (fst (repo_list r f)) = filter_mset (alarm_matches f) (mset (rp_alarms r)))"
  using in_memory.page_newest_first [of r f] in_memory.page_length [of r f]
    in_memory.page_sound [of _ r f] in_memory.page_top [of _ r f] in_memory.short_page_complete [of r f]
    in_memory.total_counts [of r f]
  by (auto simp flip: mset_filter)

definition sample_alarm :: "string \<Rightarrow> time \<Rightarrow> alarm" where
  "sample_alarm aid t = \<lparr>al_id = aid, al_severity = WARN, al_status = ACTIVE, al_source = ''s'', al_code = ''c'',
     al_title = ''t'', al_message = ''m'', al_occurred_at = t, al_entity_id = None,
     al_acknowledged_at = None, al_resolved_at = None, al_metadata = None\<rparr>"

definition active_filter :: "nat \<Rightarrow> alarm_filters" where
  "active_filter n = \<lparr>fl_statuses = {ACTIVE}, fl_severities = None, fl_sources = None,
     fl_since = None, fl_limit = n\<rparr>"

lemma alarm_page_is_top_example:
  "alarm_key (sample_alarm ''1'' 1) \<le> alarm_key (sample_alarm ''2'' 2) \<and>
   length (fst (repo_list (InMemoryAlarmRepository [sample_alarm ''1'' 1, sample_alarm ''2'' 2]) (active_filter 1))) = 1"
  using alarm_page_is_top [of "InMemoryAlarmRepository [sample_alarm ''1'' 1, sample_alarm ''2'' 2]" "active_filter 1"]
  by (simp add: InMemoryAlarmRepository_def sample_alarm_def active_filter_def alarm_matches_def alarm_key_def)

text \<open>
  Alarms keep their lifecycle. Every alarm the constructor accepts is coherent: active
  alarms have no later timestamp, acknowledged ones an acknowledgement and no resolution,
  resolved ones a resolution; the timestamps present are in order; the text fields are within
  their limits.
\<close>

lemma alarm_lifecycle:
  assumes "Alarm aid sev st source cde title message occurred entity acked resolved metadata = Inr a"
  shows "al_id a \<noteq> [] \<and> length (al_title a) \<in> {1..48} \<and> length (al_message a) \<in> {1..240} \<and>
     (al_status a = ACTIVE \<longleftrightarrow> al_acknowledged_at a = None \<and> al_resolved_at a = None) \<and>
     (al_status a = RESOLVED \<longleftrightarrow> al_resolved_at a \<noteq> None) \<and>
     (\<forall>t. al_acknowledged_at a = Some t \<longrightarrow> al_occurred_at a \<le> t \<and>
        (\<forall>u. al_resolved_at a = Some u \<longrightarrow> t \<le> u)) \<and>
     (\<forall>u. al_resolved_at a = Some u \<longrightarrow> al_occurred_at a \<le> u)"
  using assms
  by (cases st)
    (auto simp: Alarm_def require_len_def lifecycle_ok_def ordered_opt_def Suc_le_eq
      elim!: bind_result_InrE split: if_splits option.splits)

lemma alarm_lifecycle_example:
  "\<exists>a. Alarm ''1'' INFO RESOLVED ''s'' ''c'' ''t'' ''m'' (Aware 1) None None (Some (Aware 2)) None = Inr a \<and>
     al_resolved_at a = Some 2 \<and> al_status a = RESOLVED"
proof -
  obtain a where a: "Alarm ''1'' INFO RESOLVED ''s'' ''c'' ''t'' ''m'' (Aware 1) None None (Some (Aware 2)) None = Inr a"
    "al_resolved_at a = Some 2"
    by (simp add: Alarm_def require_len_def lifecycle_ok_def ordered_opt_def)
  from alarm_lifecycle [OF a(1)] a show ?thesis by auto
qed

end
