(* ===== verification/Alarm_Seed.thy ===== *)
theory Alarm_Seed
  imports Alarms Database
begin

text \<open>
  The demo alarms of \<open>src/src/infrastructure/alarms/in_memory_repo.py\<close>: six alarms around an
  anchor time, and the repository they fill. Characters outside Latin-1 in the messages are
  written \<open>?\<close>.
\<close>

section \<open>Times around the anchor\<close>

definition day_length :: time where "day_length = 86400 * second"
definition hour_length :: time where "hour_length = 3600 * second"

text \<open>\<open>datetime.replace\<close> of the fields below the hour, and of the whole time of day.\<close>

definition replace_minute :: "time \<Rightarrow> int \<Rightarrow> int \<Rightarrow> time" where
  "replace_minute t minute sec = t - t mod hour_length + (minute * 60 + sec) * second"

definition replace_hour :: "time \<Rightarrow> int \<Rightarrow> int \<Rightarrow> int \<Rightarrow> time" where
  "replace_hour t hour minute sec = t - t mod day_length + (hour * 3600 + minute * 60 + sec) * second"

text \<open>2026-05-13 08:42:11.314 UTC.\<close>

definition seed_now :: time where "seed_now = 1778661731314000"

section \<open>The alarms\<close>

definition seed_demo_alarms :: "time option \<Rightarrow> alarm list result" where
  "seed_demo_alarms now =
     (let anchor = (case now of None \<Rightarrow> seed_now | Some t \<Rightarrow> t) in
      map_result id
       [Alarm ''01HXYR3K9P7M4Q8N2V5W6X7Y8Z'' ANOMALY ACTIVE ''trading-coordinator'' ''VOLATILITY_BREAKER_TRIPPED''
          ''VOLATILITY BREAKER TRIPPED'' ''SMH 6? in 30s window ? fills paused.'' (Aware anchor) (Some ''SMH'')
          None None (Some (JObj [(''symbol'', JStr ''SMH''), (''sigma'', JFloat (fin (61 / 10)))])),
        Alarm ''01HXYR3K9P7M4Q8N2V5W6X7Y92'' WARN ACKNOWLEDGED ''trading-coordinator'' ''COOLDOWN_GUARD_FIRED''
          ''COOLDOWN GUARD FIRED'' ''005930 buy blocked ? 47s of cooldown remain.''
          (Aware (replace_minute anchor 30 0)) (Some ''005930'') (Some (Aware (replace_minute anchor 32 18))) None
          (Some (JObj [(''symbol'', JStr ''005930''), (''guard'', JStr ''cooldown'')])),
        Alarm ''01HXYR3K9P7M4Q8N2V5W6X7YA1'' CRITICAL ACTIVE ''kis-publisher'' ''WEBSOCKET_DISCONNECTED''
          ''KIS WEBSOCKET DISCONNECTED'' ''H0STCNT0 channel idle 12s ? auto-reconnect in flight.''
          (Aware (replace_minute anchor 35 2)) None None None
          (Some (JObj [(''channel'', JStr ''H0STCNT0''), (''idle_seconds'', JInt 12)])),
        Alarm ''01HXYR3K9P7M4Q8N2V5W6X7YB7'' INFO RESOLVED ''news-provider'' ''FEED_BACKFILL_COMPLETE''
          ''FEED BACKFILL COMPLETE'' ''Reuters tier-1 caught up ? 38 stories ingested.''
          (Aware (replace_hour anchor 7 10 0)) None None (Some (Aware (replace_hour anchor 7 12 44)))
          (Some (JObj [(''feed'', JStr ''reuters''), (''ingested'', JInt 38)])),
        Alarm ''01HXYR3K9P7M4Q8N2V5W6X7YC4'' ANOMALY ACTIVE ''system-monitor'' ''REDIS_LATENCY_SPIKE''
          ''REDIS LATENCY SPIKE'' ''p99 publish?consume 412ms over 60s ? investigate broker.''
          (Aware (replace_minute anchor 40 55)) None None None
          (Some (JObj [(''p99_ms'', JInt 412), (''window_seconds'', JInt 60)])),
        Alarm ''01HXYR3K9P7M4Q8N2V5W6X7YD0'' WARN ACKNOWLEDGED ''system-monitor'' ''DISK_USAGE_HIGH''
          ''DISK USAGE HIGH'' ''ts-replicas volume at 81% ? purge job scheduled.''
          (Aware (replace_hour anchor 6 5 0)) None (Some (Aware (replace_hour anchor 6 9 22))) None
          (Some (JObj [(''volume'', JStr ''ts-replicas''), (''usage_pct'', JInt 81)]))])"

definition build_seeded_repository :: "time option \<Rightarrow> alarm_repo result" where
  "build_seeded_repository now =
     bind_result (seed_demo_alarms now) (\<lambda>alarms. Inr (InMemoryAlarmRepository alarms))"

section \<open>Facts\<close>

lemma seed_times:
  "replace_minute t 30 0 \<le> replace_minute t 32 18" "replace_hour t 7 10 0 \<le> replace_hour t 7 12 44"
  "replace_hour t 6 5 0 \<le> replace_hour t 6 9 22"
  by (simp_all add: replace_minute_def replace_hour_def second_def)

lemma Alarm_ok:
  assumes "aid \<noteq> []" "length source \<in> {1..64}" "length cde \<in> {1..64}" "length title \<in> {1..48}"
    "length message \<in> {1..240}" "entity \<noteq> Some []" "require_aware_opt acked = Inr ta"
    "require_aware_opt resolved = Inr tr" "lifecycle_ok st ta tr" "ordered_opt (Some t) ta"
    "ordered_opt (Some t) tr" "ordered_opt ta tr"
  shows "Alarm aid sev st source cde title message (Aware t) entity acked resolved metadata =
     Inr \<lparr>al_id = aid, al_severity = sev, al_status = st, al_source = source, al_code = cde,
       al_title = title, al_message = message, al_occurred_at = t, al_entity_id = entity,
       al_acknowledged_at = ta, al_resolved_at = tr, al_metadata = metadata\<rparr>"
  using assms by (auto simp: Alarm_def require_len_def)

lemma seeded:
  obtains alarms where "seed_demo_alarms now = Inr alarms" "length alarms = 6" "distinct (map al_id alarms)"
    "map al_status alarms = [ACTIVE, ACKNOWLEDGED, ACTIVE, RESOLVED, ACTIVE, ACKNOWLEDGED]"
    "al_occurred_at (alarms ! 0) = (case now of None \<Rightarrow> seed_now | Some t \<Rightarrow> t)"
    "map al_severity alarms = [ANOMALY, WARN, CRITICAL, INFO, ANOMALY, WARN]"
  using that
  by (auto simp: seed_demo_alarms_def Let_def Alarm_ok lifecycle_ok_def ordered_opt_def seed_times)

section \<open>Properties\<close>

text \<open>
  The demo board is coherent at any hour. Whatever the anchor, all six demo alarms pass the
  checks of the constructor; the board they fill shows three unacknowledged alarms, which is
  also the total of the list as the HUD asks for it first, and a page of it holds as many as the
  limit allows, newest first.
\<close>

lemma seeded_board_coherent:
  assumes "fl_statuses f = {ACTIVE}" "fl_severities f = None" "fl_sources f = None" "fl_since f = None"
  shows "\<exists>r. build_seeded_repository now = Inr r \<and> length (rp_alarms r) = 6 \<and> distinct (map al_id (rp_alarms r)) \<and>
     repo_count_active r = 3 \<and> snd (repo_list r f) = 3 \<and> length (fst (repo_list r f)) = min (fl_limit f) 3 \<and>
     newest_first (fst (repo_list r f))"
proof -
  obtain alarms where a: "seed_demo_alarms now = Inr alarms" "length alarms = 6" "distinct (map al_id alarms)"
    "map al_status alarms = [ACTIVE, ACKNOWLEDGED, ACTIVE, RESOLVED, ACTIVE, ACKNOWLEDGED]"
    by (rule seeded)
  let ?r = "InMemoryAlarmRepository alarms"
  have "repo_count_active ?r = length (filter (\<lambda>s. s = ACTIVE) (map al_status alarms))"
    by (simp add: repo_count_active_def InMemoryAlarmRepository_def filter_map comp_def)
  then have n: "repo_count_active ?r = 3" unfolding a(4) by simp
  with in_memory.badge_is_active_total [OF assms, of ?r] have "snd (repo_list ?r f) = 3" by simp
  with n a in_memory.page_length [of ?r f] in_memory.page_newest_first [of ?r f] show ?thesis
    by (intro exI [of _ ?r]) (simp add: build_seeded_repository_def InMemoryAlarmRepository_def)
qed

lemma seeded_board_coherent_example:
  "\<exists>r. build_seeded_repository None = Inr r \<and> repo_count_active r = 3 \<and> length (fst (repo_list r (active_filter 2))) = 2"
  using seeded_board_coherent [of "active_filter 2" None] by (auto simp: active_filter_def)

end
