(* ===== verification/Macro_Agent.thy ===== *)
theory Macro_Agent
  imports Json Tick_Context
begin

text \<open>
  \<open>src/src/domain/trading/macro_agent.py\<close> and the clients of \<open>llm_client.py\<close>: a prompt from
  prices and headlines, one call of a language model, and a strict parser of its answer. The
  model behind the client and the news provider are arguments. The prompt is kept as the values
  its template interpolates.
\<close>

section \<open>Language model clients\<close>

datatype provider = OpenAI | Anthropic

record llm_client =
  lc_provider :: provider
  lc_model :: string

definition default_openai_model :: string where "default_openai_model = ''gpt-4o-mini''"
definition default_anthropic_model :: string where
  "default_anthropic_model = ''claude-sonnet-4-7-20250828''"

definition or_default :: "string \<Rightarrow> string \<Rightarrow> string" where
  "or_default s d = (if s = [] then d else s)"

definition build_llm_client :: "string \<Rightarrow> string \<Rightarrow> string \<Rightarrow> llm_client option" where
  "build_llm_client provider api_key model =
     (let p = lower (strip (or_default provider ''none'')) in
      if p = ''none'' then None
      else if api_key = [] then None
      else if p = ''openai'' then
        Some \<lparr>lc_provider = OpenAI, lc_model = or_default model default_openai_model\<rparr>
      else if p = ''anthropic'' then
        Some \<lparr>lc_provider = Anthropic, lc_model = or_default model default_anthropic_model\<rparr>
      else None)"

definition llm_http_body :: "http \<Rightarrow> json result result" where
  "llm_http_body h = (case h of
       HttpTimeout \<Rightarrow> Inl LLMClientError
     | HttpNetworkError \<Rightarrow> Inl LLMClientError
     | HttpRaises e \<Rightarrow> Inl e
     | HttpResponse status body \<Rightarrow> if 400 \<le> status then Inl LLMClientError else Inr body)"

definition llm_shape :: "py_error set \<Rightarrow> 'a result \<Rightarrow> 'a result" where
  "llm_shape caught r = (case r of
       Inl e \<Rightarrow> Inl (if e \<in> caught then LLMClientError else e)
     | Inr v \<Rightarrow> Inr v)"

definition openai_complete :: "http \<Rightarrow> string result" where
  "openai_complete h =
     bind_result (llm_http_body h) (\<lambda>body.
     bind_result (llm_shape {ValueError, KeyError, IndexError, TypeError}
        (bind_result body (\<lambda>payload.
         bind_result (j_item payload ''choices'') (\<lambda>choices.
         bind_result (j_first choices) (\<lambda>choice.
         bind_result (j_item choice ''message'') (\<lambda>message.
         j_item message ''content'')))))) (\<lambda>content.
     case content of JStr s \<Rightarrow> Inr s | _ \<Rightarrow> Inl LLMClientError))"

text \<open>The text blocks of an answer; iterating a string or a dictionary finds none.\<close>

fun text_part :: "json \<Rightarrow> json list" where
  "text_part (JObj kvs) =
     (if map_of kvs ''type'' = Some (JStr ''text'')
      then (case map_of kvs ''text'' of None \<Rightarrow> [] | Some t \<Rightarrow> [t]) else [])"
| "text_part _ = []"

fun text_parts :: "json \<Rightarrow> json list result" where
  "text_parts (JList xs) = Inr (concat (map text_part xs))"
| "text_parts (JStr s) = Inr []"
| "text_parts (JObj kvs) = Inr []"
| "text_parts _ = Inl TypeError"

fun join_strings :: "json list \<Rightarrow> string result" where
  "join_strings [] = Inr []"
| "join_strings (JStr s # vs) = bind_result (join_strings vs) (\<lambda>t. Inr (s @ t))"
| "join_strings (v # vs) = Inl TypeError"

definition anthropic_complete :: "http \<Rightarrow> string result" where
  "anthropic_complete h =
     bind_result (llm_http_body h) (\<lambda>body.
     bind_result (llm_shape {ValueError, KeyError, TypeError}
        (bind_result body (\<lambda>payload. bind_result (j_item payload ''content'') text_parts)))
     (\<lambda>parts. if parts = [] then Inl LLMClientError else join_strings parts))"

section \<open>The prompt\<close>

record price_section =
  ps_current :: float64
  ps_count :: nat
  ps_low :: float64
  ps_high :: float64
  ps_change :: float64

record prompt =
  pr_symbol :: string
  pr_prices :: "price_section option"
  pr_headlines :: "string list"

definition net_change :: "float64 \<Rightarrow> float64 \<Rightarrow> float64 result" where
  "net_change first current =
     (if flt (Fin 0) first
      then bind_result (fdiv (fsub current first) first) (\<lambda>q. Inr (fmul q (Fin 100)))
      else Inr (Fin 0))"

definition render_prompt :: "string \<Rightarrow> rat list \<Rightarrow> string list \<Rightarrow> prompt result" where
  "render_prompt s prices headlines =
     (case map float_of_decimal prices of
        [] \<Rightarrow> Inr \<lparr>pr_symbol = s, pr_prices = None, pr_headlines = headlines\<rparr>
      | first # rest \<Rightarrow>
          let current = last (first # rest) in
          bind_result (net_change first current) (\<lambda>pct.
          Inr \<lparr>pr_symbol = s,
               pr_prices = Some \<lparr>ps_current = current, ps_count = length (first # rest),
                 ps_low = foldl fmin first rest, ps_high = foldl fmax first rest, ps_change = pct\<rparr>,
               pr_headlines = headlines\<rparr>))"

section \<open>Parsing the answer\<close>

text \<open>The fence, the check for an array, and the scan for balanced braces.\<close>

definition unfence :: "string \<Rightarrow> string" where
  "unfence text =
     (if starts_with text ''```'' then
        let t1 = (case find_char (CHR 10) text of None \<Rightarrow> text | Some i \<Rightarrow> drop (i + 1) text);
            t2 = (if ends_with (rstrip t1) ''```'' then take (length (rstrip t1) - 3) (rstrip t1) else t1)
        in strip t2
      else text)"

definition starts_array :: "string \<Rightarrow> bool" where
  "starts_array text = (case dropWhile is_space text of [] \<Rightarrow> False | c # _ \<Rightarrow> c = CHR ''['')"

text \<open>\<open>brace_scan d s\<close>: the number of characters up to the brace that closes depth \<open>d\<close>.\<close>

fun brace_scan :: "nat \<Rightarrow> string \<Rightarrow> nat option" where
  "brace_scan d [] = None"
| "brace_scan d (c # cs) =
     (if c = CHR ''{'' then map_option Suc (brace_scan (Suc d) cs)
      else if c = CHR ''}'' then
        (if d = 1 then Some 1 else map_option Suc (brace_scan (d - 1) cs))
      else map_option Suc (brace_scan d cs))"

definition extract_json_block :: "string \<Rightarrow> string result" where
  "extract_json_block raw =
     (let text = unfence (strip raw) in
      if starts_array text then Inl ValueError
      else case find_char (CHR ''{'') text of
          None \<Rightarrow> Inl ValueError
        | Some start \<Rightarrow> (case brace_scan 0 (drop start text) of
              None \<Rightarrow> Inl ValueError
            | Some n \<Rightarrow> Inr (take n (drop start text))))"

fun confidence_value :: "json \<Rightarrow> float64 result" where
  "confidence_value (JInt n) = float_of_int n"
| "confidence_value (JFloat (Fin x)) = Inr (Fin x)"
| "confidence_value _ = Inl ValueError"

definition rationale_text :: "string \<Rightarrow> rationale" where
  "rationale_text s =
     (let t = strip s in
      if 500 < length t then TextCut (take 500 t)
      else if t = [] then Text ''(no rationale)'' else Text t)"

definition parse_signal :: "python \<Rightarrow> string \<Rightarrow> string \<Rightarrow> string \<Rightarrow> time \<Rightarrow> agent_signal result" where
  "parse_signal py agent s raw now =
     (if strip raw = [] then Inl ValueError
      else
        bind_result (extract_json_block raw) (\<lambda>body.
        bind_result (py_loads py body) (\<lambda>payload.
        case payload of
          JObj kvs \<Rightarrow> (case (map_of kvs ''action'', map_of kvs ''confidence'') of
              (Some a, Some c) \<Rightarrow>
                bind_result (action_of_value (lower (strip (j_str py a)))) (\<lambda>act.
                bind_result (confidence_value c) (\<lambda>x.
                AgentSignal agent s act (fmax (Fin 0) (fmin (Fin 1) x))
                  (rationale_text (case map_of kvs ''rationale'' of None \<Rightarrow> [] | Some r \<Rightarrow> j_str py r)) now))
            | _ \<Rightarrow> Inl ValueError)
        | _ \<Rightarrow> Inl ValueError)))"

section \<open>The agent\<close>

record macro_agent =
  ma_agent_id :: string
  ma_history_window :: int
  ma_news :: "string \<Rightarrow> string list result"
  ma_llm :: "(prompt \<Rightarrow> string result) option"

definition MacroAgent ::
    "(string \<Rightarrow> string list result) \<Rightarrow> (prompt \<Rightarrow> string result) option \<Rightarrow> int \<Rightarrow> string
     \<Rightarrow> macro_agent result" where
  "MacroAgent news llm history_window agent =
     (if history_window < 2 then Inl ValueError
      else Inr \<lparr>ma_agent_id = agent, ma_history_window = history_window, ma_news = news, ma_llm = llm\<rparr>)"

definition macro_hold :: "macro_agent \<Rightarrow> string \<Rightarrow> rationale \<Rightarrow> time \<Rightarrow> agent_signal result" where
  "macro_hold m s why now = AgentSignal (ma_agent_id m) s HOLD (Fin 0) why now"

definition build_prompt :: "macro_agent \<Rightarrow> tick_context \<Rightarrow> string \<Rightarrow> prompt result" where
  "build_prompt m c s =
     (let prices = recent_prices c s (Some (ma_history_window m)) in
      bind_result (ma_news m s) (\<lambda>headlines. render_prompt s prices headlines))"

definition macro_evaluate ::
    "python \<Rightarrow> macro_agent \<Rightarrow> tick_context \<Rightarrow> string \<Rightarrow> time \<Rightarrow> agent_signal result" where
  "macro_evaluate py m c s now =
     bind_result (build_prompt m c s) (\<lambda>p.
     case ma_llm m of
       None \<Rightarrow> macro_hold m s LlmStub now
     | Some ask \<Rightarrow> (case ask p of
         Inl e \<Rightarrow> if e = CancelledError then Inl e else macro_hold m s (LlmCallFailed e) now
       | Inr raw \<Rightarrow> (case parse_signal py (ma_agent_id m) s raw now of
           Inl e \<Rightarrow> if e = CancelledError then Inl e else macro_hold m s (LlmUnparseable e) now
         | Inr sig \<Rightarrow> Inr sig)))"

definition mock_headlines :: "(string \<Rightarrow> string list option) \<Rightarrow> string \<Rightarrow> string list result" where
  "mock_headlines headlines s = Inr (case headlines s of
       Some hs \<Rightarrow> hs
     | None \<Rightarrow> [''[mock] No real headlines configured for '' @ s])"

section \<open>Facts\<close>

lemma net_change_ok: "\<exists>q. net_change first current = Inr q"
proof (cases "flt (Fin 0) first")
  case True
  then have "\<exists>q. fdiv (fsub current first) first = Inr q"
    by (cases first; cases "fsub current first") auto
  with True show ?thesis by (auto simp: net_change_def)
qed (simp add: net_change_def)

lemma render_prompt_ok: "\<exists>p. render_prompt s prices headlines = Inr p \<and> pr_symbol p = s"
proof (cases "map float_of_decimal prices")
  case (Cons first rest)
  obtain q where "net_change first (last (first # rest)) = Inr q" using net_change_ok by blast
  with Cons show ?thesis by (simp add: render_prompt_def Let_def del: last.simps)
qed (simp add: render_prompt_def)

text \<open>The block is balanced: it starts with a brace and closes as many as it opens.\<close>

definition openings :: "string \<Rightarrow> nat" where
  "openings s = length (filter (\<lambda>c. c = CHR ''{'') s)"

definition closings :: "string \<Rightarrow> nat" where
  "closings s = length (filter (\<lambda>c. c = CHR ''}'') s)"

lemma balance_simps [simp]:
  "openings [] = 0" "closings [] = 0"
  "openings (c # s) = (if c = CHR ''{'' then Suc (openings s) else openings s)"
  "closings (c # s) = (if c = CHR ''}'' then Suc (closings s) else closings s)"
  by (simp_all add: openings_def closings_def)

lemma brace_scan_balanced:
  "0 < d \<Longrightarrow> brace_scan d s = Some n \<Longrightarrow> d + openings (take n s) = closings (take n s)"
proof (induction d s arbitrary: n rule: brace_scan.induct)
  case (2 d c cs)
  consider (up) "c = CHR ''{''" | (end1) "c = CHR ''}''" "d = 1" | (down) "c = CHR ''}''" "d \<noteq> 1"
    | (other) "c \<noteq> CHR ''{''" "c \<noteq> CHR ''}''" by blast
  then show ?case
  proof cases
    case up
    with "2.prems"(2) obtain m where m: "n = Suc m" "brace_scan (Suc d) cs = Some m" by auto
    from "2.IH"(1) [OF up _ m(2)] up m(1) show ?thesis by simp
  next
    case end1
    with "2.prems"(2) show ?thesis by auto
  next
    case down
    with "2.prems"(2) obtain m where m: "n = Suc m" "brace_scan (d - 1) cs = Some m" by auto
    from down "2.prems"(1) have "0 < d - 1" by simp
    from "2.IH"(2) [OF _ down this m(2)] down m(1) "2.prems"(1) show ?thesis by simp
  next
    case other
    with "2.prems"(2) obtain m where m: "n = Suc m" "brace_scan d cs = Some m" by auto
    from "2.IH"(3) [OF other "2.prems"(1) m(2)] other m(1) show ?thesis by simp
  qed
qed simp

lemma brace_scan_start:
  "brace_scan 0 (CHR ''{'' # t) = Some n \<Longrightarrow>
   openings (take n (CHR ''{'' # t)) = closings (take n (CHR ''{'' # t))"
  using brace_scan_balanced [of 1 t] by auto

lemma find_char_hit: "find_char c s = Some i \<Longrightarrow> \<exists>t. drop i s = c # t"
  by (induction s arbitrary: i) (auto split: if_splits)

lemma extract_json_block_balanced:
  assumes "extract_json_block raw = Inr b"
  shows "openings b = closings b"
proof -
  from assms obtain i n where i: "find_char (CHR ''{'') (unfence (strip raw)) = Some i"
    "brace_scan 0 (drop i (unfence (strip raw))) = Some n" "b = take n (drop i (unfence (strip raw)))"
    by (auto simp: extract_json_block_def Let_def split: if_splits option.splits)
  from find_char_hit [OF i(1)] obtain t where "drop i (unfence (strip raw)) = CHR ''{'' # t" by blast
  with brace_scan_start [of t n] i(2,3) show ?thesis by simp
qed

lemma parse_signal_valid:
  assumes "parse_signal py agent s raw now = Inr sig"
  shows "as_symbol sig = s" "as_agent_id sig = agent" "in_range 0 1 (as_confidence sig)"
  using assms
  by (auto simp: parse_signal_def AgentSignal_def elim!: bind_result_InrE
      split: json.splits option.splits if_splits)

lemma macro_hold_ok:
  "macro_hold m s why now = Inr \<lparr>as_agent_id = ma_agent_id m, as_symbol = s, as_action = HOLD,
     as_confidence = Fin 0, as_rationale = why, as_ts = now\<rparr>"
  by (simp add: macro_hold_def AgentSignal_def)

lemma parse_not_cancelled:
  "(\<And>t. py_loads py t \<noteq> Inl CancelledError) \<Longrightarrow> parse_signal py agent s raw now \<noteq> Inl CancelledError"
  by (auto simp: parse_signal_def extract_json_block_def Let_def bind_result_Inl_iff action_of_value_def
      AgentSignal_def split: if_splits option.splits json.splits)
    (auto elim!: confidence_value.elims simp: float_of_int_def split: float64.splits)

section \<open>Property\<close>

text \<open>
  C37: The language model cannot take the loop down, and cannot trade by accident. Once the
  headlines are there, whatever the model returns or raises short of a cancellation, the agent
  answers with a signal of its own id for the symbol asked about with a confidence in
  \<open>[0, 1]\<close>; and an answer other than HOLD was parsed from the model's own text.
\<close>

theorem macro_agent_contained:
  assumes "ma_news m s = Inr headlines" "\<And>t. py_loads py t \<noteq> Inl CancelledError"
    and "\<And>f p. ma_llm m = Some f \<Longrightarrow> f p \<noteq> Inl CancelledError"
  shows "\<exists>sig. macro_evaluate py m c s now = Inr sig \<and> as_symbol sig = s \<and>
     as_agent_id sig = ma_agent_id m \<and> in_range 0 1 (as_confidence sig) \<and>
     (as_action sig \<noteq> HOLD \<longrightarrow> (\<exists>f p raw block payload. ma_llm m = Some f \<and> f p = Inr raw \<and>
        extract_json_block raw = Inr block \<and> openings block = closings block \<and>
        py_loads py block = Inr payload \<and> parse_signal py (ma_agent_id m) s raw now = Inr sig))"
proof -
  obtain p where p: "build_prompt m c s = Inr p"
    using render_prompt_ok [of s "recent_prices c s (Some (ma_history_window m))" headlines] assms(1)
    by (auto simp: build_prompt_def Let_def)
  show ?thesis
  proof (cases "ma_llm m")
    case None
    then show ?thesis by (simp add: macro_evaluate_def p macro_hold_ok)
  next
    case (Some f)
    show ?thesis
    proof (cases "f p")
      case (Inl e)
      with Some assms(3) [OF Some, of p] show ?thesis by (simp add: macro_evaluate_def p macro_hold_ok)
    next
      case raw: (Inr raw)
      show ?thesis
      proof (cases "parse_signal py (ma_agent_id m) s raw now")
        case (Inl e)
        with Some raw parse_not_cancelled [OF assms(2), of "ma_agent_id m" s raw now] show ?thesis
          by (simp add: macro_evaluate_def p macro_hold_ok)
      next
        case (Inr sig)
        then obtain block payload where b: "extract_json_block raw = Inr block"
          "py_loads py block = Inr payload"
          by (auto simp: parse_signal_def elim!: bind_result_InrE split: if_splits)
        from parse_signal_valid [OF Inr] extract_json_block_balanced [OF b(1)] b Some raw Inr show ?thesis
          by (auto simp: macro_evaluate_def p)
      qed
    qed
  qed
qed

theorem macro_agent_contained_witness:
  "\<exists>sig. macro_evaluate \<lparr>py_loads = \<lambda>t. Inl ValueError, py_str = \<lambda>v. [], py_fromisoformat = py_int,
       py_float_str = \<lambda>t. Inl ValueError\<rparr>
     \<lparr>ma_agent_id = ''macro.llm'', ma_history_window = 30, ma_news = mock_headlines Map.empty,
      ma_llm = Some (\<lambda>p. Inr ''I would buy {everything}'')\<rparr>
     \<lparr>tc_max_window = 2, tc_buckets = Map.empty, tc_order = []\<rparr> ''A'' 0 = Inr sig \<and> as_symbol sig = ''A''"
proof -
  let ?m = "\<lparr>ma_agent_id = ''macro.llm'', ma_history_window = 30, ma_news = mock_headlines Map.empty,
      ma_llm = Some (\<lambda>p. Inr ''I would buy {everything}'')\<rparr>"
  have n: "ma_news ?m ''A'' = Inr [''[mock] No real headlines configured for A'']"
    by (simp add: mock_headlines_def)
  show ?thesis
    using macro_agent_contained [OF n, where c = "\<lparr>tc_max_window = 2, tc_buckets = Map.empty, tc_order = []\<rparr>"
      and py = "\<lparr>py_loads = \<lambda>t. Inl ValueError, py_str = \<lambda>v. [], py_fromisoformat = py_int,
        py_float_str = \<lambda>t. Inl ValueError\<rparr>" and now = 0] by auto
qed

end
