(* ===== verification/News.thy ===== *)
theory News
  imports Py_Text
begin

text \<open>
  \<open>src/src/infrastructure/news_provider.py\<close>: the RSS reader, the per-symbol TTL cache with
  its stale fallback, the merge of several sources, and the factory. The HTTP answer and the
  XML parser are arguments. The section a caller runs under a symbol's lock is one step; the
  callers that wait for the lock run it one after the other.
\<close>

section \<open>RSS\<close>

definition symbol_to_query :: "(string \<times> string) list" where
  "symbol_to_query =
     [(''005930'', ''Samsung Electronics''), (''000660'', ''SK Hynix''), (''035420'', ''Naver Corp''),
      (''035720'', ''Kakao Corp''), (''105560'', ''KB Financial''), (''055550'', ''Shinhan Financial''),
      (''086790'', ''Hana Financial''), (''005380'', ''Hyundai Motor''), (''005490'', ''POSCO''),
      (''051910'', ''LG Chem''), (''207940'', ''Samsung Biologics''), (''068270'', ''Celltrion'')]"

definition query_for_symbol :: "string \<Rightarrow> string" where
  "query_for_symbol s = (case map_of symbol_to_query s of None \<Rightarrow> s | Some q \<Rightarrow> q)"

text \<open>The XML parser answers, for each path, the texts of the elements found.\<close>

type_synonym xml = "string \<Rightarrow> (string \<Rightarrow> string option list) result"

definition nonempty_texts :: "string option list \<Rightarrow> string list" where
  "nonempty_texts es =
     filter (\<lambda>t. t \<noteq> []) (map (\<lambda>e. strip (case e of None \<Rightarrow> [] | Some t \<Rightarrow> t)) es)"

fun first_titles :: "(string \<Rightarrow> string option list) \<Rightarrow> string list \<Rightarrow> string list" where
  "first_titles elems [] = []"
| "first_titles elems (p # ps) =
     (let titles = nonempty_texts (elems p) in if titles \<noteq> [] then titles else first_titles elems ps)"

definition parse_rss_titles :: "xml \<Rightarrow> string \<Rightarrow> nat \<Rightarrow> string list result" where
  "parse_rss_titles parse text max_headlines =
     (if strip text = [] then Inr []
      else case parse text of
          Inl e \<Rightarrow> if e = OtherError ''ParseError'' then Inr [] else Inl e
        | Inr elems \<Rightarrow> Inr (take max_headlines
            (first_titles elems [''channel/item/title'', ''item/title'', ''.//item/title''])))"

datatype rss_answer = RssTimeout | RssNetworkError | RssRaises py_error | RssResponse int string

definition rss_headlines :: "xml \<Rightarrow> rss_answer \<Rightarrow> string list result" where
  "rss_headlines parse a = (case a of
       RssTimeout \<Rightarrow> Inr []
     | RssNetworkError \<Rightarrow> Inr []
     | RssRaises e \<Rightarrow> Inl e
     | RssResponse status text \<Rightarrow> if 400 \<le> status then Inr [] else parse_rss_titles parse text 8)"

section \<open>The cache\<close>

record cache_entry =
  ce_headlines :: "string list"
  ce_fetched_at :: time

record news_cache =
  nc_ttl :: time
  nc_cache :: "string \<Rightarrow> cache_entry option"
  nc_hit_count :: nat
  nc_miss_count :: nat

definition CachingNewsProvider :: "time \<Rightarrow> news_cache result" where
  "CachingNewsProvider ttl =
     (if ttl \<le> 0 then Inl ValueError
      else Inr \<lparr>nc_ttl = ttl, nc_cache = Map.empty, nc_hit_count = 0, nc_miss_count = 0\<rparr>)"

definition is_fresh :: "news_cache \<Rightarrow> cache_entry \<Rightarrow> time \<Rightarrow> bool" where
  "is_fresh c e now = (now - ce_fetched_at e < nc_ttl c)"

definition cache_lookup :: "news_cache \<Rightarrow> string \<Rightarrow> time \<Rightarrow> string list option" where
  "cache_lookup c s now = (case nc_cache c s of
       Some e \<Rightarrow> if is_fresh c e now then Some (ce_headlines e) else None
     | None \<Rightarrow> None)"

text \<open>
  The section under the lock: the second check at \<open>now\<close>, the inner provider's answer, and the
  time \<open>later\<close> at which the result is stored.
\<close>

definition locked_section ::
    "news_cache \<Rightarrow> string \<Rightarrow> time \<Rightarrow> string list result \<Rightarrow> time \<Rightarrow> news_cache \<times> string list result" where
  "locked_section c s now answer later =
     (case cache_lookup c s now of
        Some hs \<Rightarrow> (c\<lparr>nc_hit_count := Suc (nc_hit_count c)\<rparr>, Inr hs)
      | None \<Rightarrow>
          let c1 = c\<lparr>nc_miss_count := Suc (nc_miss_count c)\<rparr> in
          if answer = Inl CancelledError then (c1, answer)
          else
            let headlines = (case answer of Inl e \<Rightarrow> [] | Inr hs \<Rightarrow> hs);
                old = (case nc_cache c s of None \<Rightarrow> [] | Some e \<Rightarrow> ce_headlines e);
                kept = (if headlines = [] \<and> old \<noteq> [] then old else headlines)
            in (c1\<lparr>nc_cache := (nc_cache c1)(s \<mapsto> \<lparr>ce_headlines = kept, ce_fetched_at = later\<rparr>)\<rparr>,
                Inr kept))"

definition cached_headlines ::
    "news_cache \<Rightarrow> string \<Rightarrow> time \<Rightarrow> time \<Rightarrow> string list result \<Rightarrow> time \<Rightarrow> news_cache \<times> string list result" where
  "cached_headlines c s now now' answer later =
     (case cache_lookup c s now of
        Some hs \<Rightarrow> (c\<lparr>nc_hit_count := Suc (nc_hit_count c)\<rparr>, Inr hs)
      | None \<Rightarrow> locked_section c s now' answer later)"

text \<open>Callers that all missed and wait for the lock, each with its check time, answer and end time.\<close>

fun lock_queue ::
    "news_cache \<Rightarrow> string \<Rightarrow> (time \<times> string list result \<times> time) list \<Rightarrow> news_cache \<times> string list result list" where
  "lock_queue c s [] = (c, [])"
| "lock_queue c s ((now, answer, later) # qs) =
     (case locked_section c s now answer later of (c1, r) \<Rightarrow>
        (case lock_queue c1 s qs of (c2, rs) \<Rightarrow> (c2, r # rs)))"

section \<open>Several sources\<close>

definition news_key :: "string \<Rightarrow> string" where
  "news_key headline = lower (strip headline)"

fun merge_result :: "nat \<Rightarrow> string list \<Rightarrow> string set \<Rightarrow> string list \<Rightarrow> string list \<times> string set \<times> bool" where
  "merge_result m merged seen [] = (merged, seen, False)"
| "merge_result m merged seen (h # hs) =
     (let key = news_key h in
      if key = [] \<or> key \<in> seen then merge_result m merged seen hs
      else if m \<le> length (merged @ [h]) then (merged @ [h], insert key seen, True)
      else merge_result m (merged @ [h]) (insert key seen) hs)"

fun merge_all ::
    "nat \<Rightarrow> nat \<Rightarrow> string list \<Rightarrow> string set \<Rightarrow> string list result list \<Rightarrow> nat \<times> string list" where
  "merge_all m failures merged seen [] = (failures, merged)"
| "merge_all m failures merged seen (r # rs) = (case r of
       Inl e \<Rightarrow> merge_all m (Suc failures) merged seen rs
     | Inr hs \<Rightarrow> (case merge_result m merged seen hs of
         (merged', seen', full) \<Rightarrow>
           if full then (failures, merged') else merge_all m failures merged' seen' rs))"

record composite =
  cp_max_total :: nat
  cp_failure_count :: nat

definition CompositeNewsProvider :: "nat \<Rightarrow> int \<Rightarrow> composite result" where
  "CompositeNewsProvider inners max_total =
     (if inners = 0 then Inl ValueError
      else if max_total \<le> 0 then Inl ValueError
      else Inr \<lparr>cp_max_total = nat max_total, cp_failure_count = 0\<rparr>)"

definition composite_headlines :: "composite \<Rightarrow> string list result list \<Rightarrow> composite \<times> string list" where
  "composite_headlines c answers =
     (case merge_all (cp_max_total c) (cp_failure_count c) [] {} answers of
        (failures, merged) \<Rightarrow> (c\<lparr>cp_failure_count := failures\<rparr>, merged))"

section \<open>Locales and the factory\<close>

definition locale_presets :: "(string \<times> string \<times> string \<times> string) list" where
  "locale_presets =
     [(''en'', ''en-US'', ''US'', ''US:en''), (''ko'', ''ko-KR'', ''KR'', ''KR:ko''),
      (''ja'', ''ja-JP'', ''JP'', ''JP:ja''), (''zh'', ''zh-CN'', ''CN'', ''CN:zh-Hans'')]"

fun locale_tokens :: "string set \<Rightarrow> string list \<Rightarrow> string list" where
  "locale_tokens seen [] = []"
| "locale_tokens seen (raw # ts) =
     (let t = lower (strip raw) in
      if t = [] \<or> t \<in> seen then locale_tokens seen ts
      else if map_of locale_presets t = None then locale_tokens seen ts
      else t # locale_tokens (insert t seen) ts)"

definition parse_locale_list :: "string \<Rightarrow> string list" where
  "parse_locale_list raw =
     (let out = locale_tokens {} (split_on (CHR '','') raw) in if out = [] then [''en''] else out)"

datatype provider_stack = CachingRss string | CompositeOf "string list"

text \<open>Every locale gets its own cache; a non-positive TTL is refused by each of them.\<close>

definition build_news_provider :: "string \<Rightarrow> time \<Rightarrow> string \<Rightarrow> provider_stack option result" where
  "build_news_provider provider ttl locales =
     (let p = lower (strip (if provider = [] then ''none'' else provider)) in
      if p = ''none'' then Inr None
      else if p \<noteq> ''google_rss'' then Inr None
      else bind_result (CachingNewsProvider ttl) (\<lambda>_.
        case parse_locale_list locales of
          [token] \<Rightarrow> Inr (Some (CachingRss token))
        | tokens \<Rightarrow> Inr (Some (CompositeOf tokens))))"

section \<open>Facts\<close>

lemma locked_section_stores:
  assumes "cache_lookup c s now = None" "answer \<noteq> Inl CancelledError"
    and "locked_section c s now answer later = (c', r)"
  obtains hs where "r = Inr hs" "nc_cache c' s = Some \<lparr>ce_headlines = hs, ce_fetched_at = later\<rparr>"
    "nc_miss_count c' = Suc (nc_miss_count c)" "nc_ttl c' = nc_ttl c"
  using assms by (auto simp: locked_section_def Let_def)

lemma lock_queue_hits:
  assumes "nc_cache c s = Some \<lparr>ce_headlines = hs, ce_fetched_at = t0\<rparr>"
    and "\<forall>(now, answer, later) \<in> set qs. now - t0 < nc_ttl c"
    and "lock_queue c s qs = (c', rs)"
  shows "nc_miss_count c' = nc_miss_count c \<and> rs = replicate (length qs) (Inr hs)"
  using assms
proof (induction qs arbitrary: c rs)
  case Nil
  then show ?case by simp
next
  case (Cons q qs)
  obtain now answer later where q: "q = (now, answer, later)" by (cases q)
  let ?c = "c\<lparr>nc_hit_count := Suc (nc_hit_count c)\<rparr>"
  obtain rs' where r: "lock_queue ?c s qs = (c', rs')" "rs = Inr hs # rs'"
    using Cons.prems by (auto simp: q locked_section_def cache_lookup_def is_fresh_def split: prod.splits)
  from Cons.IH [of ?c rs'] Cons.prems r show ?case by simp
qed

lemma merge_result_inv:
  assumes "merge_result m merged seen hs = (merged', seen', full)"
    and "distinct (map news_key merged)" "seen = set (map news_key merged)"
    and "length merged < m"
  shows "distinct (map news_key merged') \<and> seen' = set (map news_key merged') \<and>
     length merged' \<le> m \<and> (\<not> full \<longrightarrow> length merged' < m) \<and> set merged' \<subseteq> set merged \<union> set hs \<and>
     (\<not> full \<longrightarrow> (\<forall>h \<in> set hs. news_key h = [] \<or> news_key h \<in> seen')) \<and> seen \<subseteq> seen'"
  using assms
proof (induction m merged seen hs rule: merge_result.induct)
  case (2 m merged seen h hs)
  let ?key = "news_key h"
  show ?case
  proof (cases "?key = [] \<or> ?key \<in> seen")
    case True
    with "2.prems" "2.IH"(1) [OF refl True] show ?thesis by (auto simp: Let_def)
  next
    case False
    show ?thesis
    proof (cases "m \<le> length (merged @ [h])")
      case True
      with False "2.prems" show ?thesis by (auto simp: Let_def)
    next
      case short: False
      have r: "merge_result m (merged @ [h]) (insert ?key seen) hs = (merged', seen', full)"
        using "2.prems"(1) False short by (simp add: Let_def)
      have "distinct (map news_key merged')
          \<and> seen' = set (map news_key merged') \<and>
         length merged' \<le> m \<and> (\<not> full \<longrightarrow> length merged' < m) \<and> set merged' \<subseteq> set (merged @ [h]) \<union> set hs \<and>
         (\<not> full \<longrightarrow> (\<forall>h \<in> set hs. news_key h = [] \<or> news_key h \<in> seen')) \<and>
         insert ?key seen \<subseteq> seen'"
        using "2.prems" False short by (intro "2.IH"(2) [OF refl False short r]) auto
      then show ?thesis by auto
    qed
  qed
qed auto

lemma merge_all_inv:
  assumes "distinct (map news_key merged)" "seen = set (map news_key merged)"
    and "length merged < m" "merge_all m n merged seen rs = (n', merged')"
  shows "distinct (map news_key merged') \<and> length merged' \<le> m \<and>
     set merged' \<subseteq> set merged \<union> \<Union> (set ` set (concat (map (\<lambda>r. case r of Inl e \<Rightarrow> [] | Inr hs \<Rightarrow> [hs]) rs)))"
  using assms
proof (induction rs arbitrary: n merged seen)
  case Nil
  then show ?case by auto
next
  case (Cons r rs)
  show ?case
  proof (cases r)
    case (Inl e)
    with Cons.prems Cons.IH [of merged seen "Suc n"] show ?thesis by simp
  next
    case (Inr hs)
    obtain mg sn full where r: "merge_result m merged seen hs = (mg, sn, full)"
      by (cases "merge_result m merged seen hs")
    note inv = merge_result_inv [OF r Cons.prems(1-3)]
    show ?thesis
    proof (cases full)
      case True
      with Cons.prems(4) inv r Inr show ?thesis by auto
    next
      case False
      with Cons.prems(4) r Inr have "merge_all m n mg sn rs = (n', merged')" by simp
      from Cons.IH [OF _ _ _ this] inv False Inr show ?thesis by auto
    qed
  qed
qed

text \<open>A failing source only counts as a failure: the merge is that of the others.\<close>

lemma merge_all_isolated:
  "snd (merge_all m n merged seen (before @ Inl e # after))
   = snd (merge_all m n' merged seen (before @ after))"
proof (induction before arbitrary: n n' merged seen)
  case Nil
  have "snd (merge_all m k merged seen rs) = snd (merge_all m k' merged seen rs)" for k k' merged seen rs
  proof (induction rs arbitrary: k k' merged seen)
    case (Cons r rs)
    show ?case
    proof (cases r)
      case (Inl e)
      with Cons.IH [of "Suc k" merged seen "Suc k'"] show ?thesis by simp
    next
      case (Inr hs)
      with Cons.IH show ?thesis by (simp split: prod.splits)
    qed
  qed simp
  then show ?case by simp
next
  case (Cons r rs)
  show ?case
  proof (cases r)
    case (Inl e)
    with Cons.IH [of "Suc n" merged seen "Suc n'"] show ?thesis by simp
  next
    case (Inr hs)
    with Cons.IH show ?thesis by (simp split: prod.splits)
  qed
qed

section \<open>Properties\<close>

text \<open>
  C38: A burst of requests fetches once. Callers that found no fresh headlines for a symbol and
  queue for its lock cause exactly one upstream fetch, as long as each gets the lock within the
  TTL of its end; every one of them receives the headlines of that fetch, or the old ones when
  it failed or came back empty.
\<close>

theorem cache_single_flight:
  assumes "cache_lookup c s now = None" "answer \<noteq> Inl CancelledError"
    and "\<forall>(now', answer', later') \<in> set qs. now' - later < nc_ttl c"
    and "lock_queue c s ((now, answer, later) # qs) = (c', rs)"
  shows "nc_miss_count c' = Suc (nc_miss_count c) \<and>
     (\<exists>hs. rs = replicate (Suc (length qs)) (Inr hs) \<and>
        hs = (let old = (case nc_cache c s of None \<Rightarrow> [] | Some e \<Rightarrow> ce_headlines e);
                  new = (case answer of Inl e \<Rightarrow> [] | Inr hs \<Rightarrow> hs)
              in if new = [] then old else new))"
proof -
  obtain c1 r where l: "locked_section c s now answer later = (c1, r)"
    by (cases "locked_section c s now answer later")
  obtain hs where hs: "r = Inr hs" "nc_cache c1 s = Some \<lparr>ce_headlines = hs, ce_fetched_at = later\<rparr>"
    "nc_miss_count c1 = Suc (nc_miss_count c)" "nc_ttl c1 = nc_ttl c"
    by (rule locked_section_stores [OF assms(1,2) l])
  from l hs(1) assms(1,2) have v: "hs = (let old = (case nc_cache c s of None \<Rightarrow> [] | Some e \<Rightarrow> ce_headlines e);
      new = (case answer of Inl e \<Rightarrow> [] | Inr hs \<Rightarrow> hs) in if new = [] then old else new)"
    by (auto simp: locked_section_def Let_def split: if_splits)
  obtain rs' where q: "lock_queue c1 s qs = (c', rs')" "rs = Inr hs # rs'"
    using assms(4) hs(1) by (auto simp: l split: prod.splits)
  have "\<forall>(now', answer', later') \<in> set qs. now' - later < nc_ttl c1" using assms(3) hs(4) by auto
  from lock_queue_hits [OF hs(2) this q(1)] have "nc_miss_count c' = nc_miss_count c1" "rs' = replicate (length qs) (Inr hs)"
    by auto
  with hs(3) q(2) v show ?thesis by (intro conjI exI [of _ hs]) simp_all
qed

definition sample_cache :: news_cache where
  "sample_cache = \<lparr>nc_ttl = 600 * second, nc_cache = [''A'' \<mapsto> \<lparr>ce_headlines = [''old''], ce_fetched_at = 0\<rparr>],
     nc_hit_count = 0, nc_miss_count = 0\<rparr>"

theorem cache_single_flight_witness:
  "snd (lock_queue sample_cache ''A'' [(700 * second, Inl TimeoutError, 701 * second),
       (701 * second, Inr [], 702 * second)]) = [Inr [''old''], Inr [''old'']]"
proof -
  have l: "cache_lookup sample_cache ''A'' (700 * second) = None"
    by (simp add: sample_cache_def cache_lookup_def is_fresh_def second_def)
  obtain c' rs where q: "lock_queue sample_cache ''A'' ((700 * second, Inl TimeoutError, 701 * second) #
       [(701 * second, Inr [], 702 * second)]) = (c', rs)" by (metis surj_pair)
  from cache_single_flight [OF l _ _ q] q show ?thesis
    by (simp add: sample_cache_def second_def del: lock_queue.simps)
qed

text \<open>
  Merged headlines are distinct, bounded and isolated from failures: at most
  \<open>max_total\<close> of them, no two equal up to case and surrounding space, each from a source that
  answered, and a source that fails changes nothing but the failure count.
\<close>

lemma composite_merges:
  assumes "CompositeNewsProvider k max_total = Inr c"
  shows "distinct (map news_key (snd (composite_headlines c answers))) \<and>
     int (length (snd (composite_headlines c answers))) \<le> max_total \<and>
     (\<forall>h \<in> set (snd (composite_headlines c answers)). \<exists>hs. Inr hs \<in> set answers \<and> h \<in> set hs) \<and>
     (answers = before @ Inl e # after \<longrightarrow>
        snd (composite_headlines c answers) = snd (composite_headlines c (before @ after)))"
proof -
  from assms have m: "0 < cp_max_total c" "int (cp_max_total c) = max_total"
    by (auto simp: CompositeNewsProvider_def split: if_splits)
  obtain n merged where r: "merge_all (cp_max_total c) (cp_failure_count c) [] {} answers = (n, merged)"
    by (cases "merge_all (cp_max_total c) (cp_failure_count c) [] {} answers")
  have inv: "distinct (map news_key merged) \<and> length merged \<le> cp_max_total c \<and>
     set merged \<subseteq> \<Union> (set ` set (concat (map (\<lambda>r. case r of Inl e \<Rightarrow> [] | Inr hs \<Rightarrow> [hs]) answers)))"
    using merge_all_inv [OF _ _ _ r] m(1) by simp
  then have "\<forall>h \<in> set merged. \<exists>hs. Inr hs \<in> set answers \<and> h \<in> set hs"
    by (fastforce split: sum.splits)
  with inv m(2) r merge_all_isolated [of "cp_max_total c" "cp_failure_count c" "[]" "{}" before e after "cp_failure_count c"]
  show ?thesis by (auto simp: composite_headlines_def split: prod.splits)
qed

lemma composite_merges_example:
  "\<exists>c. CompositeNewsProvider 2 8 = Inr c \<and> length (snd (composite_headlines c [Inl OSError, Inr [''a'', '' A'']])) \<le> 8"
proof -
  obtain c where c: "CompositeNewsProvider 2 8 = Inr c" by (simp add: CompositeNewsProvider_def)
  from composite_merges [OF c, of "[Inl OSError, Inr [''a'', '' A'']]"] c show ?thesis by auto
qed

end
