(* ===== verification/Kis_Rest.thy ===== *)
theory Kis_Rest
  imports Kis_Session Executor
begin

text \<open>
  The REST clients beside the session: cash orders
  (\<open>src/src/infrastructure/kis_order_client.py\<close>, the production \<open>OrderClient\<close> of the
  executor) and the account balance (\<open>kis_balance_client.py\<close>). The HTTP call is an argument
  that receives the request and answers it. The text of a broker message is the argument
  \<open>fmt\<close>, applied to the three response fields it interpolates.
\<close>

section \<open>Accounts and transaction ids\<close>

definition parse_account_number :: "string \<Rightarrow> string \<times> string" where
  "parse_account_number raw =
     (if raw = [] then ([], ''01'')
      else if CHR ''-'' \<in> set raw then
        (case split_max (CHR ''-'') 1 raw of
           cano # prdt # _ \<Rightarrow> (strip cano, if strip prdt = [] then ''01'' else strip prdt)
         | _ \<Rightarrow> (raw, ''01''))
      else
        let rest = dropWhile (\<lambda>c. c = CHR ''0'') (drop 8 raw)
        in (take 8 raw, if rest = [] then ''01'' else rest))"

definition tr_id_for :: "string \<Rightarrow> action \<Rightarrow> string result" where
  "tr_id_for env act =
     (if env = ''paper'' \<and> act = BUY then Inr ''VTTC0802U''
      else if env = ''paper'' \<and> act = SELL then Inr ''VTTC0801U''
      else if env = ''live'' \<and> act = BUY then Inr ''TTTC0802U''
      else if env = ''live'' \<and> act = SELL then Inr ''TTTC0801U''
      else Inl KisUpstreamError)"

section \<open>Orders\<close>

datatype order_type = MarketOrder | LimitOrder

record order_client =
  oc_env :: string
  oc_account :: "string \<times> string"
  oc_token :: json

definition KisOrderClient :: "string \<Rightarrow> string \<Rightarrow> json \<Rightarrow> order_client" where
  "KisOrderClient env account token =
     \<lparr>oc_env = env, oc_account = parse_account_number account, oc_token = token\<rparr>"

record order_request =
  rq_paper_host :: bool
  rq_tr_id :: string
  rq_token :: json
  rq_cano :: string
  rq_acnt_prdt_cd :: string
  rq_pdno :: string
  rq_ord_dvsn :: string
  rq_ord_qty :: int
  rq_ord_unpr :: int

definition parse_order_response ::
    "(json \<Rightarrow> json \<Rightarrow> json \<Rightarrow> string) \<Rightarrow> int \<Rightarrow> json result \<Rightarrow> order_result result" where
  "parse_order_response fmt status body =
     (if status = 401 \<or> status = 403 then Inl KisAuthError
      else case body of
          Inl e \<Rightarrow> Inl (if e = ValueError then KisUpstreamError else e)
        | Inr payload \<Rightarrow>
            bind_result (j_get_or payload ''rt_cd'' (JStr ''?'')) (\<lambda>rt_cd.
            bind_result (j_get_or payload ''msg_cd'' (JStr ''?'')) (\<lambda>msg_cd.
            bind_result (j_get_or payload ''msg1'' (JStr [])) (\<lambda>msg1.
            bind_result (j_get_or payload ''output'' JNull) (\<lambda>out.
            let order_id = (case j_or out (JObj []) of
                    JObj kvs \<Rightarrow> (case map_of kvs ''ODNO'' of Some (JStr i) \<Rightarrow> Some i | _ \<Rightarrow> None)
                  | _ \<Rightarrow> None)
            in Inr \<lparr>or_success = status < 400 \<and> rt_cd = JStr ''0'', or_order_id = order_id,
                    or_message = fmt rt_cd msg_cd msg1\<rparr>)))))"

definition order_request_for ::
    "order_client \<Rightarrow> string \<Rightarrow> action \<Rightarrow> int \<Rightarrow> order_type \<Rightarrow> int \<Rightarrow> order_request result" where
  "order_request_for c symb act quantity typ price =
     (if act = HOLD then Inl ValueError
      else if quantity \<le> 0 then Inl ValueError
      else if typ = LimitOrder \<and> price \<le> 0 then Inl ValueError
      else if \<not> truthy (oc_token c) then Inl KisAuthError
      else bind_result (tr_id_for (oc_env c) act) (\<lambda>tr.
        Inr \<lparr>rq_paper_host = (oc_env c = ''paper''), rq_tr_id = tr, rq_token = oc_token c,
             rq_cano = fst (oc_account c), rq_acnt_prdt_cd = snd (oc_account c), rq_pdno = symb,
             rq_ord_dvsn = (if typ = MarketOrder then ''01'' else ''00''), rq_ord_qty = quantity,
             rq_ord_unpr = (if typ = MarketOrder then 0 else price)\<rparr>))"

definition kis_place_order ::
    "(json \<Rightarrow> json \<Rightarrow> json \<Rightarrow> string) \<Rightarrow> (order_request \<Rightarrow> http) \<Rightarrow> order_client
     \<Rightarrow> string \<Rightarrow> action \<Rightarrow> int \<Rightarrow> order_type \<Rightarrow> int \<Rightarrow> order_result result" where
  "kis_place_order fmt post c symb act quantity typ price =
     bind_result (order_request_for c symb act quantity typ price) (\<lambda>rq.
     case post rq of
       HttpTimeout \<Rightarrow> Inl KisUpstreamError
     | HttpNetworkError \<Rightarrow> Inl KisUpstreamError
     | HttpRaises e \<Rightarrow> Inl e
     | HttpResponse status body \<Rightarrow> parse_order_response fmt status body)"

text \<open>The executor calls it with the defaults: a market order.\<close>

definition market_order ::
    "(json \<Rightarrow> json \<Rightarrow> json \<Rightarrow> string) \<Rightarrow> (order_request \<Rightarrow> http) \<Rightarrow> order_client \<Rightarrow> place_order" where
  "market_order fmt post c symb act quantity = kis_place_order fmt post c symb act quantity MarketOrder 0"

section \<open>Balance\<close>

record holding_item =
  hi_symbol :: json
  hi_name :: json
  hi_quantity :: int
  hi_avg_price :: float64
  hi_current_price :: int
  hi_eval_amount :: int
  hi_profit_loss :: int
  hi_profit_loss_pct :: float64

record balance_result =
  br_cash :: int
  br_eval_total :: int
  br_profit_loss :: int
  br_profit_loss_pct :: float64
  br_holdings :: "holding_item list"

definition item_int :: "json \<Rightarrow> string \<Rightarrow> int result" where
  "item_int raw k = bind_result (j_item raw k) j_int"

definition item_float :: "python \<Rightarrow> json \<Rightarrow> string \<Rightarrow> float64 result" where
  "item_float py raw k = bind_result (j_item raw k) (j_float py)"

definition parse_holding :: "python \<Rightarrow> json \<Rightarrow> holding_item result" where
  "parse_holding py raw =
     bind_result (j_item raw ''pdno'') (\<lambda>symb.
     bind_result (j_item raw ''prdt_name'') (\<lambda>name.
     bind_result (item_int raw ''hldg_qty'') (\<lambda>quantity.
     bind_result (item_float py raw ''pchs_avg_pric'') (\<lambda>avg.
     bind_result (item_int raw ''prpr'') (\<lambda>price.
     bind_result (item_int raw ''evlu_amt'') (\<lambda>amount.
     bind_result (item_int raw ''evlu_pfls_amt'') (\<lambda>pl.
     bind_result (item_float py raw ''evlu_pfls_rt'') (\<lambda>rt.
     Inr \<lparr>hi_symbol = symb, hi_name = name, hi_quantity = quantity, hi_avg_price = avg,
          hi_current_price = price, hi_eval_amount = amount, hi_profit_loss = pl,
          hi_profit_loss_pct = rt\<rparr>))))))))"

text \<open>The handler of a bad holding itself calls \<open>raw.get\<close>, which only a dictionary has.\<close>

fun parse_holdings :: "python \<Rightarrow> json list \<Rightarrow> holding_item list result" where
  "parse_holdings py [] = Inr []"
| "parse_holdings py (raw # raws) = (case parse_holding py raw of
       Inr item \<Rightarrow> bind_result (parse_holdings py raws) (\<lambda>items. Inr (item # items))
     | Inl e \<Rightarrow>
         if e \<in> {KeyError, ValueError, TypeError}
         then if is_obj raw then parse_holdings py raws else Inl AttributeError
         else Inl e)"

definition parse_summary :: "python \<Rightarrow> json \<Rightarrow> (int \<times> int \<times> int \<times> float64) result" where
  "parse_summary py raw =
     bind_result (item_int raw ''dnca_tot_amt'') (\<lambda>cash.
     bind_result (item_int raw ''tot_evlu_amt'') (\<lambda>total.
     bind_result (item_int raw ''evlu_pfls_amt_smtl'') (\<lambda>pl.
     bind_result (item_float py raw ''tot_evlu_pfls_rt'') (\<lambda>rt. Inr (cash, total, pl, rt)))))"

definition parse_balance :: "python \<Rightarrow> json \<Rightarrow> balance_result result" where
  "parse_balance py payload =
     bind_result (j_get_or payload ''output1'' JNull) (\<lambda>o1.
     bind_result (j_get_or payload ''output2'' JNull) (\<lambda>o2.
     if \<not> truthy o2 then Inl KisUpstreamError
     else
       bind_result (j_elements (j_or o1 (JList []))) (\<lambda>raws.
       bind_result (parse_holdings py raws) (\<lambda>holdings.
       bind_result (j_first o2) (\<lambda>raw.
       bind_result (parse_summary py raw) (\<lambda>(cash, total, pl, rt).
       Inr \<lparr>br_cash = cash, br_eval_total = total, br_profit_loss = pl, br_profit_loss_pct = rt,
            br_holdings = holdings\<rparr>))))))"

definition fetch_balance :: "python \<Rightarrow> json \<Rightarrow> http \<Rightarrow> balance_result result" where
  "fetch_balance py token h =
     (if \<not> truthy token then Inl KisAuthError
      else bind_result (http_body h) (\<lambda>body.
        case body of
          Inl e \<Rightarrow> Inl (if e = ValueError then KisUpstreamError else e)
        | Inr payload \<Rightarrow> parse_balance py payload))"

section \<open>Properties\<close>



text \<open>The two spellings of one account differ in the product code.\<close>

lemma account_spellings_disagree:
  "parse_account_number ''12345678-01'' = (''12345678'', ''01'')"
  "parse_account_number ''1234567801'' = (''12345678'', ''1'')"
  by code_simp+

end
