(* ===== verification/Security.thy ===== *)
theory Security
  imports Json
begin

text \<open>
  \<open>src/src/core/security.py\<close>: who is behind a request. The cache of signing keys with its
  time to live and its refresh on an unknown key id, the validation of a bearer token, and the
  development bypass. The JWT library (\<open>jose\<close>) and the two HTTP reads of a refresh are
  arguments; a response of the route is an HTTP error code or a principal, and an exception
  nothing catches is a crash of the request.
\<close>

section \<open>Settings, principals, outcomes\<close>

record auth_settings =
  es_app_env :: string
  es_tenant_id :: string
  es_client_id :: string
  es_audience :: string
  es_resolved_issuer :: string

record principal =
  pp_subject :: string
  pp_tenant :: string
  pp_roles :: "json list"
  pp_scopes :: "json list"
  pp_raw_token :: string
  pp_claims :: json

datatype auth_failure = Http401 | Http500 | Crash py_error

type_synonym 'a auth = "auth_failure + 'a"

definition anonymous :: principal where
  "anonymous = \<lparr>pp_subject = ''anonymous'', pp_tenant = ''dev'', pp_roles = [], pp_scopes = [],
     pp_raw_token = [], pp_claims = JObj []\<rparr>"

text \<open>\<open>s.split()\<close>: the words between white space.\<close>

fun words_acc :: "string \<Rightarrow> string \<Rightarrow> string list" where
  "words_acc w [] = (if w = [] then [] else [rev w])"
| "words_acc w (c # cs) =
     (if is_space c then (if w = [] then words_acc [] cs else rev w # words_acc [] cs)
      else words_acc (c # w) cs)"

definition split_words :: "string \<Rightarrow> string list" where
  "split_words s = words_acc [] s"

section \<open>The key cache\<close>

record jwks_cache =
  jc_ttl :: time
  jc_keys :: "(json \<times> json) list"
  jc_issuer :: json
  jc_fetched_at :: time

definition JwksCache :: "time \<Rightarrow> jwks_cache" where
  "JwksCache ttl = \<lparr>jc_ttl = ttl, jc_keys = [], jc_issuer = JStr [], jc_fetched_at = 0\<rparr>"

definition cache_issuer :: "auth_settings \<Rightarrow> jwks_cache \<Rightarrow> json" where
  "cache_issuer s c = j_or (jc_issuer c) (JStr (es_resolved_issuer s))"

definition keys_fresh :: "jwks_cache \<Rightarrow> time \<Rightarrow> bool" where
  "keys_fresh c now = (jc_keys c \<noteq> [] \<and> now - jc_fetched_at c < jc_ttl c)"

fun hashable :: "json \<Rightarrow> bool" where
  "hashable (JList _) = False"
| "hashable (JObj _) = False"
| "hashable _ = True"

text \<open>The dictionary by key id: entries without one are skipped, a later entry wins.\<close>

fun collect_keys :: "json list \<Rightarrow> (json \<times> json) list result" where
  "collect_keys [] = Inr []"
| "collect_keys (k # ks) =
     bind_result (j_get_or k ''kid'' JNull) (\<lambda>kid.
     if truthy kid \<and> \<not> hashable kid then Inl TypeError
     else bind_result (collect_keys ks) (\<lambda>rest. Inr (if truthy kid then rest @ [(kid, k)] else rest)))"

definition jwks_refresh ::
    "auth_settings \<Rightarrow> jwks_cache \<Rightarrow> json result \<Rightarrow> json result \<Rightarrow> time \<Rightarrow> jwks_cache result" where
  "jwks_refresh s c oidc_answer jwks_answer now =
     (if es_tenant_id s = [] then Inl RuntimeError
      else
        bind_result oidc_answer (\<lambda>oidc.
        bind_result (j_get_or oidc ''jwks_uri'' JNull) (\<lambda>uri.
        if \<not> truthy uri then Inl RuntimeError
        else
          bind_result jwks_answer (\<lambda>jwks.
          bind_result (bind_result (j_get_or jwks ''keys'' (JList [])) j_elements) (\<lambda>ks.
          bind_result (collect_keys ks) (\<lambda>keys.
          bind_result (j_get_or oidc ''issuer'' (JStr [])) (\<lambda>issuer.
          Inr (c\<lparr>jc_keys := keys, jc_issuer := j_or issuer (JStr (es_resolved_issuer s)),
                 jc_fetched_at := now\<rparr>))))))))"

text \<open>
  The clock is read at the check outside the lock, at the check inside, and when a refresh is
  stored.
\<close>

definition get_key ::
    "auth_settings \<Rightarrow> jwks_cache \<Rightarrow> json \<Rightarrow> time \<Rightarrow> time \<Rightarrow> json result \<Rightarrow> json result \<Rightarrow> time
     \<Rightarrow> jwks_cache \<times> json result" where
  "get_key s c kid now now' oidc jwks later =
     (if \<not> hashable kid then (c, Inl TypeError)
      else case map_of (jc_keys c) kid of
          Some k \<Rightarrow>
            if keys_fresh c now \<or> keys_fresh c now' then (c, Inr k)
            else (case jwks_refresh s c oidc jwks later of
                Inl e \<Rightarrow> (c, Inl e)
              | Inr c1 \<Rightarrow> (c1, case map_of (jc_keys c1) kid of None \<Rightarrow> Inl KeyError | Some k1 \<Rightarrow> Inr k1))
        | None \<Rightarrow> (case jwks_refresh s c oidc jwks later of
                Inl e \<Rightarrow> (c, Inl e)
              | Inr c1 \<Rightarrow> (c1, case map_of (jc_keys c1) kid of None \<Rightarrow> Inl KeyError | Some k1 \<Rightarrow> Inr k1)))"

section \<open>Validation\<close>

record jwt =
  jwt_header :: "string \<Rightarrow> json result"
  jwt_decode :: "string \<Rightarrow> json \<Rightarrow> string \<Rightarrow> json \<Rightarrow> json result"

definition jwt_error :: "py_error \<Rightarrow> bool" where
  "jwt_error e = (e = OtherError ''JWTError'')"

definition lookup_failure :: "py_error \<Rightarrow> auth_failure" where
  "lookup_failure e =
     (if e = KeyError \<or> e = RuntimeError \<or> e = OtherError ''HTTPError'' then Http401 else Crash e)"

definition to_auth :: "'a result \<Rightarrow> 'a auth" where
  "to_auth r = (case r of Inl e \<Rightarrow> Inl (Crash e) | Inr v \<Rightarrow> Inr v)"

definition bind_auth :: "'a auth \<Rightarrow> ('a \<Rightarrow> 'b auth) \<Rightarrow> 'b auth" where
  "bind_auth r f = (case r of Inl e \<Rightarrow> Inl e | Inr v \<Rightarrow> f v)"

text \<open>What the validation does with verified claims.\<close>

definition principal_of_claims :: "python \<Rightarrow> auth_settings \<Rightarrow> string \<Rightarrow> json \<Rightarrow> principal auth" where
  "principal_of_claims py s token claims =
     bind_auth (to_auth (j_get_or claims ''tid'' JNull)) (\<lambda>tid.
     if es_tenant_id s \<noteq> [] \<and> tid \<noteq> JStr (es_tenant_id s) then Inl Http401
     else
       bind_auth (to_auth (j_get_or claims ''oid'' JNull)) (\<lambda>oid.
       bind_auth (to_auth (j_get_or claims ''sub'' JNull)) (\<lambda>sb.
       let subject = j_or oid sb in
       if \<not> truthy subject then Inl Http401
       else
         bind_auth (to_auth (bind_result (j_get_or claims ''roles'' JNull)
            (\<lambda>r. j_elements (j_or r (JList []))))) (\<lambda>roles.
         bind_auth (to_auth (j_get_or claims ''scp'' (JStr []))) (\<lambda>scp.
         bind_auth (to_auth (case scp of JStr t \<Rightarrow> Inr (map JStr (split_words t))
             | _ \<Rightarrow> j_elements (j_or scp (JList [])))) (\<lambda>scopes.
         bind_auth (to_auth (j_get_or claims ''tid'' (JStr []))) (\<lambda>tenant.
         Inr \<lparr>pp_subject = j_str py subject, pp_tenant = j_str py tenant, pp_roles = roles,
              pp_scopes = scopes, pp_raw_token = token, pp_claims = claims\<rparr>)))))))"

definition expected_audience :: "auth_settings \<Rightarrow> string" where
  "expected_audience s = (if es_audience s \<noteq> [] then es_audience s else es_client_id s)"

definition validate_token ::
    "python \<Rightarrow> jwt \<Rightarrow> auth_settings \<Rightarrow> jwks_cache \<Rightarrow> string \<Rightarrow> time \<Rightarrow> time \<Rightarrow> json result \<Rightarrow> json result
     \<Rightarrow> time \<Rightarrow> jwks_cache \<times> principal auth" where
  "validate_token py j s c token now now' oidc jwks later =
     (case jwt_header j token of
        Inl e \<Rightarrow> (c, Inl (if jwt_error e then Http401 else Crash e))
      | Inr header \<Rightarrow> (case j_get_or header ''kid'' JNull of
          Inl e \<Rightarrow> (c, Inl (Crash e))
        | Inr kid \<Rightarrow>
            if \<not> truthy kid then (c, Inl Http401)
            else (case get_key s c kid now now' oidc jwks later of
                (c1, Inl e) \<Rightarrow> (c1, Inl (lookup_failure e))
              | (c1, Inr key) \<Rightarrow>
                  let issuer = cache_issuer s c1 in
                  if expected_audience s = [] \<or> \<not> truthy issuer then (c1, Inl Http500)
                  else (case jwt_decode j token key (expected_audience s) issuer of
                      Inl e \<Rightarrow> (c1, Inl (if jwt_error e then Http401 else Crash e))
                    | Inr claims \<Rightarrow> (c1, principal_of_claims py s token claims)))))"

text \<open>The credentials of a request: scheme and token.\<close>

definition get_current_user ::
    "python \<Rightarrow> jwt \<Rightarrow> auth_settings \<Rightarrow> jwks_cache \<Rightarrow> (string \<times> string) option \<Rightarrow> time \<Rightarrow> time
     \<Rightarrow> json result \<Rightarrow> json result \<Rightarrow> time \<Rightarrow> jwks_cache \<times> principal auth" where
  "get_current_user py j s c creds now now' oidc jwks later =
     (let is_dev = (es_app_env s = ''development'');
          has_entra = (es_tenant_id s \<noteq> [] \<and> es_client_id s \<noteq> []) in
      case creds of
        None \<Rightarrow> if is_dev \<and> \<not> has_entra then (c, Inr anonymous) else (c, Inl Http401)
      | Some (scheme, token) \<Rightarrow>
          if lower scheme \<noteq> ''bearer'' then (c, Inl Http401)
          else if \<not> has_entra then (c, Inl Http500)
          else validate_token py j s c token now now' oidc jwks later)"

section \<open>Facts\<close>

lemma bind_auth_InrE:
  assumes "bind_auth r f = Inr v"
  obtains x where "r = Inr x" "f x = Inr v"
  using assms by (cases r) (auto simp: bind_auth_def)

lemma to_auth_Inr: "to_auth r = Inr v \<longleftrightarrow> r = Inr v"
  by (cases r) (auto simp: to_auth_def)

lemma principal_of_claims_tenant:
  assumes "principal_of_claims py s token claims = Inr p"
  shows "\<exists>kvs. claims = JObj kvs \<and> (es_tenant_id s \<noteq> [] \<longrightarrow> map_of kvs ''tid'' = Some (JStr (es_tenant_id s)))
     \<and> pp_claims p = claims \<and> pp_raw_token p = token
     \<and> (\<exists>subject. (map_of kvs ''oid'' = Some subject \<or> map_of kvs ''sub'' = Some subject) \<and>
          truthy subject \<and> pp_subject p = j_str py subject)"
proof (cases claims)
  case (JObj kvs)
  let ?get = "\<lambda>k. case map_of kvs k of None \<Rightarrow> JNull | Some v \<Rightarrow> v"
  let ?subject = "j_or (?get ''oid'') (?get ''sub'')"
  from assms JObj have p: "es_tenant_id s \<noteq> [] \<longrightarrow> ?get ''tid'' = JStr (es_tenant_id s)" "truthy ?subject"
    "pp_subject p = j_str py ?subject" "pp_claims p = claims" "pp_raw_token p = token"
    by (auto simp: principal_of_claims_def to_auth_Inr Let_def elim!: bind_auth_InrE split: if_splits)
  from p(2) have "map_of kvs ''oid'' = Some ?subject \<or> map_of kvs ''sub'' = Some ?subject"
    by (auto simp: j_or_def split: option.splits if_splits)
  with p JObj show ?thesis by (auto split: option.splits)
qed (use assms in \<open>auto simp: principal_of_claims_def to_auth_def bind_auth_def j_get_or_def\<close>)

lemma get_key_published:
  assumes "get_key s c kid now now' oidc jwks later = (c', Inr k)"
  shows "map_of (jc_keys c') kid = Some k"
  using assms by (auto simp: get_key_def split: if_splits option.splits sum.splits)

lemma validate_token_Inr:
  assumes "validate_token py j s c token now now' oidc jwks later = (c', Inr p)"
  obtains header kid key where "jwt_header j token = Inr header" "j_get_or header ''kid'' JNull = Inr kid"
    "truthy kid" "map_of (jc_keys c') kid = Some key"
    "jwt_decode j token key (expected_audience s) (cache_issuer s c') = Inr (pp_claims p)"
    "principal_of_claims py s token (pp_claims p) = Inr p"
proof -
  from assms obtain header kid key claims where h: "jwt_header j token = Inr header"
    "j_get_or header ''kid'' JNull = Inr kid" "truthy kid"
    "get_key s c kid now now' oidc jwks later = (c', Inr key)"
    "jwt_decode j token key (expected_audience s) (cache_issuer s c') = Inr claims"
    "principal_of_claims py s token claims = Inr p"
    by (auto simp: validate_token_def Let_def split: sum.splits prod.splits if_splits)
  moreover from principal_of_claims_tenant [OF h(6)] have "claims = pp_claims p" by auto
  ultimately show ?thesis using get_key_published [OF h(4)] by (intro that [of header kid key]) simp_all
qed

section \<open>Property\<close>

text \<open>
  C11: Nobody gets in unverified. A request is given a principal only if it carries no credentials
  at all on a development server without Entra settings (and then the anonymous one), or if it
  carries a bearer token that the JWT library verified, with the key the tenant publishes under
  the token's own key id, for the configured audience and issuer; the claims are then those of
  this tenant and the principal is the subject they name.
\<close>

theorem principal_only_if_verified:
  assumes "get_current_user py j s c creds now now' oidc jwks later = (c', Inr p)"
  shows "(creds = None \<and> es_app_env s = ''development'' \<and> (es_tenant_id s = [] \<or> es_client_id s = []) \<and>
       p = anonymous)
   \<or> (\<exists>scheme token header kid key kvs. creds = Some (scheme, token) \<and> lower scheme = ''bearer'' \<and>
       jwt_header j token = Inr header \<and> j_get_or header ''kid'' JNull = Inr kid \<and>
       map_of (jc_keys c') kid = Some key \<and>
       jwt_decode j token key (expected_audience s) (cache_issuer s c') = Inr (JObj kvs) \<and>
       map_of kvs ''tid'' = Some (JStr (es_tenant_id s)) \<and>
       (\<exists>subject. (map_of kvs ''oid'' = Some subject \<or> map_of kvs ''sub'' = Some subject) \<and>
          truthy subject \<and> pp_subject p = j_str py subject))"
proof (cases creds)
  case None
  with assms show ?thesis by (auto simp: get_current_user_def Let_def split: if_splits)
next
  case (Some cr)
  obtain scheme token where cr: "cr = (scheme, token)" by (cases cr)
  from assms Some cr have v: "lower scheme = ''bearer''" "es_tenant_id s \<noteq> []"
    "validate_token py j s c token now now' oidc jwks later = (c', Inr p)"
    by (auto simp: get_current_user_def Let_def split: if_splits)
  obtain header kid key where h: "jwt_header j token = Inr header" "j_get_or header ''kid'' JNull = Inr kid"
    "map_of (jc_keys c') kid = Some key"
    "jwt_decode j token key (expected_audience s) (cache_issuer s c') = Inr (pp_claims p)"
    "principal_of_claims py s token (pp_claims p) = Inr p"
    by (rule validate_token_Inr [OF v(3)])
  from principal_of_claims_tenant [OF h(5)] v(2) obtain kvs subject where k: "pp_claims p = JObj kvs"
    "map_of kvs ''tid'' = Some (JStr (es_tenant_id s))"
    "map_of kvs ''oid'' = Some subject \<or> map_of kvs ''sub'' = Some subject" "truthy subject"
    "pp_subject p = j_str py subject" by auto
  show ?thesis
    by (rule disjI2, intro exI [of _ scheme] exI [of _ token] exI [of _ header] exI [of _ kid]
        exI [of _ key] exI [of _ kvs]) (use h k v Some cr in auto)
qed

definition sample_auth :: auth_settings where
  "sample_auth = \<lparr>es_app_env = ''production'', es_tenant_id = ''T'', es_client_id = ''C'', es_audience = [],
     es_resolved_issuer = ''I''\<rparr>"

definition sample_jwt :: jwt where
  "sample_jwt = \<lparr>jwt_header = \<lambda>t. Inr (JObj [(''kid'', JStr ''k'')]),
     jwt_decode = \<lambda>t k a i. if a = ''C'' then Inr (JObj [(''tid'', JStr ''T''), (''oid'', JStr ''u'')])
       else Inl (OtherError ''JWTError'')\<rparr>"

definition sample_jwks :: jwks_cache where
  "sample_jwks = \<lparr>jc_ttl = 3600, jc_keys = [(JStr ''k'', JObj [])], jc_issuer = JStr ''I'', jc_fetched_at = 0\<rparr>"

theorem principal_only_if_verified_witness:
  "\<exists>p. get_current_user \<lparr>py_loads = \<lambda>t. Inl ValueError, py_str = \<lambda>v. [], py_fromisoformat = py_int,
       py_float_str = \<lambda>t. Inl ValueError\<rparr> sample_jwt sample_auth sample_jwks (Some (''Bearer'', ''x'')) 1 1
       (Inl ValueError) (Inl ValueError) 1 = (sample_jwks, Inr p) \<and> pp_subject p = ''u''"
proof -
  let ?py = "\<lparr>py_loads = \<lambda>t. Inl ValueError, py_str = \<lambda>v. [], py_fromisoformat = py_int,
       py_float_str = \<lambda>t. Inl ValueError\<rparr>"
  have l: "lower ''Bearer'' = ''bearer''" by code_simp
  obtain p where p: "get_current_user ?py sample_jwt sample_auth sample_jwks (Some (''Bearer'', ''x'')) 1 1
       (Inl ValueError) (Inl ValueError) 1 = (sample_jwks, Inr p)"
    by (simp add: get_current_user_def l sample_auth_def validate_token_def sample_jwt_def get_key_def
        sample_jwks_def keys_fresh_def Let_def expected_audience_def cache_issuer_def j_or_def
        principal_of_claims_def to_auth_def bind_auth_def split_words_def)
  from principal_only_if_verified [OF p] p show ?thesis
    by (auto simp: sample_jwt_def expected_audience_def sample_auth_def j_str_def)
qed

end
