(* ===== verification/Us_Publisher.thy ===== *)
theory Us_Publisher
  imports Publishers Tasks
begin

text \<open>
  \<open>src/src/infrastructure/us_publisher.py\<close>: quotes polled from a chart endpoint in
  round-robin batches, turned into ticks whose volume is the growth of the day's total since
  the last poll. The endpoint is an argument: what the request for a Yahoo symbol answers, an
  HTTP error or the body's JSON.
\<close>

section \<open>State\<close>

record us_publisher =
  up_symbols :: "string list"
  up_suffix :: string
  up_map :: "string \<Rightarrow> string option"
  up_batch_size :: nat
  up_cursor :: nat
  up_published :: nat
  up_failures :: nat
  up_last_volume :: "string \<Rightarrow> int option"

definition UsPublisher ::
    "string list \<Rightarrow> int \<Rightarrow> float64 \<Rightarrow> string \<Rightarrow> (string \<Rightarrow> string option) \<Rightarrow> us_publisher result" where
  "UsPublisher symbols batch_size poll_interval suffix ymap =
     (if symbols = [] then Inl ValueError
      else if batch_size < 1 then Inl ValueError
      else if fle poll_interval (Fin 0) then Inl ValueError
      else Inr \<lparr>up_symbols = symbols, up_suffix = suffix, up_map = ymap, up_batch_size = nat batch_size,
                up_cursor = 0, up_published = 0, up_failures = 0, up_last_volume = Map.empty\<rparr>)"

definition next_batch :: "us_publisher \<Rightarrow> string list \<times> us_publisher" where
  "next_batch p =
     (let n = length (up_symbols p); start = up_cursor p mod n;
          batch = map (\<lambda>i. up_symbols p ! ((start + i) mod n)) [0 ..< min (up_batch_size p) n]
      in (batch, p\<lparr>up_cursor := (start + length batch) mod n\<rparr>))"

text \<open>Instruments outside the equity universe and their Yahoo names, in the order of the source.\<close>

definition extra_yahoo_symbols :: "(string \<times> string) list" where
  "extra_yahoo_symbols = [(''XLK'', ''XLK''), (''XLF'', ''XLF''), (''XLE'', ''XLE''),
     (''XLV'', ''XLV''), (''XLI'', ''XLI''), (''XLU'', ''XLU''), (''XLY'', ''XLY''),
     (''XLRE'', ''XLRE''), (''SMH'', ''SMH''), (''EURUSD'', ''EURUSD=X''), (''USDJPY'', ''JPY=X''),
     (''GBPUSD'', ''GBPUSD=X''), (''USDCNH'', ''USDCNH=X''), (''USDCHF'', ''CHF=X''),
     (''AUDUSD'', ''AUDUSD=X''), (''USDTRY'', ''TRY=X''), (''WTI'', ''CL=F''), (''BRT'', ''BZ=F''),
     (''XAU'', ''GC=F''), (''XAG'', ''SI=F''), (''CU'', ''HG=F''), (''NG'', ''NG=F''),
     (''WHEAT'', ''ZW=F''), (''BTC'', ''BTC-USD''), (''ETH'', ''ETH-USD''), (''USDT'', ''USDT-USD''),
     (''USDC'', ''USDC-USD''), (''VIX'', ''^VIX''), (''DXY'', ''DX-Y.NYB''), (''UST10'', ''^TNX''),
     (''KOSPI'', ''^KS11''), (''USDKRW'', ''KRW=X''), (''TORNADO'', ''ETH-USD''),
     (''WALLET_X'', ''BTC-USD''), (''CYGNUS'', ''USDT-USD''), (''OBSIDIAN'', ''BTC-USD''),
     (''BAKU_TR'', ''USDT-USD''), (''NORDSEE'', ''ETH-USD''), (''HELIX'', ''USDC-USD''),
     (''SAFFRON'', ''BTC-USD''), (''TIDE_FX'', ''USDT-USD'')]"

section \<open>One quote\<close>

type_synonym chart_endpoint = "string \<Rightarrow> json result"

definition yahoo_symbol :: "us_publisher \<Rightarrow> string \<Rightarrow> string" where
  "yahoo_symbol p s = (case up_map p s of None \<Rightarrow> s @ up_suffix p | Some y \<Rightarrow> y)"

text \<open>The \<open>meta\<close> dictionary of the first result, if the body has that shape.\<close>

definition chart_meta :: "json \<Rightarrow> (string \<times> json) list option" where
  "chart_meta body = (case body of
       JObj b \<Rightarrow> (case map_of b ''chart'' of
           Some (JObj chart) \<Rightarrow>
             (if map_of chart ''error'' \<noteq> None \<and> map_of chart ''error'' \<noteq> Some JNull then None
              else case map_of chart ''result'' of
                  Some (JList (JObj head # _)) \<Rightarrow> (case map_of head ''meta'' of
                      Some (JObj meta) \<Rightarrow> if meta = [] then None else Some meta
                    | _ \<Rightarrow> None)
                | _ \<Rightarrow> None)
         | _ \<Rightarrow> None)
     | _ \<Rightarrow> None)"

definition fetch_quote ::
    "chart_endpoint \<Rightarrow> us_publisher \<Rightarrow> string \<Rightarrow> (string \<times> json) list option result" where
  "fetch_quote ask p s = bind_result (ask (yahoo_symbol p s)) (\<lambda>body. Inr (chart_meta body))"

definition meta_get :: "(string \<times> json) list \<Rightarrow> string \<Rightarrow> json" where
  "meta_get meta k = (case map_of meta k of None \<Rightarrow> JNull | Some v \<Rightarrow> v)"

text \<open>\<open>float(v)\<close> with \<open>TypeError\<close> and \<open>ValueError\<close> replaced by a default.\<close>

definition float_or :: "python \<Rightarrow> json \<Rightarrow> 'a \<Rightarrow> (float64 \<Rightarrow> 'a result) \<Rightarrow> 'a result" where
  "float_or py v d f = (case j_float py v of
       Inl e \<Rightarrow> if e = TypeError \<or> e = ValueError then Inr d else Inl e
     | Inr x \<Rightarrow> f x)"

definition price_raw :: "(string \<times> json) list \<Rightarrow> json" where
  "price_raw meta =
     (if meta_get meta ''regularMarketPrice'' = JNull
      then j_or (meta_get meta ''previousClose'') (meta_get meta ''chartPreviousClose'')
      else meta_get meta ''regularMarketPrice'')"

definition day_volume :: "python \<Rightarrow> (string \<times> json) list \<Rightarrow> int result" where
  "day_volume py meta =
     float_or py (j_or (meta_get meta ''regularMarketVolume'') (JInt 0)) 0 (\<lambda>x.
     case int_of_float x of
       Inl e \<Rightarrow> if e = ValueError then Inr 0 else Inl e
     | Inr n \<Rightarrow> Inr n)"

definition tick_volume :: "int option \<Rightarrow> int \<Rightarrow> int" where
  "tick_volume last_seen vol = (case last_seen of
       None \<Rightarrow> 0
     | Some l \<Rightarrow> if l \<le> vol then vol - l else 0)"

definition change_pct :: "float64 \<Rightarrow> float64 \<Rightarrow> float64 result" where
  "change_pct price prev_close =
     (if flt (Fin 0) prev_close
      then bind_result (fdiv (fsub price prev_close) prev_close) (\<lambda>q. Inr (fmul q (Fin 100)))
      else Inr (Fin 0))"

definition quote_to_tick ::
    "python \<Rightarrow> us_publisher \<Rightarrow> string \<Rightarrow> (string \<times> json) list \<Rightarrow> time
     \<Rightarrow> us_publisher \<times> wire_tick option result" where
  "quote_to_tick py p s meta now =
     (if price_raw meta = JNull then (p, Inr None)
      else case float_or py (price_raw meta) None (\<lambda>x. Inr (Some x)) of
          Inl e \<Rightarrow> (p, Inl e)
        | Inr None \<Rightarrow> (p, Inr None)
        | Inr (Some price) \<Rightarrow>
            if fle price (Fin 0) then (p, Inr None)
            else (case bind_result (float_or py
                    (j_or (j_or (meta_get meta ''previousClose'') (meta_get meta ''chartPreviousClose'')) (JFloat price))
                    price Inr) (\<lambda>prev.
                  bind_result (change_pct price prev) (\<lambda>pct.
                  bind_result (day_volume py meta) (\<lambda>vol. Inr (pct, vol)))) of
                Inl e \<Rightarrow> (p, Inl e)
              | Inr (pct, vol) \<Rightarrow>
                  (p\<lparr>up_last_volume := (up_last_volume p)(s \<mapsto> vol)\<rparr>,
                   Inr (Some \<lparr>wt_symbol = s, wt_ms = now div 1000, wt_price = round_digits 4 price,
                     wt_volume = tick_volume (up_last_volume p s) vol,
                     wt_side = (if fle (Fin 0) pct then ''buy'' else ''sell'')\<rparr>))))"

section \<open>One poll\<close>

text \<open>The module's own copy of \<open>_dict_to_tick\<close>; the code is that of the mock publisher's.\<close>

definition us_dict_to_tick :: "(rat \<Rightarrow> rat) \<Rightarrow> wire_tick \<Rightarrow> tick result" where
  "us_dict_to_tick repr d =
     make_tick (wt_symbol d) (wt_ms d * 1000)
       (case wt_price d of Fin x \<Rightarrow> DFin (repr x) | PInf \<Rightarrow> DInf False | NInf \<Rightarrow> DInf True | NaN \<Rightarrow> DNaN False)
       (wt_volume d) (if lower (wt_side d) = ''sell'' then SideSell else SideBuy)"

text \<open>One symbol of a batch: the messages sent, the ticks observed, and whether the poll goes on.\<close>

definition poll_symbol ::
    "python \<Rightarrow> (rat \<Rightarrow> rat) \<Rightarrow> chart_endpoint \<Rightarrow> redis \<Rightarrow> observer option \<Rightarrow> us_publisher \<Rightarrow> string \<Rightarrow> time
     \<Rightarrow> us_publisher \<times> message list \<times> unit result" where
  "poll_symbol py repr ask publish obs p s now =
     (case fetch_quote ask p s of
        Inl e \<Rightarrow> if e = CancelledError then (p, [], Inl e)
                 else (p\<lparr>up_failures := Suc (up_failures p)\<rparr>, [], Inr ())
      | Inr None \<Rightarrow> (p, [], Inr ())
      | Inr (Some meta) \<Rightarrow> (case quote_to_tick py p s meta now of
            (p1, Inl e) \<Rightarrow> (p1, [], Inl e)
          | (p1, Inr None) \<Rightarrow> (p1, [], Inr ())
          | (p1, Inr (Some w)) \<Rightarrow> (case publish CHANNEL_TICK (MsgTick w) of
                Inl e \<Rightarrow> (p1, [], Inl e)
              | Inr _ \<Rightarrow>
                  (p1\<lparr>up_published := Suc (up_published p1)\<rparr>, [MsgTick w],
                   case obs of
                     None \<Rightarrow> Inr ()
                   | Some f \<Rightarrow> (case us_dict_to_tick repr w of
                       Inl e \<Rightarrow> Inr ()
                     | Inr t \<Rightarrow> if f t = Inl CancelledError then Inl CancelledError else Inr ())))))"

text \<open>The clock is read once per symbol: \<open>now i\<close> is what it shows for the \<open>i\<close>th of the batch.\<close>

fun poll_symbols ::
    "python \<Rightarrow> (rat \<Rightarrow> rat) \<Rightarrow> chart_endpoint \<Rightarrow> redis \<Rightarrow> observer option \<Rightarrow> us_publisher \<Rightarrow> string list \<Rightarrow> (nat \<Rightarrow> time)
     \<Rightarrow> us_publisher \<times> message list \<times> unit result" where
  "poll_symbols py repr ask publish obs p [] now = (p, [], Inr ())"
| "poll_symbols py repr ask publish obs p (s # ss) now =
     (case poll_symbol py repr ask publish obs p s (now 0) of
        (p1, ms, Inl e) \<Rightarrow> (p1, ms, Inl e)
      | (p1, ms, Inr _) \<Rightarrow> (case poll_symbols py repr ask publish obs p1 ss (\<lambda>i. now (Suc i)) of
          (p2, ms', r) \<Rightarrow> (p2, ms @ ms', r)))"

definition poll_one_batch ::
    "python \<Rightarrow> (rat \<Rightarrow> rat) \<Rightarrow> chart_endpoint \<Rightarrow> redis \<Rightarrow> observer option \<Rightarrow> us_publisher \<Rightarrow> (nat \<Rightarrow> time)
     \<Rightarrow> us_publisher \<times> message list \<times> unit result" where
  "poll_one_batch py repr ask publish obs p now =
     (case next_batch p of (batch, p1) \<Rightarrow> poll_symbols py repr ask publish obs p1 batch now)"

text \<open>The batches of consecutive polls, which no outcome of a poll changes.\<close>

fun batches :: "nat \<Rightarrow> us_publisher \<Rightarrow> string list list" where
  "batches 0 p = []"
| "batches (Suc k) p = (case next_batch p of (b, p1) \<Rightarrow> b # batches k p1)"

section \<open>The task and the HTTP client\<close>

text \<open>The poll loop never returns: its task is absent, running, or ended by an exception.\<close>

record us_handle =
  uh_publisher :: us_publisher
  uh_task :: task_state
  uh_client_open :: bool
  uh_owns_client :: bool

definition us_start :: "us_handle \<Rightarrow> us_handle" where
  "us_start h = (if uh_task h = Running then h else h\<lparr>uh_client_open := True, uh_task := Running\<rparr>)"

definition us_close_client :: "us_handle \<Rightarrow> unit result \<Rightarrow> us_handle \<times> unit result" where
  "us_close_client h closed_answer =
     (if uh_owns_client h \<and> uh_client_open h
      then (case closed_answer of Inl e \<Rightarrow> (h, Inl e) | Inr _ \<Rightarrow> (h\<lparr>uh_client_open := False\<rparr>, Inr ()))
      else (h, Inr ()))"

definition us_stop :: "us_handle \<Rightarrow> unit result \<Rightarrow> us_handle \<times> unit result" where
  "us_stop h closed_answer = (case cancel_and_await (uh_task h) of
       (t, Inl e) \<Rightarrow> (h\<lparr>uh_task := t\<rparr>, Inl e)
     | (t, Inr _) \<Rightarrow> us_close_client (h\<lparr>uh_task := t\<rparr>) closed_answer)"

text \<open>What the loop makes of a poll: it sleeps and goes on, or its task ends.\<close>

definition us_loop_step :: "us_handle \<Rightarrow> us_publisher \<times> message list \<times> unit result \<Rightarrow> us_handle" where
  "us_loop_step h poll = (case poll of (p, ms, r) \<Rightarrow>
     h\<lparr>uh_publisher := p, uh_task := loop_task r (uh_task h)\<rparr>)"

text \<open>The poll loop as a background service, when closing the HTTP client answers.\<close>

lemma us_stop_cases:
  assumes "us_stop h (Inr ()) = (h', r)"
  obtains (stopped) "uh_task h' = NoTask" "r = Inr ()" "uh_owns_client h' \<longrightarrow> \<not> uh_client_open h'"
    "uh_owns_client h' = uh_owns_client h"
  | (raises) e where "crashed (uh_task h) e" "h' = h" "r = Inl e"
  using assms
  by (cases "uh_task h") (auto simp: us_stop_def us_close_client_def crashed_def split: if_splits)

interpretation us_service: background_service "\<lambda>h. uh_task h = Running" us_start "\<lambda>h. us_stop h (Inr ())"
proof unfold_locales
  fix s s' assume "us_stop s (Inr ()) = (s', Inr ())"
  then show "uh_task s' \<noteq> Running \<and> us_stop s' (Inr ()) = (s', Inr ())"
    by (cases rule: us_stop_cases) (auto simp: us_stop_def us_close_client_def)
qed (simp_all add: us_start_def us_stop_def us_close_client_def)

section \<open>Facts\<close>

lemma next_batch_simps:
  "snd (next_batch p) = p\<lparr>up_cursor := (up_cursor p mod length (up_symbols p)
     + min (up_batch_size p) (length (up_symbols p))) mod length (up_symbols p)\<rparr>"
  "fst (next_batch p) = map (\<lambda>i. up_symbols p ! ((up_cursor p + i) mod length (up_symbols p)))
     [0 ..< min (up_batch_size p) (length (up_symbols p))]"
  by (simp_all add: next_batch_def Let_def mod_add_left_eq)

lemma cursor_irrelevant [simp]:
  "up_symbols (snd (next_batch p)) = up_symbols p" "up_batch_size (snd (next_batch p)) = up_batch_size p"
  by (simp_all add: next_batch_simps)

text \<open>The symbol at offset \<open>d\<close> from the cursor is in poll \<open>d div b\<close>.\<close>

lemma batches_reach:
  assumes "0 < min (up_batch_size p) (length (up_symbols p))"
    and "d div min (up_batch_size p) (length (up_symbols p)) < k"
  shows "up_symbols p ! ((up_cursor p + d) mod length (up_symbols p)) \<in> set (concat (batches k p))"
  using assms
proof (induction k arbitrary: p d)
  case 0
  then show ?case by simp
next
  case (Suc k)
  define n where "n = length (up_symbols p)"
  define b where "b = min (up_batch_size p) n"
  have b: "0 < b" using Suc.prems(1) by (simp add: b_def n_def)
  show ?case
  proof (cases "d < b")
    case True
    then have "up_symbols p ! ((up_cursor p + d) mod n) \<in> set (fst (next_batch p))"
      by (auto simp: next_batch_simps b_def n_def)
    then show ?thesis by (cases "next_batch p") (simp add: n_def)
  next
    case False
    let ?p = "snd (next_batch p)"
    have "d div b = Suc ((d - b) div b)" using False b by (simp add: le_div_geq)
    then have "(d - b) div b < k" using Suc.prems(2) by (simp add: b_def n_def)
    then have "up_symbols ?p ! ((up_cursor ?p + (d - b)) mod length (up_symbols ?p)) \<in> set (concat (batches k ?p))"
      by (intro Suc.IH) (use b in \<open>simp_all add: b_def n_def\<close>)
    moreover have "(up_cursor ?p + (d - b)) mod n = (up_cursor p + d) mod n"
    proof -
      have "(up_cursor ?p + (d - b)) mod n = (up_cursor p + b + (d - b)) mod n"
        by (simp add: next_batch_simps n_def b_def mod_simps)
      with False show ?thesis by simp
    qed
    ultimately have "up_symbols p ! ((up_cursor p + d) mod n) \<in> set (concat (batches k ?p))"
      by (simp add: n_def)
    then show ?thesis by (cases "next_batch p") (simp add: n_def)
  qed
qed

lemma tick_volume_nonneg: "0 \<le> tick_volume last_seen vol"
  by (simp add: tick_volume_def split: option.splits)

text \<open>The volumes of a symbol over a row of polls with the given day totals.\<close>

fun volumes :: "int option \<Rightarrow> int list \<Rightarrow> int list" where
  "volumes l [] = []"
| "volumes l (d # ds) = tick_volume l d # volumes (Some d) ds"

lemma volumes_telescope:
  "sorted (l # ds) \<Longrightarrow> sum_list (volumes (Some l) ds) = last (l # ds) - l"
  by (induction ds arbitrary: l) (auto simp: tick_volume_def)

lemma quote_to_tick_volume:
  assumes "quote_to_tick py p s meta now = (p', Inr (Some w))"
  shows "\<exists>vol. day_volume py meta = Inr vol \<and> up_last_volume p' = (up_last_volume p)(s \<mapsto> vol) \<and>
     wt_volume w = tick_volume (up_last_volume p s) vol \<and> wt_symbol w = s"
  using assms
  by (auto simp: quote_to_tick_def elim!: bind_result_InrE split: if_splits sum.splits option.splits)

lemma batches_fair:
  assumes "UsPublisher symbols batch_size interval suffix ymap = Inr p0"
    and "s \<in> set symbols" and "p = p0\<lparr>up_cursor := c\<rparr>"
    and "length symbols \<le> k * min (nat batch_size) (length symbols)"
  shows "s \<in> set (concat (batches k p))"
proof -
  from assms(1,3) have p: "up_symbols p = symbols" "up_batch_size p = nat batch_size" "1 \<le> nat batch_size"
    "symbols \<noteq> []" by (auto simp: UsPublisher_def split: if_splits)
  let ?n = "length symbols" and ?b = "min (nat batch_size) (length symbols)"
  have b: "0 < ?b" using p(3,4) by simp
  from assms(2) obtain t where t: "t < ?n" "symbols ! t = s" by (auto simp: in_set_conv_nth)
  define c' where "c' = up_cursor p mod ?n"
  define d where "d = (if c' \<le> t then t - c' else t + ?n - c')"
  have c: "c' < ?n" using p(4) by (simp add: c'_def)
  have d: "d < ?n" using t(1) c unfolding d_def by (cases "c' \<le> t") simp_all
  have "c' + d = t \<or> c' + d = t + ?n" using c by (auto simp: d_def)
  then have "(c' + d) mod ?n = t" using t(1) by (metis mod_add_self2 mod_less)
  then have "(up_cursor p + d) mod ?n = t" by (simp add: c'_def mod_add_left_eq)
  moreover from d assms(4) b have "d div ?b < k"
    by (metis div_less_iff_less_mult less_le_trans)
  ultimately show ?thesis
    using batches_reach [of p d k] b t(2) by (simp add: p(1,2))
qed

section \<open>Properties\<close>

text \<open>
  Polling is fair: whatever the endpoint, Redis or the observer do, every symbol is fetched
  within \<open>\<lceil>n / b\<rceil>\<close> consecutive polls, where \<open>n\<close> is the number of symbols and \<open>b\<close> the
  batch size capped by it.
\<close>

lemma polling_is_fair:
  assumes "UsPublisher symbols batch_size interval suffix ymap = Inr p0"
    and "s \<in> set symbols" and "p = p0\<lparr>up_cursor := c\<rparr>"
    and "length symbols \<le> k * min (nat batch_size) (length symbols)"
  shows "s \<in> set (concat (batches k p))"
  by (rule batches_fair [OF assms])

lemma polling_is_fair_example:
  "\<exists>p. UsPublisher [''AAPL'', ''MSFT'', ''NVDA''] 2 (Fin 30) [] Map.empty = Inr p \<and>
     ''NVDA'' \<in> set (concat (batches 2 p))"
proof -
  obtain p where p: "UsPublisher [''AAPL'', ''MSFT'', ''NVDA''] 2 (Fin 30) [] Map.empty = Inr p" "p = p\<lparr>up_cursor := 0\<rparr>"
    by (simp add: UsPublisher_def)
  from polling_is_fair [OF p(1) _ p(2), of "''NVDA''" 2] p(1) show ?thesis by simp
qed

end
