(* ===== verification/Http_Errors.thy ===== *)
theory Http_Errors
  imports Json Kis_Session
begin

text \<open>
  How a request ends: \<open>src/src/core/errors.py\<close> (the problem document of RFC 7807),
  \<open>core/exception_handlers.py\<close> (which exception becomes which document), and
  \<open>core/middleware.py\<close> (the request id). A route returns a reply or raises; \<open>serve\<close> is the
  application with the four handlers \<open>install\<close> registers, the most specific class first, as
  Starlette looks them up. The text of an exception is the argument \<open>msg\<close>.
\<close>

section \<open>Problem documents\<close>

record problem =
  pb_type :: string
  pb_title :: string
  pb_status :: int
  pb_detail :: "string option"
  pb_instance :: "string option"
  pb_request_id :: string
  pb_errors :: "json list option"

definition problem_type_validation :: string where
  "problem_type_validation = ''https://nexus-os.local/problems/validation-error''"

definition problem_type_internal :: string where
  "problem_type_internal = ''https://nexus-os.local/problems/internal-error''"

definition problem_type_upstream :: string where
  "problem_type_upstream = ''https://nexus-os.local/problems/upstream-error''"

text \<open>\<open>model_dump(exclude_none=True)\<close>.\<close>

definition field_of :: "string \<Rightarrow> json option \<Rightarrow> (string \<times> json) list" where
  "field_of k v = (case v of None \<Rightarrow> [] | Some x \<Rightarrow> [(k, x)])"

definition problem_json :: "problem \<Rightarrow> json" where
  "problem_json p = JObj
     ([(''type'', JStr (pb_type p)), (''title'', JStr (pb_title p)), (''status'', JInt (pb_status p))]
      @ field_of ''detail'' (map_option JStr (pb_detail p))
      @ field_of ''instance'' (map_option JStr (pb_instance p))
      @ [(''request_id'', JStr (pb_request_id p))]
      @ field_of ''errors'' (map_option JList (pb_errors p)))"

section \<open>Replies\<close>

type_synonym headers = "(string \<times> string) list"

datatype 'a reply = Reply int 'a | ProblemReply problem headers

datatype route_error = HttpException int json headers | RequestInvalid "json list" | Raises py_error

type_synonym 'a route = "route_error + 'a reply"

fun reply_status :: "'a reply \<Rightarrow> int" where
  "reply_status (Reply n v) = n"
| "reply_status (ProblemReply p h) = pb_status p"

section \<open>Handlers\<close>

definition http_phrases :: "(int \<times> string) list" where
  "http_phrases =
    [(100, ''Continue''), (101, ''Switching Protocols''), (102, ''Processing''),
     (103, ''Early Hints''), (200, ''OK''), (201, ''Created''), (202, ''Accepted''),
     (203, ''Non-Authoritative Information''), (204, ''No Content''), (205, ''Reset Content''),
     (206, ''Partial Content''), (207, ''Multi-Status''), (208, ''Already Reported''),
     (226, ''IM Used''), (300, ''Multiple Choices''), (301, ''Moved Permanently''),
     (302, ''Found''), (303, ''See Other''), (304, ''Not Modified''), (305, ''Use Proxy''),
     (307, ''Temporary Redirect''), (308, ''Permanent Redirect''), (400, ''Bad Request''),
     (401, ''Unauthorized''), (402, ''Payment Required''), (403, ''Forbidden''),
     (404, ''Not Found''), (405, ''Method Not Allowed''), (406, ''Not Acceptable''),
     (407, ''Proxy Authentication Required''), (408, ''Request Timeout''), (409, ''Conflict''),
     (410, ''Gone''), (411, ''Length Required''), (412, ''Precondition Failed''),
     (413, ''Request Entity Too Large''), (414, ''Request-URI Too Long''),
     (415, ''Unsupported Media Type''), (416, ''Requested Range Not Satisfiable''),
     (417, ''Expectation Failed''), (418, ''I'm a Teapot''), (421, ''Misdirected Request''),
     (422, ''Unprocessable Entity''), (423, ''Locked''), (424, ''Failed Dependency''),
     (425, ''Too Early''), (426, ''Upgrade Required''), (428, ''Precondition Required''),
     (429, ''Too Many Requests''), (431, ''Request Header Fields Too Large''),
     (451, ''Unavailable For Legal Reasons''), (500, ''Internal Server Error''),
     (501, ''Not Implemented''), (502, ''Bad Gateway''), (503, ''Service Unavailable''),
     (504, ''Gateway Timeout''), (505, ''HTTP Version Not Supported''),
     (506, ''Variant Also Negotiates''), (507, ''Insufficient Storage''),
     (508, ''Loop Detected''), (510, ''Not Extended''),
     (511, ''Network Authentication Required'')]"

definition status_phrase :: "int \<Rightarrow> string" where
  "status_phrase n = (case map_of http_phrases n of None \<Rightarrow> ''Error'' | Some s \<Rightarrow> s)"

text \<open>What a handler reads of the request: its path, and the current request id.\<close>

record request =
  rq_path :: string
  rq_id :: string

definition http_exception_handler ::
    "python \<Rightarrow> request \<Rightarrow> int \<Rightarrow> json \<Rightarrow> headers \<Rightarrow> 'a reply" where
  "http_exception_handler py rq status detail hs =
     ProblemReply \<lparr>pb_type = ''about:blank'', pb_title = status_phrase status, pb_status = status,
       pb_detail = (if detail = JNull then None else Some (j_str py detail)),
       pb_instance = Some (rq_path rq), pb_request_id = rq_id rq, pb_errors = None\<rparr> hs"

definition validation_exception_handler :: "request \<Rightarrow> json list \<Rightarrow> 'a reply" where
  "validation_exception_handler rq errs =
     ProblemReply \<lparr>pb_type = problem_type_validation, pb_title = ''Validation Error'', pb_status = 422,
       pb_detail = Some ''One or more request fields failed validation'',
       pb_instance = Some (rq_path rq), pb_request_id = rq_id rq, pb_errors = Some errs\<rparr> []"

definition kis_exception_handler :: "request \<Rightarrow> string \<Rightarrow> 'a reply" where
  "kis_exception_handler rq text =
     ProblemReply \<lparr>pb_type = problem_type_upstream, pb_title = ''Bad Gateway (KIS)'', pb_status = 502,
       pb_detail = Some (if text = [] then ''Upstream KIS request failed'' else text),
       pb_instance = Some (rq_path rq), pb_request_id = rq_id rq, pb_errors = None\<rparr> []"

definition unhandled_exception_handler :: "request \<Rightarrow> 'a reply" where
  "unhandled_exception_handler rq =
     ProblemReply \<lparr>pb_type = problem_type_internal, pb_title = ''Internal Server Error'', pb_status = 500,
       pb_detail = Some ''An unexpected error occurred. The incident has been logged.'',
       pb_instance = Some (rq_path rq), pb_request_id = rq_id rq, pb_errors = None\<rparr> []"

text \<open>
  A cancellation is no \<open>Exception\<close>: no handler sees it and no reply is sent. Starlette runs the
  handler registered for \<open>Exception\<close> in its outermost layer, around the middleware: there the
  context variable of the request id is back at its default.
\<close>

definition default_request_id :: string where
  "default_request_id = ''-''"

definition serve :: "python \<Rightarrow> (py_error \<Rightarrow> string) \<Rightarrow> request \<Rightarrow> 'a route \<Rightarrow> 'a reply result" where
  "serve py msg rq r = (case r of
       Inr v \<Rightarrow> Inr v
     | Inl (HttpException status detail hs) \<Rightarrow> Inr (http_exception_handler py rq status detail hs)
     | Inl (RequestInvalid errs) \<Rightarrow> Inr (validation_exception_handler rq errs)
     | Inl (Raises e) \<Rightarrow>
         if e = CancelledError then Inl e
         else if is_kis_error e then Inr (kis_exception_handler rq (msg e))
         else Inr (unhandled_exception_handler (rq\<lparr>rq_id := default_request_id\<rparr>)))"

section \<open>Request ids\<close>

definition request_id_header :: string where
  "request_id_header = ''x-request-id''"

text \<open>
  Header names and values are bytes, read as Latin-1. \<open>fresh\<close> is the UUID drawn when no
  usable id came in.
\<close>

definition incoming_id :: "headers \<Rightarrow> string option" where
  "incoming_id hs = map_of hs request_id_header"

definition choose_request_id :: "headers \<Rightarrow> string \<Rightarrow> string" where
  "choose_request_id hs fresh = (case incoming_id hs of
       None \<Rightarrow> fresh
     | Some v \<Rightarrow> if v = [] \<or> strip v = [] then fresh else strip v)"

datatype asgi_message = ResponseStart int headers | OtherMessage string

definition with_request_id :: "string \<Rightarrow> asgi_message \<Rightarrow> asgi_message" where
  "with_request_id rid m = (case m of
       ResponseStart status hs \<Rightarrow>
         ResponseStart status (filter (\<lambda>(n, v). n \<noteq> request_id_header) hs @ [(request_id_header, rid)])
     | OtherMessage s \<Rightarrow> OtherMessage s)"

text \<open>
  The middleware around an application that, under the value of the context variable, sends
  messages and returns or raises. The context variable is reset in the \<open>finally\<close> block.
\<close>

definition request_id_middleware ::
    "(string \<Rightarrow> asgi_message list \<times> unit result) \<Rightarrow> string \<Rightarrow> headers \<Rightarrow> string \<Rightarrow> string
     \<Rightarrow> asgi_message list \<times> unit result \<times> string" where
  "request_id_middleware app scope_type hs fresh var =
     (if scope_type \<noteq> ''http'' \<and> scope_type \<noteq> ''websocket''
      then (case app var of (sent, r) \<Rightarrow> (sent, r, var))
      else
        let rid = choose_request_id hs fresh in
        case app rid of (sent, r) \<Rightarrow> (map (with_request_id rid) sent, r, var))"

section \<open>Facts\<close>

lemma map_of_problem:
  "problem_json p = JObj kvs \<Longrightarrow>
     map_of kvs ''type'' = Some (JStr (pb_type p)) \<and> map_of kvs ''status'' = Some (JInt (pb_status p)) \<and>
     map_of kvs ''request_id'' = Some (JStr (pb_request_id p)) \<and>
     map_of kvs ''detail'' = map_option JStr (pb_detail p) \<and>
     map_of kvs ''instance'' = map_option JStr (pb_instance p) \<and>
     JNull \<notin> snd ` set kvs \<and> distinct (map fst kvs)"
  by (cases "pb_detail p"; cases "pb_instance p"; cases "pb_errors p")
    (auto simp: problem_json_def field_of_def)

lemma serve_ProblemReply:
  assumes "serve py msg rq (Inl err) = Inr rep"
  obtains p hs where "rep = ProblemReply p hs" "pb_instance p = Some (rq_path rq)"
    "pb_request_id p = (case err of Raises e \<Rightarrow> if is_kis_error e then rq_id rq else default_request_id | _ \<Rightarrow> rq_id rq)"
    "err \<noteq> Raises CancelledError"
    "pb_status p = (case err of HttpException n d h \<Rightarrow> n | RequestInvalid _ \<Rightarrow> 422
       | Raises e \<Rightarrow> if is_kis_error e then 502 else 500)"
    "hs = (case err of HttpException n d h \<Rightarrow> h | _ \<Rightarrow> [])"
  using assms
  by (cases err) (auto simp: serve_def http_exception_handler_def validation_exception_handler_def
      kis_exception_handler_def unhandled_exception_handler_def split: if_splits)

lemma count_of_added_id:
  "filter (\<lambda>(n, v). n = k) (filter (\<lambda>(n, v). n \<noteq> k) hs @ [(k, rid)]) = [(k, rid)]"
  by (induction hs) auto

text \<open>One message with its outgoing form: one id header, the other headers kept.\<close>

definition echoes_id :: "string \<Rightarrow> asgi_message \<Rightarrow> asgi_message \<Rightarrow> bool" where
  "echoes_id rid m m' = (case m of
       ResponseStart n h \<Rightarrow> (\<exists>h'. m' = ResponseStart n h' \<and>
         filter (\<lambda>(k, v). k = request_id_header) h' = [(request_id_header, rid)] \<and>
         filter (\<lambda>(k, v). k \<noteq> request_id_header) h' = filter (\<lambda>(k, v). k \<noteq> request_id_header) h)
     | OtherMessage s \<Rightarrow> m' = OtherMessage s)"

section \<open>Properties\<close>

text \<open>
  C14: Every error is a problem document. Whatever a route raises, the reply (none after a
  cancellation) is one JSON object without nulls or duplicate fields whose \<open>status\<close> is the
  status of the response: the one of an \<open>HTTPException\<close>, with its headers, 422 for a rejected
  request, 502 for a KIS error and 500 otherwise; it names the path and the request id, except
  that a 500 document has the default id; and it is the same for every exception, so it says
  nothing about the fault.
\<close>

theorem every_error_is_a_problem:
  "case serve py msg rq (Inl err :: 'a route) of
     Inl e \<Rightarrow> err = Raises CancelledError
   | Inr rep \<Rightarrow> (\<exists>p hs kvs. rep = ProblemReply p hs \<and> problem_json p = JObj kvs \<and>
       map_of kvs ''status'' = Some (JInt (reply_status rep)) \<and>
       map_of kvs ''instance'' = Some (JStr (rq_path rq)) \<and>
       map_of kvs ''request_id'' = Some (JStr (if \<exists>e. err = Raises e \<and> \<not> is_kis_error e then ''-'' else rq_id rq)) \<and>
       JNull \<notin> snd ` set kvs \<and> distinct (map fst kvs) \<and>
       hs = (case err of HttpException n d h \<Rightarrow> h | _ \<Rightarrow> []) \<and>
       reply_status rep = (case err of HttpException n d h \<Rightarrow> n | RequestInvalid _ \<Rightarrow> 422
         | Raises e \<Rightarrow> if is_kis_error e then 502 else 500)) \<and>
       (\<forall>e. err = Raises e \<and> \<not> is_kis_error e \<longrightarrow>
          (\<forall>e'. \<not> is_kis_error e' \<and> e' \<noteq> CancelledError \<longrightarrow>
             serve py msg' rq (Inl (Raises e') :: 'a route) = Inr rep))"
proof (cases "serve py msg rq (Inl err :: 'a route)")
  case (Inl e)
  then show ?thesis by (cases err) (auto simp: serve_def split: if_splits)
next
  case (Inr rep)
  from Inr obtain p hs where p: "rep = ProblemReply p hs" "pb_instance p = Some (rq_path rq)"
    "pb_request_id p = (case err of Raises e \<Rightarrow> if is_kis_error e then rq_id rq else default_request_id | _ \<Rightarrow> rq_id rq)"
    "pb_status p = (case err of HttpException n d h \<Rightarrow> n | RequestInvalid _ \<Rightarrow> 422
       | Raises e \<Rightarrow> if is_kis_error e then 502 else 500)"
    "hs = (case err of HttpException n d h \<Rightarrow> h | _ \<Rightarrow> [])"
    by (rule serve_ProblemReply)
  obtain kvs where k: "problem_json p = JObj kvs" by (simp add: problem_json_def)
  have "serve py msg' rq (Inl (Raises e') :: 'a route) = Inr rep"
    if "err = Raises e" "\<not> is_kis_error e" "\<not> is_kis_error e'" "e' \<noteq> CancelledError" for e e'
    using Inr that by (auto simp: serve_def split: if_splits)
  with Inr p k map_of_problem [OF k] show ?thesis
    by (auto simp: default_request_id_def split: route_error.splits)
qed

theorem every_error_is_a_problem_witness:
  "\<exists>p hs. serve \<lparr>py_loads = \<lambda>t. Inl ValueError, py_str = \<lambda>v. [], py_fromisoformat = py_int,
       py_float_str = \<lambda>t. Inl ValueError\<rparr> (\<lambda>e. ''secret'') \<lparr>rq_path = ''/v1/balance'', rq_id = ''r''\<rparr>
       (Inl (Raises KeyError) :: unit route) = Inr (ProblemReply p hs) \<and> pb_status p = 500 \<and> hs = []"
proof -
  let ?py = "\<lparr>py_loads = \<lambda>t. Inl ValueError, py_str = \<lambda>v. [], py_fromisoformat = py_int,
       py_float_str = \<lambda>t. Inl ValueError\<rparr>"
  have "is_ok (serve ?py (\<lambda>e. ''secret'') \<lparr>rq_path = ''/v1/balance'', rq_id = ''r''\<rparr> (Inl (Raises KeyError) :: unit route))"
    by (simp add: serve_def is_kis_error_def)
  with every_error_is_a_problem [where py = ?py and msg = "\<lambda>e. ''secret''"
      and rq = "\<lparr>rq_path = ''/v1/balance'', rq_id = ''r''\<rparr>" and err = "Raises KeyError" and msg' = "\<lambda>e. []"
      and 'a = unit]
  show ?thesis
    by (cases "serve ?py (\<lambda>e. ''secret'') \<lparr>rq_path = ''/v1/balance'', rq_id = ''r''\<rparr> (Inl (Raises KeyError) :: unit route)")
      (auto simp: is_kis_error_def)
qed

text \<open>
  The request id is echoed once. For an HTTP or WebSocket scope the application runs
  under one non-empty id, the stripped one that came in if it has any text, else the fresh one;
  every response start it sends leaves with exactly one \<open>x-request-id\<close> header, this id, and
  its other headers in order; every other message leaves unchanged; and when the application
  returns or raises, the context variable is as it was.
\<close>

lemma request_id_echoed_once:
  assumes "scope_type \<in> {''http'', ''websocket''}" and "fresh \<noteq> []" and "rid = choose_request_id hs fresh"
  shows "rid \<noteq> [] \<and> (\<forall>v. incoming_id hs = Some v \<longrightarrow> strip v \<noteq> [] \<longrightarrow> rid = strip v) \<and>
    (case (app rid, request_id_middleware app scope_type hs fresh var) of
       ((sent, r), (sent', r', var')) \<Rightarrow> r' = r \<and> var' = var \<and> list_all2 (echoes_id rid) sent sent')"
proof -
  obtain sent r where a: "app rid = (sent, r)" by (cases "app rid")
  have m: "request_id_middleware app scope_type hs fresh var = (map (with_request_id rid) sent, r, var)"
    using assms(1,3) a by (auto simp: request_id_middleware_def Let_def)
  have "rid \<noteq> []" "\<forall>v. incoming_id hs = Some v \<longrightarrow> strip v \<noteq> [] \<longrightarrow> rid = strip v"
    using assms(2,3) by (auto simp: choose_request_id_def strip_def lstrip_def rstrip_def split: option.splits)
  moreover have "echoes_id rid x (with_request_id rid x)" for x
    using count_of_added_id [of request_id_header _ rid]
    by (cases x) (auto simp: with_request_id_def echoes_id_def)
  ultimately show ?thesis by (simp add: a m list_all2_map2 list_all2_same)
qed

lemma request_id_echoed_once_example:
  "case request_id_middleware (\<lambda>rid. ([ResponseStart 200 [(''x-request-id'', ''old'')]], Inr ())) ''http''
      [(''x-request-id'', '' abc '')] ''uuid'' ''-'' of
     (sent, r, var) \<Rightarrow> (\<exists>h. sent = [ResponseStart 200 h] \<and>
        filter (\<lambda>(k, v). k = request_id_header) h = [(request_id_header, ''abc'')]) \<and> var = ''-''"
proof -
  have s: "strip '' abc '' = ''abc''" by code_simp
  have c: "choose_request_id [(''x-request-id'', '' abc '')] ''uuid'' = ''abc''"
    by (simp add: choose_request_id_def incoming_id_def request_id_header_def s)
  from request_id_echoed_once [where scope_type = "''http''" and fresh = "''uuid''"
      and hs = "[(''x-request-id'', '' abc '')]" and var = "''-''"
      and app = "\<lambda>rid. ([ResponseStart 200 [(''x-request-id'', ''old'')]], Inr ())", OF _ _ refl]
  show ?thesis by (auto simp: c echoes_id_def list_all2_Cons1 split: prod.splits)
qed

end
