(* ===== verification/Market_Repo.thy ===== *)
theory Market_Repo
  imports Persistence "HOL-Library.List_Lexorder" "HOL-Library.Char_ord"
begin

text \<open>
  \<open>src/src/domain/market/repository.py\<close>: the reads behind the market routes. A method takes
  what its query answers; the queries themselves (\<open>..._query\<close>) are the SQL text of the methods
  over a table of ticks, so that a method can be stated against the table. The table keeps one
  row per symbol and time (\<open>ON CONFLICT (symbol, ts) DO NOTHING\<close>, here and in
  \<open>tick_repository.py\<close>). Text is ordered by code point; prices have at most the four decimals
  the column keeps.
\<close>

section \<open>The tick table\<close>

type_synonym tick_table = "tick list"

definition tick_key :: "tick \<Rightarrow> string \<times> time" where
  "tick_key t = (t_symbol t, t_ts t)"

definition store_tick :: "tick_table \<Rightarrow> tick \<Rightarrow> tick_table" where
  "store_tick tab t = (if tick_key t \<in> tick_key ` set tab then tab else tab @ [t])"

definition store_ticks :: "tick_table \<Rightarrow> tick list \<Rightarrow> tick_table" where
  "store_ticks tab ts = foldl store_tick tab ts"

definition tick_side_value :: "tick_side \<Rightarrow> string" where
  "tick_side_value s = (case s of SideBuy \<Rightarrow> ''buy'' | SideSell \<Rightarrow> ''sell'')"

section \<open>Entities and edges\<close>

record entity =
  en_id :: string
  en_cluster :: string
  en_anomaly :: float64
  en_tx_vol :: float64

definition Entity :: "string \<Rightarrow> string \<Rightarrow> float64 \<Rightarrow> float64 \<Rightarrow> entity result" where
  "Entity i cluster anomaly vol =
     (if in_range 0 1 anomaly
      then Inr \<lparr>en_id = i, en_cluster = cluster, en_anomaly = anomaly, en_tx_vol = vol\<rparr>
      else Inl ValueError)"

type_synonym entity_row = "string \<times> string \<times> float64 \<times> float64"
type_synonym edge_row = "string \<times> string \<times> float64"

definition list_entities :: "entity_row list result \<Rightarrow> entity list result" where
  "list_entities answer = bind_result answer (map_result (\<lambda>(i, c, a, v). Entity i c a v))"

definition upsert_entity :: "(string \<Rightarrow> entity option) \<Rightarrow> entity \<Rightarrow> string \<Rightarrow> entity option" where
  "upsert_entity tab e = tab(en_id e \<mapsto> e)"

definition list_edges :: "edge_row list result \<Rightarrow> edge_row list result" where
  "list_edges answer = answer"

section \<open>The newest tick per symbol\<close>

record tick_row =
  tr_symbol :: string
  tr_ts :: time
  tr_price :: float64
  tr_volume :: int
  tr_side :: string

definition tick_to_row :: "tick \<Rightarrow> tick_row" where
  "tick_to_row t = \<lparr>tr_symbol = t_symbol t, tr_ts = t_ts t, tr_price = float_of_decimal (t_price t),
     tr_volume = t_volume t, tr_side = tick_side_value (t_side t)\<rparr>"

fun newest :: "tick list \<Rightarrow> tick option" where
  "newest [] = None"
| "newest (t # ts) = (case newest ts of
       None \<Rightarrow> Some t | Some u \<Rightarrow> Some (if t_ts t < t_ts u then u else t))"

definition snapshot_query :: "string list \<Rightarrow> tick_table \<Rightarrow> tick list" where
  "snapshot_query symbols tab =
     map (\<lambda>s. the (newest (filter (\<lambda>t. t_symbol t = s) tab)))
       (sort (remdups (map t_symbol (filter (\<lambda>t. t_symbol t \<in> set symbols) tab))))"

definition snapshot_per_symbol :: "tick list result \<Rightarrow> string list \<Rightarrow> tick_row list result" where
  "snapshot_per_symbol answer symbols =
     (if symbols = [] then Inr []
      else bind_result (tolerant answer) (\<lambda>rows. Inr (map tick_to_row rows)))"

section \<open>Volume per symbol\<close>

record volume_row =
  vr_symbol :: string
  vr_total_volume :: int
  vr_tick_count :: int

definition volume_query :: "string list \<Rightarrow> time \<Rightarrow> tick_table \<Rightarrow> volume_row list" where
  "volume_query symbols since tab =
     (let hits = filter (\<lambda>t. t_symbol t \<in> set symbols \<and> since \<le> t_ts t) tab
      in map (\<lambda>s. \<lparr>vr_symbol = s, vr_total_volume = sum_list (map t_volume (filter (\<lambda>t. t_symbol t = s) hits)),
                  vr_tick_count = int (length (filter (\<lambda>t. t_symbol t = s) hits))\<rparr>)
           (remdups (map t_symbol hits)))"

definition by_symbol :: "volume_row list \<Rightarrow> string \<Rightarrow> volume_row option" where
  "by_symbol rows = map_of (rev (map (\<lambda>r. (vr_symbol r, r)) rows))"

definition aggregate_volume :: "volume_row list result \<Rightarrow> string list \<Rightarrow> volume_row list result" where
  "aggregate_volume answer symbols =
     (if symbols = [] then Inr []
      else case answer of
          Inl e \<Rightarrow> if db_error e then Inr [] else Inl e
        | Inr rows \<Rightarrow> Inr (map (\<lambda>s. case by_symbol rows s of
              None \<Rightarrow> \<lparr>vr_symbol = s, vr_total_volume = 0, vr_tick_count = 0\<rparr>
            | Some r \<Rightarrow> r) symbols))"

section \<open>Tape and recent ticks\<close>

definition tape_query :: "string list \<Rightarrow> int \<Rightarrow> tick_table \<Rightarrow> tick list" where
  "tape_query symbols limit tab =
     take (nat limit) (sort_desc t_ts (filter (\<lambda>t. t_symbol t \<in> set symbols) tab))"

definition list_recent_tape :: "tick list result \<Rightarrow> string list \<Rightarrow> int \<Rightarrow> tick_row list result" where
  "list_recent_tape answer symbols limit =
     (if symbols = [] \<or> limit < 1 then Inr []
      else bind_result (tolerant answer) (\<lambda>rows. Inr (map tick_to_row rows)))"

definition list_recent_ticks :: "tick list result \<Rightarrow> int \<Rightarrow> tick_row list result" where
  "list_recent_ticks answer limit =
     (if limit < 1 then Inr []
      else bind_result (tolerant answer) (\<lambda>rows. Inr (map tick_to_row rows)))"

definition latest_ohlc_1m :: "'r list result \<Rightarrow> 'r list result" where
  "latest_ohlc_1m answer = answer"

section \<open>Facts about the table\<close>

definition keyed :: "tick_table \<Rightarrow> bool" where
  "keyed tab \<longleftrightarrow> distinct (map tick_key tab)"

lemma keyed_store_tick: "keyed tab \<Longrightarrow> keyed (store_tick tab t)"
  by (auto simp: keyed_def store_tick_def)

lemma keyed_store_ticks: "keyed tab \<Longrightarrow> keyed (store_ticks tab ts)"
  by (induction ts arbitrary: tab) (simp_all add: store_ticks_def keyed_store_tick)

lemma keys_store_tick: "tick_key ` set (store_tick tab t) = insert (tick_key t) (tick_key ` set tab)"
  by (auto simp: store_tick_def)

lemma keys_store_ticks: "tick_key ` set (store_ticks tab ts) = tick_key ` set tab \<union> tick_key ` set ts"
  by (induction ts arbitrary: tab) (simp_all add: store_ticks_def keys_store_tick)

lemma store_ticks_known:
  "tick_key ` set ts \<subseteq> tick_key ` set tab \<Longrightarrow> store_ticks tab ts = tab"
  by (induction ts) (simp_all add: store_ticks_def store_tick_def)

lemma store_ticks_grows: "\<exists>rest. store_ticks tab ts = tab @ rest"
proof (induction ts arbitrary: tab)
  case (Cons t ts)
  obtain r where "store_ticks (store_tick tab t) ts = store_tick tab t @ r" using Cons by blast
  then show ?case by (auto simp: store_ticks_def store_tick_def)
qed (simp add: store_ticks_def)

lemma store_ticks_append: "store_ticks tab (xs @ ys) = store_ticks (store_ticks tab xs) ys"
  by (simp add: store_ticks_def)

lemma length_keyed: "keyed tab \<Longrightarrow> length tab = card (tick_key ` set tab)"
  by (metis distinct_card keyed_def length_map list.set_map)

lemma rows_stored:
  assumes "keyed tab"
  shows "length (store_ticks tab ts) = card (tick_key ` set tab \<union> tick_key ` set ts)"
  using length_keyed [OF keyed_store_ticks [OF assms]] by (simp add: keys_store_ticks)

lemma set_volume_query:
  "vr_symbol ` set (volume_query symbols since tab) = t_symbol ` {t \<in> set tab. t_symbol t \<in> set symbols \<and> since \<le> t_ts t}"
  by (auto simp: volume_query_def Let_def image_image)

lemma distinct_volume_query: "distinct (map vr_symbol (volume_query symbols since tab))"
  by (simp add: volume_query_def Let_def comp_def)

lemma map_of_keyed:
  "distinct (map f rows) \<Longrightarrow> r \<in> set rows \<Longrightarrow> map_of (rev (map (\<lambda>r. (f r, r)) rows)) (f r) = Some r"
  by (intro map_of_is_SomeI) (auto simp: rev_map comp_def simp flip: rev_map)

lemma map_of_rev_None:
  "k \<notin> f ` set rows \<Longrightarrow> map_of (rev (map (\<lambda>r. (f r, r)) rows)) k = None"
  by (simp add: map_of_eq_None_iff image_image)

lemma volume_row_of:
  assumes "s \<in> set symbols" and hits_def: "hits = filter (\<lambda>t. t_symbol t = s \<and> since \<le> t_ts t) tab"
  shows "(case by_symbol (volume_query symbols since tab) s of
       None \<Rightarrow> \<lparr>vr_symbol = s, vr_total_volume = 0, vr_tick_count = 0\<rparr> | Some r \<Rightarrow> r)
     = \<lparr>vr_symbol = s, vr_total_volume = sum_list (map t_volume hits), vr_tick_count = int (length hits)\<rparr>"
proof (cases "hits = []")
  case True
  then have "s \<notin> vr_symbol ` set (volume_query symbols since tab)"
    by (auto simp: set_volume_query hits_def filter_empty_conv)
  with True show ?thesis by (simp add: by_symbol_def map_of_rev_None)
next
  case False
  let ?r = "\<lparr>vr_symbol = s, vr_total_volume = sum_list (map t_volume hits), vr_tick_count = int (length hits)\<rparr>"
  let ?in = "filter (\<lambda>t. t_symbol t \<in> set symbols \<and> since \<le> t_ts t) tab"
  let ?row = "\<lambda>s. \<lparr>vr_symbol = s,
     vr_total_volume = sum_list (map t_volume (filter (\<lambda>t. t_symbol t = s) ?in)),
     vr_tick_count = int (length (filter (\<lambda>t. t_symbol t = s) ?in))\<rparr>"
  have "filter (\<lambda>t. t_symbol t = s) ?in = hits"
    using assms(1) unfolding hits_def filter_filter by (intro filter_cong) auto
  then have r: "?row s = ?r" by (simp only:)
  from False obtain t where "t \<in> set tab" "t_symbol t = s" "since \<le> t_ts t"
    by (auto simp: hits_def filter_empty_conv)
  with assms(1) have "s \<in> t_symbol ` set (filter (\<lambda>t. t_symbol t \<in> set symbols \<and> since \<le> t_ts t) tab)"
    by auto
  then have "?row s \<in> set (volume_query symbols since tab)"
    by (simp only: volume_query_def Let_def set_map set_remdups image_eqI)
  then have "?r \<in> set (volume_query symbols since tab)" unfolding r .
  from map_of_keyed [OF distinct_volume_query this] show ?thesis by (simp add: by_symbol_def)
qed

lemma newest_None [simp]: "newest ts = None \<longleftrightarrow> ts = []"
  by (cases ts) (auto split: option.splits)

lemma newest_in: "newest ts = Some t \<Longrightarrow> t \<in> set ts \<and> (\<forall>u \<in> set ts. t_ts u \<le> t_ts t)"
proof (induction ts arbitrary: t)
  case (Cons a ts)
  show ?case
  proof (cases "newest ts")
    case None
    with Cons.prems show ?thesis by simp
  next
    case (Some u)
    with Cons.IH [OF Some] Cons.prems show ?thesis by (auto split: if_splits)
  qed
qed simp

section \<open>Properties\<close>

text \<open>
  Replaying is safe. Storing any batch again after it, whatever came before it in the
  same run, changes nothing; the table never holds two rows of one symbol and time; and it grows
  by exactly the number of new keys.
\<close>

lemma replay_is_idempotent:
  assumes "keyed tab"
  shows "store_ticks (store_ticks tab (before @ batch)) batch = store_ticks tab (before @ batch) \<and>
     keyed (store_ticks tab (before @ batch)) \<and>
     length (store_ticks tab batch) = length tab + card (tick_key ` set batch - tick_key ` set tab)"
proof (intro conjI)
  show "store_ticks (store_ticks tab (before @ batch)) batch = store_ticks tab (before @ batch)"
    by (intro store_ticks_known) (auto simp: keys_store_ticks)
  show "keyed (store_ticks tab (before @ batch))" by (rule keyed_store_ticks [OF assms])
  have "card (tick_key ` set tab \<union> tick_key ` set batch)
      = card (tick_key ` set tab) + card (tick_key ` set batch - tick_key ` set tab)"
    by (subst card_Un_disjoint [symmetric]) (auto intro: arg_cong [where f = card])
  then show "length (store_ticks tab batch) = length tab + card (tick_key ` set batch - tick_key ` set tab)"
    by (simp add: rows_stored [OF assms] length_keyed [OF assms])
qed

definition sample_tick :: "time \<Rightarrow> int \<Rightarrow> tick" where
  "sample_tick ts volume = \<lparr>t_symbol = ''005930'', t_ts = ts, t_price = 79000, t_volume = volume, t_side = SideBuy\<rparr>"

lemma replay_is_idempotent_example:
  "store_ticks (store_ticks [sample_tick 1 5] [sample_tick 2 6]) [sample_tick 2 6]
   = [sample_tick 1 5, sample_tick 2 6]"
  using replay_is_idempotent [of "[sample_tick 1 5]" "[]" "[sample_tick 2 6]"]
  by (simp add: keyed_def store_ticks_def store_tick_def tick_key_def sample_tick_def)

lemma record_to_tick_key:
  assumes "record_to_tick now r = Inr (Some t)"
  obtains a b where "field_at r 0 = Inr a" "field_at r 1 = Inr b" "t_symbol t = strip a"
    "hms_time now (strip b) = Inr (t_ts t)"
  using assms
  by (auto simp: record_to_tick_def record_fields_def make_tick_def elim!: bind_result_InrE
      split: sum.splits if_splits decimal.splits)

lemma parse_two_records:
  assumes "parse_records now [r, r'] = Inr [t, t']"
  shows "record_to_tick now r = Inr (Some t)" "record_to_tick now r' = Inr (Some t')"
  using assms by (auto elim!: bind_result_InrE split: option.splits)

text \<open>
  Two trades of one second are one row. The broker's times have whole seconds, so two
  records of one frame with the same symbol and time become two ticks with the same key; the
  repository returns 2, but whatever the table held before, it gains at most one
  row: the second trade's price and volume are gone.
\<close>

lemma same_second_trades_collapse:
  assumes "parse_records now [r, r'] = Inr [t, t']" and "take 2 r = take 2 r'"
    and "db [t, t'] = Inr ()"
  shows "insert_batch db [t, t'] = Inr 2 \<and> length (store_ticks tab [t, t']) \<le> Suc (length tab) \<and>
     store_ticks [] [t, t'] = [t]"
proof -
  note recs = parse_two_records [OF assms(1)]
  obtain a b where r: "field_at r 0 = Inr a" "field_at r 1 = Inr b" "t_symbol t = strip a"
    "hms_time now (strip b) = Inr (t_ts t)" by (rule record_to_tick_key [OF recs(1)])
  obtain a' b' where r': "field_at r' 0 = Inr a'" "field_at r' 1 = Inr b'" "t_symbol t' = strip a'"
    "hms_time now (strip b') = Inr (t_ts t')" by (rule record_to_tick_key [OF recs(2)])
  have same: "r ! 0 = r' ! 0" "r ! 1 = r' ! 1"
    using arg_cong [OF assms(2), of "\<lambda>xs. xs ! 0"] arg_cong [OF assms(2), of "\<lambda>xs. xs ! 1"] by simp_all
  with r(1,2) r'(1,2) have "a = a'" "b = b'" by (auto simp: field_at_def split: if_splits)
  with r r' have k: "tick_key t' = tick_key t" by (simp add: tick_key_def)
  with assms(3) show ?thesis by (simp add: insert_batch_def store_ticks_def store_tick_def)
qed

lemma same_second_trades_collapse_example:
  "\<exists>t t'. parse_records 0 [sample_record ''79000'', sample_record ''79100''] = Inr [t, t'] \<and>
     insert_batch (\<lambda>b. Inr ()) [t, t'] = Inr 2 \<and> store_ticks [] [t, t'] = [t]"
proof -
  let ?t = "\<lambda>p. \<lparr>t_symbol = ''005930'', t_ts = 30 * 60 * second, t_price = p, t_volume = 7, t_side = SideSell\<rparr>"
  have p: "record_to_tick 0 (sample_record ''79000'') = Inr (Some (?t 79000))"
    "record_to_tick 0 (sample_record ''79100'') = Inr (Some (?t 79100))" by code_simp+
  then have "parse_records 0 [sample_record ''79000'', sample_record ''79100''] = Inr [?t 79000, ?t 79100]"
    by simp
  from same_second_trades_collapse [OF this, of "\<lambda>b. Inr ()"] this show ?thesis
    by (auto simp: sample_record_def)
qed

end
