(* ===== verification/Securities.thy ===== *)
theory Securities
  imports Json Trading_Models Database "HOL-Library.Sublist" "HOL-Library.List_Lexorder"
    "HOL-Library.Char_ord" "HOL-Library.Product_Lexorder"
begin

text \<open>
  The securities master: \<open>src/src/domain/securities/models.py\<close> and
  \<open>infrastructure/securities_repo.py\<close>. A query is what the code builds, the list of its
  conditions with the numbers of their placeholders and the list of parameters; \<open>condition_holds\<close>
  reads a condition as PostgreSQL does (\<open>= ANY\<close>, \<open>LIKE\<close>, \<open>ILIKE\<close>, \<open>&&\<close>), so
  that a method can be stated against a table. Text is ordered by code point, and
  \<open>str.upper\<close>, which leaves Latin-1, is the argument \<open>up\<close>.
\<close>

section \<open>Models\<close>

datatype market = KRX | KOSDAQ | NASDAQ | NYSE | OTHER

fun market_value :: "market \<Rightarrow> string" where
  "market_value KRX = ''KRX''"
| "market_value KOSDAQ = ''KOSDAQ''"
| "market_value NASDAQ = ''NASDAQ''"
| "market_value NYSE = ''NYSE''"
| "market_value OTHER = ''OTHER''"

definition markets :: "market list" where "markets = [KRX, KOSDAQ, NASDAQ, NYSE, OTHER]"

definition market_of_value :: "string \<Rightarrow> market result" where
  "market_of_value s = (case List.find (\<lambda>m. market_value m = s) markets of
     None \<Rightarrow> Inl ValueError | Some m \<Rightarrow> Inr m)"

datatype relation_kind = RelSector | RelCorrelation | RelSameChaebol | RelSupplyChain | RelCrossListing

fun relation_kind_value :: "relation_kind \<Rightarrow> string" where
  "relation_kind_value RelSector = ''sector''"
| "relation_kind_value RelCorrelation = ''correlation''"
| "relation_kind_value RelSameChaebol = ''same_chaebol''"
| "relation_kind_value RelSupplyChain = ''supply_chain''"
| "relation_kind_value RelCrossListing = ''cross_listing''"

definition relation_kinds :: "relation_kind list" where
  "relation_kinds = [RelSector, RelCorrelation, RelSameChaebol, RelSupplyChain, RelCrossListing]"

definition relation_kind_of_value :: "string \<Rightarrow> relation_kind result" where
  "relation_kind_of_value s = (case List.find (\<lambda>k. relation_kind_value k = s) relation_kinds of
     None \<Rightarrow> Inl ValueError | Some k \<Rightarrow> Inr k)"

record security =
  se_ticker :: string
  se_name_ko :: "string option"
  se_name_en :: "string option"
  se_aliases :: "string list"
  se_market :: market
  se_sector :: string
  se_sector_label :: string
  se_currency :: string
  se_shares_outstanding :: "int option"
  se_market_cap :: "float64 option"
  se_last_price :: "float64 option"
  se_change_pct :: "float64 option"
  se_anomaly :: float64
  se_tx_vol :: float64
  se_is_subscribed :: bool
  se_data_source :: string
  se_updated_at :: time

text \<open>\<open>a or b or c\<close> on optional text: an empty string counts as missing.\<close>

definition text_or :: "string option \<Rightarrow> string option \<Rightarrow> string option" where
  "text_or a b = (case a of None \<Rightarrow> b | Some s \<Rightarrow> if s = [] then b else a)"

definition display_name :: "security \<Rightarrow> string" where
  "display_name s = (case text_or (se_name_ko s) (text_or (se_name_en s) None) of
     None \<Rightarrow> se_ticker s | Some n \<Rightarrow> n)"

record security_relation =
  re_from_ticker :: string
  re_to_ticker :: string
  re_kind :: relation_kind
  re_weight :: float64
  re_directed :: bool
  re_evidence :: "string option"

definition SecurityRelation ::
    "string \<Rightarrow> string \<Rightarrow> relation_kind \<Rightarrow> float64 \<Rightarrow> bool \<Rightarrow> string option \<Rightarrow> security_relation result" where
  "SecurityRelation a b k w d e =
     (if in_range 0 1 w
      then Inr \<lparr>re_from_ticker = a, re_to_ticker = b, re_kind = k, re_weight = w, re_directed = d, re_evidence = e\<rparr>
      else Inl ValueError)"

section \<open>Rows\<close>

record security_row =
  sr_ticker :: string
  sr_name_ko :: "string option"
  sr_name_en :: "string option"
  sr_aliases :: "string list"
  sr_market :: string
  sr_sector :: string
  sr_sector_label :: string
  sr_currency :: string
  sr_shares_outstanding :: "int option"
  sr_market_cap :: "float64 option"
  sr_is_subscribed :: bool
  sr_data_source :: string
  sr_updated_at :: time

record relation_row =
  rr_from_ticker :: string
  rr_to_ticker :: string
  rr_kind :: string
  rr_weight :: float64
  rr_directed :: bool
  rr_evidence :: "string option"

definition row_to_security :: "security_row \<Rightarrow> security result" where
  "row_to_security r = bind_result (market_of_value (sr_market r)) (\<lambda>m.
     Inr \<lparr>se_ticker = sr_ticker r, se_name_ko = sr_name_ko r, se_name_en = sr_name_en r,
       se_aliases = sr_aliases r, se_market = m, se_sector = sr_sector r,
       se_sector_label = sr_sector_label r, se_currency = sr_currency r,
       se_shares_outstanding = sr_shares_outstanding r, se_market_cap = sr_market_cap r,
       se_last_price = None, se_change_pct = None, se_anomaly = Fin 0, se_tx_vol = Fin 0,
       se_is_subscribed = sr_is_subscribed r, se_data_source = sr_data_source r,
       se_updated_at = sr_updated_at r\<rparr>)"

definition row_to_relation :: "relation_row \<Rightarrow> security_relation result" where
  "row_to_relation r = bind_result (relation_kind_of_value (rr_kind r)) (\<lambda>k.
     SecurityRelation (rr_from_ticker r) (rr_to_ticker r) k (rr_weight r) (rr_directed r) (rr_evidence r))"

section \<open>Queries\<close>

datatype sql_param = PTexts "string list" | PText string | PInt int | PFloat float64

text \<open>The conditions the code writes, with the numbers after the dollar signs.\<close>

datatype sec_condition =
    MarketAny nat
  | SectorAny nat
  | SearchOr nat nat nat

datatype rel_condition =
    WeightGe nat
  | KindAny nat
  | EndpointAny nat

record sec_query =
  sq_where :: "sec_condition list"
  sq_limit :: "nat option"
  sq_params :: "sql_param list"

record rel_query =
  rlq_where :: "rel_condition list"
  rlq_params :: "sql_param list"

text \<open>\<open>if x: params.append(x); clauses.append(... len(params) ...)\<close>.\<close>

definition some_texts :: "string list option \<Rightarrow> string list" where
  "some_texts x = (case x of None \<Rightarrow> [] | Some xs \<Rightarrow> xs)"

definition some_text :: "string option \<Rightarrow> string" where
  "some_text x = (case x of None \<Rightarrow> [] | Some s \<Rightarrow> s)"

definition add_texts ::
    "(nat \<Rightarrow> 'c) \<Rightarrow> string list \<Rightarrow> 'c list \<times> sql_param list \<Rightarrow> 'c list \<times> sql_param list" where
  "add_texts cond xs q = (case q of (cs, ps) \<Rightarrow>
     if xs = [] then q else (cs @ [cond (Suc (length ps))], ps @ [PTexts xs]))"

definition add_search ::
    "(string \<Rightarrow> string) \<Rightarrow> string \<Rightarrow> sec_condition list \<times> sql_param list \<Rightarrow> sec_condition list \<times> sql_param list" where
  "add_search up search q = (case q of (cs, ps) \<Rightarrow>
     if search = [] then q
     else (cs @ [SearchOr (length ps + 1) (length ps + 2) (length ps + 3)],
           ps @ [PText (search @ ''%''), PText (''%'' @ lower search @ ''%''),
                 PTexts [search, lower search, up search]]))"

definition security_filter ::
    "(string \<Rightarrow> string) \<Rightarrow> string list option \<Rightarrow> string list option \<Rightarrow> string option
     \<Rightarrow> sec_condition list \<times> sql_param list" where
  "security_filter up ms ss search =
     add_search up (some_text search) (add_texts SectorAny (some_texts ss) (add_texts MarketAny (some_texts ms) ([], [])))"

definition list_query ::
    "(string \<Rightarrow> string) \<Rightarrow> string list option \<Rightarrow> string list option \<Rightarrow> string option \<Rightarrow> int \<Rightarrow> sec_query" where
  "list_query up ms ss search limit = (case security_filter up ms ss search of (cs, ps) \<Rightarrow>
     \<lparr>sq_where = cs, sq_limit = Some (Suc (length ps)), sq_params = ps @ [PInt limit]\<rparr>)"

definition count_query ::
    "(string \<Rightarrow> string) \<Rightarrow> string list option \<Rightarrow> string list option \<Rightarrow> string option \<Rightarrow> sec_query" where
  "count_query up ms ss search = (case security_filter up ms ss search of (cs, ps) \<Rightarrow>
     \<lparr>sq_where = cs, sq_limit = None, sq_params = ps\<rparr>)"

definition relation_query :: "string list option \<Rightarrow> float64 \<Rightarrow> string list option \<Rightarrow> rel_query" where
  "relation_query kinds min_weight tickers =
     (case add_texts EndpointAny (some_texts tickers) (add_texts KindAny (some_texts kinds)
        ([WeightGe 1], [PFloat min_weight])) of (cs, ps) \<Rightarrow> \<lparr>rlq_where = cs, rlq_params = ps\<rparr>)"

section \<open>The repository\<close>

definition list_securities ::
    "(sec_query \<Rightarrow> security_row list result) \<Rightarrow> (string \<Rightarrow> string) \<Rightarrow> string list option \<Rightarrow> string list option
     \<Rightarrow> string option \<Rightarrow> int \<Rightarrow> security list result" where
  "list_securities db up ms ss search limit =
     (if limit < 1 then Inr []
      else bind_result (tolerant (db (list_query up ms ss search limit))) (map_result row_to_security))"

text \<open>A count query answers one row, or none.\<close>

definition count_securities ::
    "(sec_query \<Rightarrow> int option result) \<Rightarrow> (string \<Rightarrow> string) \<Rightarrow> string list option \<Rightarrow> string list option
     \<Rightarrow> string option \<Rightarrow> int result" where
  "count_securities db up ms ss search = (case db (count_query up ms ss search) of
       Inl e \<Rightarrow> if db_error e then Inr 0 else Inl e
     | Inr None \<Rightarrow> Inr 0
     | Inr (Some n) \<Rightarrow> Inr n)"

definition get_security :: "(string \<Rightarrow> security_row option result) \<Rightarrow> string \<Rightarrow> security option result" where
  "get_security db ticker =
     (if ticker = [] then Inr None
      else case db ticker of
          Inl e \<Rightarrow> if db_error e then Inr None else Inl e
        | Inr None \<Rightarrow> Inr None
        | Inr (Some r) \<Rightarrow> bind_result (row_to_security r) (\<lambda>s. Inr (Some s)))"

definition get_by_ticker_batch ::
    "(string list \<Rightarrow> security_row list result) \<Rightarrow> string list \<Rightarrow> (string \<Rightarrow> security option) result" where
  "get_by_ticker_batch db tickers =
     (if tickers = [] then Inr Map.empty
      else bind_result (tolerant (db tickers)) (\<lambda>rows.
        bind_result (map_result row_to_security rows) (\<lambda>secs.
        Inr (map_of (rev (map (\<lambda>s. (se_ticker s, s)) secs))))))"

definition list_relations ::
    "(rel_query \<Rightarrow> relation_row list result) \<Rightarrow> string list option \<Rightarrow> float64 \<Rightarrow> string list option
     \<Rightarrow> security_relation list result" where
  "list_relations db kinds min_weight tickers =
     bind_result (tolerant (db (relation_query kinds min_weight tickers))) (map_result row_to_relation)"

definition count_relations ::
    "(rel_query \<Rightarrow> int option result) \<Rightarrow> string list option \<Rightarrow> float64 \<Rightarrow> string list option \<Rightarrow> int result" where
  "count_relations db kinds min_weight tickers = (case db (relation_query kinds min_weight tickers) of
       Inl e \<Rightarrow> if db_error e then Inr 0 else Inl e
     | Inr None \<Rightarrow> Inr 0
     | Inr (Some n) \<Rightarrow> Inr n)"

section \<open>What the database makes of a query\<close>

text \<open>\<open>text LIKE pattern\<close>: percent, underscore, and the backslash that takes their meaning away.\<close>

fun like :: "string \<Rightarrow> string \<Rightarrow> bool" where
  "like [] s = (s = [])"
| "like (p # ps) s =
     (if p = CHR ''%'' then like ps s \<or> (case s of [] \<Rightarrow> False | c # cs \<Rightarrow> like (p # ps) cs)
      else case s of
          [] \<Rightarrow> False
        | c # cs \<Rightarrow>
            if p = CHR ''_'' then like ps cs
            else if p = CHR 0x5C then (case ps of [] \<Rightarrow> False | q # qs \<Rightarrow> c = q \<and> like qs cs)
            else c = p \<and> like ps cs)"

declare like.simps(2) [simp del]

definition ilike :: "string \<Rightarrow> string \<Rightarrow> bool" where
  "ilike p s = like (lower p) (lower s)"

definition text_param :: "sql_param list \<Rightarrow> nat \<Rightarrow> string" where
  "text_param ps n = (case ps ! (n - 1) of PText s \<Rightarrow> s | _ \<Rightarrow> [])"

definition texts_param :: "sql_param list \<Rightarrow> nat \<Rightarrow> string list" where
  "texts_param ps n = (case ps ! (n - 1) of PTexts xs \<Rightarrow> xs | _ \<Rightarrow> [])"

definition float_param :: "sql_param list \<Rightarrow> nat \<Rightarrow> float64" where
  "float_param ps n = (case ps ! (n - 1) of PFloat x \<Rightarrow> x | _ \<Rightarrow> NaN)"

definition int_param :: "sql_param list \<Rightarrow> nat \<Rightarrow> int" where
  "int_param ps n = (case ps ! (n - 1) of PInt k \<Rightarrow> k | _ \<Rightarrow> 0)"

fun condition_holds :: "sql_param list \<Rightarrow> security_row \<Rightarrow> sec_condition \<Rightarrow> bool" where
  "condition_holds ps r (MarketAny n) = (sr_market r \<in> set (texts_param ps n))"
| "condition_holds ps r (SectorAny n) = (sr_sector r \<in> set (texts_param ps n))"
| "condition_holds ps r (SearchOr i j k) =
     (ilike (text_param ps i) (sr_ticker r)
      \<or> like (text_param ps j) (lower (some_text (sr_name_ko r)))
      \<or> like (text_param ps j) (lower (some_text (sr_name_en r)))
      \<or> (\<exists>a \<in> set (sr_aliases r). a \<in> set (texts_param ps k)))"

definition run_list :: "security_row list \<Rightarrow> sec_query \<Rightarrow> security_row list" where
  "run_list tab q =
     (let hits = sort_key sr_ticker (filter (\<lambda>r. list_all (condition_holds (sq_params q) r) (sq_where q)) tab)
      in case sq_limit q of None \<Rightarrow> hits | Some n \<Rightarrow> take (nat (int_param (sq_params q) n)) hits)"

definition run_count :: "security_row list \<Rightarrow> sec_query \<Rightarrow> int" where
  "run_count tab q = int (length (filter (\<lambda>r. list_all (condition_holds (sq_params q) r) (sq_where q)) tab))"

fun rel_condition_holds :: "sql_param list \<Rightarrow> relation_row \<Rightarrow> rel_condition \<Rightarrow> bool" where
  "rel_condition_holds ps r (WeightGe n) = fle (float_param ps n) (rr_weight r)"
| "rel_condition_holds ps r (KindAny n) = (rr_kind r \<in> set (texts_param ps n))"
| "rel_condition_holds ps r (EndpointAny n) =
     (rr_from_ticker r \<in> set (texts_param ps n) \<or> rr_to_ticker r \<in> set (texts_param ps n))"

definition weight_val :: "relation_row \<Rightarrow> rat" where
  "weight_val r = (case rr_weight r of Fin x \<Rightarrow> x | _ \<Rightarrow> 0)"

definition run_relations :: "relation_row list \<Rightarrow> rel_query \<Rightarrow> relation_row list" where
  "run_relations tab q =
     sort_key (\<lambda>r. (- weight_val r, rr_from_ticker r, rr_to_ticker r))
       (filter (\<lambda>r. list_all (rel_condition_holds (rlq_params q) r) (rlq_where q)) tab)"

definition run_batch :: "security_row list \<Rightarrow> string list \<Rightarrow> security_row list" where
  "run_batch tab tickers = filter (\<lambda>r. sr_ticker r \<in> set tickers) tab"

section \<open>Patterns without wildcards\<close>

definition plain :: "string \<Rightarrow> bool" where
  "plain s \<longleftrightarrow> (\<forall>c \<in> set s. c \<noteq> CHR ''%'' \<and> c \<noteq> CHR ''_'' \<and> c \<noteq> CHR 0x5C)"

lemma like_rest: "like ''%'' s"
  by (induction s) (simp_all add: like.simps(2))

lemma like_plain_Cons:
  "c \<noteq> CHR ''%'' \<Longrightarrow> c \<noteq> CHR ''_'' \<Longrightarrow> c \<noteq> CHR 0x5C \<Longrightarrow>
     like (c # ps) s \<longleftrightarrow> (\<exists>t. s = c # t \<and> like ps t)"
  by (cases s) (auto simp: like.simps(2))

lemma like_prefix: "plain p \<Longrightarrow> like (p @ ''%'') s \<longleftrightarrow> prefix p s"
proof (induction p arbitrary: s)
  case (Cons c p)
  then show ?case by (cases s) (auto simp: plain_def like_plain_Cons)
qed (simp add: like_rest)

lemma like_percent:
  "like (CHR ''%'' # ps) s \<longleftrightarrow> like ps s \<or> (\<exists>c t. s = c # t \<and> like (CHR ''%'' # ps) t)"
  by (subst like.simps(2)) (auto split: list.splits)

lemma like_substring: "plain p \<Longrightarrow> like (''%'' @ p @ ''%'') s \<longleftrightarrow> sublist p s"
proof (induction s)
  case Nil
  then show ?case using like_prefix [of p "[]"] by (simp add: like_percent [of _ "[]"])
next
  case (Cons c s)
  have "like (CHR ''%'' # p @ ''%'') (c # s) \<longleftrightarrow> prefix p (c # s) \<or> sublist p s"
    using Cons like_prefix [OF Cons.prems] by (subst like_percent) auto
  then show ?case by (simp add: sublist_Cons_right)
qed

lemma lower_char_code: "code (lower_char c) = (let n = code c in
    if 65 \<le> n \<and> n \<le> 90 \<or> 192 \<le> n \<and> n \<le> 222 \<and> n \<noteq> 215 then n + 32 else n)"
proof -
  have "code c < 256" using nat_of_char_less_256 [of c] by (simp add: code_def)
  then show ?thesis by (auto simp: lower_char_def code_def Let_def)
qed

lemma lower_char_special:
  assumes "code k < 65 \<or> 90 < code k \<and> code k < 97"
  shows "lower_char c = k \<longleftrightarrow> c = k"
proof
  assume "lower_char c = k"
  with assms lower_char_code [of c] have "\<not> (65 \<le> code c \<and> code c \<le> 90 \<or> 192 \<le> code c \<and> code c \<le> 222 \<and> code c \<noteq> 215)"
    by (auto simp: Let_def split: if_splits)
  then have "lower_char c = c" unfolding lower_char_def Let_def by (rule if_not_P)
  with \<open>lower_char c = k\<close> show "c = k" by simp
next
  assume "c = k"
  with assms show "lower_char c = k" by (auto simp: lower_char_def Let_def)
qed

lemma plain_lower: "plain s \<Longrightarrow> plain (lower s)"
  by (auto simp: plain_def lower_def lower_char_special code_def)

lemma lower_append: "lower (s @ t) = lower s @ lower t"
  by (simp add: lower_def)

lemma lower_percent: "lower ''%'' = ''%''"
  by code_simp

section \<open>Filters\<close>

definition search_hit :: "(string \<Rightarrow> string) \<Rightarrow> string \<Rightarrow> security_row \<Rightarrow> bool" where
  "search_hit up search r \<longleftrightarrow>
     prefix (lower search) (lower (sr_ticker r))
     \<or> sublist (lower search) (lower (some_text (sr_name_ko r)))
     \<or> sublist (lower search) (lower (some_text (sr_name_en r)))
     \<or> (\<exists>a \<in> set (sr_aliases r). a \<in> {search, lower search, up search})"

definition wanted ::
    "(string \<Rightarrow> string) \<Rightarrow> string list option \<Rightarrow> string list option \<Rightarrow> string option \<Rightarrow> security_row \<Rightarrow> bool" where
  "wanted up ms ss search r \<longleftrightarrow>
     (some_texts ms \<noteq> [] \<longrightarrow> sr_market r \<in> set (some_texts ms)) \<and>
     (some_texts ss \<noteq> [] \<longrightarrow> sr_sector r \<in> set (some_texts ss)) \<and>
     (some_text search \<noteq> [] \<longrightarrow> search_hit up (some_text search) r)"

lemma search_or_hit:
  assumes "plain q"
  shows "condition_holds (ps @ [PText (q @ ''%''), PText (''%'' @ lower q @ ''%''), PTexts [q, lower q, up q]] @ extra) r
      (SearchOr (length ps + 1) (length ps + 2) (length ps + 3)) \<longleftrightarrow> search_hit up q r"
  using like_prefix [OF plain_lower [OF assms]] like_substring [OF plain_lower [OF assms]]
  by (simp add: text_param_def texts_param_def nth_append search_hit_def ilike_def lower_append lower_percent)

lemma security_filter_wanted:
  assumes "plain (some_text search)" "security_filter up ms ss search = (cs, ps)"
  shows "list_all (condition_holds (ps @ extra) r) cs \<longleftrightarrow> wanted up ms ss search r"
proof -
  define base where "base = add_texts SectorAny (some_texts ss) (add_texts MarketAny (some_texts ms) ([], []))"
  obtain cs0 ps0 where b: "base = (cs0, ps0)" by (cases base)
  have base_ok: "list_all (condition_holds (ps0 @ rest) r) cs0 \<longleftrightarrow>
      (some_texts ms \<noteq> [] \<longrightarrow> sr_market r \<in> set (some_texts ms)) \<and>
      (some_texts ss \<noteq> [] \<longrightarrow> sr_sector r \<in> set (some_texts ss))" for rest
    using b by (auto simp: base_def add_texts_def texts_param_def nth_append split: if_splits)
  show ?thesis
  proof (cases "some_text search = []")
    case True
    with assms(2) b have "cs = cs0" "ps = ps0" by (simp_all add: security_filter_def add_search_def base_def)
    with True base_ok show ?thesis by (simp add: wanted_def)
  next
    case False
    let ?q = "some_text search"
    from False assms(2) b have "cs = cs0 @ [SearchOr (length ps0 + 1) (length ps0 + 2) (length ps0 + 3)]"
      "ps = ps0 @ [PText (?q @ ''%''), PText (''%'' @ lower ?q @ ''%''), PTexts [?q, lower ?q, up ?q]]"
      by (auto simp: security_filter_def add_search_def base_def)
    with False base_ok search_or_hit [OF assms(1), of ps0 up extra r] show ?thesis
      by (simp add: wanted_def del: condition_holds.simps)
  qed
qed

lemma map_sort_key: "map f (sort_key f xs) = sort (map f xs)"
  by (metis mset_map mset_sort properties_for_sort sorted_sort_key)

lemma row_to_security_total:
  assumes "\<forall>r \<in> set rows. \<exists>m. market_of_value (sr_market r) = Inr m"
  shows "\<exists>items. map_result row_to_security rows = Inr items \<and> map se_ticker items = map sr_ticker rows"
  using assms by (induction rows) (auto simp: row_to_security_def)

section \<open>Properties\<close>

text \<open>
  C16: A page of securities is the filtered, ordered front of the master and the total counts
  the same filter. For every choice of market, sector and search filters (a search text without
  LIKE wildcards) the placeholders of both queries address the right parameters: the items are
  the first \<open>limit\<close> tickers, in order, of the rows that match the requested filters, the ticker
  by prefix and the names by substring, and the total is the number of those rows.
\<close>

theorem securities_page_and_total:
  assumes "plain (some_text search)" and "0 < limit"
    and "\<forall>r \<in> set tab. \<exists>m. market_of_value (sr_market r) = Inr m"
  shows "\<exists>items. list_securities (\<lambda>q. Inr (run_list tab q)) up ms ss search limit = Inr items \<and>
     map se_ticker items = take (nat limit) (sort (map sr_ticker (filter (wanted up ms ss search) tab))) \<and>
     count_securities (\<lambda>q. Inr (Some (run_count tab q))) up ms ss search
       = Inr (int (length (filter (wanted up ms ss search) tab)))"
proof -
  obtain cs ps where f: "security_filter up ms ss search = (cs, ps)"
    by (cases "security_filter up ms ss search")
  note ok = security_filter_wanted [OF assms(1) f]
  let ?hits = "filter (wanted up ms ss search) tab"
  have l: "run_list tab (list_query up ms ss search limit) = take (nat limit) (sort_key sr_ticker ?hits)"
    by (simp add: run_list_def list_query_def f ok int_param_def nth_append Let_def)
  have c: "run_count tab (count_query up ms ss search) = int (length ?hits)"
    using ok [of "[]"] by (simp add: run_count_def count_query_def f)
  have "\<forall>r \<in> set (take (nat limit) (sort_key sr_ticker ?hits)). \<exists>m. market_of_value (sr_market r) = Inr m"
    using assms(3) by (auto dest: in_set_takeD)
  from row_to_security_total [OF this] obtain items where
    "map_result row_to_security (take (nat limit) (sort_key sr_ticker ?hits)) = Inr items"
    "map se_ticker items = map sr_ticker (take (nat limit) (sort_key sr_ticker ?hits))" by blast
  with assms(2) c l show ?thesis
    by (simp add: list_securities_def count_securities_def flip: take_map map_sort_key)
qed

definition sample_row :: "string \<Rightarrow> string \<Rightarrow> security_row" where
  "sample_row ticker name = \<lparr>sr_ticker = ticker, sr_name_ko = None, sr_name_en = Some name, sr_aliases = [],
     sr_market = ''NYSE'', sr_sector = ''FIN'', sr_sector_label = ''Financials'', sr_currency = ''USD'',
     sr_shares_outstanding = None, sr_market_cap = None, sr_is_subscribed = False,
     sr_data_source = ''static_master'', sr_updated_at = 0\<rparr>"

theorem securities_page_and_total_witness:
  "\<exists>items. list_securities (\<lambda>q. Inr (run_list [sample_row ''V'' ''Visa'', sample_row ''MA'' ''Mastercard''] q))
       (\<lambda>s. s) None (Some [''FIN'']) (Some ''as'') 5 = Inr items \<and> map se_ticker items = [''MA'']"
proof -
  let ?tab = "[sample_row ''V'' ''Visa'', sample_row ''MA'' ''Mastercard'']"
  have p: "plain (some_text (Some ''as''))" by (simp add: plain_def some_text_def)
  have m: "\<forall>r \<in> set ?tab. \<exists>m. market_of_value (sr_market r) = Inr m"
    by (simp add: sample_row_def market_of_value_def markets_def)
  have w: "filter (wanted (\<lambda>s. s) None (Some [''FIN'']) (Some ''as'')) ?tab = [sample_row ''MA'' ''Mastercard'']"
    by code_simp
  show ?thesis
    using securities_page_and_total [OF p _ m, of 5 "\<lambda>s. s" None "Some [''FIN'']"]
    unfolding w by (auto simp: sample_row_def)
qed

end
