(* ===== verification/Route_Inputs.thy ===== *)
theory Route_Inputs
  imports Http_Errors Security Alarms Securities
begin

text \<open>
  What the routes of \<open>src/src/api/v1/router.py\<close> share: the parsers of their query parameters,
  the 400 document of a bad one, the range checks FastAPI makes before a route runs, and the
  dependency on an authenticated user. The documents FastAPI writes for a failed check are the
  argument \<open>errs\<close>, the \<open>repr\<close> of a string is \<open>rp\<close>.
\<close>

section \<open>Lists of tokens\<close>

definition csv_parts :: "string \<Rightarrow> string list" where
  "csv_parts raw = filter (\<lambda>p. p \<noteq> []) (map strip (split_on (CHR '','') raw))"

definition parse_csv :: "string option \<Rightarrow> nat \<Rightarrow> string list option" where
  "parse_csv raw max_items = (case raw of
       None \<Rightarrow> None
     | Some s \<Rightarrow> if csv_parts s = [] then None else Some (take max_items (csv_parts s)))"

text \<open>The symbol lists of the tick routes: at most 50, none is an empty list.\<close>

definition symbol_parts :: "string \<Rightarrow> string list" where
  "symbol_parts raw = take 50 (csv_parts raw)"

section \<open>Checked parameters\<close>

datatype invalid_input =
    BadSeverity string
  | BadStatus string
  | BadSince string
  | BadMarket string
  | LongSector string
  | BadKind string

datatype input_failure = Invalid invalid_input | Fails py_error

type_synonym 'a checked = "input_failure + 'a"

definition bind_checked :: "'a checked \<Rightarrow> ('a \<Rightarrow> 'b checked) \<Rightarrow> 'b checked" where
  "bind_checked r f = (case r of Inl e \<Rightarrow> Inl e | Inr v \<Rightarrow> f v)"

fun severity_value :: "severity \<Rightarrow> string" where
  "severity_value INFO = ''info''"
| "severity_value WARN = ''warn''"
| "severity_value ANOMALY = ''anomaly''"
| "severity_value CRITICAL = ''critical''"

fun status_value :: "status \<Rightarrow> string" where
  "status_value ACTIVE = ''active''"
| "status_value ACKNOWLEDGED = ''acknowledged''"
| "status_value RESOLVED = ''resolved''"

definition severity_of_value :: "string \<Rightarrow> severity option" where
  "severity_of_value s = List.find (\<lambda>v. severity_value v = s) [INFO, WARN, ANOMALY, CRITICAL]"

definition status_of_value :: "string \<Rightarrow> status option" where
  "status_of_value s = List.find (\<lambda>v. status_value v = s) [ACTIVE, ACKNOWLEDGED, RESOLVED]"

text \<open>The loop over the tokens: the first unknown one is reported.\<close>

fun parse_tokens :: "(string \<Rightarrow> 'a option) \<Rightarrow> (string \<Rightarrow> invalid_input) \<Rightarrow> string list \<Rightarrow> 'a list checked" where
  "parse_tokens val bad [] = Inr []"
| "parse_tokens val bad (tok # toks) = (case val tok of
       None \<Rightarrow> Inl (Invalid (bad tok))
     | Some v \<Rightarrow> bind_checked (parse_tokens val bad toks) (\<lambda>vs. Inr (v # vs)))"

definition parse_severities :: "string option \<Rightarrow> severity set option checked" where
  "parse_severities raw = (case parse_csv raw 50 of
       None \<Rightarrow> Inr None
     | Some toks \<Rightarrow> bind_checked (parse_tokens severity_of_value BadSeverity toks) (\<lambda>vs. Inr (Some (set vs))))"

definition parse_statuses :: "string option \<Rightarrow> status set checked" where
  "parse_statuses raw = (case parse_csv raw 50 of
       None \<Rightarrow> Inr {ACTIVE}
     | Some toks \<Rightarrow> bind_checked (parse_tokens status_of_value BadStatus toks) (\<lambda>vs. Inr (set vs)))"

text \<open>
  \<open>fromisoformat\<close> of a text without an offset is read as UTC, as the code does with it; the
  conversion to UTC overflows outside the years 1 to 9999.
\<close>

definition parse_since :: "python \<Rightarrow> string option \<Rightarrow> time option checked" where
  "parse_since py raw = (case raw of
       None \<Rightarrow> Inr None
     | Some s \<Rightarrow>
         let cleaned = strip s;
             iso = (if ends_with cleaned ''Z'' then take (length cleaned - 1) cleaned @ ''+00:00'' else cleaned)
         in if cleaned = [] then Inr None
            else case py_fromisoformat py iso of
                Inl e \<Rightarrow> Inl (if e = ValueError then Invalid (BadSince s) else Fails e)
              | Inr t \<Rightarrow> (case in_datetime t of Inl e \<Rightarrow> Inl (Fails e) | Inr u \<Rightarrow> Inr (Some u)))"

definition parse_markets :: "string option \<Rightarrow> string list option checked" where
  "parse_markets raw = (case parse_csv raw 10 of
       None \<Rightarrow> Inr None
     | Some toks \<Rightarrow> bind_checked
         (parse_tokens (\<lambda>t. if t \<in> market_value ` set markets then Some t else None) BadMarket toks)
         (\<lambda>vs. Inr (Some vs)))"

definition parse_sectors :: "string option \<Rightarrow> string list option checked" where
  "parse_sectors raw = (case parse_csv raw 20 of
       None \<Rightarrow> Inr None
     | Some toks \<Rightarrow> bind_checked
         (parse_tokens (\<lambda>t. if length t \<le> 32 then Some t else None) LongSector toks)
         (\<lambda>vs. Inr (Some vs)))"

definition parse_relation_kinds :: "string option \<Rightarrow> string list option checked" where
  "parse_relation_kinds raw = (case parse_csv raw 10 of
       None \<Rightarrow> Inr None
     | Some toks \<Rightarrow> bind_checked
         (parse_tokens (\<lambda>t. if t \<in> relation_kind_value ` set relation_kinds then Some t else None) BadKind toks)
         (\<lambda>vs. Inr (Some vs)))"

section \<open>The 400 document\<close>

fun nat_text :: "nat \<Rightarrow> string" where
  "nat_text n = (if n < 10 then [char_of (48 + n)] else nat_text (n div 10) @ [char_of (48 + n mod 10)])"

declare nat_text.simps [simp del]

definition invalid_detail :: "(string \<Rightarrow> string) \<Rightarrow> invalid_input \<Rightarrow> string" where
  "invalid_detail rp i = (case i of
       BadSeverity t \<Rightarrow> ''severity '' @ rp t @ '' is not one of info|warn|anomaly|critical''
     | BadStatus t \<Rightarrow> ''status '' @ rp t @ '' is not one of active|acknowledged|resolved''
     | BadSince t \<Rightarrow> ''since '' @ rp t @ '' is not a valid RFC 3339 / ISO-8601 timestamp''
     | BadMarket t \<Rightarrow> ''market '' @ rp t @ '' is not one of KOSDAQ|KRX|NASDAQ|NYSE|OTHER''
     | LongSector t \<Rightarrow> ''sector token length '' @ nat_text (length t) @ '' > 32 ('' @ rp t @ '')''
     | BadKind t \<Rightarrow> ''kind '' @ rp t
         @ '' is not one of correlation|cross_listing|same_chaebol|sector|supply_chain'')"

definition invalid_input_response :: "(string \<Rightarrow> string) \<Rightarrow> request \<Rightarrow> invalid_input \<Rightarrow> 'a reply" where
  "invalid_input_response rp rq i =
     ProblemReply \<lparr>pb_type = ''https://nexus-os.local/problems/invalid-input'',
       pb_title = ''Invalid query parameter'', pb_status = 400, pb_detail = Some (invalid_detail rp i),
       pb_instance = Some (rq_path rq), pb_request_id = rq_id rq, pb_errors = None\<rparr> []"

text \<open>A route that parses its input first: \<open>except _InvalidInput\<close> around the parsers only.\<close>

definition with_input ::
    "(string \<Rightarrow> string) \<Rightarrow> request \<Rightarrow> 'a checked \<Rightarrow> ('a \<Rightarrow> 'b route) \<Rightarrow> 'b route" where
  "with_input rp rq input f = (case input of
       Inl (Invalid i) \<Rightarrow> Inr (invalid_input_response rp rq i)
     | Inl (Fails e) \<Rightarrow> Inl (Raises e)
     | Inr v \<Rightarrow> f v)"

section \<open>Before a route runs\<close>

definition check_params :: "(string \<Rightarrow> json) \<Rightarrow> (string \<times> bool) list \<Rightarrow> 'a route \<Rightarrow> 'a route" where
  "check_params errs checks r =
     (if list_all snd checks then r
      else Inl (RequestInvalid (map (\<lambda>(n, b). errs n) (filter (\<lambda>(n, b). \<not> b) checks))))"

definition auth_route_error :: "(auth_failure \<Rightarrow> json) \<Rightarrow> auth_failure \<Rightarrow> route_error" where
  "auth_route_error why f = (case f of
       Http401 \<Rightarrow> HttpException 401 (why f) [(''WWW-Authenticate'', ''Bearer'')]
     | Http500 \<Rightarrow> HttpException 500 (why f) []
     | Crash e \<Rightarrow> Raises e)"

definition with_user :: "(auth_failure \<Rightarrow> json) \<Rightarrow> principal auth \<Rightarrow> (principal \<Rightarrow> 'a route) \<Rightarrow> 'a route" where
  "with_user why user f = (case user of Inl e \<Rightarrow> Inl (auth_route_error why e) | Inr p \<Rightarrow> f p)"

text \<open>The repository factories over the process-wide pool.\<close>

definition with_pool :: "'p option \<Rightarrow> 'a route \<Rightarrow> 'a route" where
  "with_pool pool r = (case get_pool pool of Inl e \<Rightarrow> Inl (Raises e) | Inr p \<Rightarrow> r)"

text \<open>An exception of a repository leaves the route.\<close>

definition lift_result :: "'a result \<Rightarrow> ('a \<Rightarrow> 'b route) \<Rightarrow> 'b route" where
  "lift_result r f = (case r of Inl e \<Rightarrow> Inl (Raises e) | Inr v \<Rightarrow> f v)"

lemma with_user_simps [simp]:
  "with_user why (Inr p) f = f p"
  "with_user why (Inl e) f = Inl (auth_route_error why e)"
  by (simp_all add: with_user_def)

lemma lift_result_simps [simp]:
  "lift_result (Inr v) f = f v" "lift_result (Inl e) f = Inl (Raises e)"
  by (simp_all add: lift_result_def)

lemma bind_checked_simps [simp]:
  "bind_checked (Inr v) f = f v" "bind_checked (Inl e) f = Inl e"
  by (simp_all add: bind_checked_def)

lemma with_input_simps [simp]:
  "with_input rp rq (Inr v) f = f v" "with_input rp rq (Inl (Fails e)) f = Inl (Raises e)"
  "with_input rp rq (Inl (Invalid i)) f = Inr (invalid_input_response rp rq i)"
  by (simp_all add: with_input_def)

section \<open>Facts about tokens\<close>

lemma csv_parts_sound: "t \<in> set (csv_parts raw) \<Longrightarrow> t \<noteq> [] \<and> (\<exists>p \<in> set (split_on (CHR '','') raw). t = strip p)"
  by (auto simp: csv_parts_def)

lemma symbol_parts_bounds: "length (symbol_parts raw) \<le> 50 \<and> [] \<notin> set (symbol_parts raw)"
  by (auto simp: symbol_parts_def dest: in_set_takeD csv_parts_sound)

text \<open>A token list without blanks and commas comes back as it was written.\<close>

lemma csv_parts_join:
  assumes "\<forall>t \<in> set toks. t \<noteq> [] \<and> (\<forall>c \<in> set t. c \<noteq> CHR '','' \<and> \<not> is_space c)" "toks \<noteq> []"
  shows "csv_parts (join_with (CHR '','') toks) = toks"
proof -
  have "split_on (CHR '','') (join_with (CHR '','') toks) = toks"
    using assms by (intro split_on_join) auto
  moreover have "map strip toks = toks" using assms(1) by (induction toks) (simp_all add: strip_no_space)
  moreover have "filter (\<lambda>p. p \<noteq> []) toks = toks" using assms(1) by (induction toks) auto
  ultimately show ?thesis by (simp add: csv_parts_def)
qed

lemma parse_tokens_Inr:
  "parse_tokens val bad toks = Inr vs \<longleftrightarrow> map val toks = map Some vs"
proof (induction toks arbitrary: vs)
  case (Cons a toks)
  show ?case
  proof (cases "val a")
    case (Some v)
    show ?thesis
    proof (cases "parse_tokens val bad toks")
      case (Inl f)
      with Cons.IH have "map val toks \<noteq> map Some ws" for ws by (metis Inr_Inl_False)
      with Some Inl show ?thesis by (cases vs) auto
    next
      case (Inr ws)
      with Some Cons.IH [of ws] Cons.IH [of "tl vs"] show ?thesis by (cases vs) auto
    qed
  qed (cases vs; simp)
qed auto

lemma parse_tokens_Inl:
  "parse_tokens val bad toks = Inl f \<longleftrightarrow>
     (\<exists>pre t post. toks = pre @ t # post \<and> val t = None \<and> (\<forall>u \<in> set pre. val u \<noteq> None) \<and> f = Invalid (bad t))"
proof (induction toks)
  case (Cons a toks)
  show ?case
  proof (cases "val a")
    case None
    then show ?thesis by (force simp: Cons_eq_append_conv)
  next
    case (Some v)
    then have "parse_tokens val bad (a # toks) = Inl f \<longleftrightarrow> parse_tokens val bad toks = Inl f"
      by (auto simp: bind_checked_def split: sum.splits)
    also have "\<dots> \<longleftrightarrow> (\<exists>pre t post. a # toks = pre @ t # post \<and> val t = None \<and>
        (\<forall>u \<in> set pre. val u \<noteq> None) \<and> f = Invalid (bad t))"
      using Some by (simp add: Cons.IH Cons_eq_append_conv) (metis list.set_intros(1) list.set_intros(2) option.distinct(1) set_ConsD)
    finally show ?thesis .
  qed
qed simp

end
