(* ===== verification/Audit_Metrics.thy ===== *)
theory Audit_Metrics
  imports Persistence "HOL-Library.List_Lexorder" "HOL-Library.Char_ord"
begin

text \<open>
  The two aggregates of \<open>src/src/infrastructure/execution_repository.py\<close> behind the system
  health panel. The methods take what their queries answer; the queries (\<open>..._query\<close>) are
  the SQL text over a table of audit rows.
\<close>

section \<open>Decisions per minute\<close>

record decision_bucket =
  dk_bucket :: time
  dk_total :: int
  dk_live :: int
  dk_shadow :: int
  dk_noop :: int
  dk_blocked :: int

definition minute_of :: "time \<Rightarrow> time" where
  "minute_of t = t div (60 * second) * (60 * second)"

definition count_rows :: "(audit_row \<Rightarrow> bool) \<Rightarrow> audit_row list \<Rightarrow> int" where
  "count_rows P rows = int (length (filter P rows))"

definition decisions_query :: "time \<Rightarrow> audit_row list \<Rightarrow> decision_bucket list" where
  "decisions_query since tab =
     (let rows = filter (\<lambda>r. since \<le> ar_ts r) tab
      in map (\<lambda>b. let g = filter (\<lambda>r. minute_of (ar_ts r) = b) rows in
            \<lparr>dk_bucket = b, dk_total = int (length g),
             dk_live = count_rows (\<lambda>r. ar_mode r = ''live'' \<and> ar_executed r) g,
             dk_shadow = count_rows (\<lambda>r. ar_mode r = ''shadow'') g,
             dk_noop = count_rows (\<lambda>r. ar_mode r = ''noop'') g,
             dk_blocked = count_rows (\<lambda>r. ar_blocked_by r \<noteq> None) g\<rparr>)
           (rev (sort (remdups (map (\<lambda>r. minute_of (ar_ts r)) rows)))))"

definition aggregate_decisions :: "decision_bucket list result \<Rightarrow> decision_bucket list result" where
  "aggregate_decisions answer = tolerant answer"

section \<open>Blocked reasons\<close>

record blocked_reason =
  br_guard_id :: string
  br_blocked :: int
  br_last_fired_at :: time

definition blocked_query :: "time \<Rightarrow> audit_row list \<Rightarrow> blocked_reason list" where
  "blocked_query since tab =
     (let rows = filter (\<lambda>r. since \<le> ar_ts r \<and> ar_blocked_by r \<noteq> None) tab
      in sort_desc br_blocked
        (map (\<lambda>g. let hits = filter (\<lambda>r. ar_blocked_by r = Some g) rows in
            \<lparr>br_guard_id = g, br_blocked = int (length hits), br_last_fired_at = Max (ar_ts ` set hits)\<rparr>)
          (remdups (map (the \<circ> ar_blocked_by) rows))))"

definition aggregate_blocked :: "blocked_reason list result \<Rightarrow> blocked_reason list result" where
  "aggregate_blocked answer = tolerant answer"

section \<open>Groups cover the rows\<close>

lemma sum_groups:
  assumes "distinct keys" "\<forall>x \<in> set xs. f x \<in> set keys"
  shows "(\<Sum>k \<leftarrow> keys. length (filter (\<lambda>x. f x = k) xs)) = length xs"
  using assms(2)
proof (induction xs)
  case (Cons x xs)
  have one: "(\<Sum>k \<leftarrow> keys. (if f x = k then 1 else 0 :: nat)) = 1"
    using assms(1) Cons.prems by (simp add: sum_list_distinct_conv_sum_set)
  have "(\<Sum>k \<leftarrow> keys. length (filter (\<lambda>y. f y = k) (x # xs)))
      = (\<Sum>k \<leftarrow> keys. (if f x = k then 1 else 0) + length (filter (\<lambda>y. f y = k) xs))"
    by (intro arg_cong [where f = sum_list] map_cong) auto
  also have "\<dots> = Suc (length xs)" using one Cons by (simp add: sum_list_addf)
  finally show ?case by simp
qed simp

lemma sum_list_sort_desc: "sum_list (map f (sort_desc k xs)) = sum_list (map (f :: 'a \<Rightarrow> int) xs)"
  by (metis mset_map mset_sort_desc sum_mset_sum_list)

lemma int_sum_list: "(\<Sum>x \<leftarrow> xs. int (f x)) = int (\<Sum>x \<leftarrow> xs. f x)"
  by (induction xs) simp_all

lemma sum_list_rev_sort: "sum_list (map f (rev (sort xs))) = sum_list (map (f :: 'a :: linorder \<Rightarrow> int) xs)"
  by (metis mset_map mset_rev mset_sort sum_mset_sum_list)

text \<open>A count split over the minutes adds up to the count over the window.\<close>

lemma minute_counts:
  assumes "keys = remdups (map (\<lambda>r. minute_of (ar_ts r)) rows)"
  shows "(\<Sum>b \<leftarrow> rev (sort keys). count_rows P (filter (\<lambda>r. minute_of (ar_ts r) = b) rows)) = count_rows P rows"
proof -
  have swap: "filter P (filter (\<lambda>r. minute_of (ar_ts r) = b) rows) = filter (\<lambda>r. minute_of (ar_ts r) = b) (filter P rows)" for b
    by (auto intro: filter_cong)
  have "(\<Sum>b \<leftarrow> rev (sort keys). count_rows P (filter (\<lambda>r. minute_of (ar_ts r) = b) rows))
      = (\<Sum>b \<leftarrow> keys. int (length (filter (\<lambda>r. minute_of (ar_ts r) = b) (filter P rows))))"
    unfolding count_rows_def swap by (rule sum_list_rev_sort)
  also have "\<dots> = int (\<Sum>b \<leftarrow> keys. length (filter (\<lambda>r. minute_of (ar_ts r) = b) (filter P rows)))"
    by (rule int_sum_list)
  also have "\<dots> = count_rows P rows" by (subst sum_groups) (auto simp: assms count_rows_def)
  finally show ?thesis .
qed

lemma decision_totals:
  assumes "rows = filter (\<lambda>r. since \<le> ar_ts r) tab"
  shows "sum_list (map dk_total (decisions_query since tab)) = int (length rows)"
    and "sum_list (map dk_live (decisions_query since tab)) = count_rows (\<lambda>r. ar_mode r = ''live'' \<and> ar_executed r) rows"
    and "sum_list (map dk_shadow (decisions_query since tab)) = count_rows (\<lambda>r. ar_mode r = ''shadow'') rows"
    and "sum_list (map dk_noop (decisions_query since tab)) = count_rows (\<lambda>r. ar_mode r = ''noop'') rows"
    and "sum_list (map dk_blocked (decisions_query since tab)) = count_rows (\<lambda>r. ar_blocked_by r \<noteq> None) rows"
  using minute_counts [OF refl, of "\<lambda>r. True" rows, unfolded count_rows_def]
  unfolding decisions_query_def Let_def map_map comp_def decision_bucket.simps assms [symmetric]
  by (simp_all add: minute_counts [OF refl])

lemma blocked_totals:
  "sum_list (map br_blocked (blocked_query since tab))
   = count_rows (\<lambda>r. since \<le> ar_ts r \<and> ar_blocked_by r \<noteq> None) tab"
proof -
  let ?rows = "filter (\<lambda>r. since \<le> ar_ts r \<and> ar_blocked_by r \<noteq> None) tab"
  let ?keys = "remdups (map (the \<circ> ar_blocked_by) ?rows)"
  have g: "filter (\<lambda>r. ar_blocked_by r = Some k) ?rows = filter (\<lambda>r. (the \<circ> ar_blocked_by) r = k) ?rows" for k
    by (intro filter_cong) auto
  have "sum_list (map br_blocked (blocked_query since tab))
      = (\<Sum>k \<leftarrow> ?keys. int (length (filter (\<lambda>r. ar_blocked_by r = Some k) ?rows)))"
    by (simp only: blocked_query_def Let_def sum_list_sort_desc map_map) (simp add: comp_def)
  also have "\<dots> = int (\<Sum>k \<leftarrow> ?keys. length (filter (\<lambda>r. (the \<circ> ar_blocked_by) r = k) ?rows))"
    by (simp only: g int_sum_list)
  also have "\<dots> = int (length ?rows)" by (subst sum_groups) auto
  finally show ?thesis by (simp only: count_rows_def)
qed

lemma mode_split:
  assumes "\<forall>r \<in> set g. ar_mode r \<in> {''live'', ''shadow'', ''noop''}"
  shows "int (length g) = count_rows (\<lambda>r. ar_mode r = ''live'' \<and> ar_executed r) g
     + count_rows (\<lambda>r. ar_mode r = ''live'' \<and> \<not> ar_executed r) g
     + count_rows (\<lambda>r. ar_mode r = ''shadow'') g + count_rows (\<lambda>r. ar_mode r = ''noop'') g"
  using assms by (induction g) (auto simp: count_rows_def)

end
