(* ===== verification/Routes.thy ===== *)
theory Routes
  imports Route_Inputs Market_Repo Supervisor
begin

text \<open>
  The read routes of \<open>src/src/api/v1/router.py\<close> over the market data and the securities
  master, with their DTOs (\<open>api/v1/dto.py\<close>). A handler takes what its dependencies are for the
  request (the pool, the outcome of the token check, the repositories as what their queries
  answer) and its query parameters; \<open>serve\<close> of \<open>Http_Errors\<close> turns its outcome into a
  response. Dependencies are solved in the order of the signature, then the parameters are
  checked. The securities repository is the locale \<open>securities_reader\<close>, provided by the
  database repository and by the null object.
\<close>

section \<open>Dependencies\<close>

record 'p route_env =
  rt_request :: request
  rt_pool :: "'p option"
  rt_user :: "principal auth"
  rt_why :: "auth_failure \<Rightarrow> json"
  rt_errs :: "string \<Rightarrow> json"
  rt_repr :: "string \<Rightarrow> string"
  rt_now :: time

definition user_route :: "'p route_env \<Rightarrow> (string \<times> bool) list \<Rightarrow> 'b route \<Rightarrow> 'b route" where
  "user_route env checks r = with_user (rt_why env) (rt_user env) (\<lambda>p. check_params (rt_errs env) checks r)"

definition pool_user_route :: "'p route_env \<Rightarrow> (string \<times> bool) list \<Rightarrow> 'b route \<Rightarrow> 'b route" where
  "pool_user_route env checks r = with_pool (rt_pool env) (user_route env checks r)"

definition between :: "int \<Rightarrow> int \<Rightarrow> int \<Rightarrow> bool" where
  "between lo hi n \<longleftrightarrow> lo \<le> n \<and> n \<le> hi"

definition len_between :: "nat \<Rightarrow> nat \<Rightarrow> string \<Rightarrow> bool" where
  "len_between lo hi s \<longleftrightarrow> lo \<le> length s \<and> length s \<le> hi"

text \<open>A handler that only builds its reply from the rows.\<close>

definition reply_with :: "('a \<Rightarrow> 'b) \<Rightarrow> 'a result \<Rightarrow> 'b route" where
  "reply_with f r = lift_result r (\<lambda>v. Inr (Reply 200 (f v)))"

text \<open>A reply with content needs the principal, and the parameters in range.\<close>

lemma user_route_Reply:
  "user_route env checks r = Inr (Reply n v) \<longleftrightarrow>
     (\<exists>p. rt_user env = Inr p) \<and> list_all snd checks \<and> r = Inr (Reply n v)"
  by (cases "rt_user env") (auto simp: user_route_def check_params_def)

lemma pool_user_route_Reply:
  "pool_user_route env checks r = Inr (Reply n v) \<longleftrightarrow>
     rt_pool env \<noteq> None \<and> (\<exists>p. rt_user env = Inr p) \<and> list_all snd checks \<and> r = Inr (Reply n v)"
  by (auto simp: pool_user_route_def with_pool_def get_pool_def user_route_Reply split: option.splits)

lemma reply_with_Reply:
  "reply_with f r = Inr (Reply n v) \<longleftrightarrow> (\<exists>x. r = Inr x \<and> n = 200 \<and> v = f x)"
  by (cases r) (auto simp: reply_with_def)

text \<open>Without a principal: the failure of the token check, or no pool.\<close>

lemma user_route_denied: "rt_user env = Inl e \<Longrightarrow> user_route env checks r = Inl (auth_route_error (rt_why env) e)"
  by (simp add: user_route_def)

lemma pool_user_route_denied:
  "rt_user env = Inl e \<Longrightarrow> rt_pool env = Some p \<Longrightarrow>
     pool_user_route env checks r = Inl (auth_route_error (rt_why env) e)"
  by (simp add: pool_user_route_def with_pool_def get_pool_def user_route_denied)

section \<open>Health, readiness, identity\<close>

record health_dto =
  hd_status :: string
  hd_service :: string
  hd_publisher :: string

text \<open>
  \<open>active_kind\<close> names the publisher, \<open>none\<close> without one. The route is open to anyone.
\<close>

definition publisher_tag :: "publisher_kind option \<Rightarrow> string" where
  "publisher_tag k = (case k of None \<Rightarrow> ''none'' | Some KisPub \<Rightarrow> ''kis'' | Some MockPub \<Rightarrow> ''mock'')"

definition health :: "supervisor option \<Rightarrow> health_dto route" where
  "health sv = Inr (Reply 200 \<lparr>hd_status = ''ok'', hd_service = ''nexus-backend'',
     hd_publisher = (case sv of None \<Rightarrow> ''none'' | Some s \<Rightarrow> publisher_tag (active_kind s))\<rparr>)"

record readiness_dto =
  rd_ok :: bool
  rd_database :: bool
  rd_redis :: bool
  rd_migration :: schema_check

text \<open>\<open>except Exception\<close> around a ping: a failed one is noted, a cancellation goes through.\<close>

definition ping_ok :: "unit result \<Rightarrow> bool result" where
  "ping_ok r = (case r of Inr _ \<Rightarrow> Inr True | Inl e \<Rightarrow> if e = CancelledError then Inl e else Inr False)"

definition readyz :: "'p option \<Rightarrow> unit result \<Rightarrow> unit result \<Rightarrow> int option result \<Rightarrow> readiness_dto route" where
  "readyz pool db_ping redis_ping probe =
     lift_result (get_pool pool) (\<lambda>p.
     lift_result (ping_ok db_ping) (\<lambda>db.
     lift_result (ping_ok redis_ping) (\<lambda>redis.
     lift_result (if db then verify_schema probe expected_schema_version
         else Inr \<lparr>sc_applied = None, sc_expected = expected_schema_version, sc_ok = False,
                   sc_reason = Some Unreachable\<rparr>) (\<lambda>migration.
     Inr (Reply 200 \<lparr>rd_ok = db \<and> redis \<and> sc_ok migration, rd_database = db, rd_redis = redis,
       rd_migration = migration\<rparr>)))))"

record me_dto =
  md_subject :: string
  md_tenant :: string
  md_roles :: "json list"
  md_scopes :: "json list"

definition me :: "'p route_env \<Rightarrow> me_dto route" where
  "me env = with_user (rt_why env) (rt_user env) (\<lambda>p.
     Inr (Reply 200 \<lparr>md_subject = pp_subject p, md_tenant = pp_tenant p, md_roles = pp_roles p,
       md_scopes = pp_scopes p\<rparr>))"

section \<open>The securities repository as an interface\<close>

record sec_repo =
  sp_list :: "string list option \<Rightarrow> string list option \<Rightarrow> string option \<Rightarrow> int \<Rightarrow> security list result"
  sp_count :: "string list option \<Rightarrow> string list option \<Rightarrow> string option \<Rightarrow> int result"
  sp_get :: "string \<Rightarrow> security option result"
  sp_batch :: "string list \<Rightarrow> (string \<Rightarrow> security option) result"
  sp_relations :: "string list option \<Rightarrow> float64 \<Rightarrow> string list option \<Rightarrow> security_relation list result"
  sp_count_relations :: "string list option \<Rightarrow> float64 \<Rightarrow> string list option \<Rightarrow> int result"

definition null_securities_repo :: sec_repo where
  "null_securities_repo = \<lparr>sp_list = (\<lambda>ms ss q n. Inr []), sp_count = (\<lambda>ms ss q. Inr 0),
     sp_get = (\<lambda>t. Inr None), sp_batch = (\<lambda>ts. Inr Map.empty),
     sp_relations = (\<lambda>ks w ts. Inr []), sp_count_relations = (\<lambda>ks w ts. Inr 0)\<rparr>"

text \<open>What the database answers to each query.\<close>

record sec_db =
  sd_up :: "string \<Rightarrow> string"
  sd_list :: "sec_query \<Rightarrow> security_row list result"
  sd_count :: "sec_query \<Rightarrow> int option result"
  sd_get :: "string \<Rightarrow> security_row option result"
  sd_batch :: "string list \<Rightarrow> security_row list result"
  sd_relations :: "rel_query \<Rightarrow> relation_row list result"
  sd_count_relations :: "rel_query \<Rightarrow> int option result"

definition database_repo :: "sec_db \<Rightarrow> sec_repo" where
  "database_repo db = \<lparr>sp_list = list_securities (sd_list db) (sd_up db),
     sp_count = count_securities (sd_count db) (sd_up db),
     sp_get = get_security (sd_get db), sp_batch = get_by_ticker_batch (sd_batch db),
     sp_relations = list_relations (sd_relations db),
     sp_count_relations = count_relations (sd_count_relations db)\<rparr>"

text \<open>\<open>_securities_repo\<close>: without a pool, the null object.\<close>

definition securities_repo :: "'p option \<Rightarrow> sec_db \<Rightarrow> sec_repo" where
  "securities_repo pool db = (case get_pool pool of Inr p \<Rightarrow> database_repo db | Inl e \<Rightarrow> null_securities_repo)"

text \<open>The display name of an id that is a ticker: the enrichment of two routes.\<close>

definition label_of :: "(string \<Rightarrow> security option) \<Rightarrow> string \<Rightarrow> string option" where
  "label_of m i = map_option display_name (m i)"

text \<open>
  The promise the enrichment rests on: a batch answers each ticker with its own row, and an
  unknown or unasked one not at all.
\<close>

locale securities_reader =
  fixes batch :: "string list \<Rightarrow> (string \<Rightarrow> security option) result"
  assumes batch_keyed: "batch ts = Inr m \<Longrightarrow> m t = Some s \<Longrightarrow> se_ticker s = t"
    and batch_empty: "batch [] = Inr Map.empty"
begin

lemma label_sound: "batch ts = Inr m \<Longrightarrow> label_of m i = Some n \<Longrightarrow> \<exists>s. se_ticker s = i \<and> n = display_name s"
  by (auto simp: label_of_def dest: batch_keyed)

lemma no_ids_no_labels: "batch [] = Inr m \<Longrightarrow> label_of m i = None"
  by (auto simp: batch_empty label_of_def)

end

interpretation null_repo: securities_reader "sp_batch null_securities_repo"
  by unfold_locales (auto simp: null_securities_repo_def)

lemma map_of_rev_keyed: "map_of (rev (map (\<lambda>s. (f s, s)) xs)) k = Some x \<Longrightarrow> f x = k \<and> x \<in> set xs"
  by (drule map_of_SomeD) auto

interpretation database_repo: securities_reader "sp_batch (database_repo db)" for db
  by unfold_locales
    (auto simp: database_repo_def get_by_ticker_batch_def dest: map_of_rev_keyed
      elim!: bind_result_InrE split: if_splits)

interpretation either_repo: securities_reader "sp_batch (securities_repo pool db)" for pool db
  using null_repo.securities_reader_axioms database_repo.securities_reader_axioms
  by (cases pool) (simp_all add: securities_repo_def get_pool_def)

section \<open>Snapshot\<close>

record entity_dto = entity +
  ed_display_name :: "string option"
  ed_ticker :: "string option"
  ed_sector :: "string option"

record snapshot_dto =
  sn_entities :: "entity_dto list"
  sn_edges :: "edge_row list"
  sn_ts :: time

definition entity_to_dto :: "(string \<Rightarrow> security option) \<Rightarrow> entity \<Rightarrow> entity_dto" where
  "entity_to_dto m e = entity.extend e
     \<lparr>ed_display_name = label_of m (en_id e), ed_ticker = map_option se_ticker (m (en_id e)),
      ed_sector = map_option se_sector (m (en_id e))\<rparr>"

definition latest_snapshot ::
    "'p route_env \<Rightarrow> entity_row list result \<Rightarrow> edge_row list result \<Rightarrow> sec_db \<Rightarrow> snapshot_dto route" where
  "latest_snapshot env entities edges db = pool_user_route env []
     (lift_result (list_entities entities) (\<lambda>es.
      lift_result (list_edges edges) (\<lambda>gs.
      reply_with (\<lambda>m. \<lparr>sn_entities = map (entity_to_dto m) es, sn_edges = gs, sn_ts = rt_now env\<rparr>)
        (sp_batch (securities_repo (rt_pool env) db) (map en_id es)))))"

section \<open>Securities\<close>

record security_dto = security +
  sy_display_name :: string

text \<open>The DTO checks the anomaly again.\<close>

definition security_to_dto :: "security \<Rightarrow> security_dto result" where
  "security_to_dto s =
     (if in_range 0 1 (se_anomaly s) then Inr (security.extend s \<lparr>sy_display_name = display_name s\<rparr>)
      else Inl ValueError)"

definition relation_to_dto :: "security_relation \<Rightarrow> security_relation result" where
  "relation_to_dto r = (if in_range 0 1 (re_weight r) then Inr r else Inl ValueError)"

record security_list_dto =
  sl_items :: "security_dto list"
  sl_total :: int
  sl_server_time :: time

definition securities_list ::
    "'p route_env \<Rightarrow> sec_db \<Rightarrow> string option \<Rightarrow> string option \<Rightarrow> string option \<Rightarrow> int \<Rightarrow> security_list_dto route" where
  "securities_list env db mkt sector search limit =
     (let repo = securities_repo (rt_pool env) db in
      user_route env [(''search'', case search of None \<Rightarrow> True | Some s \<Rightarrow> len_between 1 64 s),
          (''limit'', between 1 1000 limit)]
        (with_input (rt_repr env) (rt_request env)
          (bind_checked (parse_markets mkt) (\<lambda>ms. bind_checked (parse_sectors sector) (\<lambda>ss. Inr (ms, ss))))
          (\<lambda>(ms, ss).
            lift_result (sp_list repo ms ss search limit) (\<lambda>items.
            lift_result (sp_count repo ms ss search) (\<lambda>n.
            reply_with (\<lambda>dtos. \<lparr>sl_items = dtos, sl_total = n, sl_server_time = rt_now env\<rparr>)
              (map_result security_to_dto items))))))"

definition securities_relations ::
    "'p route_env \<Rightarrow> sec_db \<Rightarrow> string option \<Rightarrow> float64 \<Rightarrow> string option \<Rightarrow> security_relation list route" where
  "securities_relations env db kind min_weight tickers =
     user_route env [(''min_weight'', in_range 0 1 min_weight)]
       (with_input (rt_repr env) (rt_request env) (parse_relation_kinds kind)
         (\<lambda>kinds. lift_result (sp_relations (securities_repo (rt_pool env) db) kinds min_weight (parse_csv tickers 50))
           (\<lambda>edges. reply_with id (map_result relation_to_dto edges))))"

definition security_not_found :: "'p route_env \<Rightarrow> string \<Rightarrow> 'b reply" where
  "security_not_found env ticker =
     ProblemReply \<lparr>pb_type = ''urn:nexus:errors:security-not-found'', pb_title = ''Security not found'',
       pb_status = 404, pb_detail = Some (''ticker '' @ rt_repr env ticker @ '' not in universe''),
       pb_instance = Some (rq_path (rt_request env)), pb_request_id = rq_id (rt_request env),
       pb_errors = None\<rparr> []"

definition securities_detail :: "'p route_env \<Rightarrow> sec_db \<Rightarrow> string \<Rightarrow> security_dto route" where
  "securities_detail env db ticker = user_route env []
     (lift_result (sp_get (securities_repo (rt_pool env) db) ticker) (\<lambda>found. case found of
        None \<Rightarrow> Inr (security_not_found env ticker)
      | Some s \<Rightarrow> reply_with id (security_to_dto s)))"

section \<open>Ticks\<close>

record volume_window_dto =
  vw_window_minutes :: int
  vw_buckets :: "volume_row list"

text \<open>The start of a window that ends now.\<close>

definition window_start :: "'p route_env \<Rightarrow> int \<Rightarrow> time" where
  "window_start env minutes = rt_now env - minutes * 60 * second"

definition ticks_volume ::
    "'p route_env \<Rightarrow> (string list \<Rightarrow> time \<Rightarrow> volume_row list result) \<Rightarrow> string \<Rightarrow> int \<Rightarrow> volume_window_dto route" where
  "ticks_volume env db symbols minutes =
     pool_user_route env [(''symbols'', len_between 1 2048 symbols), (''window_minutes'', between 1 1440 minutes)]
       (let parts = symbol_parts symbols in
        if parts = [] then Inr (Reply 200 \<lparr>vw_window_minutes = minutes, vw_buckets = []\<rparr>)
        else reply_with (\<lambda>rows. \<lparr>vw_window_minutes = minutes, vw_buckets = rows\<rparr>)
          (aggregate_volume (db parts (window_start env minutes)) parts))"

definition ticks_tape ::
    "'p route_env \<Rightarrow> (string list \<Rightarrow> int \<Rightarrow> tick list result) \<Rightarrow> string \<Rightarrow> int \<Rightarrow> tick_row list route" where
  "ticks_tape env db symbols limit =
     pool_user_route env [(''symbols'', len_between 1 2048 symbols), (''limit'', between 1 500 limit)]
       (let parts = symbol_parts symbols in
        if parts = [] then Inr (Reply 200 [])
        else reply_with id (list_recent_tape (db parts limit) parts limit))"

record tick_snapshots_dto =
  ts_requested :: "string list"
  ts_snapshots :: "tick_row list"

definition ticks_snapshot ::
    "'p route_env \<Rightarrow> (string list \<Rightarrow> tick list result) \<Rightarrow> string \<Rightarrow> tick_snapshots_dto route" where
  "ticks_snapshot env db symbols =
     pool_user_route env [(''symbols'', len_between 1 2048 symbols)]
       (let parts = symbol_parts symbols in
        if parts = [] then Inr (Reply 200 \<lparr>ts_requested = [], ts_snapshots = []\<rparr>)
        else reply_with (\<lambda>rows. \<lparr>ts_requested = parts, ts_snapshots = rows\<rparr>)
          (snapshot_per_symbol (db parts) parts))"

record tick_dto =
  td_ts :: time
  td_price :: float64
  td_volume :: int
  td_side :: string

record ticks_recent_dto =
  tn_symbol :: string
  tn_ticks :: "tick_dto list"

definition row_to_tick_dto :: "tick_row \<Rightarrow> tick_dto" where
  "row_to_tick_dto r = \<lparr>td_ts = tr_ts r, td_price = tr_price r, td_volume = tr_volume r, td_side = tr_side r\<rparr>"

definition ticks_recent ::
    "'p route_env \<Rightarrow> (string \<Rightarrow> int \<Rightarrow> tick list result) \<Rightarrow> string \<Rightarrow> int \<Rightarrow> ticks_recent_dto route" where
  "ticks_recent env db symb limit =
     pool_user_route env [(''symbol'', len_between 1 64 symb), (''limit'', between 1 500 limit)]
       (reply_with (\<lambda>rows. \<lparr>tn_symbol = symb, tn_ticks = map row_to_tick_dto rows\<rparr>)
         (list_recent_ticks (db symb limit) limit))"

section \<open>Properties\<close>

text \<open>
  The volume route covers what was asked. A reply of \<open>GET /v1/ticks/volume\<close> over a tick
  table has one bucket per requested symbol, in the order of the request and at most fifty; each
  bucket holds the summed volume and the number of the stored ticks of its symbol that are not
  older than the window, zero for a symbol without any.
\<close>

lemma volume_route_is_aligned:
  assumes "ticks_volume env (\<lambda>ss since. Inr (volume_query ss since tab)) symbols minutes = Inr (Reply n dto)"
    and "\<And>s. hits s = filter (\<lambda>t. t_symbol t = s \<and> rt_now env - minutes * 60 * second \<le> t_ts t) tab"
  shows "n = 200 \<and> vw_window_minutes dto = minutes \<and> 1 \<le> minutes \<and> minutes \<le> 1440 \<and>
    map vr_symbol (vw_buckets dto) = take 50 (csv_parts symbols) \<and>
    (\<forall>b \<in> set (vw_buckets dto). vr_total_volume b = sum_list (map t_volume (hits (vr_symbol b))) \<and>
       vr_tick_count b = int (length (hits (vr_symbol b))))"
proof -
  let ?since = "rt_now env - minutes * 60 * second"
  let ?parts = "take 50 (csv_parts symbols)"
  let ?bucket = "\<lambda>s. \<lparr>vr_symbol = s, vr_total_volume = sum_list (map t_volume (hits s)),
      vr_tick_count = int (length (hits s))\<rparr>"
  have row: "(case by_symbol (volume_query ?parts ?since tab) s of
      None \<Rightarrow> \<lparr>vr_symbol = s, vr_total_volume = 0, vr_tick_count = 0\<rparr> | Some r \<Rightarrow> r) = ?bucket s"
    if "s \<in> set ?parts" for s
    by (rule volume_row_of [OF that assms(2)])
  have rows: "map (\<lambda>s. case by_symbol (volume_query ?parts ?since tab) s of
      None \<Rightarrow> \<lparr>vr_symbol = s, vr_total_volume = 0, vr_tick_count = 0\<rparr> | Some r \<Rightarrow> r) ?parts = map ?bucket ?parts"
    by (intro map_cong refl row)
  have "n = 200 \<and> 1 \<le> minutes \<and> minutes \<le> 1440 \<and>
      dto = \<lparr>vw_window_minutes = minutes, vw_buckets = map ?bucket ?parts\<rparr>"
    using assms(1)
    by (auto simp: rows ticks_volume_def pool_user_route_Reply reply_with_Reply symbol_parts_def window_start_def
        aggregate_volume_def between_def Let_def split: if_splits)
  then show ?thesis by (auto simp: comp_def)
qed

definition sample_route_env :: "unit route_env" where
  "sample_route_env = \<lparr>rt_request = \<lparr>rq_path = ''/v1/ticks/volume'', rq_id = ''r''\<rparr>, rt_pool = Some (),
     rt_user = Inr anonymous, rt_why = (\<lambda>e. JNull), rt_errs = JStr, rt_repr = id, rt_now = 60 * second\<rparr>"

lemma volume_route_is_aligned_example:
  "\<exists>dto. ticks_volume sample_route_env (\<lambda>ss since. Inr (volume_query ss since [sample_tick 5 7, sample_tick 6 8]))
       ''000660, 005930'' 1 = Inr (Reply 200 dto) \<and> map vr_symbol (vw_buckets dto) = [''000660'', ''005930'']"
proof -
  have p: "csv_parts ''000660, 005930'' = [''000660'', ''005930'']" by code_simp
  obtain dto where dto: "ticks_volume sample_route_env
      (\<lambda>ss since. Inr (volume_query ss since [sample_tick 5 7, sample_tick 6 8])) ''000660, 005930'' 1 = Inr (Reply 200 dto)"
    by (simp add: ticks_volume_def pool_user_route_def with_pool_def get_pool_def user_route_def sample_route_env_def
        check_params_def len_between_def between_def symbol_parts_def p reply_with_def aggregate_volume_def Let_def)
  from volume_route_is_aligned [OF this refl] dto show ?thesis by (simp add: p)
qed

text \<open>
  Readiness needs all three. With a pool and no cancellation, \<open>GET /v1/readyz\<close> answers
  200 unless the database answered the ping and then failed the schema probe with an error the
  check does not know, which is raised; a reply says ok exactly if the database and Redis
  answered their pings and the applied schema version is at least the one this code expects.
\<close>

lemma readiness_needs_all:
  assumes "db \<noteq> Inl CancelledError" and "redis \<noteq> Inl CancelledError"
  shows "((\<exists>n r. readyz (Some p) db redis probe = Inr (Reply n r)) \<longleftrightarrow>
      \<not> (db = Inr () \<and> (\<exists>e. probe = Inl e \<and>
          e \<notin> {OtherError ''UndefinedTableError'', OtherError ''PostgresError'', OSError, TimeoutError}))) \<and>
    (\<forall>n r. readyz (Some p) db redis probe = Inr (Reply n r) \<longrightarrow> n = 200 \<and>
      (rd_ok r \<longleftrightarrow> db = Inr () \<and> redis = Inr () \<and> (\<exists>v \<ge> 3. probe = Inr (Some v))) \<and>
      rd_database r = is_ok db \<and> rd_redis r = is_ok redis)"
  using assms
  by (cases db; cases redis; cases probe)
    (auto simp: readyz_def get_pool_def ping_ok_def verify_schema_def expected_schema_version_def
      lift_result_def split: option.splits if_splits)

lemma readiness_needs_all_example:
  "\<exists>r. readyz (Some ()) (Inr ()) (Inl OSError) (Inr (Some 3)) = Inr (Reply 200 r) \<and> \<not> rd_ok r"
proof -
  obtain n r where "readyz (Some ()) (Inr ()) (Inl OSError) (Inr (Some 3)) = Inr (Reply n r)"
    using readiness_needs_all [of "Inr ()" "Inl OSError" "()" "Inr (Some 3)"] by auto
  with readiness_needs_all [of "Inr ()" "Inl OSError" "()" "Inr (Some 3)"] show ?thesis by auto
qed

end
