(* ===== verification/Ops_Routes.thy ===== *)
theory Ops_Routes
  imports Routes Audit_Metrics
begin

text \<open>
  The routes of the operator panels in \<open>src/src/api/v1/router.py\<close>: the decision and block
  metrics, the audit rows, and the alarms with their envelope, fault tolerance and securities
  labels.
\<close>

section \<open>Metrics\<close>

record decision_rate_dto =
  dr_window_minutes :: int
  dr_buckets :: "decision_bucket list"

definition metrics_decisions ::
    "'p route_env \<Rightarrow> (time \<Rightarrow> decision_bucket list result) \<Rightarrow> int \<Rightarrow> decision_rate_dto route" where
  "metrics_decisions env db minutes =
     pool_user_route env [(''window_minutes'', between 1 1440 minutes)]
       (reply_with (\<lambda>rows. \<lparr>dr_window_minutes = minutes, dr_buckets = rows\<rparr>)
         (aggregate_decisions (db (window_start env minutes))))"

record blocked_reasons_dto =
  bd_window_minutes :: int
  bd_total_blocked :: int
  bd_reasons :: "blocked_reason list"

definition metrics_blocked ::
    "'p route_env \<Rightarrow> (time \<Rightarrow> blocked_reason list result) \<Rightarrow> int \<Rightarrow> blocked_reasons_dto route" where
  "metrics_blocked env db minutes =
     pool_user_route env [(''window_minutes'', between 1 1440 minutes)]
       (reply_with (\<lambda>rows. \<lparr>bd_window_minutes = minutes, bd_total_blocked = sum_list (map br_blocked rows),
           bd_reasons = rows\<rparr>)
         (aggregate_blocked (db (window_start env minutes))))"

section \<open>Audit rows\<close>

record audit_recent_dto =
  ad_symbol :: string
  ad_rows :: "audit_row list"

text \<open>The DTO wants a list of dictionaries; a failed validation is a \<open>ValueError\<close>.\<close>

definition rationale_ok :: "json \<Rightarrow> bool" where
  "rationale_ok v = (case v of JList xs \<Rightarrow> list_all is_obj xs | _ \<Rightarrow> False)"

definition audit_row_dto :: "audit_row \<Rightarrow> audit_row result" where
  "audit_row_dto r = (if rationale_ok (ar_signal_rationale r) then Inr r else Inl ValueError)"

definition audit_recent ::
    "'p route_env \<Rightarrow> python \<Rightarrow> (string \<Rightarrow> int \<Rightarrow> audit_row list result) \<Rightarrow> string \<Rightarrow> int \<Rightarrow> audit_recent_dto route" where
  "audit_recent env py db symb limit =
     pool_user_route env [(''symbol'', len_between 1 64 symb), (''limit'', between 1 200 limit)]
       (lift_result (fetch_recent py db symb limit) (\<lambda>rows.
        reply_with (\<lambda>dtos. \<lparr>ad_symbol = symb, ad_rows = dtos\<rparr>) (map_result audit_row_dto rows)))"

section \<open>Alarms\<close>

record alarm_dto = alarm +
  ay_entity_display :: "string option"

record alarm_list_dto =
  av_items :: "alarm_dto list"
  av_total :: nat
  av_unacknowledged_count :: nat
  av_window_since :: time
  av_server_time :: time

definition default_window :: time where
  "default_window = 24 * 60 * 60 * second"

definition alarm_to_dto :: "(string \<Rightarrow> security option) \<Rightarrow> alarm \<Rightarrow> alarm_dto" where
  "alarm_to_dto m a = alarm.extend a \<lparr>ay_entity_display =
     (case al_entity_id a of None \<Rightarrow> None | Some i \<Rightarrow> if i = [] then None else label_of m i)\<rparr>"

text \<open>
  What the repository answers to the two reads: \<open>ValueError\<close> is raised again, any other
  exception reads as an empty store. The second read only happens after a good first one.
\<close>

record alarm_reads =
  ax_list :: "alarm_filters \<Rightarrow> (alarm list \<times> nat) result"
  ax_count :: "nat result"

definition read_alarms :: "alarm_reads \<Rightarrow> alarm_filters \<Rightarrow> (alarm list \<times> nat \<times> nat) result" where
  "read_alarms repo f =
     (case bind_result (ax_list repo f) (\<lambda>(items, n). bind_result (ax_count repo) (\<lambda>u. Inr (items, n, u))) of
        Inr v \<Rightarrow> Inr v
      | Inl e \<Rightarrow> if e = ValueError \<or> e = CancelledError then Inl e else Inr ([], 0, 0))"

text \<open>\<open>sorted({a.entity_id for a in items if a.entity_id})\<close>.\<close>

definition entity_ids :: "alarm list \<Rightarrow> string list" where
  "entity_ids items = sort (remdups (filter (\<lambda>i. i \<noteq> []) (List.map_filter al_entity_id items)))"

definition entity_labels :: "sec_repo \<Rightarrow> alarm list \<Rightarrow> (string \<Rightarrow> security option) result" where
  "entity_labels repo items =
     (if entity_ids items = [] then Inr Map.empty else sp_batch repo (entity_ids items))"

record alarm_params =
  am_limit :: int
  am_since :: "string option"
  am_severity :: "string option"
  am_status :: "string option"
  am_source :: "string option"

definition alarm_input ::
    "python \<Rightarrow> alarm_params
     \<Rightarrow> (severity set option \<times> status set \<times> string list option \<times> time option) checked" where
  "alarm_input py q =
     bind_checked (parse_severities (am_severity q)) (\<lambda>sevs.
     bind_checked (parse_statuses (am_status q)) (\<lambda>sts.
     bind_checked (parse_since py (am_since q)) (\<lambda>since.
     Inr (sevs, sts, parse_csv (am_source q) 20, since))))"

definition alarms_list ::
    "'p route_env \<Rightarrow> python \<Rightarrow> alarm_reads \<Rightarrow> sec_db \<Rightarrow> alarm_params \<Rightarrow> alarm_list_dto route" where
  "alarms_list env py repo db q =
     user_route env [(''limit'', between 1 200 (am_limit q))]
       (with_input (rt_repr env) (rt_request env) (alarm_input py q) (\<lambda>(sevs, sts, sources, since).
        let start = (case since of Some t \<Rightarrow> t | None \<Rightarrow> rt_now env - default_window) in
        lift_result (AlarmListFilters sts sevs sources (Some (Aware start)) (am_limit q)) (\<lambda>f.
        lift_result (read_alarms repo f) (\<lambda>(items, n, unacked).
        reply_with (\<lambda>m. \<lparr>av_items = map (alarm_to_dto m) items, av_total = n,
            av_unacknowledged_count = unacked, av_window_since = start, av_server_time = rt_now env\<rparr>)
          (entity_labels (securities_repo (rt_pool env) db) items)))))"

section \<open>The store behind the route\<close>

text \<open>The process-wide repository: built and seeded on first use, replaceable by tests.\<close>

definition alarm_singleton :: "'r \<Rightarrow> 'r option \<Rightarrow> 'r option \<times> 'r" where
  "alarm_singleton seeded cell = (case cell of None \<Rightarrow> (Some seeded, seeded) | Some r \<Rightarrow> (cell, r))"

definition reset_alarm_repo :: "'r option \<Rightarrow> 'r option \<Rightarrow> 'r option" where
  "reset_alarm_repo replacement cell = replacement"

definition in_memory_reads :: "alarm_repo \<Rightarrow> alarm_reads" where
  "in_memory_reads r = \<lparr>ax_list = (\<lambda>f. Inr (repo_list r f)), ax_count = Inr (repo_count_active r)\<rparr>"

lemma truncate_alarm_dto: "alarm.truncate (alarm_to_dto m a) = a"
  by (simp add: alarm_to_dto_def alarm.defs)

lemma read_in_memory:
  "read_alarms (in_memory_reads r) f = Inr (fst (repo_list r f), snd (repo_list r f), repo_count_active r)"
  by (simp add: read_alarms_def in_memory_reads_def split_beta)

lemma AlarmListFilters_InrD:
  "AlarmListFilters sts sevs sources (Some (Aware t)) n = Inr f \<Longrightarrow>
     f = \<lparr>fl_statuses = sts, fl_severities = sevs, fl_sources = sources, fl_since = Some t, fl_limit = nat n\<rparr>"
  by (simp add: AlarmListFilters_def split: if_splits option.splits)

lemma label_of_dto:
  assumes "entity_labels (securities_repo pool db) items = Inr m" "ay_entity_display (alarm_to_dto m a) = Some n"
  shows "\<exists>s. al_entity_id a = Some (se_ticker s) \<and> n = display_name s"
proof (cases "entity_ids items = []")
  case True
  with assms show ?thesis
    by (auto simp: entity_labels_def alarm_to_dto_def alarm.defs label_of_def split: option.splits if_splits)
next
  case False
  with assms(1) have "sp_batch (securities_repo pool db) (entity_ids items) = Inr m" by (simp add: entity_labels_def)
  from either_repo.label_sound [OF this] assms(2) show ?thesis
    by (auto simp: alarm_to_dto_def alarm.defs split: option.splits if_splits)
qed

section \<open>Properties\<close>

text \<open>
  C15: The alarm route serves the top of the filtered store. When \<open>GET /v1/alarms\<close> answers
  200 over the in-memory repository, its rows are exactly the newest stored alarms that pass the
  parsed filters and are not older than the reported window start, at most \<open>limit\<close> of them; the
  total counts all of these, the badge counts every active alarm whatever the filters; and a row
  carries a label only if it is the display name of the security its entity id names.
\<close>

theorem alarms_route_serves_top:
  assumes "alarms_list env py (in_memory_reads r) db q = Inr (Reply n dto)"
    and "alarm_input py q = Inr (sevs, sts, sources, since)"
    and "wanted_alarm = (\<lambda>a. al_status a \<in> sts \<and> (\<forall>S. sevs = Some S \<longrightarrow> al_severity a \<in> S) \<and>
        (\<forall>ss. sources = Some ss \<longrightarrow> al_source a \<in> set ss) \<and> av_window_since dto \<le> al_occurred_at a)"
  shows "n = 200 \<and> (\<exists>p. rt_user env = Inr p) \<and>
    map alarm.truncate (av_items dto) = take (nat (am_limit q)) (sort_desc alarm_key (filter wanted_alarm (rp_alarms r))) \<and>
    av_total dto = length (filter wanted_alarm (rp_alarms r)) \<and>
    av_unacknowledged_count dto = length (filter (\<lambda>a. al_status a = ACTIVE) (rp_alarms r)) \<and>
    av_window_since dto = (case since of Some t \<Rightarrow> t | None \<Rightarrow> av_server_time dto - 24 * 3600 * second) \<and>
    (\<forall>row \<in> set (av_items dto). \<forall>l. ay_entity_display row = Some l \<longrightarrow>
       (\<exists>s. al_entity_id row = Some (se_ticker s) \<and> l = display_name s))"
proof -
  define start where "start = (case since of Some t \<Rightarrow> t | None \<Rightarrow> rt_now env - default_window)"
  from assms(1,2) obtain p f m where u: "rt_user env = Inr p"
    and f: "AlarmListFilters sts sevs sources (Some (Aware start)) (am_limit q) = Inr f"
    and m: "entity_labels (securities_repo (rt_pool env) db) (fst (repo_list r f)) = Inr m"
    and d: "n = 200" "dto = \<lparr>av_items = map (alarm_to_dto m) (fst (repo_list r f)), av_total = snd (repo_list r f),
       av_unacknowledged_count = repo_count_active r, av_window_since = start, av_server_time = rt_now env\<rparr>"
    by (auto simp: alarms_list_def user_route_Reply reply_with_Reply read_in_memory lift_result_def
        start_def Let_def split: sum.splits)
  note f = AlarmListFilters_InrD [OF f]
  have w: "alarm_matches f = wanted_alarm" and lim: "fl_limit f = nat (am_limit q)"
    unfolding assms(3) by (auto simp: f d alarm_matches_def fun_eq_iff split: option.splits)
  have page: "fst (repo_list r f) = take (nat (am_limit q)) (sort_desc alarm_key (filter wanted_alarm (rp_alarms r)))"
    "snd (repo_list r f) = length (filter wanted_alarm (rp_alarms r))"
    by (simp_all add: repo_list_def Let_def w lim)
  have "map alarm.truncate (av_items dto) = fst (repo_list r f)"
    by (simp add: d comp_def truncate_alarm_dto)
  moreover have "\<exists>s. al_entity_id row = Some (se_ticker s) \<and> l = display_name s"
    if row: "row \<in> set (av_items dto)" "ay_entity_display row = Some l" for row l
  proof -
    from row(1) obtain a where a: "row = alarm_to_dto m a" by (auto simp: d)
    then have "al_entity_id row = al_entity_id a" by (simp add: alarm_to_dto_def alarm.defs)
    with label_of_dto [OF m] row(2) show ?thesis unfolding a by simp
  qed
  moreover have "start = (case since of Some t \<Rightarrow> t | None \<Rightarrow> rt_now env - 24 * 3600 * second)"
    by (simp add: start_def default_window_def split: option.splits)
  moreover have "av_server_time dto = rt_now env" "av_window_since dto = start" by (simp_all add: d)
  ultimately show ?thesis using u d page by (simp add: repo_count_active_def split: option.splits)
qed

definition sample_env :: "unit route_env" where
  "sample_env = \<lparr>rt_request = \<lparr>rq_path = ''/v1/alarms'', rq_id = ''r''\<rparr>, rt_pool = None, rt_user = Inr anonymous,
     rt_why = (\<lambda>e. JNull), rt_errs = JStr, rt_repr = id, rt_now = 100 * second\<rparr>"

definition sample_db :: sec_db where
  "sample_db = \<lparr>sd_up = id, sd_list = (\<lambda>q. Inr []), sd_count = (\<lambda>q. Inr None), sd_get = (\<lambda>t. Inr None),
     sd_batch = (\<lambda>ts. Inr []), sd_relations = (\<lambda>q. Inr []), sd_count_relations = (\<lambda>q. Inr None)\<rparr>"

definition sample_params :: "string option \<Rightarrow> alarm_params" where
  "sample_params source = \<lparr>am_limit = 1, am_since = None, am_severity = None, am_status = None, am_source = source\<rparr>"

lemma sample_input: "alarm_input sample_python (sample_params None) = Inr (None, {ACTIVE}, None, None)"
  by (simp add: alarm_input_def sample_params_def parse_severities_def parse_statuses_def parse_since_def parse_csv_def)

theorem alarms_route_serves_top_witness:
  "\<exists>dto. alarms_list sample_env sample_python
       (in_memory_reads (InMemoryAlarmRepository [sample_alarm ''1'' 1, sample_alarm ''2'' 2])) sample_db (sample_params None)
     = Inr (Reply 200 dto) \<and> map alarm.truncate (av_items dto) = [sample_alarm ''2'' 2] \<and> av_total dto = 2"
proof -
  let ?r = "InMemoryAlarmRepository [sample_alarm ''1'' 1, sample_alarm ''2'' 2]"
  let ?start = "100 * second - default_window"
  let ?f = "\<lparr>fl_statuses = {ACTIVE}, fl_severities = None, fl_sources = None, fl_since = Some ?start, fl_limit = Suc 0\<rparr>"
  have s: "sort_desc alarm_key [sample_alarm ''1'' 1, sample_alarm ''2'' 2] = [sample_alarm ''2'' 2, sample_alarm ''1'' 1]"
    by (simp add: sort_desc_def alarm_key_def sample_alarm_def)
  have "filter (alarm_matches ?f) (rp_alarms ?r) = [sample_alarm ''1'' 1, sample_alarm ''2'' 2]"
    by (simp add: InMemoryAlarmRepository_def alarm_matches_def sample_alarm_def default_window_def second_def)
  then have l: "fst (repo_list ?r ?f) = [sample_alarm ''2'' 2]" by (simp add: repo_list_def s)
  have f: "AlarmListFilters {ACTIVE} None None (Some (Aware ?start)) 1 = Inr ?f" by (simp add: AlarmListFilters_def)
  have e: "entity_ids [sample_alarm ''2'' 2] = []"
    by (simp add: entity_ids_def List.map_filter_def sample_alarm_def)
  have env: "rt_user sample_env = Inr anonymous" "rt_now sample_env = 100 * second"
    "between 1 200 (1 :: int)" "am_limit (sample_params None) = 1"
    by (simp_all add: sample_env_def between_def sample_params_def)
  obtain dto where dto: "alarms_list sample_env sample_python (in_memory_reads ?r) sample_db (sample_params None)
      = Inr (Reply 200 dto)" "av_window_since dto = ?start"
    by (simp add: alarms_list_def user_route_def env check_params_def sample_input f read_in_memory l
        entity_labels_def e reply_with_def Let_def)
  show ?thesis
    using alarms_route_serves_top [OF dto(1) sample_input refl] dto
    by (simp add: env InMemoryAlarmRepository_def s)
      (simp add: sample_alarm_def default_window_def second_def s [unfolded sample_alarm_def])
qed

text \<open>
  A long source is a server error. A \<open>source\<close> filter with a token above 64 characters
  among its first twenty passes the parsers and fails in the filter's own check, outside the
  handler of bad input: the route raises, and the operator gets the document of an internal
  error with status 500 instead of a 400, whatever the store holds.
\<close>

lemma long_source_is_server_error:
  assumes "rt_user env = Inr p" and "between 1 200 (am_limit q)"
    and "alarm_input py q = Inr (sevs, sts, Some ss, since)" and "s \<in> set ss" and "64 < length s"
  shows "alarms_list env py repo db q = Inl (Raises ValueError) \<and>
    (\<exists>doc. serve py msg rq (alarms_list env py repo db q) = Inr (ProblemReply doc []) \<and>
       pb_status doc = 500 \<and> pb_type doc = problem_type_internal)"
proof -
  have bad: "\<not> list_all (\<lambda>s. s \<noteq> [] \<and> length s \<le> 64) ss" using assms(4,5) by (auto simp: list_all_iff not_le)
  have "AlarmListFilters sts sevs (Some ss) since' n = Inl ValueError" for since' n
    using bad by (simp add: AlarmListFilters_def)
  then have "alarms_list env py repo db q = Inl (Raises ValueError)"
    using assms(1-3) by (simp add: alarms_list_def user_route_def check_params_def)
  then show ?thesis by (simp add: serve_def is_kis_error_def unhandled_exception_handler_def)
qed

lemma long_source_is_server_error_example:
  "alarms_list sample_env sample_python (in_memory_reads (InMemoryAlarmRepository [])) sample_db
     (sample_params (Some (replicate 65 (CHR ''a'')))) = Inl (Raises ValueError)"
proof -
  have c: "csv_parts (replicate 65 (CHR ''a'')) = [replicate 65 (CHR ''a'')]" by code_simp
  have i: "alarm_input sample_python (sample_params (Some (replicate 65 (CHR ''a''))))
      = Inr (None, {ACTIVE}, Some [replicate 65 (CHR ''a'')], None)"
    by (simp add: alarm_input_def sample_params_def parse_severities_def parse_statuses_def parse_since_def
        parse_csv_def c)
  from long_source_is_server_error [OF _ _ i, of sample_env anonymous "replicate 65 (CHR ''a'')"]
  show ?thesis by (simp add: sample_env_def sample_params_def between_def)
qed

text \<open>
  The two panels agree. Over one audit table and one window, the buckets of the decision
  panel add up to all decisions of the window, their blocked counts to the total of the block
  panel, which is the sum of its reasons, and if every row has one of the three modes the
  decisions that are neither fills, shadow nor idle are the live orders that were not executed.
\<close>

lemma metrics_panels_agree:
  assumes "metrics_decisions env (\<lambda>s. Inr (decisions_query s tab)) minutes = Inr (Reply n d)"
    and "metrics_blocked env (\<lambda>s. Inr (blocked_query s tab)) minutes = Inr (Reply n' b)"
    and "rows = filter (\<lambda>r. rt_now env - minutes * 60 * second \<le> ar_ts r) tab"
  shows "sum_list (map dk_total (dr_buckets d)) = int (length rows) \<and>
    sum_list (map dk_blocked (dr_buckets d)) = bd_total_blocked b \<and>
    bd_total_blocked b = int (length (filter (\<lambda>r. ar_blocked_by r \<noteq> None) rows)) \<and>
    bd_total_blocked b = sum_list (map br_blocked (bd_reasons b)) \<and>
    ((\<forall>r \<in> set rows. ar_mode r \<in> {''live'', ''shadow'', ''noop''}) \<longrightarrow>
      sum_list (map dk_total (dr_buckets d)) - sum_list (map dk_live (dr_buckets d))
        - sum_list (map dk_shadow (dr_buckets d)) - sum_list (map dk_noop (dr_buckets d))
      = int (length (filter (\<lambda>r. ar_mode r = ''live'' \<and> \<not> ar_executed r) rows)))"
proof -
  let ?since = "rt_now env - minutes * 60 * second"
  from assms(1,2) have d: "dr_buckets d = decisions_query ?since tab"
    and b: "bd_reasons b = blocked_query ?since tab" "bd_total_blocked b = sum_list (map br_blocked (blocked_query ?since tab))"
    by (auto simp: metrics_decisions_def metrics_blocked_def pool_user_route_Reply reply_with_Reply
        aggregate_decisions_def aggregate_blocked_def window_start_def)
  have "filter (\<lambda>r. ?since \<le> ar_ts r \<and> ar_blocked_by r \<noteq> None) tab = filter (\<lambda>r. ar_blocked_by r \<noteq> None) rows"
    by (simp add: assms(3) filter_filter conj_commute)
  then have "bd_total_blocked b = int (length (filter (\<lambda>r. ar_blocked_by r \<noteq> None) rows))"
    by (simp add: b(2) blocked_totals count_rows_def)
  with b decision_totals [OF assms(3)] mode_split [of rows] show ?thesis
    unfolding d by (simp add: count_rows_def)
qed

definition sample_audit :: "time \<Rightarrow> string option \<Rightarrow> audit_row" where
  "sample_audit t guard_id = \<lparr>ar_ts = t, ar_symbol = ''A'', ar_mode = ''noop'', ar_executed = False, ar_intended_action = ''buy'',
     ar_intended_quantity = 0, ar_order_id = None, ar_blocked_by = guard_id, ar_reason = None, ar_signal_action = ''buy'',
     ar_signal_confidence = Fin 1, ar_signal_score = Fin 1, ar_signal_rationale = JList []\<rparr>"

lemma metrics_panels_agree_example:
  "\<exists>d b. metrics_decisions sample_route_env (\<lambda>s. Inr (decisions_query s [sample_audit 5 None, sample_audit 6 (Some ''cooldown'')])) 1
       = Inr (Reply 200 d) \<and>
     metrics_blocked sample_route_env (\<lambda>s. Inr (blocked_query s [sample_audit 5 None, sample_audit 6 (Some ''cooldown'')])) 1
       = Inr (Reply 200 b) \<and>
     sum_list (map dk_total (dr_buckets d)) = 2 \<and> bd_total_blocked b = 1"
proof -
  let ?tab = "[sample_audit 5 None, sample_audit 6 (Some ''cooldown'')]"
  obtain d b where r: "metrics_decisions sample_route_env (\<lambda>s. Inr (decisions_query s ?tab)) 1 = Inr (Reply 200 d)"
    "metrics_blocked sample_route_env (\<lambda>s. Inr (blocked_query s ?tab)) 1 = Inr (Reply 200 b)"
    by (simp add: metrics_decisions_def metrics_blocked_def pool_user_route_def with_pool_def get_pool_def user_route_def
        sample_route_env_def check_params_def between_def reply_with_def aggregate_decisions_def aggregate_blocked_def)
  from metrics_panels_agree [OF r refl] r show ?thesis
    by (simp add: sample_route_env_def sample_audit_def)
qed

end
