(* ===== verification/Account_Routes.thy ===== *)
theory Account_Routes
  imports Ops_Routes Kis_Rest
begin

text \<open>
  The account routes of \<open>src/src/api/v1/router.py\<close>: the balance and the manual order. Neither
  has a dependency on a user in the code, so neither takes one here. The text of an exception is
  the argument \<open>msg\<close>, the eight hexadecimal digits of a mock order id are \<open>uid\<close>, the time stamp
  is \<open>now\<close>.
\<close>

section \<open>Balance\<close>

record holding_dto =
  ho_symbol :: string
  ho_name :: string
  ho_quantity :: int
  ho_avg_price :: float64
  ho_current_price :: int
  ho_eval_amount :: int
  ho_profit_loss :: int
  ho_profit_loss_pct :: float64

record balance_dto =
  ba_cash :: int
  ba_eval_total :: int
  ba_profit_loss :: int
  ba_profit_loss_pct :: float64
  ba_holdings :: "holding_dto list"
  ba_ts :: string

text \<open>The DTO wants text for symbol and name; anything else is a \<open>ValueError\<close>.\<close>

definition holding_to_dto :: "holding_item \<Rightarrow> holding_dto result" where
  "holding_to_dto h = (case (hi_symbol h, hi_name h) of
       (JStr s, JStr n) \<Rightarrow> Inr \<lparr>ho_symbol = s, ho_name = n, ho_quantity = hi_quantity h,
         ho_avg_price = hi_avg_price h, ho_current_price = hi_current_price h,
         ho_eval_amount = hi_eval_amount h, ho_profit_loss = hi_profit_loss h,
         ho_profit_loss_pct = hi_profit_loss_pct h\<rparr>
     | _ \<Rightarrow> Inl ValueError)"

definition mock_balance :: "string \<Rightarrow> balance_dto" where
  "mock_balance now = \<lparr>ba_cash = 10000000, ba_eval_total = 10000000, ba_profit_loss = 0,
     ba_profit_loss_pct = Fin 0, ba_holdings = [], ba_ts = now\<rparr>"

text \<open>The documents the two routes write themselves: no instance, and the default request id.\<close>

definition upstream_problem :: "string \<Rightarrow> string \<Rightarrow> string \<Rightarrow> problem" where
  "upstream_problem title detail rid = \<lparr>pb_type = problem_type_upstream, pb_title = title, pb_status = 503,
     pb_detail = Some detail, pb_instance = None, pb_request_id = rid, pb_errors = None\<rparr>"

definition get_balance ::
    "(py_error \<Rightarrow> string) \<Rightarrow> balance_result result option \<Rightarrow> string \<Rightarrow> balance_dto route" where
  "get_balance msg client now = (case client of
       None \<Rightarrow> Inr (Reply 200 (mock_balance now))
     | Some (Inl e) \<Rightarrow>
         if is_kis_error e then Inr (ProblemReply (upstream_problem ''KIS balance unavailable'' (msg e) ''-'') [])
         else Inl (Raises e)
     | Some (Inr r) \<Rightarrow> reply_with (\<lambda>hs. \<lparr>ba_cash = br_cash r, ba_eval_total = br_eval_total r,
         ba_profit_loss = br_profit_loss r, ba_profit_loss_pct = br_profit_loss_pct r, ba_holdings = hs,
         ba_ts = now\<rparr>) (map_result holding_to_dto (br_holdings r)))"

section \<open>Orders\<close>

text \<open>The body after JSON parsing and type coercion; \<open>OrderRequestDTO\<close> checks its values.\<close>

record order_body =
  ob_symbol :: string
  ob_action :: string
  ob_quantity :: int
  ob_order_type :: string
  ob_price :: int

definition order_checks :: "order_body \<Rightarrow> (string \<times> bool) list" where
  "order_checks b = [(''action'', ob_action b \<in> {''buy'', ''sell''}), (''quantity'', 0 < ob_quantity b),
     (''order_type'', ob_order_type b \<in> {''market'', ''limit''}), (''price'', 0 \<le> ob_price b)]"

record order_response =
  os_order_id :: string
  os_symbol :: string
  os_action :: string
  os_quantity :: int
  os_status :: string
  os_message :: string
  os_ts :: string

definition order_reply :: "order_body \<Rightarrow> string \<Rightarrow> string \<Rightarrow> string \<Rightarrow> string \<Rightarrow> order_response" where
  "order_reply b oid st text now = \<lparr>os_order_id = oid, os_symbol = ob_symbol b, os_action = ob_action b,
     os_quantity = ob_quantity b, os_status = st, os_message = text, os_ts = now\<rparr>"

definition invalid_order :: "string \<Rightarrow> string \<Rightarrow> problem" where
  "invalid_order detail rid = \<lparr>pb_type = problem_type_validation, pb_title = ''Invalid order parameters'',
     pb_status = 422, pb_detail = Some detail, pb_instance = None, pb_request_id = rid, pb_errors = None\<rparr>"

definition order_type_of :: "string \<Rightarrow> order_type" where
  "order_type_of s = (if s = ''limit'' then LimitOrder else MarketOrder)"

text \<open>
  \<open>client\<close> is \<open>place_order\<close> of the client in the application state, if there is one. The first
  component is the calls made to it.
\<close>

type_synonym manual_place = "string \<Rightarrow> action \<Rightarrow> int \<Rightarrow> order_type \<Rightarrow> int \<Rightarrow> order_result result"
type_synonym manual_call = "string \<times> action \<times> int \<times> order_type \<times> int"

definition order_outcome ::
    "(py_error \<Rightarrow> string) \<Rightarrow> request \<Rightarrow> order_body \<Rightarrow> string \<Rightarrow> string \<Rightarrow> order_result result
     \<Rightarrow> order_response route" where
  "order_outcome msg rq b uid now r = (case r of
       Inl e \<Rightarrow>
         if e = ValueError then Inr (ProblemReply (invalid_order (msg e) (rq_id rq)) [])
         else if is_kis_error e then Inr (ProblemReply (upstream_problem ''KIS order unavailable'' (msg e) (rq_id rq)) [])
         else Inl (Raises e)
     | Inr v \<Rightarrow> Inr (Reply 201 (order_reply b
         (case or_order_id v of None \<Rightarrow> ''MOCK-'' @ uid | Some i \<Rightarrow> if i = [] then ''MOCK-'' @ uid else i)
         (if or_success v then ''accepted'' else ''rejected'') (or_message v) now)))"

definition post_order ::
    "(py_error \<Rightarrow> string) \<Rightarrow> (string \<Rightarrow> json) \<Rightarrow> request \<Rightarrow> manual_place option \<Rightarrow> order_body \<Rightarrow> string \<Rightarrow> string
     \<Rightarrow> manual_call list \<times> order_response route" where
  "post_order msg errs rq client b uid now =
     (if \<not> list_all snd (order_checks b)
      then ([], Inl (RequestInvalid (map (\<lambda>(n, ok). errs n) (filter (\<lambda>(n, ok). \<not> ok) (order_checks b)))))
      else case client of
        None \<Rightarrow> ([], Inr (Reply 201 (order_reply b (''MOCK-'' @ uid) ''accepted''
          ''Mock mode: order accepted (no KIS credentials)'' now)))
      | Some place \<Rightarrow> (case action_of_value (ob_action b) of
          Inl e \<Rightarrow> ([], Inl (Raises e))
        | Inr act \<Rightarrow>
            let call = (ob_symbol b, act, ob_quantity b, order_type_of (ob_order_type b), ob_price b)
            in ([call], order_outcome msg rq b uid now
                 (place (ob_symbol b) act (ob_quantity b) (order_type_of (ob_order_type b)) (ob_price b)))))"

section \<open>Properties\<close>

lemma order_checksD:
  assumes "list_all snd (order_checks b)"
  shows "0 < ob_quantity b" "0 \<le> ob_price b" "ob_action b = ''buy'' \<or> ob_action b = ''sell''"
    "ob_order_type b = ''market'' \<or> ob_order_type b = ''limit''"
  using assms by (auto simp: order_checks_def)

lemma post_order_call:
  assumes "list_all snd (order_checks b)"
    and "post_order msg errs rq (Some place) b uid now = (calls, out)"
  obtains act where "act = (if ob_action b = ''buy'' then BUY else SELL)"
    "calls = [(ob_symbol b, act, ob_quantity b, order_type_of (ob_order_type b), ob_price b)]"
    "out = order_outcome msg rq b uid now
       (place (ob_symbol b) act (ob_quantity b) (order_type_of (ob_order_type b)) (ob_price b))"
  using assms order_checksD(3) [OF assms(1)]
  by (auto simp: post_order_def action_of_value_def split: if_splits)

text \<open>
  C13: A manual order is answered by what the broker said. For a valid body and an armed KIS
  client with a token: a limit order without a price is a 422 and nothing is posted; any other
  is posted once, with the symbol and the full quantity of the body, whatever the guards and the
  live-trading switch say; a broker that cannot be reached or refuses the credentials is a 503; a
  JSON object is a 201 that says accepted exactly for a status below 400 and \<open>rt_cd\<close> 0.
\<close>

theorem manual_order_outcomes:
  assumes "list_all snd (order_checks b)" and "truthy (oc_token c)" and "oc_env c \<in> {''paper'', ''live''}"
    and "post_order msg errs rq (Some (kis_place_order fmt post c)) b uid now = (calls, out)"
    and "act = (if ob_action b = ''buy'' then BUY else SELL)" and "typ = order_type_of (ob_order_type b)"
  shows "calls = [(ob_symbol b, act, ob_quantity b, typ, ob_price b)] \<and>
    (if typ = LimitOrder \<and> ob_price b = 0
     then order_request_for c (ob_symbol b) act (ob_quantity b) typ (ob_price b) = Inl ValueError \<and>
       out = Inr (ProblemReply (invalid_order (msg ValueError) (rq_id rq)) [])
     else \<exists>r. order_request_for c (ob_symbol b) act (ob_quantity b) typ (ob_price b) = Inr r \<and>
       rq_pdno r = ob_symbol b \<and> rq_ord_qty r = ob_quantity b \<and> rq_token r = oc_token c \<and>
       (post r \<in> {HttpTimeout, HttpNetworkError} \<longrightarrow>
          out = Inr (ProblemReply (upstream_problem ''KIS order unavailable'' (msg KisUpstreamError) (rq_id rq)) [])) \<and>
       (\<forall>status body. post r = HttpResponse status body \<and> status \<in> {401, 403} \<longrightarrow>
          out = Inr (ProblemReply (upstream_problem ''KIS order unavailable'' (msg KisAuthError) (rq_id rq)) [])) \<and>
       (\<forall>status kvs. post r = HttpResponse status (Inr (JObj kvs)) \<and> status \<notin> {401, 403} \<longrightarrow>
          (\<exists>v. out = Inr (Reply 201 v) \<and> os_quantity v = ob_quantity b \<and>
             os_status v = (if status < 400 \<and> map_of kvs ''rt_cd'' = Some (JStr ''0'') then ''accepted'' else ''rejected''))))"
proof -
  note b = order_checksD [OF assms(1)]
  obtain a where a: "a = act" "calls = [(ob_symbol b, a, ob_quantity b, typ, ob_price b)]"
    "out = order_outcome msg rq b uid now (kis_place_order fmt post c (ob_symbol b) a (ob_quantity b) typ (ob_price b))"
    by (rule post_order_call [OF assms(1,4)]) (simp add: assms(5,6))
  have act: "act \<noteq> HOLD" "act = BUY \<or> act = SELL" by (simp_all add: assms(5))
  show ?thesis
  proof (cases "typ = LimitOrder \<and> ob_price b = 0")
    case True
    with a b act show ?thesis
      by (simp add: order_request_for_def kis_place_order_def order_outcome_def)
  next
    case False
    with b assms(2,3) act obtain r where
      r: "order_request_for c (ob_symbol b) act (ob_quantity b) typ (ob_price b) = Inr r"
      "rq_pdno r = ob_symbol b" "rq_ord_qty r = ob_quantity b" "rq_token r = oc_token c"
      by (auto simp: order_request_for_def tr_id_for_def)
    have place: "kis_place_order fmt post c (ob_symbol b) act (ob_quantity b) typ (ob_price b) =
        (case post r of HttpTimeout \<Rightarrow> Inl KisUpstreamError | HttpNetworkError \<Rightarrow> Inl KisUpstreamError
         | HttpRaises e \<Rightarrow> Inl e | HttpResponse status body \<Rightarrow> parse_order_response fmt status body)"
      by (simp add: kis_place_order_def r(1))
    have "\<exists>v. out = Inr (Reply 201 v) \<and> os_quantity v = ob_quantity b \<and>
        os_status v = (if status < 400 \<and> map_of kvs ''rt_cd'' = Some (JStr ''0'') then ''accepted'' else ''rejected'')"
      if "post r = HttpResponse status (Inr (JObj kvs))" "status \<notin> {401, 403}" for status kvs
      using that a(1,3) place
      by (auto simp: parse_order_response_def order_outcome_def order_reply_def Let_def split: option.splits)
    with False r a place show ?thesis
      by (auto simp: parse_order_response_def order_outcome_def is_kis_error_def)
  qed
qed

definition sample_body :: "int \<Rightarrow> order_body" where
  "sample_body n = \<lparr>ob_symbol = ''005930'', ob_action = ''sell'', ob_quantity = n, ob_order_type = ''market'', ob_price = 0\<rparr>"

theorem manual_order_outcomes_witness:
  "\<exists>v. snd (post_order (\<lambda>e. []) JStr \<lparr>rq_path = ''/v1/order'', rq_id = ''r''\<rparr>
       (Some (kis_place_order (\<lambda>a b c. []) (\<lambda>rq. HttpResponse 200 (Inr (JObj [(''rt_cd'', JStr ''0'')])))
         (KisOrderClient ''live'' ''12345678-01'' (JStr ''t'')))) (sample_body 1000000) ''A1'' ''now'')
     = Inr (Reply 201 v) \<and> os_status v = ''accepted'' \<and> os_quantity v = 1000000"
proof -
  let ?post = "\<lambda>rq. HttpResponse 200 (Inr (JObj [(''rt_cd'', JStr ''0'')]))"
  let ?c = "KisOrderClient ''live'' ''12345678-01'' (JStr ''t'')"
  let ?rq = "\<lparr>rq_path = ''/v1/order'', rq_id = ''r''\<rparr>"
  obtain calls out where o: "post_order (\<lambda>e. []) JStr ?rq (Some (kis_place_order (\<lambda>a b c. []) ?post ?c))
      (sample_body 1000000) ''A1'' ''now'' = (calls, out)" by (cases "post_order (\<lambda>e. []) JStr ?rq
      (Some (kis_place_order (\<lambda>a b c. []) ?post ?c)) (sample_body 1000000) ''A1'' ''now''")
  have b: "list_all snd (order_checks (sample_body 1000000))" "truthy (oc_token ?c)" "oc_env ?c \<in> {''paper'', ''live''}"
    by (simp_all add: order_checks_def sample_body_def KisOrderClient_def)
  from manual_order_outcomes [OF b o refl refl] o show ?thesis
    by (auto simp: sample_body_def order_type_of_def)
qed

text \<open>
  C12: No market data without a principal. When the token check of a request fails, each of
  the thirteen protected routes ends with the same failure, whatever its parameters and whatever
  the repositories hold: a 401 with the \<open>Bearer\<close> challenge, or the server error of the check.
\<close>

theorem no_data_without_principal:
  assumes "rt_user env = Inl f" and "rt_pool env = Some pool"
    and "denied = auth_route_error (rt_why env) f"
  shows "me env = Inl denied \<and> latest_snapshot env es gs db = Inl denied \<and>
    securities_list env db mkt sector search limit = Inl denied \<and>
    securities_relations env db kind w tickers = Inl denied \<and> securities_detail env db ticker = Inl denied \<and>
    ticks_volume env vdb symbols minutes = Inl denied \<and> ticks_tape env tdb symbols limit = Inl denied \<and>
    ticks_snapshot env sdb symbols = Inl denied \<and> ticks_recent env rdb symb limit = Inl denied \<and>
    metrics_decisions env ddb minutes = Inl denied \<and> metrics_blocked env bdb minutes = Inl denied \<and>
    audit_recent env py adb symb limit = Inl denied \<and> alarms_list env py repo db q = Inl denied \<and>
    (f = Http401 \<longrightarrow> (\<exists>doc. serve py msg (rt_request env) (me env)
        = Inr (ProblemReply doc [(''WWW-Authenticate'', ''Bearer'')]) \<and> pb_status doc = 401))"
  using assms(1,2) unfolding assms(3)
  by (simp add: me_def latest_snapshot_def securities_list_def securities_relations_def securities_detail_def
      ticks_volume_def ticks_tape_def ticks_snapshot_def ticks_recent_def metrics_decisions_def metrics_blocked_def
      audit_recent_def alarms_list_def user_route_denied pool_user_route_denied Let_def serve_def
      auth_route_error_def http_exception_handler_def)

theorem no_data_without_principal_witness:
  "latest_snapshot (sample_route_env\<lparr>rt_user := Inl Http401\<rparr>) (Inr []) (Inr []) sample_db
     = Inl (HttpException 401 JNull [(''WWW-Authenticate'', ''Bearer'')])"
proof -
  have u: "rt_user (sample_route_env\<lparr>rt_user := Inl Http401\<rparr>) = Inl Http401"
    "rt_pool (sample_route_env\<lparr>rt_user := Inl Http401\<rparr>) = Some ()"
    "auth_route_error (rt_why (sample_route_env\<lparr>rt_user := Inl Http401\<rparr>)) Http401
      = HttpException 401 JNull [(''WWW-Authenticate'', ''Bearer'')]"
    by (simp_all add: sample_route_env_def auth_route_error_def)
  show ?thesis
    unfolding u(3) [symmetric]
    by (rule no_data_without_principal [OF u(1,2) refl, THEN conjunct2, THEN conjunct1])
qed

end
