(* ===== verification/Universe.thy ===== *)
theory Universe
  imports Us_Publisher Securities
begin

text \<open>
  \<open>src/src/infrastructure/universe_publisher.py\<close>: the securities master as the symbol list of
  a \<open>UsPublisher\<close>. The query (\<open>universe_query\<close>) is the SQL text over the master table.
\<close>

section \<open>Symbols\<close>

definition market_suffix :: "string \<Rightarrow> string option" where
  "market_suffix = [''KRX'' \<mapsto> ''.KS'', ''KOSDAQ'' \<mapsto> ''.KQ'', ''NASDAQ'' \<mapsto> [], ''NYSE'' \<mapsto> []]"

definition resolve_yahoo_symbol :: "string \<Rightarrow> string \<Rightarrow> string option" where
  "resolve_yahoo_symbol ticker mkt = map_option (\<lambda>suffix. ticker @ suffix) (market_suffix mkt)"

type_synonym ticker_row = "string \<times> string"

definition universe_row :: "security_row \<Rightarrow> bool" where
  "universe_row r \<longleftrightarrow> \<not> sr_is_subscribed r \<and> sr_data_source r \<noteq> ''static_master_padding'' \<and>
     sr_market r \<in> {''KRX'', ''KOSDAQ'', ''NASDAQ'', ''NYSE''}"

definition universe_query :: "security_row list \<Rightarrow> ticker_row list" where
  "universe_query tab = map (\<lambda>r. (sr_ticker r, sr_market r)) (sort_key sr_ticker (filter universe_row tab))"

section \<open>The publisher\<close>

record universe_publisher =
  un_exclude :: "string set"
  un_poll_interval :: float64
  un_batch_size :: int
  un_inner :: "us_handle option"
  un_loaded :: nat
  un_excluded :: nat

definition UniversePublisher :: "string set \<Rightarrow> float64 \<Rightarrow> int \<Rightarrow> universe_publisher result" where
  "UniversePublisher exclude interval batch_size =
     (if batch_size < 1 then Inl ValueError
      else if fle interval (Fin 0) then Inl ValueError
      else Inr \<lparr>un_exclude = exclude, un_poll_interval = interval, un_batch_size = batch_size,
                un_inner = None, un_loaded = 0, un_excluded = 0\<rparr>)"

definition universe_running :: "universe_publisher \<Rightarrow> bool" where
  "universe_running u = (case un_inner u of None \<Rightarrow> False | Some h \<Rightarrow> uh_task h = Running)"

text \<open>The loop over the rows: symbols in order, their Yahoo names, and the skipped ones.\<close>

fun load_rows :: "string set \<Rightarrow> ticker_row list \<Rightarrow> string list \<times> (string \<Rightarrow> string option) \<times> nat \<Rightarrow>
     string list \<times> (string \<Rightarrow> string option) \<times> nat" where
  "load_rows ex [] acc = acc"
| "load_rows ex ((ticker, mkt) # rows) (symbols, ymap, skipped) =
     (if ticker \<in> ex then load_rows ex rows (symbols, ymap, Suc skipped)
      else load_rows ex rows (symbols @ [ticker],
        ymap(ticker \<mapsto> ticker @ (case market_suffix mkt of None \<Rightarrow> [] | Some s \<Rightarrow> s)), skipped))"

definition load_tickers ::
    "universe_publisher \<Rightarrow> ticker_row list result
     \<Rightarrow> universe_publisher \<times> (string list \<times> (string \<Rightarrow> string option)) result" where
  "load_tickers u answer = (case answer of
       Inl e \<Rightarrow> (u, if db_error e then Inr ([], Map.empty) else Inl e)
     | Inr rows \<Rightarrow> (case load_rows (un_exclude u) rows ([], Map.empty, 0) of
         (symbols, ymap, skipped) \<Rightarrow> (u\<lparr>un_excluded := skipped\<rparr>, Inr (symbols, ymap))))"

definition universe_start ::
    "universe_publisher \<Rightarrow> ticker_row list result \<Rightarrow> universe_publisher \<times> unit result" where
  "universe_start u answer =
     (if universe_running u then (u, Inr ())
      else case load_tickers u answer of
        (u1, Inl e) \<Rightarrow> (u1, Inl e)
      | (u1, Inr (symbols, ymap)) \<Rightarrow>
          let u2 = u1\<lparr>un_loaded := length symbols\<rparr> in
          if symbols = [] then (u2, Inr ())
          else case UsPublisher symbols (un_batch_size u2) (un_poll_interval u2) [] ymap of
              Inl e \<Rightarrow> (u2, Inl e)
            | Inr p \<Rightarrow> (u2\<lparr>un_inner := Some (us_start \<lparr>uh_publisher = p, uh_task = NoTask,
                uh_client_open = False, uh_owns_client = True\<rparr>)\<rparr>, Inr ()))"

definition universe_stop :: "universe_publisher \<Rightarrow> unit result \<Rightarrow> universe_publisher \<times> unit result" where
  "universe_stop u closed_answer = (case un_inner u of
       None \<Rightarrow> (u, Inr ())
     | Some h \<Rightarrow> (case us_stop h closed_answer of (h', r) \<Rightarrow> (u\<lparr>un_inner := Some h'\<rparr>, r)))"

section \<open>Facts\<close>

lemma load_rows_spec:
  assumes "load_rows ex rows (symbols, ymap, skipped) = (symbols', ymap', skipped')" and "distinct (map fst rows)"
  shows "symbols' = symbols @ filter (\<lambda>t. t \<notin> ex) (map fst rows)"
    and "skipped' = skipped + length (filter (\<lambda>t. t \<in> ex) (map fst rows))"
    and "t \<notin> fst ` set rows \<Longrightarrow> ymap' t = ymap t"
    and "(t, mkt) \<in> set rows \<Longrightarrow> t \<notin> ex \<Longrightarrow> mkt \<in> dom market_suffix \<Longrightarrow> ymap' t = resolve_yahoo_symbol t mkt"
  using assms
proof (induction ex rows "(symbols, ymap, skipped)" arbitrary: symbols ymap skipped rule: load_rows.induct)
  case (2 ex ticker mkt' rows)
  {
    case 1
    with 2 show ?case by (auto split: if_splits)
  next
    case 2
    with "2.hyps" show ?case by (auto split: if_splits)
  next
    case 3
    with "2.hyps" show ?case by (auto split: if_splits)
  next
    case 4
    show ?case
    proof (cases "t = ticker")
      case True
      with 4 have "t \<notin> fst ` set rows" "mkt = mkt'" by (force, force)
      with True 4 "2.hyps"(7) show ?thesis by (auto simp: resolve_yahoo_symbol_def)
    next
      case False
      with 4 "2.hyps" show ?thesis by (auto split: if_splits)
    qed
  }
qed simp_all

lemma keys_universe_query: "map fst (universe_query tab) = map sr_ticker (sort_key sr_ticker (filter universe_row tab))"
  by (simp add: universe_query_def comp_def)

lemma distinct_universe_query: "distinct (map sr_ticker tab) \<Longrightarrow> distinct (map fst (universe_query tab))"
  unfolding keys_universe_query map_sort_key by (simp add: distinct_map_filter)

section \<open>Properties\<close>



end
