(* ===== verification/Ws_Stream.thy ===== *)
theory Ws_Stream
  imports Publishers Security
begin

text \<open>
  The relay to the browsers: \<open>src/src/api/websockets/stream.py\<close>, with the Redis client of
  \<open>infrastructure/redis_pubsub.py\<close> and the audit publisher of
  \<open>infrastructure/audit_publisher.py\<close>. A connection is the list of what the handler does to the
  socket and to its subscription; what the calls answer, and how many messages the relay reads
  before the client leaves, are arguments.
\<close>

section \<open>The Redis client\<close>

text \<open>The global is set before the ping, so a failed ping leaves it set.\<close>

definition init_client :: "'c option \<Rightarrow> 'c result \<Rightarrow> unit result \<Rightarrow> 'c option \<times> 'c result" where
  "init_client cell created ping = (case cell of
       Some c \<Rightarrow> (cell, Inr c)
     | None \<Rightarrow> (case created of
         Inl e \<Rightarrow> (None, Inl e)
       | Inr c \<Rightarrow> (Some c, bind_result ping (\<lambda>_. Inr c))))"

definition close_client :: "'c option \<Rightarrow> unit result \<Rightarrow> 'c option \<times> unit result" where
  "close_client cell closed_answer = (case cell of
       None \<Rightarrow> (None, Inr ())
     | Some c \<Rightarrow> (case closed_answer of Inl e \<Rightarrow> (cell, Inl e) | Inr _ \<Rightarrow> (None, Inr ())))"

definition get_client :: "'c option \<Rightarrow> 'c result" where
  "get_client cell = (case cell of None \<Rightarrow> Inl RuntimeError | Some c \<Rightarrow> Inr c)"

definition audit_publisher ::
    "('e \<Rightarrow> string result) \<Rightarrow> (channel \<Rightarrow> string \<Rightarrow> unit result) \<Rightarrow> 'e \<Rightarrow> unit result" where
  "audit_publisher dumps publish env = bind_result (dumps env) (publish CHANNEL_AUDIT)"

section \<open>Who may connect\<close>

definition ws_principal :: "auth_settings \<Rightarrow> string option \<Rightarrow> principal option" where
  "ws_principal s token =
     (let is_dev = (es_app_env s = ''development'');
          has_entra = (es_tenant_id s \<noteq> [] \<and> es_client_id s \<noteq> []) in
      if is_dev \<and> \<not> has_entra then Some anonymous
      else case token of
          None \<Rightarrow> None
        | Some t \<Rightarrow> if t = [] then None else None)"

section \<open>One connection\<close>

datatype ws_event =
    WsClose int
  | WsAccept
  | WsSubscribe "channel list"
  | WsText string
  | WsUnsubscribe
  | WsPubsubClose

record pubsub_message =
  pm_type :: string
  pm_data :: string

definition disconnected :: py_error where "disconnected = OtherError ''WebSocketDisconnect''"

text \<open>The relay task: it skips what is no message and ends with the first failed send.\<close>

fun forward :: "(string \<Rightarrow> unit result) \<Rightarrow> pubsub_message list \<Rightarrow> ws_event list \<times> unit result" where
  "forward send [] = ([], Inr ())"
| "forward send (m # ms) =
     (if pm_type m \<noteq> ''message'' then forward send ms
      else case send (pm_data m) of
          Inl e \<Rightarrow> ([], if e = disconnected then Inr () else Inl e)
        | Inr _ \<Rightarrow> (case forward send ms of (sent, r) \<Rightarrow> (WsText (pm_data m) # sent, r)))"

text \<open>
  \<open>FIRST_COMPLETED\<close>: the handler goes on to release the subscription when either task ends; the
  outcome of the relay task is not looked at. Failures of the release calls are logged.
\<close>

definition market_stream ::
    "auth_settings \<Rightarrow> string option \<Rightarrow> 'c option \<Rightarrow> unit result \<Rightarrow> (string \<Rightarrow> unit result)
     \<Rightarrow> pubsub_message list \<Rightarrow> nat \<Rightarrow> ws_event list \<times> unit result" where
  "market_stream s token cell subscribed send ms n = (case ws_principal s token of
       None \<Rightarrow> ([WsClose 4401], Inr ())
     | Some p \<Rightarrow> (case bind_result (get_client cell) (\<lambda>c. subscribed) of
         Inl e \<Rightarrow> ([WsAccept], Inl e)
       | Inr _ \<Rightarrow>
           ([WsAccept, WsSubscribe [CHANNEL_TICK, CHANNEL_QUOTE, CHANNEL_ANOMALY]]
            @ fst (forward send (take n ms)) @ [WsUnsubscribe, WsPubsubClose], Inr ())))"

section \<open>Facts\<close>

definition texts_of :: "pubsub_message list \<Rightarrow> ws_event list" where
  "texts_of ms = map (\<lambda>m. WsText (pm_data m)) (filter (\<lambda>m. pm_type m = ''message'') ms)"

lemma forward_prefix:
  "\<exists>rest. texts_of ms = fst (forward send ms) @ rest \<and>
     (rest = [] \<or> (\<exists>m \<in> set ms. pm_type m = ''message'' \<and> send (pm_data m) \<noteq> Inr ()))"
proof (induction ms)
  case (Cons m ms)
  then obtain rest where r: "texts_of ms = fst (forward send ms) @ rest"
    "rest = [] \<or> (\<exists>m \<in> set ms. pm_type m = ''message'' \<and> send (pm_data m) \<noteq> Inr ())" by blast
  then show ?case
    by (cases "send (pm_data m)") (auto simp: texts_of_def split: prod.splits)
qed (simp add: texts_of_def)

section \<open>Properties\<close>

text \<open>
  The stream fails closed. A WebSocket is accepted exactly when the HTTP routes would let a
  request without credentials in, on a development server without Entra settings, and then as
  the anonymous user, whatever token it brings; any other is closed with 4401 and nothing else
  happens to it. An accepted one with a broker gets the messages read for it in order, without
  the acknowledgements, all of them unless a send failed, and its subscription is released last.
\<close>

lemma stream_fails_closed:
  "(ws_principal s token = Some p \<longleftrightarrow>
      snd (get_current_user py j s c None now now' oidc jwks later) = Inr p) \<and>
   (ws_principal s token = None \<longrightarrow> market_stream s token cell sub send ms n = ([WsClose 4401], Inr ())) \<and>
   (ws_principal s token = Some p \<longrightarrow> cell = Some client \<longrightarrow> sub = Inr () \<longrightarrow>
      (\<exists>sent rest. market_stream s token cell sub send ms n =
          ([WsAccept, WsSubscribe [CHANNEL_TICK, CHANNEL_QUOTE, CHANNEL_ANOMALY]] @ sent @ [WsUnsubscribe, WsPubsubClose], Inr ()) \<and>
        texts_of (take n ms) = sent @ rest \<and>
        ((\<forall>m \<in> set ms. send (pm_data m) = Inr ()) \<longrightarrow> rest = [])))"
proof (intro conjI impI)
  show "ws_principal s token = Some p \<longleftrightarrow> snd (get_current_user py j s c None now now' oidc jwks later) = Inr p"
    by (cases token) (auto simp: ws_principal_def get_current_user_def Let_def)
  assume a: "ws_principal s token = Some p" "cell = Some client" "sub = Inr ()"
  obtain rest where r: "texts_of (take n ms) = fst (forward send (take n ms)) @ rest"
    "rest = [] \<or> (\<exists>m \<in> set (take n ms). pm_type m = ''message'' \<and> send (pm_data m) \<noteq> Inr ())"
    using forward_prefix by blast
  then have "(\<forall>m \<in> set ms. send (pm_data m) = Inr ()) \<longrightarrow> rest = []" by (auto dest: in_set_takeD)
  with a r(1) show "\<exists>sent rest. market_stream s token cell sub send ms n =
      ([WsAccept, WsSubscribe [CHANNEL_TICK, CHANNEL_QUOTE, CHANNEL_ANOMALY]] @ sent @ [WsUnsubscribe, WsPubsubClose], Inr ()) \<and>
      texts_of (take n ms) = sent @ rest \<and> ((\<forall>m \<in> set ms. send (pm_data m) = Inr ()) \<longrightarrow> rest = [])"
    by (intro exI [of _ "fst (forward send (take n ms))"] exI [of _ rest])
      (simp add: market_stream_def get_client_def)
qed (simp add: market_stream_def)

lemma stream_fails_closed_example:
  "fst (market_stream \<lparr>es_app_env = ''development'', es_tenant_id = [], es_client_id = [], es_audience = [],
        es_resolved_issuer = []\<rparr> None (Some ()) (Inr ()) (\<lambda>t. Inr ())
      [\<lparr>pm_type = ''subscribe'', pm_data = ''1''\<rparr>, \<lparr>pm_type = ''message'', pm_data = ''tick''\<rparr>] 2)
   = [WsAccept, WsSubscribe [CHANNEL_TICK, CHANNEL_QUOTE, CHANNEL_ANOMALY], WsText ''tick'', WsUnsubscribe, WsPubsubClose]"
proof -
  let ?s = "\<lparr>es_app_env = ''development'', es_tenant_id = [], es_client_id = [], es_audience = [],
        es_resolved_issuer = []\<rparr>"
  have "ws_principal ?s None = Some anonymous" by (simp add: ws_principal_def)
  with stream_fails_closed [where s = ?s and token = None and p = anonymous and cell = "Some ()" and client = "()"
      and sub = "Inr ()" and send = "\<lambda>t. Inr ()" and n = 2
      and ms = "[\<lparr>pm_type = ''subscribe'', pm_data = ''1''\<rparr>, \<lparr>pm_type = ''message'', pm_data = ''tick''\<rparr>]"]
  show ?thesis by (auto simp: texts_of_def)
qed

end
