(* ===== verification/Outbound.thy ===== *)
theory Outbound
  imports Kis_Rest Macro_Agent News Route_Inputs
begin

text \<open>
  The requests the service sends out: the KIS endpoints and credentials
  (\<open>src/src/infrastructure/kis_client.py\<close>, \<open>kis_order_client.py\<close>, \<open>kis_balance_client.py\<close>), the
  language models (\<open>src/src/domain/trading/llm_client.py\<close>) and the news feed
  (\<open>news_provider.py\<close>). A request is its address, headers, body and query parameters;
  \<open>str\<close> of a token that is not a string and \<open>urlencode\<close> are the standard library's.
\<close>

record http_request =
  hr_url :: string
  hr_headers :: "(string \<times> string) list"
  hr_body :: "(string \<times> json) list"
  hr_params :: "(string \<times> string) list"

section \<open>KIS\<close>

text \<open>What the KIS clients read of the settings.\<close>

record kis_config =
  kf_env :: string
  kf_key :: string
  kf_secret :: string
  kf_account :: string

definition kis_rest_base :: "(string \<times> string) list" where
  "kis_rest_base = [(''paper'', ''https://openapivts.koreainvestment.com:29443''),
     (''live'', ''https://openapi.koreainvestment.com:9443'')]"

definition kis_ws_url :: "(string \<times> string) list" where
  "kis_ws_url = [(''paper'', ''ws://ops.koreainvestment.com:31000''), (''live'', ''ws://ops.koreainvestment.com:21000'')]"

definition by_env :: "(string \<times> string) list \<Rightarrow> string \<Rightarrow> string result" where
  "by_env tab env = (case map_of tab env of None \<Rightarrow> Inl KeyError | Some u \<Rightarrow> Inr u)"

definition token_request :: "kis_config \<Rightarrow> http_request result" where
  "token_request k = bind_result (by_env kis_rest_base (kf_env k)) (\<lambda>base.
     Inr \<lparr>hr_url = base @ ''/oauth2/tokenP'', hr_headers = [],
          hr_body = [(''grant_type'', JStr ''client_credentials''), (''appkey'', JStr (kf_key k)),
                     (''appsecret'', JStr (kf_secret k))], hr_params = []\<rparr>)"

definition approval_request :: "kis_config \<Rightarrow> http_request result" where
  "approval_request k = bind_result (by_env kis_rest_base (kf_env k)) (\<lambda>base.
     Inr \<lparr>hr_url = base @ ''/oauth2/Approval'', hr_headers = [],
          hr_body = [(''grant_type'', JStr ''client_credentials''), (''appkey'', JStr (kf_key k)),
                     (''secretkey'', JStr (kf_secret k))], hr_params = []\<rparr>)"

definition socket_request :: "kis_config \<Rightarrow> http_request result" where
  "socket_request k = bind_result (by_env kis_ws_url (kf_env k)) (\<lambda>url.
     Inr \<lparr>hr_url = url, hr_headers = [], hr_body = [], hr_params = []\<rparr>)"

definition kis_headers :: "python \<Rightarrow> kis_config \<Rightarrow> json \<Rightarrow> string \<Rightarrow> (string \<times> string) list" where
  "kis_headers py k token tr_id =
     [(''content-type'', ''application/json; charset=utf-8''), (''authorization'', ''Bearer '' @ j_str py token),
      (''appkey'', kf_key k), (''appsecret'', kf_secret k), (''tr_id'', tr_id), (''custtype'', ''P'')]"

definition order_http :: "python \<Rightarrow> kis_config \<Rightarrow> order_request \<Rightarrow> http_request" where
  "order_http py k rq =
     \<lparr>hr_url = (if rq_paper_host rq then ''https://openapivts.koreainvestment.com:29443''
                else ''https://openapi.koreainvestment.com:9443'') @ ''/uapi/domestic-stock/v1/trading/order-cash'',
      hr_headers = kis_headers py k (rq_token rq) (rq_tr_id rq),
      hr_body = [(''CANO'', JStr (rq_cano rq)), (''ACNT_PRDT_CD'', JStr (rq_acnt_prdt_cd rq)),
                 (''PDNO'', JStr (rq_pdno rq)), (''ORD_DVSN'', JStr (rq_ord_dvsn rq)),
                 (''ORD_QTY'', JStr (nat_text (nat (rq_ord_qty rq)))),
                 (''ORD_UNPR'', JStr (nat_text (nat (rq_ord_unpr rq))))],
      hr_params = []\<rparr>"

text \<open>The balance client, which has its own copy of the account parser.\<close>

definition balance_account :: "string \<Rightarrow> string \<times> string" where
  "balance_account raw =
     (if raw = [] then ([], ''01'')
      else if CHR ''-'' \<in> set raw then
        (case split_max (CHR ''-'') 1 raw of
           cano # prdt # _ \<Rightarrow> (strip cano, if strip prdt = [] then ''01'' else strip prdt)
         | _ \<Rightarrow> (raw, ''01''))
      else
        let rest = dropWhile (\<lambda>c. c = CHR ''0'') (drop 8 raw)
        in (take 8 raw, if rest = [] then ''01'' else rest))"

lemma accounts_agree: "balance_account = parse_account_number"
  by (simp add: fun_eq_iff balance_account_def parse_account_number_def)

record balance_client =
  bc_config :: kis_config
  bc_cano :: string
  bc_acnt_prdt_cd :: string

definition KisBalanceClient :: "kis_config \<Rightarrow> balance_client" where
  "KisBalanceClient k = \<lparr>bc_config = k, bc_cano = fst (balance_account (kf_account k)),
     bc_acnt_prdt_cd = snd (balance_account (kf_account k))\<rparr>"

definition is_paper :: "kis_config \<Rightarrow> bool" where
  "is_paper k \<longleftrightarrow> kf_env k = ''paper''"

definition balance_url :: "kis_config \<Rightarrow> string" where
  "balance_url k = (if is_paper k then ''https://openapivts.koreainvestment.com:29443''
     else ''https://openapi.koreainvestment.com:9443'') @ ''/uapi/domestic-stock/v1/inquire-balance''"

definition balance_tr_id :: "kis_config \<Rightarrow> string" where
  "balance_tr_id k = (if is_paper k then ''VTTC8434R'' else ''TTTC8434R'')"

definition balance_request :: "python \<Rightarrow> balance_client \<Rightarrow> json \<Rightarrow> http_request result" where
  "balance_request py b token =
     (if \<not> truthy token then Inl KisAuthError
      else Inr \<lparr>hr_url = balance_url (bc_config b),
        hr_headers = kis_headers py (bc_config b) token (balance_tr_id (bc_config b)), hr_body = [],
        hr_params = [(''CANO'', bc_cano b), (''ACNT_PRDT_CD'', bc_acnt_prdt_cd b), (''AFHR_FLPR_YN'', ''N''),
          (''OFL_YN'', ''N''), (''INQR_DVSN'', ''02''), (''UNPR_DVSN'', ''01''), (''FUND_STTL_ICLD_YN'', ''N''),
          (''FNCG_AMT_AUTO_RDMT_YN'', ''N''), (''PRCS_DVSN'', ''00''), (''CTX_AREA_FK100'', []),
          (''CTX_AREA_NK100'', [])]\<rparr>)"

text \<open>Every call a KIS client makes, with the token it holds at that time.\<close>

datatype kis_call =
    TokenCall
  | ApprovalCall
  | SocketCall
  | OrderCall string action int order_type int
  | BalanceCall

fun kis_request :: "python \<Rightarrow> kis_config \<Rightarrow> json \<Rightarrow> kis_call \<Rightarrow> http_request result" where
  "kis_request py k token TokenCall = token_request k"
| "kis_request py k token ApprovalCall = approval_request k"
| "kis_request py k token SocketCall = socket_request k"
| "kis_request py k token (OrderCall symb act quantity typ price) =
     bind_result (order_request_for (KisOrderClient (kf_env k) (kf_account k) token) symb act quantity typ price)
       (\<lambda>rq. Inr (order_http py k rq))"
| "kis_request py k token BalanceCall = balance_request py (KisBalanceClient k) token"

section \<open>Language models\<close>

text \<open>\<open>s.rstrip("/")\<close>.\<close>

definition rstrip_slash :: "string \<Rightarrow> string" where
  "rstrip_slash s = rev (dropWhile (\<lambda>c. c = CHR ''/'') (rev s))"

record openai_client =
  oa_api_key :: string
  oa_model :: string
  oa_base_url :: string

definition OpenAIClient :: "string \<Rightarrow> string \<Rightarrow> string \<Rightarrow> openai_client result" where
  "OpenAIClient key model base =
     (if key = [] then Inl ValueError
      else Inr \<lparr>oa_api_key = key, oa_model = model, oa_base_url = rstrip_slash base\<rparr>)"

definition max_output_tokens :: int where "max_output_tokens = 200"

definition openai_request :: "openai_client \<Rightarrow> string \<Rightarrow> http_request" where
  "openai_request c prompt =
     \<lparr>hr_url = oa_base_url c @ ''/chat/completions'',
      hr_headers = [(''authorization'', ''Bearer '' @ oa_api_key c), (''content-type'', ''application/json'')],
      hr_body = [(''model'', JStr (oa_model c)),
                 (''messages'', JList [JObj [(''role'', JStr ''user''), (''content'', JStr prompt)]]),
                 (''response_format'', JObj [(''type'', JStr ''json_object'')]),
                 (''max_tokens'', JInt max_output_tokens), (''temperature'', JFloat (fin (2 / 10)))],
      hr_params = []\<rparr>"

record anthropic_client =
  an_api_key :: string
  an_model :: string
  an_base_url :: string
  an_api_version :: string

definition AnthropicClient :: "string \<Rightarrow> string \<Rightarrow> string \<Rightarrow> string \<Rightarrow> anthropic_client result" where
  "AnthropicClient key model base version =
     (if key = [] then Inl ValueError
      else Inr \<lparr>an_api_key = key, an_model = model, an_base_url = rstrip_slash base, an_api_version = version\<rparr>)"

definition system_prompt :: string where
  "system_prompt =
     ''You are a financial sentiment analyst. Your output is consumed by '' @
     ''automated trading code. Respond with exactly one JSON object on a '' @
     ''single line, of shape '' @
     ''{\"action\": \"buy\" | \"hold\" | \"sell\", \"confidence\": <0.0-1.0>, '' @
     ''\"rationale\": \"<one sentence>\"}. '' @
     ''Do not wrap the JSON in markdown fences. Do not emit anything outside '' @
     ''the JSON object.''"

definition anthropic_request :: "anthropic_client \<Rightarrow> string \<Rightarrow> http_request" where
  "anthropic_request c prompt =
     \<lparr>hr_url = an_base_url c @ ''/messages'',
      hr_headers = [(''x-api-key'', an_api_key c), (''anthropic-version'', an_api_version c),
                    (''content-type'', ''application/json'')],
      hr_body = [(''model'', JStr (an_model c)), (''max_tokens'', JInt max_output_tokens),
                 (''system'', JStr system_prompt),
                 (''messages'', JList [JObj [(''role'', JStr ''user''), (''content'', JStr prompt)]]),
                 (''temperature'', JFloat (fin (2 / 10)))],
      hr_params = []\<rparr>"

section \<open>News\<close>

record rss_provider =
  rs_hl :: string
  rs_gl :: string
  rs_ceid :: string
  rs_base_url :: string

definition GoogleNewsRSSProvider :: "string \<Rightarrow> string \<Rightarrow> string \<Rightarrow> string \<Rightarrow> rss_provider" where
  "GoogleNewsRSSProvider hl gl ceid base = \<lparr>rs_hl = hl, rs_gl = gl, rs_ceid = ceid, rs_base_url = base\<rparr>"

definition rss_build_url :: "((string \<times> string) list \<Rightarrow> string) \<Rightarrow> rss_provider \<Rightarrow> string \<Rightarrow> string" where
  "rss_build_url urlencode p s = rs_base_url p @ ''?'' @
     urlencode [(''q'', query_for_symbol s), (''hl'', rs_hl p), (''gl'', rs_gl p), (''ceid'', rs_ceid p)]"

section \<open>Facts\<close>

lemma starts_with_append [simp]: "starts_with (p @ s) p"
  by (induction p) simp_all

lemma by_env_cases: "by_env [(''paper'', p), (''live'', l)] env = Inr u \<Longrightarrow>
    env = ''paper'' \<and> u = p \<or> env = ''live'' \<and> u = l"
  by (auto simp: by_env_def split: if_splits)

text \<open>The numbers of an order travel as their decimal digits.\<close>

lemma nat_text_digits: "\<forall>c \<in> set (nat_text n). is_digit c"
proof (induction n rule: nat_text.induct)
  case (1 n)
  have d: "is_digit (char_of (48 + k))" if "k < 10" for k :: nat
    using that by (simp add: is_digit_def code_def)
  show ?case
  proof (cases "n < 10")
    case True
    then show ?thesis using d by (simp add: nat_text.simps [of n])
  next
    case False
    with 1 d [of "n mod 10"] show ?thesis by (simp add: nat_text.simps [of n])
  qed
qed

text \<open>The hosts and the mark of a transaction id of an environment.\<close>

definition env_hosts :: "string \<Rightarrow> string list" where
  "env_hosts env = (if env = ''paper''
     then [''https://openapivts.koreainvestment.com:29443'', ''ws://ops.koreainvestment.com:31000'']
     else [''https://openapi.koreainvestment.com:9443'', ''ws://ops.koreainvestment.com:21000''])"

definition env_mark :: "string \<Rightarrow> char" where
  "env_mark env = (if env = ''paper'' then CHR ''V'' else CHR ''T'')"

definition stays_in :: "string \<Rightarrow> http_request \<Rightarrow> bool" where
  "stays_in env rq \<longleftrightarrow> (\<exists>h \<in> set (env_hosts env). starts_with (hr_url rq) h) \<and>
     (case map_of (hr_headers rq) ''tr_id'' of None \<Rightarrow> True | Some tr \<Rightarrow> take 1 tr = [env_mark env])"

lemma tr_id_mark: "tr_id_for env act = Inr tr \<Longrightarrow> env \<in> {''paper'', ''live''} \<and> take 1 tr = [env_mark env]"
  by (auto simp: tr_id_for_def env_mark_def split: if_splits)

section \<open>Properties\<close>

text \<open>
  C28: Paper money stays on paper. In each of the two environments, every request a KIS client
  makes, for a token, an approval key, the socket, an order or the balance, goes to that
  environment's own gateway, and the transaction id of an order or a balance carries that
  environment's mark; an order or a balance is not sent at all without a token.
\<close>

theorem paper_stays_paper:
  assumes "kf_env k \<in> {''paper'', ''live''}" and "kis_request py k token call = Inr rq"
  shows "stays_in (kf_env k) rq \<and>
     (call \<notin> {TokenCall, ApprovalCall, SocketCall} \<longrightarrow>
        truthy token \<and> map_of (hr_headers rq) ''authorization'' = Some (''Bearer '' @ j_str py token) \<and>
        (\<exists>tr. map_of (hr_headers rq) ''tr_id'' = Some tr))"
proof (cases call)
  case TokenCall
  with assms show ?thesis
    by (auto simp: token_request_def kis_rest_base_def stays_in_def env_hosts_def elim!: bind_result_InrE dest!: by_env_cases)
next
  case ApprovalCall
  with assms show ?thesis
    by (auto simp: approval_request_def kis_rest_base_def stays_in_def env_hosts_def elim!: bind_result_InrE
        dest!: by_env_cases)
next
  case SocketCall
  with assms starts_with_append [of _ "[]"] show ?thesis
    by (auto simp: socket_request_def kis_ws_url_def stays_in_def env_hosts_def elim!: bind_result_InrE dest!: by_env_cases)
next
  case (OrderCall s act q ot price)
  with assms(2) obtain r where r:
    "order_request_for (KisOrderClient (kf_env k) (kf_account k) token) s act q ot price = Inr r"
    "rq = order_http py k r" by (auto elim!: bind_result_InrE)
  then have o: "rq_paper_host r \<longleftrightarrow> kf_env k = ''paper''" "tr_id_for (kf_env k) act = Inr (rq_tr_id r)"
    "rq_token r = token" "truthy token"
    by (auto simp: order_request_for_def KisOrderClient_def elim!: bind_result_InrE split: if_splits)
  from tr_id_mark [OF o(2)] o show ?thesis
    unfolding r(2) by (auto simp: order_http_def kis_headers_def stays_in_def env_hosts_def)
next
  case BalanceCall
  with assms show ?thesis
    by (auto simp: balance_request_def KisBalanceClient_def balance_url_def balance_tr_id_def is_paper_def kis_headers_def stays_in_def
        env_hosts_def env_mark_def split: if_splits)
qed

definition paper_config :: kis_config where
  "paper_config = \<lparr>kf_env = ''paper'', kf_key = ''k'', kf_secret = ''s'', kf_account = ''12345678-01''\<rparr>"

definition text_python :: python where
  "text_python = \<lparr>py_loads = (\<lambda>s. Inl ValueError), py_str = (\<lambda>v. []), py_fromisoformat = (\<lambda>s. Inl ValueError),
     py_float_str = (\<lambda>s. Inl ValueError)\<rparr>"

theorem paper_stays_paper_witness:
  "\<exists>rq. kis_request text_python paper_config (JStr ''t'') (OrderCall ''005930'' BUY 3 MarketOrder 0) = Inr rq \<and>
     stays_in ''paper'' rq \<and> map_of (hr_headers rq) ''authorization'' = Some ''Bearer t'' \<and>
     map_of (hr_body rq) ''ORD_QTY'' = Some (JStr ''3'')"
proof -
  have n: "nat_text 3 = ''3''" by code_simp
  obtain rq where r: "kis_request text_python paper_config (JStr ''t'') (OrderCall ''005930'' BUY 3 MarketOrder 0) = Inr rq"
    "map_of (hr_body rq) ''ORD_QTY'' = Some (JStr ''3'')"
    by (simp add: paper_config_def order_request_for_def KisOrderClient_def tr_id_for_def order_http_def n)
  have "kf_env paper_config \<in> {''paper'', ''live''}" by (simp add: paper_config_def)
  from paper_stays_paper [OF this r(1)] r show ?thesis
    by (auto simp: j_str_def paper_config_def)
qed

end
