(* ===== verification/Application.thy ===== *)
theory Application
  imports Interleaving Quant_Agent Macro_Agent News Account_Routes Universe Ws_Stream
begin

text \<open>
  The wiring: the settings of \<open>src/src/core/config.py\<close> that the components read, and
  \<open>src/src/main.py\<close>, which builds the trading pipeline from them, starts the long-lived parts in
  order and stops them in order. The news source of a provider stack, the call of an LLM client
  and what each start and stop call answers are arguments.
\<close>

section \<open>Settings\<close>

record settings =
  st_app_env :: string
  st_log_level :: string
  st_cors_origins :: string
  st_database_url :: string
  st_redis_url :: string
  st_kis_app_key :: string
  st_kis_app_secret :: string
  st_kis_account_number :: string
  st_kis_env :: string
  st_kis_subscribe_symbols :: string
  st_us_enabled :: bool
  st_us_subscribe_symbols :: string
  st_us_poll_interval :: float64
  st_us_batch_size :: int
  st_us_data_source_url :: string
  st_extra_enabled :: bool
  st_extra_poll_interval :: float64
  st_extra_batch_size :: int
  st_krx_enabled :: bool
  st_krx_poll_interval :: float64
  st_krx_batch_size :: int
  st_krx_symbol_suffix :: string
  st_universe_enabled :: bool
  st_universe_poll_interval :: float64
  st_universe_batch_size :: int
  st_allow_live_orders :: bool
  st_default_order_quantity :: int
  st_position_sizer :: string
  st_min_order_quantity :: int
  st_max_order_quantity :: int
  st_min_order_confidence :: float64
  st_llm_provider :: string
  st_llm_api_key :: string
  st_llm_model :: string
  st_news_provider :: string
  st_news_cache_ttl :: time
  st_news_locales :: string
  st_entra_tenant_id :: string
  st_entra_client_id :: string
  st_entra_audience :: string
  st_entra_issuer :: string

text \<open>The values of a process with no environment but the two required URLs.\<close>

definition default_settings :: "string \<Rightarrow> string \<Rightarrow> settings" where
  "default_settings db redis = \<lparr>st_app_env = ''development'', st_log_level = ''INFO'',
     st_cors_origins = ''http://localhost:5173,http://localhost:3000'', st_database_url = db,
     st_redis_url = redis, st_kis_app_key = [], st_kis_app_secret = [], st_kis_account_number = [],
     st_kis_env = ''paper'',
     st_kis_subscribe_symbols = ''005930,000660,035420,035720,105560,055550,086790,005380,005490,'' @
       ''051910,207940,068270'',
     st_us_enabled = False,
     st_us_subscribe_symbols = ''AAPL,MSFT,NVDA,AVGO,CRM,AMD,INTC,ORCL,GOOGL,META,NFLX,DIS,AMZN,'' @
       ''TSLA,HD,MCD,NKE,LLY,JNJ,UNH,MRK,PFE,JPM,V,MA,BAC,XOM,CVX'',
     st_us_poll_interval = Fin 30, st_us_batch_size = 4,
     st_us_data_source_url = ''https://query1.finance.yahoo.com/v8/finance/chart'',
     st_extra_enabled = False, st_extra_poll_interval = Fin 60, st_extra_batch_size = 4,
     st_krx_enabled = False, st_krx_poll_interval = Fin 60, st_krx_batch_size = 4,
     st_krx_symbol_suffix = ''.KS'', st_universe_enabled = False, st_universe_poll_interval = Fin 60,
     st_universe_batch_size = 10, st_allow_live_orders = False, st_default_order_quantity = 1,
     st_position_sizer = ''fixed'', st_min_order_quantity = 1, st_max_order_quantity = 10,
     st_min_order_confidence = Fin 0, st_llm_provider = ''none'', st_llm_api_key = [], st_llm_model = [],
     st_news_provider = ''none'', st_news_cache_ttl = 600 * second, st_news_locales = ''en'',
     st_entra_tenant_id = [], st_entra_client_id = [], st_entra_audience = [], st_entra_issuer = []\<rparr>"

text \<open>The literal types are checked when the settings are read.\<close>

definition Settings :: "settings \<Rightarrow> settings result" where
  "Settings st =
     (if st_app_env st \<in> {''development'', ''staging'', ''production''} \<and> st_kis_env st \<in> {''paper'', ''live''} \<and>
         st_position_sizer st \<in> {''fixed'', ''linear''} \<and> st_llm_provider st \<in> {''none'', ''openai'', ''anthropic''} \<and>
         st_news_provider st \<in> {''none'', ''google_rss''}
      then Inr st else Inl (OtherError ''ValidationError''))"

definition cors_origin_list :: "settings \<Rightarrow> string list" where
  "cors_origin_list st = csv_parts (st_cors_origins st)"

definition kis_subscribe_symbol_list :: "settings \<Rightarrow> string list" where
  "kis_subscribe_symbol_list st = csv_parts (st_kis_subscribe_symbols st)"

definition us_subscribe_symbol_list :: "settings \<Rightarrow> string list" where
  "us_subscribe_symbol_list st = csv_parts (st_us_subscribe_symbols st)"

definition resolved_entra_issuer :: "settings \<Rightarrow> string" where
  "resolved_entra_issuer st =
     (if st_entra_issuer st \<noteq> [] then st_entra_issuer st
      else if st_entra_tenant_id st \<noteq> []
      then ''https://login.microsoftonline.com/'' @ st_entra_tenant_id st @ ''/v2.0''
      else [])"

text \<open>What the token check reads of the settings.\<close>

definition auth_settings_of :: "settings \<Rightarrow> auth_settings" where
  "auth_settings_of st = \<lparr>es_app_env = st_app_env st, es_tenant_id = st_entra_tenant_id st,
     es_client_id = st_entra_client_id st, es_audience = st_entra_audience st,
     es_resolved_issuer = resolved_entra_issuer st\<rparr>"

section \<open>The trading pipeline\<close>

definition build_sizer :: "settings \<Rightarrow> (trade_signal \<Rightarrow> int result) result" where
  "build_sizer st =
     (if st_position_sizer st = ''linear'' then
        bind_result (ConfidenceLinearSizer (st_min_order_quantity st) (st_max_order_quantity st)
          (st_min_order_confidence st)) (\<lambda>z. Inr (linear_size_for z))
      else bind_result (FixedSizer (st_default_order_quantity st)) (\<lambda>z. Inr (fixed_size_for z)))"

definition noop_place_order :: place_order where
  "noop_place_order symb act quantity = Inr \<lparr>or_success = False, or_order_id = None,
     or_message = ''no broker wired (Sprint 5h placeholder; flip ALLOW_LIVE_ORDERS only after Sprint 5i)''\<rparr>"

definition quant_as_agent :: "quant_agent \<Rightarrow> agent" where
  "quant_as_agent q = \<lparr>ag_id = qa_agent_id q, ag_evaluate = quant_evaluate q\<rparr>"

definition macro_as_agent :: "python \<Rightarrow> macro_agent \<Rightarrow> agent" where
  "macro_as_agent py m = \<lparr>ag_id = ma_agent_id m, ag_evaluate = macro_evaluate py m\<rparr>"

definition build_agents ::
    "python \<Rightarrow> (provider_stack \<Rightarrow> string \<Rightarrow> string list result) \<Rightarrow> (llm_client \<Rightarrow> prompt \<Rightarrow> string result)
     \<Rightarrow> settings \<Rightarrow> coordinator result" where
  "build_agents py news ask st =
     bind_result (TradingCoordinator (fin (3 / 10))) (\<lambda>co0.
     bind_result (QuantAgent 14 (Fin 30) (Fin 70) ''quant.rsi'') (\<lambda>q.
     bind_result (register co0 (quant_as_agent q) (Fin 1)) (\<lambda>co1.
     bind_result (build_news_provider (st_news_provider st) (st_news_cache_ttl st) (st_news_locales st)) (\<lambda>stack.
     bind_result (MacroAgent (case stack of None \<Rightarrow> mock_headlines Map.empty | Some s \<Rightarrow> news s)
         (map_option ask (build_llm_client (st_llm_provider st) (st_llm_api_key st) (st_llm_model st)))
         30 ''macro.llm'') (\<lambda>m.
     register co1 (macro_as_agent py m) (Fin 1))))))"

definition build_guards :: "guard list result" where
  "build_guards =
     bind_result (MaxPositionSizeGuard 1000) (\<lambda>g1.
     bind_result (CoolDownGuard (Fin 60)) (\<lambda>g2.
     bind_result (VolatilityCircuitBreaker (fin (5 / 100)) (fin (3 / 100)) 10) (\<lambda>g3. Inr [g1, g2, g3])))"

definition trading_pipeline ::
    "python \<Rightarrow> (provider_stack \<Rightarrow> string \<Rightarrow> string list result) \<Rightarrow> (llm_client \<Rightarrow> prompt \<Rightarrow> string result)
     \<Rightarrow> settings \<Rightarrow> pipeline result" where
  "trading_pipeline py news ask st =
     bind_result (TickContext 256) (\<lambda>c.
     bind_result (build_agents py news ask st) (\<lambda>co.
     bind_result build_guards (\<lambda>gs.
     bind_result (build_sizer st) (\<lambda>sizer.
     bind_result (OrderExecutor noop_place_order (st_allow_live_orders st) (st_default_order_quantity st) (Some sizer))
       (\<lambda>x. Inr \<lparr>pl_context = c, pl_coordinator = co, pl_guards = gs, pl_executor = x,
          pl_portfolio = empty_portfolio, pl_volatility_window = 10, pl_tick_count = 0,
          pl_executed_count = 0, pl_error_count = 0, pl_audit_failure_count = 0\<rparr>)))))"

section \<open>The Yahoo publishers\<close>

text \<open>Each is built when its switch is on, from its own settings.\<close>

definition wired_us :: "settings \<Rightarrow> us_publisher result" where
  "wired_us st = UsPublisher (us_subscribe_symbol_list st) (st_us_batch_size st) (st_us_poll_interval st) [] Map.empty"

definition wired_extra :: "settings \<Rightarrow> us_publisher result" where
  "wired_extra st = UsPublisher (map fst extra_yahoo_symbols) (st_extra_batch_size st) (st_extra_poll_interval st) []
     (map_of extra_yahoo_symbols)"

definition wired_krx :: "settings \<Rightarrow> us_publisher result" where
  "wired_krx st = UsPublisher (kis_subscribe_symbol_list st) (st_krx_batch_size st) (st_krx_poll_interval st)
     (st_krx_symbol_suffix st) Map.empty"

definition wired_universe :: "settings \<Rightarrow> universe_publisher result" where
  "wired_universe st = UniversePublisher (set (kis_subscribe_symbol_list st)) (st_universe_poll_interval st)
     (st_universe_batch_size st)"

section \<open>Start and stop\<close>

datatype part =
    PoolPart
  | RedisPart
  | PipelinePart
  | WorkerPart
  | SupervisorPart
  | UsPart
  | ExtraPart
  | KrxPart
  | UniversePart

text \<open>The schema check between the pool and the pipeline cannot fail the start.\<close>

definition start_order :: "settings \<Rightarrow> part list" where
  "start_order st = [PoolPart, RedisPart, PipelinePart, WorkerPart, SupervisorPart]
     @ (if st_us_enabled st then [UsPart] else []) @ (if st_extra_enabled st then [ExtraPart] else [])
     @ (if st_krx_enabled st then [KrxPart] else []) @ (if st_universe_enabled st then [UniversePart] else [])"

definition stop_order :: "settings \<Rightarrow> part list" where
  "stop_order st = (if st_us_enabled st then [UsPart] else []) @ (if st_extra_enabled st then [ExtraPart] else [])
     @ (if st_krx_enabled st then [KrxPart] else []) @ (if st_universe_enabled st then [UniversePart] else [])
     @ [SupervisorPart, WorkerPart, RedisPart, PoolPart]"

text \<open>Calls one after the other, up to the first that raises.\<close>

fun run_calls :: "(part \<Rightarrow> unit result) \<Rightarrow> part list \<Rightarrow> part list \<times> unit result" where
  "run_calls f [] = ([], Inr ())"
| "run_calls f (x # xs) = (case f x of
       Inl e \<Rightarrow> ([], Inl e)
     | Inr _ \<Rightarrow> (case run_calls f xs of (did, r) \<Rightarrow> (x # did, r)))"

text \<open>What was started, what was stopped: nothing is stopped after a failed start.\<close>

definition lifespan ::
    "(part \<Rightarrow> unit result) \<Rightarrow> (part \<Rightarrow> unit result) \<Rightarrow> settings \<Rightarrow> part list \<times> part list \<times> unit result" where
  "lifespan start stop st = (case run_calls start (start_order st) of
       (did, Inl e) \<Rightarrow> (did, [], Inl e)
     | (did, Inr _) \<Rightarrow> (case run_calls stop (stop_order st) of (stopped, r) \<Rightarrow> (did, stopped, r)))"

text \<open>The clients of the account routes, set once after the supervisor's start.\<close>

definition armed_client :: "supervisor \<Rightarrow> 'c \<Rightarrow> 'c option" where
  "armed_client sv client = (if sv_kis_client sv = None then None else Some client)"

definition root_reply :: "(string \<times> string) list route" where
  "root_reply = Inr (Reply 200 [(''service'', ''nexus-backend''), (''docs'', ''/docs''), (''health'', ''/v1/health'')])"

section \<open>Facts\<close>

lemma run_calls_prefix:
  "\<exists>rest. xs = fst (run_calls f xs) @ rest \<and> (snd (run_calls f xs) = Inr () \<longleftrightarrow> rest = [])"
proof (induction xs)
  case (Cons x xs)
  then obtain rest where "xs = fst (run_calls f xs) @ rest" "snd (run_calls f xs) = Inr () \<longleftrightarrow> rest = []" by blast
  then show ?case by (cases "f x") (auto split: prod.splits)
qed simp

lemma run_calls_raises:
  "xs = pre @ x # post \<Longrightarrow> \<forall>y \<in> set pre. f y = Inr () \<Longrightarrow> f x = Inl e \<Longrightarrow> run_calls f xs = (pre, Inl e)"
  by (induction pre arbitrary: xs) auto

lemma run_calls_all: "\<forall>x \<in> set xs. f x = Inr () \<Longrightarrow> run_calls f xs = (xs, Inr ())"
  by (induction xs) auto

text \<open>The suffixed Yahoo name of a subscribed Korean symbol, and an extra symbol's own one.\<close>

lemma wired_names:
  assumes "wired_krx st = Inr p"
  shows "yahoo_symbol p s = s @ st_krx_symbol_suffix st" "up_symbols p = kis_subscribe_symbol_list st"
  using assms by (auto simp: wired_krx_def UsPublisher_def yahoo_symbol_def split: if_splits)

lemma extra_yahoo_distinct: "distinct (map fst extra_yahoo_symbols)"
  by code_simp

lemma wired_extra_names:
  assumes "wired_extra st = Inr p" "(s, y) \<in> set extra_yahoo_symbols"
  shows "s \<in> set (up_symbols p)" "yahoo_symbol p s = y"
proof -
  have "up_map p = map_of extra_yahoo_symbols" "up_symbols p = map fst extra_yahoo_symbols"
    using assms(1) by (auto simp: wired_extra_def UsPublisher_def split: if_splits)
  with assms(2) extra_yahoo_distinct show "s \<in> set (up_symbols p)" "yahoo_symbol p s = y"
    by (force simp: yahoo_symbol_def)+
qed

text \<open>A broker that never reports success never fills.\<close>

definition never_fills :: "executor \<Rightarrow> bool" where
  "never_fills x \<longleftrightarrow> (\<forall>s a q r. xr_place_order x s a q = Inr r \<longrightarrow> \<not> or_success r)"

lemma never_fills_apply:
  assumes "never_fills (pl_executor p)" "execute (pl_executor p) g now = (calls, Inr r)"
  shows "apply_fill p r = Inr p"
proof -
  have "\<not> ex_executed r"
    using execute_executed [OF assms(2)] assms(1) unfolding never_fills_def by metis
  then show ?thesis by (simp add: apply_fill_def)
qed

lemma never_fills_settle:
  assumes "never_fills (pl_executor p)" "settle audit p sig ctx now = (p', eff, res)"
  shows "pl_portfolio p' = pl_portfolio p \<and> pl_executed_count p' = pl_executed_count p"
proof (cases "guard_evaluate (pl_guards p) sig ctx")
  case (Inl e)
  with assms(2) show ?thesis by (simp add: settle_def)
next
  case (Inr g)
  obtain calls rr where ex: "execute (pl_executor p) g now = (calls, rr)"
    by (cases "execute (pl_executor p) g now")
  show ?thesis
  proof (cases rr)
    case (Inl e)
    with assms(2) Inr ex show ?thesis by (simp add: settle_def)
  next
    case r: (Inr r)
    from never_fills_apply [OF assms(1) ex [unfolded r]] assms(2) Inr ex r show ?thesis
      by (auto simp: settle_def split: prod.splits dest!: publish_audit_state)
  qed
qed

lemma never_fills_tick:
  assumes "never_fills (pl_executor p)" "on_tick audit p t n1 n2 = (p', eff, res)"
  shows "pl_portfolio p' = pl_portfolio p \<and> pl_executed_count p' = pl_executed_count p \<and>
     pl_executor p' = pl_executor p"
proof -
  obtain q r where q: "process audit (counted p) t n1 n2 = (q, eff, r)"
    "p' = q \<or> p' = q\<lparr>pl_error_count := Suc (pl_error_count q)\<rparr> \<and> \<not> is_ok r"
    using assms(2) by (rule on_tick_process)
  obtain sig where "process audit (counted p) t n1 n2 =
      settle audit (begin_tick (counted p) t) sig (guard_snapshot (begin_tick (counted p) t) (t_symbol t) n1) n2"
    using process_settle by blast
  with q(1) have s: "settle audit (begin_tick (counted p) t) sig
      (guard_snapshot (begin_tick (counted p) t) (t_symbol t) n1) n2 = (q, eff, r)" by simp
  have "never_fills (pl_executor (begin_tick (counted p) t))" using assms(1) by simp
  from never_fills_settle [OF this s] settle_setup [OF s] q(2) show ?thesis
    by (auto simp: same_setup_def)
qed

lemma never_fills_run:
  assumes "never_fills (pl_executor p)" "run_ticks audit p ts = (p', orders)"
  shows "pl_portfolio p' = pl_portfolio p \<and> pl_executed_count p' = pl_executed_count p"
  using assms
proof (induction ts arbitrary: p orders)
  case (Cons x ts)
  obtain t n1 n2 where x: "x = (t, n1, n2)" by (cases x)
  obtain p1 eff res where o: "on_tick audit p t n1 n2 = (p1, eff, res)" by (cases "on_tick audit p t n1 n2")
  obtain p2 os where r: "run_ticks audit p1 ts = (p2, os)" by (cases "run_ticks audit p1 ts")
  from Cons.prems(2) have "p2 = p'" by (simp add: x o r)
  with never_fills_tick [OF Cons.prems(1) o] Cons.IH [of p1 os] Cons.prems(1) r show ?case by simp
qed simp

lemma wired_executor:
  assumes "trading_pipeline py news ask st = Inr p"
  shows "xr_place_order (pl_executor p) = noop_place_order" "xr_allow_live (pl_executor p) = st_allow_live_orders st"
    "pl_portfolio p = empty_portfolio" "pl_executed_count p = 0"
  using assms by (auto simp: trading_pipeline_def OrderExecutor_def elim!: bind_result_InrE)

section \<open>Properties\<close>

text \<open>
  C30: The deployed pipeline never fills. Whatever the settings, the agents' sources and the
  ticks, the pipeline that the application wires keeps its portfolio empty and executes nothing,
  even with live orders allowed: its order client is the placeholder that refuses. With live
  orders disabled it does not even call it. The real order client is reached by the manual
  order route only.
\<close>

theorem wired_pipeline_never_fills:
  assumes "trading_pipeline py news ask st = Inr p" and "run_ticks audit p ts = (p', orders)"
  shows "pl_portfolio p' = empty_portfolio \<and> pl_executed_count p' = 0 \<and> position_of (pl_portfolio p') s = 0 \<and>
     (\<not> st_allow_live_orders st \<longrightarrow> orders = [])"
proof -
  note w = wired_executor [OF assms(1)]
  have "never_fills (pl_executor p)" by (simp add: never_fills_def w(1) noop_place_order_def)
  from never_fills_run [OF this assms(2)] w(3,4)
  have "pl_portfolio p' = empty_portfolio" "pl_executed_count p' = 0" by simp_all
  moreover have "orders = []" if "\<not> st_allow_live_orders st"
    using run_ticks_shadow [OF _ assms(2)] that w(2) by simp
  ultimately show ?thesis by (simp add: position_of_def empty_portfolio_def)
qed

definition sample_settings :: "bool \<Rightarrow> settings" where
  "sample_settings live = (default_settings ''postgres://localhost'' ''redis://localhost'')
     \<lparr>st_us_enabled := True, st_allow_live_orders := live\<rparr>"

lemma sample_wired: "\<exists>p. trading_pipeline py news ask (sample_settings live) = Inr p"
proof -
  have r: "0 \<le> rnd (3 / 10)" "rnd (3 / 10) \<le> 1" using rnd_mono [of 0 "3 / 10"] rnd_mono [of "3 / 10" 1] by simp_all
  have "0 < rnd x" if "1 / 32 \<le> x" for x
  proof -
    have "rnd (pow2 (- 5)) \<le> rnd x" using that by (intro rnd_mono) (simp add: pow2_def)
    moreover have "rnd (pow2 (- 5)) = 1 / 32" using rnd_pow2 [of "- 5"] by (simp add: pow2_def)
    ultimately show ?thesis by simp
  qed
  from this [of "5 / 100"] have "0 < rnd (1 / 20)" by simp
  moreover have "0 < rnd (3 / 100)"
  proof -
    have "rnd (pow2 (- 6)) \<le> rnd (3 / 100)" by (intro rnd_mono) (simp add: pow2_def)
    moreover have "rnd (pow2 (- 6)) = 1 / 64" using rnd_pow2 [of "- 6"] by (simp add: pow2_def)
    ultimately show ?thesis by simp
  qed
  ultimately show ?thesis using r
    by (simp add: trading_pipeline_def build_agents_def build_guards_def build_sizer_def TickContext_def
        TradingCoordinator_def QuantAgent_def register_def build_news_provider_def MacroAgent_def
        MaxPositionSizeGuard_def CoolDownGuard_def VolatilityCircuitBreaker_def FixedSizer_def OrderExecutor_def
        sample_settings_def default_settings_def fin_Fin Let_def lower_def strip_def lstrip_def rstrip_def)
qed

theorem wired_pipeline_never_fills_witness:
  "\<exists>p. trading_pipeline sample_python (\<lambda>s t. Inr []) (\<lambda>c q. Inl OSError) (sample_settings True) = Inr p \<and>
     pl_executed_count (fst (run_ticks None p [(demo_tick, 0, 0)])) = 0"
proof -
  obtain p where p: "trading_pipeline sample_python (\<lambda>s t. Inr []) (\<lambda>c q. Inl OSError) (sample_settings True) = Inr p"
    using sample_wired by blast
  from wired_pipeline_never_fills [OF p surjective_pairing] p show ?thesis by blast
qed

text \<open>
  One crashed publisher stops the shutdown. After a complete start, if every stop call
  answers, everything is stopped, the worker after all publishers and before Redis and the pool.
  But when the poll task of the US publisher has died, its stop raises the task's exception and
  nothing at all is stopped: the worker does not write its buffer and neither Redis nor the pool
  is closed. The same holds from the first failing publisher on, whichever it is.
\<close>

lemma crashed_publisher_stops_shutdown:
  assumes "\<And>x. start x = Inr ()"
  shows "((\<forall>x. stop x = Inr ()) \<longrightarrow> lifespan start stop st = (start_order st, stop_order st, Inr ())) \<and>
    (st_us_enabled st \<longrightarrow> crashed (uh_task h) e \<longrightarrow> stop UsPart = snd (us_stop h closed_answer) \<longrightarrow>
       lifespan start stop st = (start_order st, [], Inl e)) \<and>
    (\<forall>x \<in> set (stop_order st) - {WorkerPart, RedisPart, PoolPart}. \<forall>e. stop x = Inl e \<longrightarrow>
       (\<exists>stopped e'. lifespan start stop st = (start_order st, stopped, Inl e') \<and>
          set stopped \<inter> {WorkerPart, RedisPart, PoolPart} = {}))"
proof (intro conjI impI ballI allI)
  have started: "run_calls start (start_order st) = (start_order st, Inr ())" using assms by (intro run_calls_all) simp
  then have l: "lifespan start stop st = (start_order st, run_calls stop (stop_order st))" by (simp add: lifespan_def)
  show "lifespan start stop st = (start_order st, stop_order st, Inr ())" if "\<forall>x. stop x = Inr ()"
    using that run_calls_all [of "stop_order st" stop] by (simp add: l)
  show "lifespan start stop st = (start_order st, [], Inl e)"
    if "st_us_enabled st" "crashed (uh_task h) e" "stop UsPart = snd (us_stop h closed_answer)"
    using that by (simp add: l stop_order_def us_stop_def crashed_def)
  fix x e
  assume x: "x \<in> set (stop_order st) - {WorkerPart, RedisPart, PoolPart}" "stop x = Inl e"
  define pubs where "pubs = (if st_us_enabled st then [UsPart] else []) @ (if st_extra_enabled st then [ExtraPart] else [])
     @ (if st_krx_enabled st then [KrxPart] else []) @ (if st_universe_enabled st then [UniversePart] else []) @ [SupervisorPart]"
  have o: "stop_order st = pubs @ [WorkerPart, RedisPart, PoolPart]" by (simp add: stop_order_def pubs_def)
  have p: "set pubs \<inter> {WorkerPart, RedisPart, PoolPart} = {}" by (auto simp: pubs_def)
  from x(1) have "x \<in> set pubs" by (auto simp: o)
  then obtain pre y post where s: "pubs = pre @ y # post" "stop y \<noteq> Inr ()" "\<forall>z \<in> set pre. stop z = Inr ()"
    using x(2) split_list_first_prop [of pubs "\<lambda>y. stop y \<noteq> Inr ()"] by (metis sum.distinct(1))
  then obtain e' where "stop y = Inl e'" by (cases "stop y") auto
  with run_calls_raises [of "stop_order st" pre y "post @ [WorkerPart, RedisPart, PoolPart]" stop e'] s
  have "run_calls stop (stop_order st) = (pre, Inl e')" by (simp add: o)
  with p s(1) show "\<exists>stopped e'. lifespan start stop st = (start_order st, stopped, Inl e') \<and>
      set stopped \<inter> {WorkerPart, RedisPart, PoolPart} = {}"
    by (intro exI [of _ pre] exI [of _ e']) (auto simp: l)
qed

definition dead_handle :: us_handle where
  "dead_handle = \<lparr>uh_publisher = \<lparr>up_symbols = [''AAPL''], up_suffix = [], up_map = Map.empty, up_batch_size = 1,
     up_cursor = 0, up_published = 0, up_failures = 0, up_last_volume = Map.empty\<rparr>, uh_task = Ended OverflowError,
     uh_client_open = True, uh_owns_client = True\<rparr>"

lemma crashed_publisher_stops_shutdown_example:
  "lifespan (\<lambda>x. Inr ()) (\<lambda>x. if x = UsPart then snd (us_stop dead_handle (Inr ())) else Inr ()) (sample_settings False)
   = (start_order (sample_settings False), [], Inl OverflowError)"
proof -
  have "st_us_enabled (sample_settings False)" "crashed (uh_task dead_handle) OverflowError"
    by (simp_all add: sample_settings_def default_settings_def dead_handle_def crashed_def)
  with crashed_publisher_stops_shutdown [of "\<lambda>x. Inr ()"
      "\<lambda>x. if x = UsPart then snd (us_stop dead_handle (Inr ())) else Inr ()" "sample_settings False"
      dead_handle OverflowError "Inr ()"]
  show ?thesis by simp
qed

text \<open>
  A failed bring-up pretends to trade. When the KIS bring-up fails at start, also in
  production, the application arms no order client, and the order route answers every valid
  order with 201 accepted although nothing is sent to any broker; after a good bring-up the same
  order is one call to the client.
\<close>

lemma failed_bringup_accepts_orders:
  assumes "list_all snd (order_checks b)" and "key \<noteq> []" "secret \<noteq> []"
    and "bring_up sp (KisClient key secret) bad = (c, Inl e)" "is_kis_error e"
    and "bring_up sp (KisClient key secret) good = (c', Inr ())"
    and "supervisor_start sp (PublisherSupervisor dev key secret symbols) bad = (sv, res)"
    and "supervisor_start sp (PublisherSupervisor dev key secret symbols) good = (sv', res')"
  shows "res = Inr () \<and> (\<exists>v. post_order msg errs rq (armed_client sv place) b uid now = ([], Inr (Reply 201 v)) \<and>
      os_status v = ''accepted'' \<and> os_quantity v = ob_quantity b) \<and>
    res' = Inr () \<and> length (fst (post_order msg errs rq (armed_client sv' place) b uid now)) = 1"
proof -
  have off: "res = Inr ()" "sv_kis_client sv = None"
    using assms(2-5,7) failed_bring_up(2) [OF assms(4)]
    by (auto simp: supervisor_start_def PublisherSupervisor_def has_kis_creds_def try_start_kis_def start_fallback_def
        start_mock_def split: if_splits)
  have on: "res' = Inr ()" "sv_kis_client sv' = Some c'"
    using assms(2,3,6,8) by (auto simp: supervisor_start_def PublisherSupervisor_def has_kis_creds_def try_start_kis_def)
  obtain calls out where c: "post_order msg errs rq (Some place) b uid now = (calls, out)"
    by (cases "post_order msg errs rq (Some place) b uid now")
  then have "length calls = 1" by (rule post_order_call [OF assms(1)]) simp
  with off on c assms(1) show ?thesis
    by (simp add: armed_client_def post_order_def order_reply_def)
qed

definition refused_bringup :: bringup where
  "refused_bringup = sample_bringup\<lparr>bu_token := HttpResponse 403 (Inl ValueError)\<rparr>"

lemma refused_bring_up: "\<exists>c. bring_up no_strptime (KisClient ''a'' ''b'') refused_bringup = (c, Inl KisAuthError)"
  by (simp add: bring_up_def refused_bringup_def sample_bringup_def authenticate_def KisClient_def is_token_valid_def
      http_body_def is_kis_error_def)

lemma failed_bringup_accepts_orders_example:
  "\<exists>sv v. supervisor_start no_strptime (PublisherSupervisor False ''a'' ''b'' []) refused_bringup = (sv, Inr ()) \<and>
     post_order (\<lambda>e. []) JStr \<lparr>rq_path = ''/v1/order'', rq_id = ''r''\<rparr>
       (armed_client sv (\<lambda>s a q t p. Inl KisAuthError)) (sample_body 5) ''A1'' ''now'' = ([], Inr (Reply 201 v)) \<and>
     os_status v = ''accepted''"
proof -
  let ?sv = "PublisherSupervisor False ''a'' ''b'' []"
  obtain sv res where s: "supervisor_start no_strptime ?sv refused_bringup = (sv, res)"
    by (cases "supervisor_start no_strptime ?sv refused_bringup")
  obtain sv' res' where s': "supervisor_start no_strptime ?sv sample_bringup = (sv', res')"
    by (cases "supervisor_start no_strptime ?sv sample_bringup")
  obtain c where c: "bring_up no_strptime (KisClient ''a'' ''b'') refused_bringup = (c, Inl KisAuthError)"
    using refused_bring_up by blast
  have b: "list_all snd (order_checks (sample_body 5))" "is_kis_error KisAuthError" "''a'' \<noteq> []" "''b'' \<noteq> []"
    by (simp_all add: order_checks_def sample_body_def is_kis_error_def)
  from failed_bringup_accepts_orders [OF b(1,3,4) c b(2) sample_bring_up s s'] s show ?thesis by blast
qed

end
