(* ===== verification/Trading_App.thy ===== *)
theory Trading_App
  imports Application Outbound
begin

text \<open>
  The running application of \<open>src/src/main.py\<close>: the supervisor and the order client that the
  lifespan binds to the supervisor's KIS client once, at start. Both refer to one client object;
  \<open>ra_client\<close> is the state of the object the order client refers to.
\<close>

section \<open>The application\<close>

record running_app =
  ra_supervisor :: supervisor
  ra_client :: "kis_client option"

definition app_started :: "(string \<Rightarrow> time result) \<Rightarrow> supervisor \<Rightarrow> bringup \<Rightarrow> running_app" where
  "app_started sp sv b = (let sv' = supervisor_step sp sv (Start b)
     in \<lparr>ra_supervisor = sv', ra_client = sv_kis_client sv'\<rparr>)"

text \<open>
  A step of the supervisor and what it does to the object: as long as the supervisor holds it,
  its state is the supervisor's; when the supervisor lets go of it, it was closed before.
\<close>

fun object_after :: "kis_client option \<Rightarrow> supervisor_op \<Rightarrow> kis_client \<Rightarrow> kis_client" where
  "object_after (Some c') opr c = c'"
| "object_after None (Watch r) c = fst (close c r)"
| "object_after None (Stop r) c = fst (close c r)"
| "object_after None opr c = c"

definition app_step :: "(string \<Rightarrow> time result) \<Rightarrow> running_app \<Rightarrow> supervisor_op \<Rightarrow> running_app" where
  "app_step sp a opr = (let sv = ra_supervisor a; sv' = supervisor_step sp sv opr in
     \<lparr>ra_supervisor = sv',
      ra_client = (if sv_kis_client sv = None then ra_client a
                   else map_option (object_after (sv_kis_client sv') opr) (ra_client a))\<rparr>)"

abbreviation app_steps :: "(string \<Rightarrow> time result) \<Rightarrow> running_app \<Rightarrow> supervisor_op list \<Rightarrow> running_app" where
  "app_steps sp \<equiv> foldl (app_step sp)"

text \<open>What the order route calls: the order client reads the token of its object at each call.\<close>

definition route_client ::
    "(json \<Rightarrow> json \<Rightarrow> json \<Rightarrow> string) \<Rightarrow> (order_request \<Rightarrow> http) \<Rightarrow> kis_config \<Rightarrow> running_app \<Rightarrow> manual_place option" where
  "route_client fmt post k a =
     map_option (\<lambda>c. kis_place_order fmt post (KisOrderClient (kf_env k) (kf_account k) (kc_access_token c))) (ra_client a)"

section \<open>Facts\<close>

definition no_start :: "supervisor_op \<Rightarrow> bool" where
  "no_start opr = (case opr of Start b \<Rightarrow> False | _ \<Rightarrow> True)"

lemma client_not_created:
  assumes "no_start opr" "sv_kis_client s = None"
  shows "sv_kis_client (supervisor_step sp s opr) = None"
proof (cases opr)
  case (Stop r)
  obtain s1 q1 where a: "stop_active (s\<lparr>sv_watchdog := fst (cancel_and_await (sv_watchdog s))\<rparr>) = (s1, q1)"
    by (cases "stop_active (s\<lparr>sv_watchdog := fst (cancel_and_await (sv_watchdog s))\<rparr>)")
  obtain s2 q2 where k: "close_kis_client (s1\<lparr>sv_active := None\<rparr>) r = (s2, q2)"
    by (cases "close_kis_client (s1\<lparr>sv_active := None\<rparr>) r")
  from stop_active_keeps(1) [OF a] close_kis_client_keeps(6) [OF k] assms(2) Stop a k show ?thesis
    by (auto simp: supervisor_stop_def split: prod.splits sum.splits)
next
  case (Watch r)
  then show ?thesis
    using assms(2) failover_result [of s r]
    by (cases rule: watch_round_cases [of s r]) auto
qed (use assms in \<open>auto simp: no_start_def active_refresh_def split: option.splits active_publisher.splits\<close>)

definition tracks :: "running_app \<Rightarrow> bool" where
  "tracks a \<longleftrightarrow> (\<forall>c. sv_kis_client (ra_supervisor a) = Some c \<longrightarrow> ra_client a = Some c)"

lemma tracks_step: "tracks a \<Longrightarrow> no_start opr \<Longrightarrow> tracks (app_step sp a opr)"
  using client_not_created [of opr "ra_supervisor a" sp]
  by (cases "sv_kis_client (ra_supervisor a)") (auto simp: tracks_def app_step_def Let_def)

lemma tracks_steps: "tracks a \<Longrightarrow> list_all no_start oprs \<Longrightarrow> tracks (app_steps sp a oprs)"
  by (induction oprs arbitrary: a) (simp_all add: tracks_step)

lemma app_supervisor: "ra_supervisor (app_steps sp a oprs) = supervisor_steps sp (ra_supervisor a) oprs"
  by (induction oprs arbitrary: a) (simp_all add: app_step_def Let_def)

lemma object_stays:
  "sv_kis_client (ra_supervisor a) = None \<Longrightarrow> list_all no_start oprs \<Longrightarrow> ra_client (app_steps sp a oprs) = ra_client a"
  by (induction oprs arbitrary: a)
    (simp_all add: app_step_def Let_def client_not_created del: supervisor_step.simps)

lemma steady_no_start: "list_all (steady up) oprs \<Longrightarrow> list_all no_start oprs"
  by (induction oprs) (auto simp: steady_def no_start_def split: supervisor_op.splits)

lemma unattended_no_start: "list_all unattended oprs \<Longrightarrow> list_all no_start oprs"
  by (induction oprs) (auto simp: unattended_def no_start_def split: supervisor_op.splits)

section \<open>Properties\<close>

text \<open>
  C24: Failover does not disarm the order route. After the failover the supervisor says it has no
  KIS client and the prices are the mock's, but the order client still refers to the closed client
  object, which keeps its token: every manual order has exactly the outcome, and makes exactly the
  call to the broker, that it would have had before the failover, however long the mock has been running.
\<close>

theorem failover_keeps_orders_armed:
  assumes "key \<noteq> []" "secret \<noteq> []" "bring_up sp (KisClient key secret) b = (c, Inr ())"
    and "list_all (steady True) calm" "list_all (steady False) crashes"
    and "r \<noteq> Inl CancelledError" "list_all unattended after"
    and "before = app_steps sp (app_started sp (PublisherSupervisor dev key secret symbols) b) (calm @ [MainEnds out] @ crashes)"
    and "later = app_steps sp before ([Watch r] @ after)"
  shows "active_kind (ra_supervisor before) = Some KisPub \<and> active_kind (ra_supervisor later) = Some MockPub \<and>
     sv_kis_client (ra_supervisor later) = None \<and>
     (\<exists>c'. ra_client later = Some c' \<and> kc_ws c' = None \<and> kc_state c' = Disconnected) \<and>
     post_order msg errs rq (route_client fmt post k later) body uid now
       = post_order msg errs rq (route_client fmt post k before) body uid now \<and>
     (list_all snd (order_checks body) \<longrightarrow>
        length (fst (post_order msg errs rq (route_client fmt post k later) body uid now)) = 1)"
proof -
  let ?start = "app_started sp (PublisherSupervisor dev key secret symbols) b"
  let ?s = "ra_supervisor before"
  have s: "?s = supervisor_steps sp (PublisherSupervisor dev key secret symbols) ([Start b] @ calm @ [MainEnds out] @ crashes)"
    unfolding assms(8) app_supervisor by (simp add: app_started_def Let_def del: supervisor_step.simps)
  obtain c' where c': "sv_kis_client ?s = Some c'" and kis: "active_kind ?s = Some KisPub" and w: "supervisor_step sp ?s (Watch r) = ?s\<lparr>sv_failover_count := 1,
      sv_kis_client := None, sv_active := Some (ActiveMock (mock_start MockPublisher)), sv_watchdog := Returned\<rparr>"
    by (rule failover_run [OF assms(1-6) s])
  have "tracks ?start" by (simp add: tracks_def app_started_def Let_def)
  with assms(4,5) have "tracks before"
    unfolding assms(8) by (intro tracks_steps) (auto simp: steady_no_start no_start_def)
  with c' have obj: "ra_client before = Some c'" by (simp add: tracks_def)
  let ?closed = "c'\<lparr>kc_ws := None, kc_state := Disconnected\<rparr>"
  define mid where "mid = app_step sp before (Watch r)"
  have mid: "sv_kis_client (ra_supervisor mid) = None" "ra_client mid = Some ?closed"
    "ra_supervisor mid = supervisor_step sp ?s (Watch r)"
    using assms(6) by (simp_all add: mid_def app_step_def Let_def w c' obj close_def del: supervisor_step.simps)
  have later: "later = app_steps sp mid after" by (simp add: assms(9) mid_def)
  have cl: "ra_client later = Some ?closed"
    using object_stays [OF mid(1) unattended_no_start [OF assms(7)]] mid(2) by (simp add: later)
  obtain m where m: "ra_supervisor later = ra_supervisor mid\<lparr>sv_active := Some (ActiveMock m)\<rparr>"
    using unattended_run [of "ra_supervisor mid" "mock_start MockPublisher" after sp] assms(7) mid(3) w
    by (auto simp: later app_supervisor simp del: supervisor_step.simps)
  have same: "route_client fmt post k later = route_client fmt post k before"
    by (simp add: route_client_def cl obj)
  have one: "length (fst (post_order msg errs rq (route_client fmt post k later) body uid now)) = 1"
    if "list_all snd (order_checks body)"
  proof -
    obtain place where place: "route_client fmt post k later = Some place" by (simp add: route_client_def cl)
    obtain calls out where call: "post_order msg errs rq (Some place) body uid now = (calls, out)"
      by (cases "post_order msg errs rq (Some place) body uid now")
    then have "length calls = 1" by (rule post_order_call [OF that]) simp
    with place call show ?thesis by simp
  qed
  have "active_kind (ra_supervisor later) = Some MockPub" "sv_kis_client (ra_supervisor later) = None"
    using mid(1) by (simp_all add: m active_kind_def)
  with kis cl same one show ?thesis by simp
qed

theorem failover_keeps_orders_armed_witness:
  "\<exists>a. a = app_steps no_strptime (app_started no_strptime (PublisherSupervisor False ''a'' ''b'' [''005930'']) sample_bringup)
       [MainEnds (Inl RuntimeError), Watch (Inr ())] \<and>
     active_kind (ra_supervisor a) = Some MockPub \<and> sv_kis_client (ra_supervisor a) = None \<and>
     length (fst (post_order (\<lambda>e. []) JStr \<lparr>rq_path = ''/v1/order'', rq_id = ''r''\<rparr>
       (route_client (\<lambda>a b c. []) (\<lambda>rq. HttpTimeout) paper_config a) (sample_body 5) ''A1'' ''now'')) = 1"
proof -
  have b: "list_all snd (order_checks (sample_body 5))" by (simp add: order_checks_def sample_body_def)
  note p = failover_keeps_orders_armed [OF _ _ sample_bring_up _ _ _ _ refl refl, where calm = "[]" and crashes = "[]"
      and r = "Inr ()" and after = "[]" and out = "Inl RuntimeError" and dev = False and symbols = "[''005930'']"
      and body = "sample_body 5" and msg = "\<lambda>e. []" and errs = JStr and rq = "\<lparr>rq_path = ''/v1/order'', rq_id = ''r''\<rparr>"
      and fmt = "\<lambda>a b c. []" and post = "\<lambda>rq. HttpTimeout" and k = paper_config and uid = "''A1''" and now = "''now''"]
  note q = p [THEN conjunct2] and rest = p [THEN conjunct2, THEN conjunct2, THEN conjunct2, THEN conjunct2, THEN conjunct2]
  from q [THEN conjunct1] q [THEN conjunct2, THEN conjunct1] rest b
  show ?thesis by (simp del: supervisor_step.simps)
qed

end
