(* ===== verification/App_Stack.thy ===== *)
theory App_Stack
  imports Application Supervisor Persistence Outbound Logging
begin

text \<open>
  The rest of \<open>src/src/main.py\<close>: the layers around the application and its test factory, the
  parts the lifespan builds from the settings for \<open>Supervisor\<close>, \<open>Persistence\<close> and
  \<open>Outbound\<close>, and the process-wide caches of \<open>core/config.py\<close> and \<open>core/security.py\<close>. The CORS
  middleware is the framework's; the model uses of it that it answers a preflight request
  itself and otherwise passes the request on.
\<close>

section \<open>Layers\<close>

record scope =
  sc_type :: string
  sc_method :: string
  sc_headers :: headers

text \<open>An application runs under the request id of the context variable.\<close>

type_synonym app = "scope \<Rightarrow> string \<Rightarrow> asgi_message list \<times> unit result"

definition request_id_layer :: "string \<Rightarrow> app \<Rightarrow> app" where
  "request_id_layer fresh inner sc var =
     (case request_id_middleware (inner sc) (sc_type sc) (sc_headers sc) fresh var of (sent, r, _) \<Rightarrow> (sent, r))"

definition is_preflight :: "scope \<Rightarrow> bool" where
  "is_preflight sc \<longleftrightarrow> sc_type sc = ''http'' \<and> sc_method sc = ''OPTIONS'' \<and>
     map_of (sc_headers sc) ''origin'' \<noteq> None \<and> map_of (sc_headers sc) ''access-control-request-method'' \<noteq> None"

text \<open>\<open>add_middleware\<close> puts a layer in front of those added before; the first is the outermost.\<close>

definition add_middleware :: "(app \<Rightarrow> app) \<Rightarrow> (app \<Rightarrow> app) list \<Rightarrow> (app \<Rightarrow> app) list" where
  "add_middleware layer stack = layer # stack"

definition build_stack :: "(app \<Rightarrow> app) list \<Rightarrow> app \<Rightarrow> app" where
  "build_stack stack inner = foldr (\<lambda>layer a. layer a) stack inner"

text \<open>The application of the service and the one \<open>create_app\<close> builds for tests.\<close>

definition service_app :: "(app \<Rightarrow> app) \<Rightarrow> string \<Rightarrow> app \<Rightarrow> app" where
  "service_app cors fresh routes =
     build_stack (add_middleware cors (add_middleware (request_id_layer fresh) [])) routes"

definition create_app :: "string \<Rightarrow> app \<Rightarrow> app" where
  "create_app fresh routes = build_stack (add_middleware (request_id_layer fresh) []) routes"

section \<open>Parts built from the settings\<close>

definition wired_supervisor :: "settings \<Rightarrow> supervisor" where
  "wired_supervisor st = PublisherSupervisor (st_app_env st = ''development'') (st_kis_app_key st)
     (st_kis_app_secret st) (kis_subscribe_symbol_list st)"

definition wired_worker :: "worker result" where
  "wired_worker = PersistenceWorker 500 (5 * second) 5000"

definition kis_config_of :: "settings \<Rightarrow> kis_config" where
  "kis_config_of st = \<lparr>kf_env = st_kis_env st, kf_key = st_kis_app_key st, kf_secret = st_kis_app_secret st,
     kf_account = st_kis_account_number st\<rparr>"

text \<open>A value computed once per process: the first caller's.\<close>

definition cached_once :: "'v option \<Rightarrow> 'v \<Rightarrow> 'v option \<times> 'v" where
  "cached_once cell fresh = (case cell of None \<Rightarrow> (Some fresh, fresh) | Some v \<Rightarrow> (cell, v))"

section \<open>Facts\<close>

definition start_headers :: "asgi_message list \<Rightarrow> headers list" where
  "start_headers ms = concat (map (\<lambda>m. case m of ResponseStart n h \<Rightarrow> [h] | OtherMessage s \<Rightarrow> []) ms)"

lemma echoed_headers:
  "h \<in> set (start_headers (map (with_request_id rid) ms)) \<Longrightarrow>
     filter (\<lambda>(k, v). k = request_id_header) h = [(request_id_header, rid)]"
proof -
  assume "h \<in> set (start_headers (map (with_request_id rid) ms))"
  then obtain m where m: "h \<in> set (case with_request_id rid m of ResponseStart n h \<Rightarrow> [h] | OtherMessage s \<Rightarrow> [])"
    by (auto simp: start_headers_def)
  then obtain n hs where "m = ResponseStart n hs" by (cases m) (auto simp: with_request_id_def)
  with m have "h = filter (\<lambda>(n, v). n \<noteq> request_id_header) hs @ [(request_id_header, rid)]"
    by (simp add: with_request_id_def)
  then show ?thesis by (simp only: count_of_added_id)
qed

lemma request_id_layer_http:
  assumes "sc_type sc = ''http''" "h \<in> set (start_headers (fst (request_id_layer fresh inner sc var)))"
  shows "filter (\<lambda>(k, v). k = request_id_header) h = [(request_id_header, choose_request_id (sc_headers sc) fresh)]"
proof -
  have "fst (request_id_layer fresh inner sc var)
      = map (with_request_id (choose_request_id (sc_headers sc) fresh)) (fst (inner sc (choose_request_id (sc_headers sc) fresh)))"
    using assms(1)
    by (cases "inner sc (choose_request_id (sc_headers sc) fresh)")
      (simp add: request_id_layer_def request_id_middleware_def Let_def)
  with assms(2) show ?thesis by (simp add: echoed_headers)
qed

text \<open>
  The documented behaviour of the CORS layer: a preflight request is answered without the inner
  application, by headers among which there is no request id; on any other request the inner
  application runs and the headers of its responses keep their request ids.
\<close>

definition cors_like :: "(app \<Rightarrow> app) \<Rightarrow> bool" where
  "cors_like cors \<longleftrightarrow> (\<forall>inner sc var.
     (is_preflight sc \<longrightarrow> cors inner sc var = cors (\<lambda>s v. ([], Inr ())) sc var \<and>
        (\<forall>h \<in> set (start_headers (fst (cors inner sc var))). map_of h request_id_header = None)) \<and>
     (\<not> is_preflight sc \<longrightarrow> snd (cors inner sc var) = snd (inner sc var) \<and>
        map (filter (\<lambda>(k, v). k = request_id_header)) (start_headers (fst (cors inner sc var)))
        = map (filter (\<lambda>(k, v). k = request_id_header)) (start_headers (fst (inner sc var)))))"

lemma cors_like_preflight:
  "cors_like cors \<Longrightarrow> is_preflight sc \<Longrightarrow> h \<in> set (start_headers (fst (cors inner sc var))) \<Longrightarrow>
     map_of h request_id_header = None"
  unfolding cors_like_def by blast

lemma cors_like_passes:
  "cors_like cors \<Longrightarrow> \<not> is_preflight sc \<Longrightarrow>
     map (filter (\<lambda>(k, v). k = request_id_header)) (start_headers (fst (cors inner sc var)))
     = map (filter (\<lambda>(k, v). k = request_id_header)) (start_headers (fst (inner sc var)))"
  unfolding cors_like_def by blast

section \<open>Properties\<close>

text \<open>
  The request id is not the outermost layer. Added first, it ends up inside the CORS layer:
  the service's answer to a preflight request has no request id, although every response to
  another request has exactly one, and although the test application, which has no CORS layer,
  answers the same preflight with one.
\<close>

lemma preflight_has_no_request_id:
  assumes "cors_like cors" "sc_type sc = ''http''"
  shows "(is_preflight sc \<longrightarrow>
       (\<forall>h \<in> set (start_headers (fst (service_app cors fresh routes sc var))). map_of h request_id_header = None)) \<and>
     (\<not> is_preflight sc \<longrightarrow>
       (\<forall>h \<in> set (start_headers (fst (service_app cors fresh routes sc var))).
          filter (\<lambda>(k, v). k = request_id_header) h = [(request_id_header, choose_request_id (sc_headers sc) fresh)])) \<and>
     (\<forall>h \<in> set (start_headers (fst (create_app fresh routes sc var))).
        filter (\<lambda>(k, v). k = request_id_header) h = [(request_id_header, choose_request_id (sc_headers sc) fresh)])"
proof -
  have s: "service_app cors fresh routes = cors (request_id_layer fresh routes)"
    "create_app fresh routes = request_id_layer fresh routes"
    by (simp_all add: service_app_def create_app_def build_stack_def add_middleware_def)
  have kept: "filter (\<lambda>(k, v). k = request_id_header) h = [(request_id_header, choose_request_id (sc_headers sc) fresh)]"
    if n: "\<not> is_preflight sc" and h: "h \<in> set (start_headers (fst (cors (request_id_layer fresh routes) sc var)))" for h
  proof -
    let ?f = "filter (\<lambda>(k, v). k = request_id_header)"
    have "?f h \<in> set (map ?f (start_headers (fst (cors (request_id_layer fresh routes) sc var))))" using h by simp
    also have "\<dots> = set (map ?f (start_headers (fst (request_id_layer fresh routes sc var))))"
      by (simp only: cors_like_passes [OF assms(1) n])
    finally obtain h' where "h' \<in> set (start_headers (fst (request_id_layer fresh routes sc var)))" "?f h = ?f h'" by auto
    with request_id_layer_http [OF assms(2)] show ?thesis by metis
  qed
  show ?thesis
    unfolding s
    by (intro conjI impI ballI; (rule cors_like_preflight [OF assms(1)] kept request_id_layer_http [OF assms(2)]; assumption))
qed

definition plain_cors :: "app \<Rightarrow> app" where
  "plain_cors inner sc var = (if is_preflight sc
     then ([ResponseStart 200 [(''access-control-allow-origin'', ''*'')]], Inr ()) else inner sc var)"

definition preflight_scope :: scope where
  "preflight_scope = \<lparr>sc_type = ''http'', sc_method = ''OPTIONS'',
     sc_headers = [(''origin'', ''http://a''), (''access-control-request-method'', ''POST''), (''x-request-id'', ''r7'')]\<rparr>"

lemma preflight_has_no_request_id_example:
  "let routes = (\<lambda>sc var. ([ResponseStart 405 []], Inr ())) in
   \<exists>h h'. start_headers (fst (service_app plain_cors ''f'' routes preflight_scope [])) = [h] \<and>
     map_of h request_id_header = None \<and>
     start_headers (fst (create_app ''f'' routes preflight_scope [])) = [h'] \<and> (request_id_header, ''r7'') \<in> set h'"
proof -
  let ?routes = "(\<lambda>sc var. ([ResponseStart 405 []], Inr ())) :: app"
  have c: "cors_like plain_cors" by (auto simp: cors_like_def plain_cors_def start_headers_def request_id_header_def)
  have t: "sc_type preflight_scope = ''http''" "is_preflight preflight_scope"
    by (simp_all add: preflight_scope_def is_preflight_def)
  have rid: "choose_request_id (sc_headers preflight_scope) ''f'' = ''r7''" by code_simp
  note p = preflight_has_no_request_id [OF c t(1), of "''f''" ?routes "[]"]
  obtain h where h: "start_headers (fst (service_app plain_cors ''f'' ?routes preflight_scope [])) = [h]"
    by (simp add: service_app_def build_stack_def add_middleware_def plain_cors_def t(2) start_headers_def)
  obtain h' where h': "start_headers (fst (create_app ''f'' ?routes preflight_scope [])) = [h']"
    by (simp add: create_app_def build_stack_def add_middleware_def request_id_layer_def request_id_middleware_def
        t(1) start_headers_def with_request_id_def Let_def)
  have "map_of h request_id_header = None" using p t(2) h by simp
  moreover have "filter (\<lambda>(k, v). k = request_id_header) h' = [(request_id_header, ''r7'')]" using p h' rid by simp
  then have "(request_id_header, ''r7'') \<in> set h'" by (metis (lifting) filter_is_subset list.set_intros(1) subsetD)
  ultimately show ?thesis using h h' by (simp add: Let_def)
qed

end
