(* ===== verification/Migrations.thy ===== *)
theory Migrations
  imports Py_Text "HOL-Library.List_Lexorder" "HOL-Library.Char_ord"
begin

text \<open>
  The scripts that change the schema and load the development data: \<open>src/db/migrate.py\<close> and
  \<open>src/db/seed.py\<close>. The state is the table \<open>schema_version\<close>, absent in a new database; what
  the SQL of a file does to it in its transaction is the argument \<open>script\<close> (an exception leaves
  the state as it was). File names are ordered by code point.
\<close>

section \<open>Discovery\<close>

text \<open>The pattern of a version number: \<open>^(\d+)_.+\.sql$\<close>.\<close>

definition version_of :: "string \<Rightarrow> int option" where
  "version_of name =
     (let digits = takeWhile is_digit name; body = dropWhile is_digit name in
      case body of
        c # rest \<Rightarrow>
          if digits \<noteq> [] \<and> c = CHR ''_'' \<and> 4 < length rest \<and> ends_with rest ''.sql'' \<and> CHR 0x0A \<notin> set rest
          then Some (digits_value digits) else None
      | [] \<Rightarrow> None)"

definition discover :: "string list \<Rightarrow> (int \<times> string) list" where
  "discover names = List.map_filter (\<lambda>n. map_option (\<lambda>v. (v, n)) (version_of n))
     (sort (filter (\<lambda>n. ends_with n ''.sql'') names))"

section \<open>Running\<close>

type_synonym schema_state = "int set option"
type_synonym script = "string \<Rightarrow> schema_state \<Rightarrow> schema_state result"

definition applied_versions :: "schema_state \<Rightarrow> int set" where
  "applied_versions st = (case st of None \<Rightarrow> {} | Some vs \<Rightarrow> vs)"

definition apply_migration :: "script \<Rightarrow> schema_state \<Rightarrow> string \<Rightarrow> schema_state \<times> unit result" where
  "apply_migration script st name = (case script name st of Inl e \<Rightarrow> (st, Inl e) | Inr st' \<Rightarrow> (st', Inr ()))"

fun apply_plan :: "script \<Rightarrow> schema_state \<Rightarrow> (int \<times> string) list \<Rightarrow> schema_state \<times> unit result" where
  "apply_plan script st [] = (st, Inr ())"
| "apply_plan script st ((v, name) # plan) = (case apply_migration script st name of
       (st', Inl e) \<Rightarrow> (st', Inl e)
     | (st', Inr _) \<Rightarrow> apply_plan script st' plan)"

definition migration_plan :: "string list \<Rightarrow> schema_state \<Rightarrow> (int \<times> string) list" where
  "migration_plan names st = filter (\<lambda>(v, n). v \<notin> applied_versions st) (discover names)"

definition run_migrations ::
    "script \<Rightarrow> string list \<Rightarrow> bool \<Rightarrow> schema_state \<Rightarrow> schema_state \<times> int result" where
  "run_migrations script names dry_run st =
     (if discover names = [] then (st, Inr 0)
      else if migration_plan names st = [] then (st, Inr 0)
      else if dry_run then (st, Inr 0)
      else case apply_plan script st (migration_plan names st) of
          (st', Inl e) \<Rightarrow> (st', Inl e)
        | (st', Inr _) \<Rightarrow> (st', Inr 0))"

section \<open>Development data\<close>

definition system_exit :: py_error where "system_exit = OtherError ''SystemExit''"

definition apply_seed ::
    "string \<Rightarrow> string \<Rightarrow> (string \<Rightarrow> 's \<Rightarrow> 's result) \<Rightarrow> 's \<Rightarrow> 's \<times> unit result" where
  "apply_seed app_env sql exec_sql st =
     (if app_env \<noteq> ''development'' then (st, Inl system_exit)
      else if strip sql = [] then (st, Inl system_exit)
      else case exec_sql sql st of Inl e \<Rightarrow> (st, Inl e) | Inr st' \<Rightarrow> (st', Inr ()))"

definition apply_seed_unsafe ::
    "string \<Rightarrow> (string \<Rightarrow> 's \<Rightarrow> 's result) \<Rightarrow> 's \<Rightarrow> 's \<times> unit result" where
  "apply_seed_unsafe sql exec_sql st = (case exec_sql sql st of Inl e \<Rightarrow> (st, Inl e) | Inr st' \<Rightarrow> (st', Inr ()))"

definition seed_main ::
    "bool \<Rightarrow> string option \<Rightarrow> string \<Rightarrow> (string \<Rightarrow> 's \<Rightarrow> 's result) \<Rightarrow> 's \<Rightarrow> 's \<times> int result" where
  "seed_main allow_non_dev file app_env exec_sql st = (case file of
       None \<Rightarrow> (st, Inr 1)
     | Some sql \<Rightarrow> (case (if allow_non_dev then apply_seed_unsafe sql exec_sql st
                        else apply_seed app_env sql exec_sql st) of
         (st', r) \<Rightarrow> (st', bind_result r (\<lambda>_. Inr 0))))"

lemma seed_refused: "app_env \<noteq> ''development'' \<Longrightarrow> fst (seed_main False file app_env exec_sql st) = st"
  by (auto simp: seed_main_def apply_seed_def split: option.splits)

section \<open>Facts\<close>

text \<open>A migration inserts its own version, as the files of \<open>src/db/migrations\<close> do.\<close>

definition records_version :: "script \<Rightarrow> bool" where
  "records_version script \<longleftrightarrow> (\<forall>name v st st'. version_of name = Some v \<longrightarrow> script name st = Inr st' \<longrightarrow>
     applied_versions st' = insert v (applied_versions st))"

lemma discover_version: "(v, n) \<in> set (discover names) \<Longrightarrow> version_of n = Some v"
  by (auto simp: discover_def List.map_filter_def)

lemma apply_plan_spec:
  assumes "records_version script" "\<forall>(v, n) \<in> set plan. version_of n = Some v"
    and "apply_plan script st plan = (st', r)"
  shows "case r of
       Inr _ \<Rightarrow> applied_versions st' = applied_versions st \<union> fst ` set plan
     | Inl e \<Rightarrow> (\<exists>pre v n post. plan = pre @ (v, n) # post \<and>
         applied_versions st' = applied_versions st \<union> fst ` set pre \<and> script n st' = Inl e)"
  using assms(2,3)
proof (induction plan arbitrary: st)
  case (Cons x plan)
  obtain v n where x: "x = (v, n)" by (cases x)
  show ?case
  proof (cases "script n st")
    case (Inl e)
    with Cons.prems have "st' = st" "r = Inl e" by (simp_all add: x apply_migration_def)
    with Inl show ?thesis by (auto simp: x intro!: exI [of _ "[]"])
  next
    case (Inr s1)
    have s1: "applied_versions s1 = insert v (applied_versions st)"
      using assms(1) Inr Cons.prems(1) by (auto simp: records_version_def x)
    from Inr Cons.prems have r: "apply_plan script s1 plan = (st', r)" by (simp add: x apply_migration_def)
    show ?thesis
    proof (cases r)
      case (Inr u)
      with Cons.IH [OF _ r] Cons.prems(1) s1 show ?thesis by (simp add: x)
    next
      case (Inl e)
      with Cons.IH [OF _ r] Cons.prems(1) obtain pre v' n' post where
        "plan = pre @ (v', n') # post" "applied_versions st' = applied_versions s1 \<union> fst ` set pre" "script n' st' = Inl e"
        by auto
      with s1 have "x # plan = ((v, n) # pre) @ (v', n') # post \<and>
        applied_versions st' = applied_versions st \<union> fst ` set ((v, n) # pre) \<and> script n' st' = Inl e"
        by (simp add: x)
      then show ?thesis unfolding Inl sum.case by (intro exI)
    qed
  qed
qed auto

text \<open>Names are ordered as text: without leading zeros ten comes before nine.\<close>

lemma ten_before_nine: "discover [''9_a.sql'', ''10_b.sql''] = [(10, ''10_b.sql''), (9, ''9_a.sql'')]"
  by code_simp

section \<open>Properties\<close>

text \<open>
  C36: A migration run can be repeated and resumed. If every script records its own version, a
  run that returns has applied every discovered version, and the next run, dry or not, changes
  nothing; a run that raises stopped at the failing file: exactly the planned versions before
  it were added, that file left no trace, and the next plan starts with the first version that is
  still missing.
\<close>

theorem migrations_resume:
  assumes "records_version script" and "run_migrations script names False st = (st', r)"
  shows "case r of
       Inr n \<Rightarrow> n = 0 \<and> fst ` set (discover names) \<subseteq> applied_versions st' \<and>
         applied_versions st' = applied_versions st \<union> fst ` set (migration_plan names st) \<and>
         run_migrations script' names dry st' = (st', Inr 0)
     | Inl e \<Rightarrow> (\<exists>pre v name post. migration_plan names st = pre @ (v, name) # post \<and>
         applied_versions st' = applied_versions st \<union> fst ` set pre \<and> script name st' = Inl e \<and>
         migration_plan names st' = filter (\<lambda>(w, n). w \<notin> fst ` set pre) ((v, name) # post))"
proof (cases "migration_plan names st = []")
  case True
  then have "\<forall>x \<in> set (discover names). fst x \<in> applied_versions st"
    by (auto simp: migration_plan_def filter_empty_conv)
  moreover from True assms(2) have "st' = st" "r = Inr 0" by (auto simp: run_migrations_def split: if_splits)
  ultimately show ?thesis using True by (auto simp: run_migrations_def)
next
  case False
  then have "discover names \<noteq> []" by (auto simp: migration_plan_def)
  obtain q where q: "apply_plan script st (migration_plan names st) = (st', q)"
    "r = (case q of Inl e \<Rightarrow> Inl e | Inr _ \<Rightarrow> Inr 0)"
    using assms(2) False \<open>discover names \<noteq> []\<close>
    by (cases "apply_plan script st (migration_plan names st)") (auto simp: run_migrations_def split: sum.splits)
  have wf: "\<forall>(v, n) \<in> set (migration_plan names st). version_of n = Some v"
    by (auto simp: migration_plan_def dest: discover_version)
  note spec = apply_plan_spec [OF assms(1) wf q(1)]
  show ?thesis
  proof (cases q)
    case (Inr u)
    with spec have a: "applied_versions st' = applied_versions st \<union> fst ` set (migration_plan names st)" by simp
    then have all: "fst ` set (discover names) \<subseteq> applied_versions st'" by (force simp: migration_plan_def)
    then have "migration_plan names st' = []" by (auto simp: migration_plan_def filter_empty_conv)
    with a all Inr q(2) show ?thesis by (auto simp: run_migrations_def)
  next
    case (Inl e)
    with spec obtain pre v name post where s: "migration_plan names st = pre @ (v, name) # post"
      "applied_versions st' = applied_versions st \<union> fst ` set pre" "script name st' = Inl e" by auto
    have "migration_plan names st' = filter (\<lambda>(w, n). w \<notin> fst ` set pre) (migration_plan names st)"
      unfolding migration_plan_def s(2) by (auto simp: filter_filter intro!: filter_cong)
    also have "\<dots> = filter (\<lambda>(w, n). w \<notin> fst ` set pre) ((v, name) # post)"
    proof -
      have "filter (\<lambda>(w, n). w \<notin> fst ` set pre) pre = []" by (force simp: filter_empty_conv)
      then show ?thesis by (simp add: s(1))
    qed
    finally have "migration_plan names st = pre @ (v, name) # post \<and>
        applied_versions st' = applied_versions st \<union> fst ` set pre \<and> script name st' = Inl e \<and>
        migration_plan names st' = filter (\<lambda>(w, n). w \<notin> fst ` set pre) ((v, name) # post)"
      using s by (intro conjI)
    moreover have "r = Inl e" using Inl q(2) by simp
    ultimately show ?thesis unfolding \<open>r = Inl e\<close> sum.case by (intro exI)
  qed
qed

definition sample_script :: script where
  "sample_script name st =
     (if name = ''002_b.sql'' then Inl (OtherError ''PostgresError'')
      else case version_of name of None \<Rightarrow> Inr st | Some v \<Rightarrow> Inr (Some (insert v (applied_versions st))))"

theorem migrations_resume_witness:
  "\<exists>st'. run_migrations sample_script [''002_b.sql'', ''001_a.sql'', ''readme.sql''] False None
     = (st', Inl (OtherError ''PostgresError'')) \<and> applied_versions st' = {1}"
proof -
  let ?names = "[''002_b.sql'', ''001_a.sql'', ''readme.sql'']"
  have p: "migration_plan ?names None = [(1, ''001_a.sql''), (2, ''002_b.sql'')]" by code_simp
  have w: "version_of ''001_a.sql'' = Some 1" by code_simp
  have rec: "records_version sample_script"
    by (auto simp: records_version_def sample_script_def applied_versions_def split: if_splits)
  obtain st' r where run: "run_migrations sample_script ?names False None = (st', r)"
    by (cases "run_migrations sample_script ?names False None")
  then have r: "r = Inl (OtherError ''PostgresError'')"
    using p by (auto simp: run_migrations_def apply_migration_def sample_script_def w split: if_splits)
      (auto simp: migration_plan_def)
  from migrations_resume [OF rec run] have "\<exists>pre v name post. [(1, ''001_a.sql''), (2, ''002_b.sql'')] = pre @ (v, name) # post \<and>
      applied_versions st' = fst ` set pre \<and> sample_script name st' = Inl (OtherError ''PostgresError'')"
    unfolding r p by (auto simp: applied_versions_def)
  then have "applied_versions st' = {1}"
    by (auto simp: Cons_eq_append_conv sample_script_def w)
  with run r show ?thesis by blast
qed

end
