(* ===== verification/Seed_Build.thy ===== *)
theory Seed_Build
  imports Route_Inputs "HOL-Library.AList"
begin

text \<open>
  The builder of the seed file, \<open>src/db/build_universe.py\<close>: the index tables (arguments of
  the definitions; those of the source are in \<open>Universe_Tables\<close>) are merged into the existing rows and each market is padded with placeholder
  rows. A row of the seed file has the twelve keys the builders write; text is the UTF-8 bytes of
  the file, and the English name, which another builder copies from a download, is any JSON value.
\<close>

section \<open>Rows\<close>

record seed_row =
  sd_ticker :: string
  sd_name_ko :: "string option"
  sd_name_en :: json
  sd_aliases :: "string list"
  sd_market :: string
  sd_sector :: string
  sd_sector_label :: string
  sd_currency :: string
  sd_shares_outstanding :: "int option"
  sd_market_cap :: "float64 option"
  sd_is_subscribed :: bool
  sd_data_source :: string

record seed_file =
  sf_securities :: "seed_row list"
  sf_relations :: "json list"

text \<open>Ticker, Korean name, English name, sector, label, aliases; ticker, name, sector, label, market.\<close>

type_synonym kr_entry = "string \<times> string \<times> string \<times> string \<times> string \<times> string list"
type_synonym us_entry = "string \<times> string \<times> string \<times> string \<times> string"

record universe_tables =
  ut_kospi :: "kr_entry list"
  ut_kosdaq :: "kr_entry list"
  ut_sp500 :: "us_entry list"
  ut_nasdaq :: "us_entry list"

section \<open>Entries\<close>

fun kr_entry_to_security :: "string \<Rightarrow> kr_entry \<Rightarrow> seed_row" where
  "kr_entry_to_security mkt (ticker, name_ko, name_en, sector, label, aliases) =
     \<lparr>sd_ticker = ticker, sd_name_ko = Some name_ko, sd_name_en = JStr name_en, sd_aliases = aliases,
      sd_market = mkt, sd_sector = sector, sd_sector_label = label, sd_currency = ''KRW'',
      sd_shares_outstanding = None, sd_market_cap = None, sd_is_subscribed = False,
      sd_data_source = ''static_master''\<rparr>"

definition kospi_entry_to_security :: "kr_entry \<Rightarrow> seed_row" where
  "kospi_entry_to_security = kr_entry_to_security ''KRX''"

definition kosdaq_entry_to_security :: "kr_entry \<Rightarrow> seed_row" where
  "kosdaq_entry_to_security = kr_entry_to_security ''KOSDAQ''"

text \<open>\<open>s.split(sep)[0]\<close>.\<close>

fun before_text :: "string \<Rightarrow> string \<Rightarrow> string" where
  "before_text sep [] = []"
| "before_text sep (c # cs) = (if starts_with (c # cs) sep then [] else c # before_text sep cs)"

fun us_entry_to_security :: "us_entry \<Rightarrow> seed_row" where
  "us_entry_to_security (ticker, name_en, sector, label, mkt) =
     \<lparr>sd_ticker = ticker, sd_name_ko = None, sd_name_en = JStr name_en,
      sd_aliases = [ticker, strip (before_text '' Corp'' (before_text '' Inc'' name_en))],
      sd_market = mkt, sd_sector = sector, sd_sector_label = label, sd_currency = ''USD'',
      sd_shares_outstanding = None, sd_market_cap = None, sd_is_subscribed = False,
      sd_data_source = ''static_master''\<rparr>"

section \<open>Padding\<close>

text \<open>\<open>f"{i:03d}"\<close>.\<close>

definition pad3 :: "nat \<Rightarrow> string" where
  "pad3 i = replicate (3 - length (nat_text i)) (CHR ''0'') @ nat_text i"

text \<open>The Korean literals of the source as their UTF-8 bytes.\<close>

definition ko_reserve :: string where "ko_reserve = [CHR 0xEC, CHR 0x98, CHR 0x88, CHR 0xEB, CHR 0xB9, CHR 0x84]"
definition ko_number :: string where "ko_number = [CHR 0xEB, CHR 0xB2, CHR 0x88]"
definition ko_other :: string where "ko_other = [CHR 0xEA, CHR 0xB8, CHR 0xB0, CHR 0xED, CHR 0x83, CHR 0x80]"

definition padding_row ::
    "string \<Rightarrow> string \<Rightarrow> string \<Rightarrow> string \<Rightarrow> string \<Rightarrow> string option \<Rightarrow> nat \<Rightarrow> seed_row" where
  "padding_row pre mkt currency sector label label_ko i =
     \<lparr>sd_ticker = ''PAD_'' @ pre @ ''_'' @ pad3 i,
      sd_name_ko = (case label_ko of None \<Rightarrow> None
        | Some l \<Rightarrow> if l = [] then None else Some (l @ '' '' @ nat_text i @ ko_number @ '' ('' @ ko_reserve @ '')'')),
      sd_name_en = JStr (pre @ '' placeholder '' @ nat_text i), sd_aliases = [], sd_market = mkt,
      sd_sector = sector, sd_sector_label = label, sd_currency = currency, sd_shares_outstanding = None,
      sd_market_cap = None, sd_is_subscribed = False, sd_data_source = ''static_master_padding''\<rparr>"

definition make_padding ::
    "string \<Rightarrow> nat \<Rightarrow> string \<Rightarrow> string \<Rightarrow> string \<Rightarrow> string \<Rightarrow> string option \<Rightarrow> seed_row list" where
  "make_padding pre n mkt currency sector label label_ko =
     map (padding_row pre mkt currency sector label label_ko) [1 ..< n + 1]"

text \<open>\<open>Counter(s["market"] for s in securities if s["data_source"] == "static_master")\<close>.\<close>

definition market_count :: "seed_row list \<Rightarrow> string \<Rightarrow> nat" where
  "market_count secs mkt =
     length (filter (\<lambda>s. sd_data_source s = ''static_master'' \<and> sd_market s = mkt) secs)"

definition all_padding :: "seed_row list \<Rightarrow> seed_row list" where
  "all_padding secs =
     make_padding ''KOSPI'' (200 - market_count secs ''KRX'') ''KRX'' ''KRW'' ''OTHER'' ko_other
       (Some (''KOSPI '' @ ko_reserve))
     @ make_padding ''KOSDAQ'' (150 - market_count secs ''KOSDAQ'') ''KOSDAQ'' ''KRW'' ''OTHER'' ko_other
       (Some (''KOSDAQ '' @ ko_reserve))
     @ make_padding ''SP500'' (500 - (market_count secs ''NASDAQ'' + market_count secs ''NYSE'')) ''NYSE'' ''USD''
       ''OTHER_US'' ''Other US Equity'' None"

section \<open>The build\<close>

definition load_existing_seed :: "seed_file option \<Rightarrow> seed_file" where
  "load_existing_seed file = (case file of None \<Rightarrow> \<lparr>sf_securities = [], sf_relations = []\<rparr> | Some s \<Rightarrow> s)"

text \<open>One loop over a table: rows whose ticker is seen, or is skipped, are not added.\<close>

fun append_new ::
    "('e \<Rightarrow> seed_row) \<Rightarrow> (string \<Rightarrow> bool) \<Rightarrow> 'e list \<Rightarrow> string set \<times> seed_row list \<Rightarrow> string set \<times> seed_row list" where
  "append_new conv skip [] acc = acc"
| "append_new conv skip (e # es) (seen, secs) =
     (if sd_ticker (conv e) \<in> seen \<or> skip (sd_ticker (conv e)) then append_new conv skip es (seen, secs)
      else append_new conv skip es (insert (sd_ticker (conv e)) seen, secs @ [conv e]))"

definition dedup_marker :: "string \<Rightarrow> bool" where
  "dedup_marker t \<longleftrightarrow> ends_with t ''_NQ'' \<or> ends_with t ''_SOFTWARE''"

definition merge_tables :: "universe_tables \<Rightarrow> seed_row list \<Rightarrow> seed_row list" where
  "merge_tables tabs secs = snd
     (append_new us_entry_to_security dedup_marker (ut_nasdaq tabs)
     (append_new us_entry_to_security dedup_marker (ut_sp500 tabs)
     (append_new kosdaq_entry_to_security (\<lambda>t. False) (ut_kosdaq tabs)
     (append_new kospi_entry_to_security (\<lambda>t. False) (ut_kospi tabs)
       (set (map sd_ticker secs), secs)))))"

definition merged_seed :: "universe_tables \<Rightarrow> seed_file option \<Rightarrow> seed_file" where
  "merged_seed tabs file =
     (let seed = load_existing_seed file; secs = merge_tables tabs (sf_securities seed)
      in \<lparr>sf_securities = secs @ all_padding secs, sf_relations = sf_relations seed\<rparr>)"

text \<open>The optional pass over a chart endpoint: whatever goes wrong for a row leaves it as it is.\<close>

definition chart_cap :: "python \<Rightarrow> json \<Rightarrow> float64 option result" where
  "chart_cap py body =
     bind_result (j_item body ''chart'') (\<lambda>chart.
     bind_result (j_item chart ''result'') (\<lambda>res.
     bind_result (j_first res) (\<lambda>hd.
     bind_result (j_item hd ''meta'') (\<lambda>meta.
     bind_result (j_get_or meta ''marketCap'' JNull) (\<lambda>cap.
       if cap = JNull then Inr None else bind_result (j_float py cap) (\<lambda>x. Inr (Some x)))))))"

definition enrich_row :: "python \<Rightarrow> (string \<Rightarrow> json result) \<Rightarrow> seed_row \<Rightarrow> seed_row" where
  "enrich_row py get s =
     (if sd_market_cap s \<noteq> None \<or> sd_data_source s = ''static_master_padding'' then s
      else case bind_result (get (sd_ticker s @ (if sd_market s = ''KRX'' then ''.KS''
               else if sd_market s = ''KOSDAQ'' then ''.KQ'' else []))) (chart_cap py) of
          Inr (Some x) \<Rightarrow> s\<lparr>sd_market_cap := Some x\<rparr>
        | _ \<Rightarrow> s)"

definition build_universe ::
    "python \<Rightarrow> (string \<Rightarrow> json result) option \<Rightarrow> universe_tables \<Rightarrow> seed_file option \<Rightarrow> seed_file" where
  "build_universe py fetch tabs file =
     (let seed = merged_seed tabs file in case fetch of
        None \<Rightarrow> seed
      | Some get \<Rightarrow> seed\<lparr>sf_securities := map (enrich_row py get) (sf_securities seed)\<rparr>)"

text \<open>What the command writes, if it writes at all.\<close>

definition build_main ::
    "python \<Rightarrow> (string \<Rightarrow> json result) option \<Rightarrow> bool \<Rightarrow> universe_tables \<Rightarrow> seed_file option \<Rightarrow> seed_file option \<times> int" where
  "build_main py fetch out tabs file =
     (if out then (Some (build_universe py fetch tabs file), 0) else (file, 0))"

section \<open>Facts\<close>

definition digits_nat :: "string \<Rightarrow> nat" where
  "digits_nat s = foldl (\<lambda>a c. 10 * a + (of_char c - 48)) 0 s"

lemma digits_nat_text: "digits_nat (nat_text n) = n"
proof (induction n rule: nat_text.induct)
  case (1 n)
  have "of_char (char_of (48 + m) :: char) = (48 + m :: nat)" if "m < 10" for m
    using that by (simp add: of_char_of)
  with 1 show ?case
    by (subst nat_text.simps) (auto simp: digits_nat_def)
qed

lemma digits_nat_zeros: "digits_nat (replicate k (CHR ''0'') @ s) = digits_nat s"
  by (induction k) (simp_all add: digits_nat_def)

lemma pad3_inj: "pad3 i = pad3 j \<longleftrightarrow> i = j"
  by (metis digits_nat_text digits_nat_zeros pad3_def)

lemma make_padding_distinct: "distinct (map sd_ticker (make_padding pre n mkt cur sec lab ko))"
  by (simp add: make_padding_def distinct_map inj_on_def padding_row_def pad3_inj del: upt_Suc)

lemma all_padding_rows:
  assumes "r \<in> set (all_padding secs)"
  shows "sd_data_source r = ''static_master_padding''" "\<not> sd_is_subscribed r" "starts_with (sd_ticker r) ''PAD_''"
    "sd_market_cap r = None" "sd_market r \<in> {''KRX'', ''KOSDAQ'', ''NYSE''}"
  using assms by (auto simp: all_padding_def make_padding_def padding_row_def)

lemma make_padding_disjoint:
  assumes "\<And>i j. pre @ ''_'' @ pad3 i \<noteq> pre' @ ''_'' @ pad3 j"
  shows "set (map sd_ticker (make_padding pre n mkt cur sec lab ko)) \<inter>
    set (map sd_ticker (make_padding pre' n' mkt' cur' sec' lab' ko')) = {}"
  using assms by (auto simp: make_padding_def padding_row_def)

lemma all_padding_distinct: "distinct (map sd_ticker (all_padding secs))"
proof -
  note d = make_padding_disjoint [of "''KOSPI''" "''KOSDAQ''"] make_padding_disjoint [of "''KOSPI''" "''SP500''"]
    make_padding_disjoint [of "''KOSDAQ''" "''SP500''"]
  show ?thesis
    unfolding all_padding_def map_append distinct_append set_append Int_Un_distrib Un_empty
    by (intro conjI make_padding_distinct d) simp_all
qed

lemma market_count_append [simp]:
  "market_count (xs @ ys) mkt = market_count xs mkt + market_count ys mkt"
  by (simp add: market_count_def)

lemma market_count_padding [simp]: "market_count (all_padding secs) mkt = 0"
  by (auto simp: market_count_def filter_empty_conv dest: all_padding_rows(1))

lemma all_padding_again: "all_padding (secs @ all_padding secs) = all_padding secs"
  by (simp add: all_padding_def [of "secs @ all_padding secs"]) (simp add: all_padding_def)

text \<open>The rows the tables offer, in the order of the loops.\<close>

definition entries :: "universe_tables \<Rightarrow> seed_row list" where
  "entries tabs = map kospi_entry_to_security (ut_kospi tabs) @ map kosdaq_entry_to_security (ut_kosdaq tabs)
     @ filter (\<lambda>r. \<not> dedup_marker (sd_ticker r)) (map us_entry_to_security (ut_sp500 tabs @ ut_nasdaq tabs))"

definition append_rows :: "seed_row list \<Rightarrow> string set \<times> seed_row list \<Rightarrow> string set \<times> seed_row list" where
  "append_rows = append_new (\<lambda>r. r) (\<lambda>t. False)"

lemma append_rows_simps [simp]:
  "append_rows [] acc = acc"
  "append_rows (r # rs) (seen, secs) =
     (if sd_ticker r \<in> seen then append_rows rs (seen, secs)
      else append_rows rs (insert (sd_ticker r) seen, secs @ [r]))"
  by (simp_all add: append_rows_def)

lemma append_new_rows:
  "append_new conv skip es acc = append_rows (filter (\<lambda>r. \<not> skip (sd_ticker r)) (map conv es)) acc"
  by (induction conv skip es acc rule: append_new.induct) (auto simp: append_rows_def)

lemma append_rows_append: "append_rows (rs @ rs') acc = append_rows rs' (append_rows rs acc)"
  by (induction rs arbitrary: acc) (auto split: prod.splits)

lemma merge_tables_rows:
  "merge_tables tabs secs = snd (append_rows (entries tabs) (set (map sd_ticker secs), secs))"
  by (simp add: merge_tables_def append_new_rows entries_def append_rows_append)

lemma append_rows_spec:
  assumes "append_rows rs (set (map sd_ticker secs), secs) = (seen', secs')"
  obtains new where "secs' = secs @ new" "seen' = set (map sd_ticker secs')" "set new \<subseteq> set rs"
    "distinct (map sd_ticker new)" "set (map sd_ticker new) \<inter> set (map sd_ticker secs) = {}"
    "sd_ticker ` set rs \<subseteq> seen'"
  using assms
proof (induction rs arbitrary: secs thesis)
  case (Cons r rs)
  show ?case
  proof (cases "sd_ticker r \<in> set (map sd_ticker secs)")
    case True
    with Cons.prems(2) have run: "append_rows rs (set (map sd_ticker secs), secs) = (seen', secs')" by simp
    from Cons.IH [OF _ run] obtain new where
      n: "secs' = secs @ new" "seen' = set (map sd_ticker secs')" "set new \<subseteq> set rs"
        "distinct (map sd_ticker new)" "set (map sd_ticker new) \<inter> set (map sd_ticker secs) = {}"
        "sd_ticker ` set rs \<subseteq> seen'" by blast
    from True n(1,2) have "sd_ticker r \<in> seen'" by auto
    with n show ?thesis by (intro Cons.prems(1) [of new]) auto
  next
    case False
    with Cons.prems(2) have run: "append_rows rs (set (map sd_ticker (secs @ [r])), secs @ [r]) = (seen', secs')"
      by (auto split: if_splits)
    from Cons.IH [OF _ run] obtain new where
      n: "secs' = (secs @ [r]) @ new" "seen' = set (map sd_ticker secs')" "set new \<subseteq> set rs"
        "distinct (map sd_ticker new)" "set (map sd_ticker new) \<inter> set (map sd_ticker (secs @ [r])) = {}"
        "sd_ticker ` set rs \<subseteq> seen'" by blast
    with False show ?thesis by (intro Cons.prems(1) [of "r # new"]) auto
  qed
qed simp

lemma append_rows_none: "sd_ticker ` set rs \<subseteq> seen \<Longrightarrow> append_rows rs (seen, secs) = (seen, secs)"
  by (induction rs) auto

lemma merge_tables_spec:
  obtains new where "merge_tables tabs secs = secs @ new" "set new \<subseteq> set (entries tabs)"
    "distinct (map sd_ticker new)" "set (map sd_ticker new) \<inter> set (map sd_ticker secs) = {}"
    "sd_ticker ` set (entries tabs) \<subseteq> set (map sd_ticker (merge_tables tabs secs))"
proof -
  obtain seen' secs' where run: "append_rows (entries tabs) (set (map sd_ticker secs), secs) = (seen', secs')"
    by (cases "append_rows (entries tabs) (set (map sd_ticker secs), secs)")
  then have m: "merge_tables tabs secs = secs'" by (simp add: merge_tables_rows)
  obtain new where "secs' = secs @ new" "seen' = set (map sd_ticker secs')" "set new \<subseteq> set (entries tabs)"
    "distinct (map sd_ticker new)" "set (map sd_ticker new) \<inter> set (map sd_ticker secs) = {}"
    "sd_ticker ` set (entries tabs) \<subseteq> seen'"
    by (rule append_rows_spec [OF run])
  then show ?thesis by (intro that [of new]) (simp_all add: m)
qed

lemma merge_tables_again:
  "merge_tables tabs (merge_tables tabs secs @ ps) = merge_tables tabs secs @ ps"
proof -
  from merge_tables_spec [of tabs secs]
  have "sd_ticker ` set (entries tabs) \<subseteq> set (map sd_ticker (merge_tables tabs secs))" by blast
  then have "append_rows (entries tabs) (set (map sd_ticker (merge_tables tabs secs @ ps)), merge_tables tabs secs @ ps)
      = (set (map sd_ticker (merge_tables tabs secs @ ps)), merge_tables tabs secs @ ps)"
    by (intro append_rows_none) auto
  then show ?thesis unfolding merge_tables_rows [of tabs "merge_tables tabs secs @ ps"] by simp
qed

lemma enrich_row_keeps:
  "sd_ticker (enrich_row py get s) = sd_ticker s" "sd_market (enrich_row py get s) = sd_market s"
  "sd_data_source (enrich_row py get s) = sd_data_source s"
  "sd_is_subscribed (enrich_row py get s) = sd_is_subscribed s"
  "sd_market_cap s \<noteq> None \<Longrightarrow> enrich_row py get s = s"
  by (auto simp: enrich_row_def split: sum.splits option.splits)

definition rows_of :: "seed_row list \<Rightarrow> string set \<Rightarrow> nat" where
  "rows_of secs ms = length (filter (\<lambda>r. sd_market r \<in> ms) secs)"

lemma rows_of_append: "rows_of (xs @ ys) ms = rows_of xs ms + rows_of ys ms"
  by (simp add: rows_of_def)

lemma rows_of_padding:
  "rows_of (make_padding pre n mkt cur sec lab ko) ms = (if mkt \<in> ms then n else 0)"
  by (simp add: rows_of_def make_padding_def padding_row_def filter_map comp_def)

lemma market_count_le: "mkt \<in> ms \<Longrightarrow> market_count secs mkt \<le> rows_of secs ms"
  unfolding market_count_def rows_of_def by (induction secs) auto

lemma market_count_le2:
  "market_count secs ''NASDAQ'' + market_count secs ''NYSE'' \<le> rows_of secs {''NASDAQ'', ''NYSE''}"
  unfolding market_count_def rows_of_def by (induction secs) auto

lemma rebuild_rows:
  "sf_securities (build_universe py None tabs (Some (build_universe py None tabs file)))
     = merge_tables tabs (sf_securities (load_existing_seed file))
       @ all_padding (merge_tables tabs (sf_securities (load_existing_seed file)))
       @ all_padding (merge_tables tabs (sf_securities (load_existing_seed file)))"
proof -
  let ?secs = "merge_tables tabs (sf_securities (load_existing_seed file))"
  have "sf_securities (build_universe py None tabs file) = ?secs @ all_padding ?secs"
    by (simp add: build_universe_def merged_seed_def Let_def)
  then show ?thesis
    by (simp add: build_universe_def [of py None tabs "Some _"] merged_seed_def Let_def load_existing_seed_def
        merge_tables_again all_padding_again flip: append_assoc)
qed

section \<open>Properties\<close>

text \<open>
  The builder merges and never overwrites. Every existing row stays as it is and in its place
  and the relations are untouched; every row a table offers is there under its ticker, the first
  offer winning, then come the placeholders, none of them subscribed. No ticker appears twice, if
  none did before and the prefix of the placeholders is not used. Each market has at least the
  size of its index.
\<close>

lemma build_merges:
  assumes "distinct (map sd_ticker (sf_securities s))"
    and "\<forall>r \<in> set (sf_securities s) \<union> set (entries tabs). \<not> starts_with (sd_ticker r) ''PAD_''"
    and "build_universe py None tabs (Some s) = s'"
  shows "sf_relations s' = sf_relations s \<and> distinct (map sd_ticker (sf_securities s')) \<and>
    sd_ticker ` set (entries tabs) \<subseteq> sd_ticker ` set (sf_securities s') \<and>
    200 \<le> rows_of (sf_securities s') {''KRX''} \<and> 150 \<le> rows_of (sf_securities s') {''KOSDAQ''} \<and>
    500 \<le> rows_of (sf_securities s') {''NASDAQ'', ''NYSE''} \<and>
    (\<exists>new pads. sf_securities s' = sf_securities s @ new @ pads \<and> set new \<subseteq> set (entries tabs) \<and>
       (\<forall>r \<in> set pads. \<not> sd_is_subscribed r \<and> sd_data_source r = ''static_master_padding''))"
proof -
  obtain new where m: "merge_tables tabs (sf_securities s) = sf_securities s @ new" "set new \<subseteq> set (entries tabs)"
    "distinct (map sd_ticker new)" "set (map sd_ticker new) \<inter> set (map sd_ticker (sf_securities s)) = {}"
    "sd_ticker ` set (entries tabs) \<subseteq> set (map sd_ticker (merge_tables tabs (sf_securities s)))"
    by (rule merge_tables_spec)
  let ?secs = "merge_tables tabs (sf_securities s)"
  have s': "sf_securities s' = ?secs @ all_padding ?secs" "sf_relations s' = sf_relations s"
    using assms(3) by (auto simp: build_universe_def merged_seed_def load_existing_seed_def Let_def)
  have "set (map sd_ticker (all_padding ?secs)) \<inter> set (map sd_ticker ?secs) = {}"
  proof -
    have "\<not> starts_with (sd_ticker r) ''PAD_''" if "r \<in> set ?secs" for r using that assms(2) m(1,2) by auto
    with all_padding_rows(3) show ?thesis by fastforce
  qed
  then have d: "distinct (map sd_ticker (sf_securities s'))"
    using m(3,4) assms(1) all_padding_distinct by (auto simp: s'(1) m(1))
  have n: "200 \<le> rows_of (sf_securities s') {''KRX''}" "150 \<le> rows_of (sf_securities s') {''KOSDAQ''}"
    "500 \<le> rows_of (sf_securities s') {''NASDAQ'', ''NYSE''}"
    using market_count_le [of "''KRX''" "{''KRX''}" ?secs] market_count_le [of "''KOSDAQ''" "{''KOSDAQ''}" ?secs]
      market_count_le2 [of ?secs]
    by (simp_all add: s'(1) rows_of_append all_padding_def rows_of_padding)
  have "\<forall>r \<in> set (all_padding ?secs). \<not> sd_is_subscribed r \<and> sd_data_source r = ''static_master_padding''"
    using all_padding_rows by blast
  with m(1,2) s'(1) have "\<exists>new pads. sf_securities s' = sf_securities s @ new @ pads \<and> set new \<subseteq> set (entries tabs) \<and>
       (\<forall>r \<in> set pads. \<not> sd_is_subscribed r \<and> sd_data_source r = ''static_master_padding'')"
    by (intro exI [of _ new] exI [of _ "all_padding ?secs"]) simp
  with d n s'(2) m(5) show ?thesis by (auto simp: s'(1))
qed

definition plain_python :: python where
  "plain_python = \<lparr>py_loads = (\<lambda>s. Inl ValueError), py_str = (\<lambda>v. []), py_fromisoformat = (\<lambda>s. Inl ValueError),
     py_float_str = (\<lambda>s. Inl ValueError)\<rparr>"

definition sample_tables :: universe_tables where
  "sample_tables = \<lparr>ut_kospi = [(''247540'', ''EcoPro BM'', ''EcoPro BM'', ''BATTERY'', ''Battery'', [])],
     ut_kosdaq = [(''247540'', ''EcoPro BM'', ''EcoPro BM'', ''BATTERY'', ''Battery'', [])],
     ut_sp500 = [(''AAPL'', ''Apple Inc.'', ''TECH_US'', ''Big Tech'', ''NASDAQ'')],
     ut_nasdaq = [(''ON_NQ'', ''ON Semi (NQ duplicate)'', ''SEMI_US'', ''US Semis'', ''NASDAQ'')]\<rparr>"

lemma sample_entries:
  "map sd_ticker (entries sample_tables) = [''247540'', ''247540'', ''AAPL'']"
  by (simp add: entries_def sample_tables_def kospi_entry_to_security_def kosdaq_entry_to_security_def
      dedup_marker_def ends_with_def)

lemma build_merges_example:
  "\<exists>s'. build_universe plain_python None sample_tables (Some \<lparr>sf_securities = [], sf_relations = []\<rparr>) = s' \<and>
     distinct (map sd_ticker (sf_securities s')) \<and> {''247540'', ''AAPL''} \<subseteq> sd_ticker ` set (sf_securities s')"
proof -
  have e: "sd_ticker ` set (entries sample_tables) = {''247540'', ''AAPL''}"
    using arg_cong [OF sample_entries, of set] by simp
  have "\<not> starts_with (sd_ticker r) ''PAD_''" if "r \<in> set (entries sample_tables)" for r
  proof -
    from that e have "sd_ticker r \<in> {''247540'', ''AAPL''}" by blast
    then show ?thesis by auto
  qed
  then have no: "\<forall>r \<in> set (sf_securities \<lparr>sf_securities = [], sf_relations = []\<rparr>) \<union> set (entries sample_tables).
      \<not> starts_with (sd_ticker r) ''PAD_''" by simp
  have d: "distinct (map sd_ticker (sf_securities \<lparr>sf_securities = [], sf_relations = []\<rparr>))" by simp
  from build_merges [OF d no refl, of plain_python] show ?thesis
    unfolding e by blast
qed

text \<open>
  A second run of the builder adds the same placeholders once more. The tables add nothing,
  their tickers are there, but the placeholders are not looked up: every one of them is written a
  second time, so a file with any placeholder then has repeated tickers.
\<close>

lemma rebuild_appends_padding:
  "sf_securities (build_universe py None tabs (Some (build_universe py None tabs file)))
     = sf_securities (build_universe py None tabs file)
       @ all_padding (merge_tables tabs (sf_securities (load_existing_seed file))) \<and>
   (distinct (map sd_ticker (sf_securities (build_universe py None tabs (Some (build_universe py None tabs file)))))
     \<longleftrightarrow> distinct (map sd_ticker (sf_securities (build_universe py None tabs file))) \<and>
       all_padding (merge_tables tabs (sf_securities (load_existing_seed file))) = [])"
proof -
  let ?secs = "merge_tables tabs (sf_securities (load_existing_seed file))"
  have one: "sf_securities (build_universe py None tabs file) = ?secs @ all_padding ?secs"
    by (simp add: build_universe_def merged_seed_def Let_def)
  have two: "sf_securities (build_universe py None tabs (Some (build_universe py None tabs file)))
      = (?secs @ all_padding ?secs) @ all_padding ?secs" by (simp add: rebuild_rows)
  show ?thesis unfolding two one by auto
qed

end
