(* ===== verification/Real_Universe.thy ===== *)
theory Real_Universe
  imports Seed_Build Universe
begin

text \<open>
  The second builder, \<open>src/db/fetch_real_universe.py\<close>: index tables and two downloaded lists
  are enriched by a quote library, placeholders are dropped, missing market caps are estimated.
  The Korean tables, the cells of the downloaded tables and what the library answers for a symbol
  are arguments; so is \<open>str.upper\<close>. A dictionary is the list of its entries in insertion
  order, with \<open>AList.update\<close> for an assignment.
\<close>

section \<open>Tables\<close>

definition gics_map :: "(string \<times> (string \<times> string)) list" where
  "gics_map = [(''Technology'', (''TECH_US'', ''Big Tech'')),
     (''Communication Services'', (''MEDIA_US'', ''US Media'')),
     (''Consumer Discretionary'', (''CONS_US'', ''US Consumer'')),
     (''Consumer Staples'', (''CONS_US'', ''US Consumer'')),
     (''Financials'', (''FIN_US'', ''US Financials'')),
     (''Health Care'', (''HEALTH_US'', ''US Healthcare'')),
     (''Industrials'', (''INDUSTRIAL_US'', ''US Industrials'')),
     (''Energy'', (''ENERGY_US'', ''US Energy'')),
     (''Materials'', (''MATERIALS_US'', ''US Materials'')),
     (''Real Estate'', (''REIT_US'', ''US REIT'')), (''Utilities'', (''UTIL_US'', ''US Utilities'')),
     (''Basic Materials'', (''MATERIALS_US'', ''US Materials'')),
     (''Financial Services'', (''FIN_US'', ''US Financials''))]"

definition sector_from_gics :: "string \<Rightarrow> string \<times> string" where
  "sector_from_gics gics = (case map_of gics_map gics of None \<Rightarrow> (''OTHER_US'', ''Other US'') | Some p \<Rightarrow> p)"

definition nasdaq_exchange_tickers :: "string list" where
  "nasdaq_exchange_tickers = [''AAPL'', ''MSFT'', ''NVDA'', ''GOOGL'', ''GOOG'', ''AMZN'', ''META'',
     ''TSLA'', ''AVGO'', ''AMD'', ''QCOM'', ''INTC'', ''MU'', ''AMAT'', ''LRCX'', ''KLAC'', ''ASML'',
     ''TXN'', ''ADI'', ''MRVL'', ''NXPI'', ''ON'', ''MCHP'', ''ADBE'', ''INTU'', ''PANW'', ''CRWD'',
     ''FTNT'', ''SNPS'', ''CDNS'', ''ANSS'', ''WDAY'', ''TEAM'', ''DDOG'', ''MDB'', ''OKTA'', ''ZS'',
     ''COST'', ''SBUX'', ''LULU'', ''BKNG'', ''MAR'', ''PEP'', ''MDLZ'', ''KHC'', ''AMGN'', ''GILD'',
     ''ISRG'', ''VRTX'', ''REGN'', ''BIIB'', ''CME'', ''IDXX'', ''DXCM'', ''CMCSA'', ''WBD'', ''PARA'',
     ''TMUS'', ''CHTR'', ''EQIX'', ''SBAC'', ''NFLX'', ''MELI'', ''HOOD'', ''SOFI'', ''BIDU'', ''JD'',
     ''PDD'', ''MSTR'', ''CSCO'', ''ACN'', ''ADP'', ''FISV'', ''PAYX'', ''VRSK'', ''MCO'', ''ORLY'',
     ''CMG'', ''AAL'', ''UAL'', ''EXPE'', ''TTD'', ''MNST'', ''KDP'', ''PCAR'', ''GEHC'', ''ROP'',
     ''CPRT'', ''FAST'', ''ODFL'', ''CTAS'', ''DLTR'', ''SIRI'', ''ILMN'', ''MTCH'', ''ULTA'', ''PODD'',
     ''ALGN'', ''ENPH'', ''SEDG'', ''MPWR'', ''CDW'', ''CSGP'', ''VRSN'', ''EBAY'', ''WBA'', ''FANG'',
     ''HON'', ''CSX'', ''EXC'', ''AEP'', ''XEL'', ''CEG'', ''LIN'', ''LCID'', ''RIVN'', ''LYFT'',
     ''DOCU'', ''ZM'', ''COIN'', ''SNPS'', ''TEAM'', ''DDOG'', ''HOOD'', ''EA'', ''TTWO'', ''ROKU'']"

section \<open>Downloaded lists\<close>

record wiki_row =
  wk_ticker :: string
  wk_name :: string
  wk_gics :: string

text \<open>A table is the list of its rows, a row the texts of its data cells; the first row is the header.\<close>

definition fetch_sp500_wiki :: "string list list option result \<Rightarrow> wiki_row list result" where
  "fetch_sp500_wiki answer = bind_result answer (\<lambda>table. case table of
       None \<Rightarrow> Inl RuntimeError
     | Some rows \<Rightarrow> Inr (map (\<lambda>cols. \<lparr>wk_ticker = cols ! 0, wk_name = cols ! 1, wk_gics = cols ! 2\<rparr>)
         (filter (\<lambda>cols. 4 \<le> length cols) (drop 1 rows))))"

definition has_text :: "string \<Rightarrow> string \<Rightarrow> bool" where
  "has_text pat s = list_ex (\<lambda>k. starts_with (drop k s) pat) [0 ..< Suc (length s)]"

text \<open>The tables of the page, each with the text of its first row, if it has one.\<close>

definition fetch_nasdaq100_wiki :: "(string option \<times> string list list) list result \<Rightarrow> wiki_row list result" where
  "fetch_nasdaq100_wiki answer = bind_result answer (\<lambda>tables.
     case List.find (\<lambda>(h, rows). case h of None \<Rightarrow> False | Some s \<Rightarrow> has_text ''Ticker'' s) tables of
       None \<Rightarrow> Inl RuntimeError
     | Some (h, rows) \<Rightarrow> Inr (map (\<lambda>cols. \<lparr>wk_ticker = cols ! 0, wk_name = cols ! 1,
           wk_gics = (if 2 < length cols then cols ! 2 else ''Technology'')\<rparr>)
         (filter (\<lambda>cols. 2 \<le> length cols) (drop 1 rows))))"

section \<open>Quotes in batches\<close>

definition yahoo_symbol_of :: "string \<Rightarrow> string \<Rightarrow> string" where
  "yahoo_symbol_of ticker mkt =
     (if mkt = ''KRX'' then ticker @ ''.KS'' else if mkt = ''KOSDAQ'' then ticker @ ''.KQ'' else ticker)"

definition yahoo_us_symbol :: "string \<Rightarrow> string" where
  "yahoo_us_symbol ticker = map (\<lambda>c. if c = CHR ''.'' then CHR ''-'' else c) ticker"

text \<open>
  \<open>info and info.get("regularMarketPrice") is not None or info.get("marketCap")\<close>: the second
  lookup is made on an empty answer too.
\<close>

definition usable_info :: "json \<Rightarrow> bool result" where
  "usable_info info =
     bind_result (if truthy info then j_get_or info ''regularMarketPrice'' JNull else Inr JNull) (\<lambda>price.
       if price \<noteq> JNull then Inr True
       else bind_result (j_get_or info ''marketCap'' JNull) (\<lambda>cap. Inr (truthy cap)))"

definition info_of :: "(string \<Rightarrow> json result) \<Rightarrow> string \<Rightarrow> json option" where
  "info_of yf s = (case bind_result (yf s) (\<lambda>info. bind_result (usable_info info) (\<lambda>u. Inr (info, u))) of
       Inl e \<Rightarrow> None
     | Inr (info, u) \<Rightarrow> if u then Some info else None)"

fun fetch_chunk :: "(string \<Rightarrow> json result) \<Rightarrow> string list \<Rightarrow> (string \<Rightarrow> json option) \<Rightarrow> (string \<Rightarrow> json option)" where
  "fetch_chunk yf [] res = res"
| "fetch_chunk yf (s # ss) res =
     fetch_chunk yf ss (case info_of yf s of None \<Rightarrow> res | Some info \<Rightarrow> res(s \<mapsto> info))"

text \<open>The loop over \<open>range(0, len(symbols), batch_size)\<close>, with the batches it asked for.\<close>

function batch_loop ::
    "(string \<Rightarrow> json result) \<Rightarrow> nat \<Rightarrow> string list \<Rightarrow> (string \<Rightarrow> json option)
     \<Rightarrow> string list list \<times> (string \<Rightarrow> json option)" where
  "batch_loop yf b symbols res =
     (if b = 0 \<or> symbols = [] then ([], res)
      else case batch_loop yf b (drop b symbols) (fetch_chunk yf (take b symbols) res) of
        (asked, r) \<Rightarrow> (take b symbols # asked, r))"
  by pat_completeness auto
termination by (relation "measure (\<lambda>(yf, b, symbols, res). length symbols)") auto

declare batch_loop.simps [simp del]

definition batch_fetch ::
    "(string \<Rightarrow> json result) \<Rightarrow> string list \<Rightarrow> nat \<Rightarrow> (string list list \<times> (string \<Rightarrow> json option)) result" where
  "batch_fetch yf symbols b = (if b = 0 then Inl ValueError else Inr (batch_loop yf b symbols Map.empty))"

section \<open>One row\<close>

definition info_get :: "json \<Rightarrow> string \<Rightarrow> json result" where
  "info_get info k = j_get_or info k JNull"

text \<open>\<open>(info.get(k) or "").upper()\<close>.\<close>

definition info_upper :: "(string \<Rightarrow> string) \<Rightarrow> json \<Rightarrow> string \<Rightarrow> string result" where
  "info_upper up info k = bind_result (info_get info k) (\<lambda>v. case j_or v (JStr []) of
       JStr s \<Rightarrow> Inr (up s) | _ \<Rightarrow> Inl AttributeError)"

definition market_from_exchange :: "(string \<Rightarrow> string) \<Rightarrow> json \<Rightarrow> string \<Rightarrow> string result" where
  "market_from_exchange up info ticker =
     bind_result (info_upper up info ''exchange'') (\<lambda>exchange.
     bind_result (info_upper up info ''market'') (\<lambda>mkt.
       Inr (if exchange \<in> {''NMS'', ''NGM'', ''NCM'', ''NASDAQ'', ''NMQ''} \<or> mkt \<in> {''NMS'', ''NGM''} then ''NASDAQ''
            else if exchange \<in> {''NYQ'', ''NYSE'', ''ASE''} \<or> mkt = ''NYQ'' then ''NYSE''
            else if ticker \<in> set nasdaq_exchange_tickers then ''NASDAQ''
            else ''NYSE'')))"

text \<open>\<open>f(v) if v else d\<close>.\<close>

definition if_truthy :: "(json \<Rightarrow> 'a result) \<Rightarrow> json \<Rightarrow> 'a option \<Rightarrow> 'a option result" where
  "if_truthy f v d = (if truthy v then bind_result (f v) (\<lambda>x. Inr (Some x)) else Inr d)"

record info_data =
  id_name :: json
  id_cap :: json
  id_shares :: json

definition read_info :: "json \<Rightarrow> json \<Rightarrow> info_data result" where
  "read_info info name_default =
     bind_result (info_get info ''longName'') (\<lambda>long.
     bind_result (info_get info ''shortName'') (\<lambda>short.
     bind_result (info_get info ''marketCap'') (\<lambda>cap.
     bind_result (info_get info ''sharesOutstanding'') (\<lambda>shares.
     bind_result (info_get info ''impliedSharesOutstanding'') (\<lambda>implied.
       Inr \<lparr>id_name = j_or long (j_or short name_default), id_cap = cap, id_shares = j_or shares implied\<rparr>)))))"

text \<open>Korean name, English name, market, sector, label; what an existing subscribed row keeps.\<close>

type_synonym kr_value = "string \<times> string \<times> string \<times> string \<times> string"

definition keep_subscribed :: "python \<Rightarrow> info_data \<Rightarrow> seed_row \<Rightarrow> seed_row result" where
  "keep_subscribed py d r =
     bind_result (if_truthy (j_float py) (id_cap d) (sd_market_cap r)) (\<lambda>cap.
     bind_result (if_truthy j_int (id_shares d) (sd_shares_outstanding r)) (\<lambda>shares.
       Inr (r\<lparr>sd_market_cap := cap, sd_shares_outstanding := shares\<rparr>)))"

definition kr_row ::
    "python \<Rightarrow> json option \<Rightarrow> seed_row option \<Rightarrow> string \<Rightarrow> kr_value \<Rightarrow> seed_row option result" where
  "kr_row py found existing ticker v = (case v of (name_ko, name_en, mkt, sector, label) \<Rightarrow>
     let info = (case found of None \<Rightarrow> JObj [] | Some i \<Rightarrow> i) in
     bind_result (read_info info (JStr name_en)) (\<lambda>d.
     let subscribed = (case existing of None \<Rightarrow> False | Some r \<Rightarrow> sd_is_subscribed r) in
     if subscribed then
       (case existing of None \<Rightarrow> Inr None | Some r \<Rightarrow>
          bind_result (keep_subscribed py d r) (\<lambda>r'.
            Inr (Some (r'\<lparr>sd_name_en := (if \<not> truthy (sd_name_en r) \<and> truthy (id_name d) then id_name d else sd_name_en r),
              sd_data_source := (if truthy info then ''yahoo_finance'' else sd_data_source r)\<rparr>))))
     else if \<not> truthy info \<and> name_en = [] then Inr None
     else
       bind_result (if_truthy j_int (id_shares d) None) (\<lambda>shares.
       bind_result (if_truthy (j_float py) (id_cap d) None) (\<lambda>cap.
         Inr (Some \<lparr>sd_ticker = ticker, sd_name_ko = Some name_ko, sd_name_en = id_name d,
           sd_aliases = (case existing of None \<Rightarrow> [] | Some r \<Rightarrow> sd_aliases r), sd_market = mkt,
           sd_sector = (case existing of None \<Rightarrow> sector | Some r \<Rightarrow> sd_sector r),
           sd_sector_label = (case existing of None \<Rightarrow> label | Some r \<Rightarrow> sd_sector_label r),
           sd_currency = ''KRW'', sd_shares_outstanding = shares, sd_market_cap = cap,
           sd_is_subscribed = False,
           sd_data_source = (if truthy info then ''yahoo_finance'' else ''static_master'')\<rparr>)))))"

definition us_row ::
    "python \<Rightarrow> (string \<Rightarrow> string) \<Rightarrow> json option \<Rightarrow> seed_row option \<Rightarrow> string \<Rightarrow> wiki_row \<Rightarrow> seed_row result" where
  "us_row py up found existing ticker w =
     (let info = (case found of None \<Rightarrow> JObj [] | Some i \<Rightarrow> i) in
     bind_result (read_info info (JStr (wk_name w))) (\<lambda>d.
     bind_result (market_from_exchange up info ticker) (\<lambda>mkt.
     let subscribed = (case existing of None \<Rightarrow> False | Some r \<Rightarrow> sd_is_subscribed r) in
     if subscribed then (case existing of None \<Rightarrow> Inl KeyError | Some r \<Rightarrow> keep_subscribed py d r)
     else
       bind_result (if_truthy j_int (id_shares d) None) (\<lambda>shares.
       bind_result (if_truthy (j_float py) (id_cap d) None) (\<lambda>cap.
         Inr \<lparr>sd_ticker = ticker, sd_name_ko = None, sd_name_en = id_name d, sd_aliases = [ticker],
           sd_market = mkt, sd_sector = fst (sector_from_gics (wk_gics w)),
           sd_sector_label = snd (sector_from_gics (wk_gics w)), sd_currency = ''USD'',
           sd_shares_outstanding = shares, sd_market_cap = cap, sd_is_subscribed = False,
           sd_data_source = (if truthy info then ''yahoo_finance'' else ''static_master'')\<rparr>)))))"

section \<open>Estimates\<close>

text \<open>\<open>sorted\<close> of floats, and \<open>statistics.median\<close> of a non-empty list.\<close>

fun insert_float :: "float64 \<Rightarrow> float64 list \<Rightarrow> float64 list" where
  "insert_float x [] = [x]"
| "insert_float x (y # ys) = (if flt y x then y # insert_float x ys else x # y # ys)"

definition sorted_floats :: "float64 list \<Rightarrow> float64 list" where
  "sorted_floats xs = foldr insert_float xs []"

definition median :: "float64 list \<Rightarrow> float64 result" where
  "median xs =
     (let ys = sorted_floats xs; n = length ys; i = n div 2 in
      if n = 0 then Inl (OtherError ''StatisticsError'')
      else if odd n then Inr (ys ! i) else fdiv (fadd (ys ! (i - 1)) (ys ! i)) (Fin 2))"

text \<open>The known caps of the rows with a property: \<open>if s.get("market_cap")\<close> drops zero.\<close>

definition real_caps :: "(seed_row \<Rightarrow> bool) \<Rightarrow> seed_row list \<Rightarrow> float64 list" where
  "real_caps P secs = List.map_filter (\<lambda>s. case sd_market_cap s of
       Some c \<Rightarrow> if sd_data_source s = ''yahoo_finance'' \<and> \<not> feq c (Fin 0) \<and> P s then Some c else None
     | None \<Rightarrow> None) secs"

definition caps_for :: "seed_row list \<Rightarrow> seed_row \<Rightarrow> float64 list" where
  "caps_for secs s =
     (let both = real_caps (\<lambda>r. sd_sector r = sd_sector s \<and> sd_market r = sd_market s) secs;
          sector = real_caps (\<lambda>r. sd_sector r = sd_sector s) secs in
      if both \<noteq> [] then both else if sector \<noteq> [] then sector
      else real_caps (\<lambda>r. sd_market r = sd_market s) secs)"

definition estimate_row :: "seed_row list \<Rightarrow> seed_row \<Rightarrow> seed_row result" where
  "estimate_row secs s =
     (if sd_market_cap s \<noteq> None \<or> sd_data_source s \<noteq> ''static_master'' \<or> caps_for secs s = [] then Inr s
      else bind_result (median (caps_for secs s)) (\<lambda>m.
        Inr (s\<lparr>sd_market_cap := Some m, sd_data_source := ''estimated''\<rparr>)))"

definition apply_sector_median_estimates :: "seed_row list \<Rightarrow> seed_row list result" where
  "apply_sector_median_estimates secs = map_result (estimate_row secs) secs"

section \<open>The build\<close>

text \<open>\<open>{s["ticker"]: s for s in ...}\<close>: the last row of a ticker, at the place of its first.\<close>

definition existing_rows :: "seed_row list \<Rightarrow> (string \<times> seed_row) list" where
  "existing_rows secs = fold (\<lambda>s d. AList.update (sd_ticker s) s d) secs []"

type_synonym kr_table = "(string \<times> string \<times> string \<times> string \<times> string) list"

definition kr_entries_of :: "kr_table \<Rightarrow> kr_table \<Rightarrow> (string \<times> kr_value) list" where
  "kr_entries_of kospi kosdaq =
     fold (\<lambda>(t, ko, en, sec, lab) d. if map_of d t = None then d @ [(t, (ko, en, ''KOSDAQ'', sec, lab))] else d) kosdaq
       (fold (\<lambda>(t, ko, en, sec, lab) d. AList.update t (ko, en, ''KRX'', sec, lab) d) kospi [])"

definition us_entries_of :: "wiki_row list \<Rightarrow> wiki_row list \<Rightarrow> (string \<times> wiki_row) list" where
  "us_entries_of sp500 nq100 =
     fold (\<lambda>w d. if map_of d (wk_ticker w) = None then d @ [(wk_ticker w, w)] else d) nq100
       (fold (\<lambda>w d. AList.update (wk_ticker w) w d) sp500 [])"

record universe_sources =
  us_kospi :: kr_table
  us_kosdaq :: kr_table
  us_sp500 :: "string list list option result"
  us_nasdaq :: "(string option \<times> string list list) list result"
  us_quotes :: "string \<Rightarrow> json result"

definition somes :: "'a option list \<Rightarrow> 'a list" where
  "somes xs = List.map_filter (\<lambda>x. x) xs"

text \<open>The rows before estimation; \<open>_add\<close> takes the first row of each ticker.\<close>

definition collect_rows ::
    "python \<Rightarrow> (string \<Rightarrow> string) \<Rightarrow> universe_sources \<Rightarrow> seed_row list \<Rightarrow> seed_row list result" where
  "collect_rows py up src secs =
     (let existing = existing_rows secs; kr = kr_entries_of (us_kospi src) (us_kosdaq src) in
     bind_result (fetch_sp500_wiki (us_sp500 src)) (\<lambda>sp500.
     bind_result (fetch_nasdaq100_wiki (us_nasdaq src)) (\<lambda>nq100.
     let us = us_entries_of sp500 nq100 in
     bind_result (batch_fetch (us_quotes src) (map (\<lambda>(t, _, _, mkt, _, _). yahoo_symbol_of t mkt) kr) 30) (\<lambda>(_, kr_yf).
     bind_result (batch_fetch (us_quotes src) (map (\<lambda>(t, _). yahoo_us_symbol t) us) 50) (\<lambda>(_, us_yf).
     bind_result (map_result (\<lambda>(t, v). case v of (_, _, mkt, _, _) \<Rightarrow>
         kr_row py (kr_yf (yahoo_symbol_of t mkt)) (map_of existing t) t v) kr) (\<lambda>kr_rows.
     bind_result (map_result (\<lambda>(t, w). us_row py up (us_yf (yahoo_us_symbol t)) (map_of existing t) t w) us) (\<lambda>us_rows.
       Inr (snd (append_rows
         (somes kr_rows @ us_rows @ filter (\<lambda>r. sd_data_source r \<noteq> ''static_master_padding'') (map snd existing))
         ({}, []))))))))))"

definition build_real_universe ::
    "python \<Rightarrow> (string \<Rightarrow> string) \<Rightarrow> universe_sources \<Rightarrow> seed_file option \<Rightarrow> seed_file result" where
  "build_real_universe py up src file =
     (let seed = load_existing_seed file in
      bind_result (collect_rows py up src (sf_securities seed)) (\<lambda>rows.
      bind_result (apply_sector_median_estimates rows) (\<lambda>secs.
        Inr \<lparr>sf_securities = secs, sf_relations = sf_relations seed\<rparr>)))"

text \<open>What the command leaves in the file.\<close>

definition real_main ::
    "python \<Rightarrow> (string \<Rightarrow> string) \<Rightarrow> universe_sources \<Rightarrow> bool \<Rightarrow> seed_file option \<Rightarrow> seed_file option \<times> int result" where
  "real_main py up src apply_it file = (case build_real_universe py up src file of
       Inl e \<Rightarrow> (file, Inl e)
     | Inr s \<Rightarrow> (if apply_it then Some s else file, Inr 0))"

text \<open>
  A ticker in both Korean tables is a KRX row, whose Yahoo name ends in \<open>.KS\<close>; a dotted ticker
  goes to Yahoo with its dot, where this builder writes a dash.
\<close>

lemma dual_listed_is_ks:
  "map (\<lambda>r. resolve_yahoo_symbol (sd_ticker r) (sd_market r)) (merge_tables sample_tables [])
     = [Some ''247540.KS'', Some ''AAPL'']"
  by code_simp

lemma dotted_ticker:
  "resolve_yahoo_symbol ''BRK.B'' ''NYSE'' = Some ''BRK.B'' \<and> yahoo_us_symbol ''BRK.B'' = ''BRK-B''"
  by code_simp

section \<open>Facts: batches\<close>

lemma fetch_chunk_spec:
  "fetch_chunk yf ss res s = (if s \<in> set ss then (case info_of yf s of None \<Rightarrow> res s | Some i \<Rightarrow> Some i) else res s)"
  by (induction yf ss res arbitrary: s rule: fetch_chunk.induct) (auto split: option.splits)

lemma batch_loop_spec:
  assumes "0 < b" and "batch_loop yf b symbols res = (asked, r)"
  shows "concat asked = symbols \<and> length asked = (length symbols + b - 1) div b \<and>
    (\<forall>a \<in> set asked. a \<noteq> [] \<and> length a \<le> b) \<and> r = fetch_chunk yf symbols res"
  using assms
proof (induction yf b symbols res arbitrary: asked r rule: batch_loop.induct)
  case (1 yf b symbols res)
  show ?case
  proof (cases "symbols = []")
    case True
    with 1(2,3) show ?thesis by (simp add: batch_loop.simps [of yf b "[]"])
  next
    case False
    obtain asked' r' where rec: "batch_loop yf b (drop b symbols) (fetch_chunk yf (take b symbols) res) = (asked', r')"
      by (cases "batch_loop yf b (drop b symbols) (fetch_chunk yf (take b symbols) res)")
    with 1(3) False \<open>0 < b\<close> have a: "asked = take b symbols # asked'" "r = r'"
      by (simp_all add: batch_loop.simps [of yf b symbols])
    from 1(1) [OF _ \<open>0 < b\<close> rec] False \<open>0 < b\<close>
    have ih: "concat asked' = drop b symbols" "length asked' = (length symbols - b + b - 1) div b"
      "\<forall>a \<in> set asked'. a \<noteq> [] \<and> length a \<le> b"
      "r' = fetch_chunk yf (drop b symbols) (fetch_chunk yf (take b symbols) res)" by simp_all
    have "fetch_chunk yf (xs @ ys) m = fetch_chunk yf ys (fetch_chunk yf xs m)" for xs ys m
      by (induction xs arbitrary: m) simp_all
    with ih(4) have r: "r' = fetch_chunk yf symbols res" by (metis append_take_drop_id)
    have "Suc ((length symbols - b + b - 1) div b) = (length symbols + b - 1) div b"
    proof (cases "b \<le> length symbols")
      case True
      then have "length symbols + b - 1 = (length symbols - b + b - 1) + b" using \<open>0 < b\<close> by simp
      then show ?thesis using div_add_self2 [of b "length symbols - b + b - 1"] \<open>0 < b\<close> by (simp only:)
    next
      case False
      have lt: "length symbols - 1 < b" using False by simp
      have "length symbols + b - 1 = (length symbols - 1) + b" using \<open>symbols \<noteq> []\<close> by (cases symbols) simp_all
      moreover have "(length symbols - 1 + b) div b = 1" using lt \<open>0 < b\<close> by simp
      ultimately have "(length symbols + b - 1) div b = 1" by (simp only:)
      moreover from False have "(length symbols - b + b - 1) div b = 0" using \<open>0 < b\<close> by simp
      ultimately show ?thesis by simp
    qed
    with ih a r False \<open>0 < b\<close> show ?thesis by simp
  qed
qed

section \<open>Facts: estimates\<close>

abbreviation whole :: "int \<Rightarrow> float64" where "whole k \<equiv> Fin (of_int k)"

lemma insert_float_whole: "insert_float (whole k) (map whole ks) = map whole (insort k ks)"
  by (induction ks) (auto simp: not_le)

lemma sorted_floats_whole: "sorted_floats (map whole ks) = map whole (sort ks)"
  by (induction ks) (simp_all add: sorted_floats_def insert_float_whole)

lemma mean_whole:
  assumes "0 \<le> a" "a \<le> b" "b \<le> 2 ^ 52"
  shows "\<exists>m. fdiv (fadd (whole a) (whole b)) (Fin 2) = Inr (Fin m) \<and> of_int a \<le> m \<and> m \<le> of_int b"
proof -
  have ab: "\<bar>a + b\<bar> \<le> 2 ^ 53" "\<bar>a\<bar> \<le> 2 ^ 53" "\<bar>b\<bar> \<le> 2 ^ 53" using assms by simp_all
  have "\<bar>of_int (a + b) :: rat\<bar> \<le> of_int (2 ^ 53)" using ab(1) by (metis of_int_abs of_int_le_iff)
  then have "fadd (whole a) (whole b) = whole (a + b)"
    using fin_Fin [of "of_int (a + b)"] rnd_of_int [OF ab(1)] by simp
  moreover have h: "of_int a \<le> (of_int (a + b) :: rat) / 2" "(of_int (a + b) :: rat) / 2 \<le> of_int b"
    using assms(2) by simp_all
  moreover have "\<bar>(of_int (a + b) :: rat) / 2\<bar> \<le> 2 ^ 53"
  proof -
    have "(of_int b :: rat) \<le> of_int (2 ^ 53)" "(0 :: rat) \<le> of_int a" using assms by (simp_all only: of_int_le_iff) simp_all
    with h show ?thesis by (simp add: abs_le_iff)
  qed
  ultimately show ?thesis
    using rnd_ge_int [OF h(1) ab(2)] rnd_le_int [OF h(2) ab(3)] by (simp add: fin_Fin)
qed

lemma estimate_row_keeps:
  assumes "estimate_row secs s = Inr s'"
  shows "sd_ticker s' = sd_ticker s" "sd_market s' = sd_market s" "sd_is_subscribed s' = sd_is_subscribed s"
    "sd_aliases s' = sd_aliases s" "sd_currency s' = sd_currency s" "sd_sector s' = sd_sector s"
    "sd_market_cap s \<noteq> None \<Longrightarrow> sd_market_cap s' = sd_market_cap s"
    "sd_data_source s' = sd_data_source s \<or> sd_data_source s' = ''estimated''"
  using assms by (auto simp: estimate_row_def split: if_splits elim!: bind_result_InrE)

lemma map_result_mem:
  assumes "map_result f xs = Inr ys"
  shows "y \<in> set ys \<Longrightarrow> \<exists>x \<in> set xs. f x = Inr y" "x \<in> set xs \<Longrightarrow> \<exists>y \<in> set ys. f x = Inr y"
  using assms by (induction xs arbitrary: ys) (auto elim!: bind_result_InrE, blast+)

lemma map_result_map:
  assumes "map_result f xs = Inr ys" "\<And>x y. f x = Inr y \<Longrightarrow> g y = h x"
  shows "map g ys = map h xs"
  using assms(1) by (induction xs arbitrary: ys) (auto elim!: bind_result_InrE simp: assms(2))

section \<open>Facts: rows\<close>

lemma existing_rows_snoc: "existing_rows (secs @ [r]) = AList.update (sd_ticker r) r (existing_rows secs)"
  by (simp add: existing_rows_def)

lemma existing_rows_spec:
  "distinct (map fst (existing_rows secs)) \<and> fst ` set (existing_rows secs) = sd_ticker ` set secs \<and>
   (\<forall>t r. map_of (existing_rows secs) t = Some r \<longrightarrow> sd_ticker r = t \<and> r \<in> set secs)"
proof (induction secs rule: rev_induct)
  case (snoc r secs)
  then show ?case
    by (auto simp: existing_rows_snoc AList.distinct_update AList.dom_update AList.update_conv' split: if_splits)
qed (simp add: existing_rows_def)

lemma existing_row:
  assumes "distinct (map sd_ticker secs)" "r \<in> set secs"
  shows "map_of (existing_rows secs) (sd_ticker r) = Some r"
proof -
  from assms(2) existing_rows_spec [of secs] have "sd_ticker r \<in> fst ` set (existing_rows secs)" by blast
  then obtain r' where r': "map_of (existing_rows secs) (sd_ticker r) = Some r'"
    by (cases "map_of (existing_rows secs) (sd_ticker r)") (simp_all add: map_of_eq_None_iff)
  with existing_rows_spec [of secs] have "sd_ticker r' = sd_ticker r" "r' \<in> set secs" by blast+
  with assms have "r' = r" by (simp add: distinct_map inj_on_def)
  with r' show ?thesis by simp
qed

text \<open>What a build may change in a subscribed row: names, numbers and the source.\<close>

definition kept :: "seed_row \<Rightarrow> seed_row \<Rightarrow> bool" where
  "kept r r' \<longleftrightarrow> sd_ticker r' = sd_ticker r \<and> sd_market r' = sd_market r \<and> sd_aliases r' = sd_aliases r \<and>
     sd_currency r' = sd_currency r \<and> sd_sector r' = sd_sector r \<and> sd_is_subscribed r' = sd_is_subscribed r \<and>
     (sd_market_cap r \<noteq> None \<longrightarrow> sd_market_cap r' \<noteq> None)"

lemma if_truthy_Some: "if_truthy f v d = Inr x \<Longrightarrow> d \<noteq> None \<Longrightarrow> x \<noteq> None"
  by (auto simp: if_truthy_def split: if_splits elim!: bind_result_InrE)

lemma keep_subscribed_kept:
  "keep_subscribed py d r = Inr r' \<Longrightarrow> kept r r' \<and> sd_data_source r' = sd_data_source r"
  by (auto simp: keep_subscribed_def kept_def elim!: bind_result_InrE dest: if_truthy_Some)

definition padded :: "seed_row \<Rightarrow> bool" where
  "padded r \<longleftrightarrow> sd_data_source r = ''static_master_padding''"

definition good_candidate :: "seed_row list \<Rightarrow> seed_row \<Rightarrow> bool" where
  "good_candidate secs c \<longleftrightarrow> \<not> padded c \<and>
     (\<forall>r \<in> set secs. sd_is_subscribed r \<and> sd_ticker r = sd_ticker c \<longrightarrow> kept r c)"

lemma kr_row_candidate:
  assumes "kr_row py f existing t v = Inr (Some c)"
    and "\<And>r. existing = Some r \<Longrightarrow> sd_ticker r = t \<and> (sd_is_subscribed r \<longrightarrow> \<not> padded r)"
  shows "sd_ticker c = t" "\<not> padded c" "existing = Some r \<Longrightarrow> sd_is_subscribed r \<Longrightarrow> kept r c"
  using assms
  by (auto simp: kr_row_def Let_def padded_def kept_def split: prod.splits if_splits option.splits
      elim!: bind_result_InrE dest!: keep_subscribed_kept)

lemma us_row_candidate:
  assumes "us_row py up f existing t w = Inr c"
    and "\<And>r. existing = Some r \<Longrightarrow> sd_ticker r = t \<and> (sd_is_subscribed r \<longrightarrow> \<not> padded r)"
  shows "sd_ticker c = t" "\<not> padded c" "existing = Some r \<Longrightarrow> sd_is_subscribed r \<Longrightarrow> kept r c"
  using assms
  by (auto simp: us_row_def Let_def padded_def kept_def split: if_splits option.splits
      elim!: bind_result_InrE dest!: keep_subscribed_kept)

lemma somes_set: "set (somes xs) = {x. Some x \<in> set xs}"
  by (force simp: somes_def List.map_filter_def)

lemma collect_rows_spec:
  assumes "collect_rows py up src secs = Inr rows" and "distinct (map sd_ticker secs)"
    and "\<forall>r \<in> set secs. sd_is_subscribed r \<longrightarrow> \<not> padded r"
  shows "distinct (map sd_ticker rows)" "\<forall>c \<in> set rows. good_candidate secs c"
    "\<forall>r \<in> set secs. \<not> padded r \<longrightarrow> sd_ticker r \<in> sd_ticker ` set rows"
proof -
  let ?ex = "existing_rows secs"
  have ex: "sd_ticker r = t \<and> (sd_is_subscribed r \<longrightarrow> \<not> padded r)" if "map_of ?ex t = Some r" for t r
    using that existing_rows_spec [of secs] assms(3) by blast
  obtain kr krm us usm kr_rows us_rows where
    k: "map_result (\<lambda>(t, v). case v of (_, _, mkt, _, _) \<Rightarrow>
         kr_row py (krm (yahoo_symbol_of t mkt)) (map_of ?ex t) t v) kr = Inr kr_rows"
    and u: "map_result (\<lambda>(t, w). us_row py up (usm (yahoo_us_symbol t)) (map_of ?ex t) t w) us = Inr us_rows"
    and rows: "rows = snd (append_rows (somes kr_rows @ us_rows @
        filter (\<lambda>r. sd_data_source r \<noteq> ''static_master_padding'') (map snd ?ex)) ({}, []))"
    using assms(1) by (auto simp: collect_rows_def Let_def split: prod.splits elim!: bind_result_InrE)
  let ?C = "somes kr_rows @ us_rows @ filter (\<lambda>r. sd_data_source r \<noteq> ''static_master_padding'') (map snd ?ex)"
  have good: "good_candidate secs c" if "c \<in> set ?C" for c
  proof -
    have sub: "map_of ?ex t = Some r" if "r \<in> set secs" "sd_ticker r = t" for r t
      using existing_row [OF assms(2) that(1)] that(2) by simp
    from that consider (kr) "Some c \<in> set kr_rows" | (us) "c \<in> set us_rows"
      | (old) "c \<in> set (map snd ?ex)" "\<not> padded c" by (auto simp: somes_set padded_def)
    then show ?thesis
    proof cases
      case kr
      from map_result_mem(1) [OF k kr] obtain t v f where "kr_row py f (map_of ?ex t) t v = Inr (Some c)"
        by (auto split: prod.splits)
      from kr_row_candidate [OF this ex] sub show ?thesis by (auto simp: good_candidate_def)
    next
      case us
      from map_result_mem(1) [OF u us] obtain t w f where "us_row py up f (map_of ?ex t) t w = Inr c"
        by (auto split: prod.splits)
      from us_row_candidate [OF this ex] sub show ?thesis by (auto simp: good_candidate_def)
    next
      case old
      then obtain t where "(t, c) \<in> set ?ex" by auto
      then have "map_of ?ex t = Some c" using existing_rows_spec [of secs] by (simp add: map_of_eq_Some_iff)
      with ex have t: "map_of ?ex (sd_ticker c) = Some c" by blast
      have "r = c" if "r \<in> set secs" "sd_ticker r = sd_ticker c" for r using sub [OF that] t by simp
      with old(2) show ?thesis by (auto simp: good_candidate_def kept_def)
    qed
  qed
  obtain seen' where run: "append_rows ?C (set (map sd_ticker ([] :: seed_row list)), []) = (seen', rows)"
    by (cases "append_rows ?C ({}, [])") (simp add: rows)
  obtain new where n: "rows = [] @ new" "seen' = set (map sd_ticker rows)" "set new \<subseteq> set ?C" "distinct (map sd_ticker new)"
      "sd_ticker ` set ?C \<subseteq> seen'"
    by (rule append_rows_spec [OF run]) blast
  show "distinct (map sd_ticker rows)" using n(1,4) by simp
  show "\<forall>c \<in> set rows. good_candidate secs c" using n(1,3) good by auto
  show "\<forall>r \<in> set secs. \<not> padded r \<longrightarrow> sd_ticker r \<in> sd_ticker ` set rows"
  proof (intro ballI impI)
    fix r assume r: "r \<in> set secs" "\<not> padded r"
    from existing_row [OF assms(2) r(1)] have "r \<in> set (map snd ?ex)" by (force dest: map_of_SomeD)
    with r(2) have "r \<in> set ?C" by (auto simp: padded_def)
    with n(2,5) show "sd_ticker r \<in> sd_ticker ` set rows" by auto
  qed
qed

section \<open>Properties\<close>

text \<open>
  C32: The batched download ends. With a positive batch size it makes exactly \<open>\<lceil>n / b\<rceil>\<close> rounds of
  at most \<open>b\<close> symbols, asks for every symbol once and in order, and keeps exactly the
  answers that are usable; no failing symbol stops it. A batch size of zero is refused before the first
  request.
\<close>

theorem batch_fetch_ends:
  "(0 < b \<longrightarrow> (\<exists>asked res. batch_fetch yf symbols b = Inr (asked, res) \<and>
      length asked = (length symbols + b - 1) div b \<and> concat asked = symbols \<and>
      (\<forall>a \<in> set asked. a \<noteq> [] \<and> length a \<le> b) \<and>
      (\<forall>s. res s = (if s \<in> set symbols then info_of yf s else None)))) \<and>
   (b = 0 \<longrightarrow> batch_fetch yf symbols b = Inl ValueError)"
proof (intro conjI impI)
  assume b: "0 < b"
  obtain asked res where l: "batch_loop yf b symbols Map.empty = (asked, res)"
    by (cases "batch_loop yf b symbols Map.empty")
  have "fetch_chunk yf symbols Map.empty s = (if s \<in> set symbols then info_of yf s else None)" for s
    by (simp add: fetch_chunk_spec split: option.split)
  with batch_loop_spec [OF b l] l b show "\<exists>asked res. batch_fetch yf symbols b = Inr (asked, res) \<and>
      length asked = (length symbols + b - 1) div b \<and> concat asked = symbols \<and>
      (\<forall>a \<in> set asked. a \<noteq> [] \<and> length a \<le> b) \<and>
      (\<forall>s. res s = (if s \<in> set symbols then info_of yf s else None))"
    by (intro exI [of _ asked] exI [of _ res]) (simp add: batch_fetch_def)
qed (simp add: batch_fetch_def)

theorem batch_fetch_ends_witness:
  "\<exists>res. batch_fetch (\<lambda>s. if s = ''B'' then Inl OSError else Inr (JObj [(''marketCap'', JInt 5)])) [''A'', ''B'', ''C''] 2
     = Inr ([[''A'', ''B''], [''C'']], res) \<and> res ''A'' \<noteq> None \<and> res ''B'' = None"
proof -
  let ?yf = "\<lambda>s. if s = ''B'' then Inl OSError else Inr (JObj [(''marketCap'', JInt 5)])"
  have "info_of ?yf ''A'' \<noteq> None" "info_of ?yf ''B'' = None"
    by (simp_all add: info_of_def usable_info_def j_get_or_def)
  moreover obtain asked res where r: "batch_fetch ?yf [''A'', ''B'', ''C''] 2 = Inr (asked, res)"
    "\<forall>s. res s = (if s \<in> set [''A'', ''B'', ''C''] then info_of ?yf s else None)"
    using batch_fetch_ends [of 2 ?yf "[''A'', ''B'', ''C'']"] by auto
  moreover have "asked = [[''A'', ''B''], [''C'']]"
    using r(1) by (simp add: batch_fetch_def batch_loop.simps split: prod.splits)
  ultimately show ?thesis by (intro exI [of _ res]) simp
qed

text \<open>
  An estimate is the median of its group. A row without a cap gets the median of the known
  caps of its sector in its market, else of its sector, else of its market: the middle one of an
  odd number, otherwise a value between the two middle ones, and is marked as estimated. Caps are
  whole numbers up to \<open>2 ^ 52\<close>, so their sum is exact.
\<close>

lemma estimate_is_median:
  assumes "sd_market_cap s = None" and "sd_data_source s = ''static_master''"
    and "caps_for secs s = map (\<lambda>k. Fin (of_int k)) ks" and "ks \<noteq> []" and "\<forall>k \<in> set ks. 0 \<le> k \<and> k \<le> 2 ^ 52"
  shows "\<exists>m. estimate_row secs s = Inr (s\<lparr>sd_market_cap := Some (Fin m), sd_data_source := ''estimated''\<rparr>) \<and>
    of_int (sort ks ! ((length ks - 1) div 2)) \<le> m \<and> m \<le> of_int (sort ks ! (length ks div 2)) \<and>
    (odd (length ks) \<longrightarrow> m = of_int (sort ks ! (length ks div 2)))"
proof -
  let ?n = "length ks" and ?ys = "sort ks"
  have n: "0 < ?n" using assms(4) by simp
  have row: "estimate_row secs s = bind_result (median (map whole ks)) (\<lambda>m.
      Inr (s\<lparr>sd_market_cap := Some m, sd_data_source := ''estimated''\<rparr>))"
    using assms(1-4) by (simp add: estimate_row_def)
  have med: "median (map whole ks) = (if odd ?n then Inr (whole (?ys ! (?n div 2)))
      else fdiv (fadd (whole (?ys ! (?n div 2 - 1))) (whole (?ys ! (?n div 2)))) (Fin 2))"
  proof -
    have "?n div 2 < ?n" using n by simp
    moreover from this have "?n div 2 - 1 < ?n" by simp
    ultimately have "?n div 2 < ?n" "?n div 2 - 1 < ?n" .
    then have "map whole ?ys ! (?n div 2) = whole (?ys ! (?n div 2))"
      "map whole ?ys ! (?n div 2 - 1) = whole (?ys ! (?n div 2 - 1))" by (simp_all only: nth_map length_sort)
    with n show ?thesis by (simp only: median_def sorted_floats_whole Let_def length_map length_sort) simp
  qed
  show ?thesis
  proof (cases "odd ?n")
    case True
    then have "(?n - 1) div 2 = ?n div 2" by (auto elim: oddE)
    with True show ?thesis unfolding row med by simp
  next
    case False
    have h: "?n div 2 < ?n" using n by simp
    then have "?n div 2 - 1 < ?n" by simp
    moreover have "(?n - 1) div 2 = ?n div 2 - 1" using False n by (auto elim: evenE)
    moreover note h
    ultimately have i: "(?n - 1) div 2 = ?n div 2 - 1" "?n div 2 < ?n" "?n div 2 - 1 < ?n" by blast+
    then have "?ys ! (?n div 2 - 1) \<le> ?ys ! (?n div 2)" by (intro sorted_nth_mono) simp_all
    moreover have "?ys ! (?n div 2 - 1) \<in> set ks" "?ys ! (?n div 2) \<in> set ks"
      using i by (metis length_sort nth_mem set_sort)+
    ultimately have "\<exists>m. fdiv (fadd (whole (?ys ! (?n div 2 - 1))) (whole (?ys ! (?n div 2)))) (Fin 2) = Inr (Fin m) \<and>
        of_int (?ys ! (?n div 2 - 1)) \<le> m \<and> m \<le> of_int (?ys ! (?n div 2))"
      using assms(5) by (intro mean_whole) simp_all
    with False show ?thesis unfolding row med i(1) by auto
  qed
qed

definition capped_row :: "string \<Rightarrow> float64 option \<Rightarrow> string \<Rightarrow> seed_row" where
  "capped_row t cap source = \<lparr>sd_ticker = t, sd_name_ko = None, sd_name_en = JStr t, sd_aliases = [], sd_market = ''NYSE'',
     sd_sector = ''FIN_US'', sd_sector_label = [], sd_currency = ''USD'', sd_shares_outstanding = None,
     sd_market_cap = cap, sd_is_subscribed = False, sd_data_source = source\<rparr>"

lemma estimate_is_median_example:
  "\<exists>m. estimate_row [capped_row ''V'' (Some (Fin 600)) ''yahoo_finance'', capped_row ''MA'' (Some (Fin 500)) ''yahoo_finance'']
       (capped_row ''C'' None ''static_master'')
     = Inr (capped_row ''C'' (Some (Fin m)) ''estimated'') \<and> 500 \<le> m \<and> m \<le> 600"
proof -
  let ?secs = "[capped_row ''V'' (Some (Fin 600)) ''yahoo_finance'', capped_row ''MA'' (Some (Fin 500)) ''yahoo_finance'']"
  have c: "caps_for ?secs (capped_row ''C'' None ''static_master'') = map (\<lambda>k. Fin (of_int k)) [600, 500]"
    by (simp add: caps_for_def real_caps_def List.map_filter_def capped_row_def)
  have "sort [600, 500 :: int] = [500, 600]" by simp
  with estimate_is_median [OF _ _ c] show ?thesis by (auto simp: capped_row_def)
qed

text \<open>
  C33: A rebuilt universe is clean. No ticker appears twice, no placeholder is left, every
  other row of the old file still has its ticker there, and each subscribed row keeps its ticker,
  market, sector, aliases, currency and subscription; a known market cap does not get lost, whatever the
  downloads answered. This needs distinct tickers in the old file and no subscribed placeholder.
\<close>

theorem real_universe_clean:
  assumes "build_real_universe py up src (Some s) = Inr s'" and "distinct (map sd_ticker (sf_securities s))"
    and "\<forall>r \<in> set (sf_securities s). sd_is_subscribed r \<longrightarrow> sd_data_source r \<noteq> ''static_master_padding''"
  shows "sf_relations s' = sf_relations s \<and> distinct (map sd_ticker (sf_securities s')) \<and>
    (\<forall>r' \<in> set (sf_securities s'). sd_data_source r' \<noteq> ''static_master_padding'') \<and>
    (\<forall>r \<in> set (sf_securities s). sd_data_source r \<noteq> ''static_master_padding'' \<longrightarrow>
       sd_ticker r \<in> sd_ticker ` set (sf_securities s')) \<and>
    (\<forall>r \<in> set (sf_securities s). sd_is_subscribed r \<longrightarrow> (\<exists>r' \<in> set (sf_securities s'). kept r r'))"
proof -
  let ?secs = "sf_securities s" and ?secs' = "sf_securities s'"
  obtain rows where c: "collect_rows py up src ?secs = Inr rows"
    and e: "map_result (estimate_row rows) rows = Inr ?secs'" and rel: "sf_relations s' = sf_relations s"
    using assms(1) by (auto simp: build_real_universe_def load_existing_seed_def Let_def
        apply_sector_median_estimates_def elim!: bind_result_InrE)
  note spec = collect_rows_spec [OF c assms(2), unfolded padded_def, OF assms(3)]
  have tick: "map sd_ticker ?secs' = map sd_ticker rows"
    by (rule map_result_map [OF e]) (rule estimate_row_keeps(1))
  then have ticks: "sd_ticker ` set ?secs' = sd_ticker ` set rows" by (metis set_map)
  have "sd_data_source r' \<noteq> ''static_master_padding''" if "r' \<in> set ?secs'" for r'
  proof -
    from map_result_mem(1) [OF e that] obtain c where "c \<in> set rows" "estimate_row rows c = Inr r'" by blast
    with estimate_row_keeps(8) spec(2) show ?thesis by (fastforce simp: good_candidate_def padded_def)
  qed
  moreover have "\<exists>r' \<in> set ?secs'. kept r r'" if r: "r \<in> set ?secs" "sd_is_subscribed r" for r
  proof -
    from r assms(3) spec(3) have "sd_ticker r \<in> sd_ticker ` set rows" by blast
    then obtain c where c: "c \<in> set rows" "sd_ticker c = sd_ticker r" by (auto simp: image_iff)
    with spec(2) r have "kept r c" by (auto simp: good_candidate_def)
    moreover from map_result_mem(2) [OF e c(1)] obtain r' where "r' \<in> set ?secs'" "estimate_row rows c = Inr r'" by blast
    ultimately show ?thesis using estimate_row_keeps [of rows c r'] by (intro bexI [of _ r']) (auto simp: kept_def)
  qed
  moreover have "distinct (map sd_ticker ?secs')" using spec(1) by (simp only: tick)
  moreover have "\<forall>r \<in> set ?secs. sd_data_source r \<noteq> ''static_master_padding'' \<longrightarrow> sd_ticker r \<in> sd_ticker ` set ?secs'"
    using spec(3) by (simp only: ticks)
  ultimately show ?thesis using rel by blast
qed

definition sample_sources :: universe_sources where
  "sample_sources = \<lparr>us_kospi = [(''005930'', ''SEC'', ''Samsung Electronics'', ''SEMI'', ''Semis'')], us_kosdaq = [],
     us_sp500 = Inr (Some [[''Symbol''], [''V'', ''Visa'', ''Financials'', ''Payments'']]),
     us_nasdaq = Inr [(Some ''Ticker Company'', [[''Ticker'']])], us_quotes = (\<lambda>t. Inl OSError)\<rparr>"

definition samsung_row :: seed_row where
  "samsung_row = \<lparr>sd_ticker = ''005930'', sd_name_ko = None, sd_name_en = JStr ''Samsung'', sd_aliases = [''SEC''],
     sd_market = ''KRX'', sd_sector = ''SEMI'', sd_sector_label = ''Semis'', sd_currency = ''KRW'',
     sd_shares_outstanding = None, sd_market_cap = Some (Fin 7), sd_is_subscribed = True, sd_data_source = ''static_master''\<rparr>"

theorem real_universe_clean_witness:
  "\<exists>s'. build_real_universe plain_python (\<lambda>s. s) sample_sources
       (Some \<lparr>sf_securities = [samsung_row], sf_relations = []\<rparr>) = Inr s' \<and>
     distinct (map sd_ticker (sf_securities s')) \<and> (\<exists>r' \<in> set (sf_securities s'). kept samsung_row r')"
proof -
  let ?s = "\<lparr>sf_securities = [samsung_row], sf_relations = []\<rparr>"
  have "is_ok (build_real_universe plain_python (\<lambda>s. s) sample_sources (Some ?s))" by code_simp
  then obtain s' where b: "build_real_universe plain_python (\<lambda>s. s) sample_sources (Some ?s) = Inr s'"
    by (cases "build_real_universe plain_python (\<lambda>s. s) sample_sources (Some ?s)") auto
  have "distinct (map sd_ticker (sf_securities ?s))"
    "\<forall>r \<in> set (sf_securities ?s). sd_is_subscribed r \<longrightarrow> sd_data_source r \<noteq> ''static_master_padding''"
    by (simp_all add: samsung_row_def)
  from real_universe_clean [OF b this] b show ?thesis
    by (intro exI [of _ s']) (simp add: samsung_row_def)
qed

end
