(* ===== verification/Seed_Load.thy ===== *)
theory Seed_Load
  imports Real_Universe
begin

text \<open>
  Loading the seed file: \<open>upsert_seed\<close> of \<open>src/src/infrastructure/securities_repo.py\<close> and
  \<open>src/db/seed_securities.py\<close>, with the checks of the two tables (\<open>db/migrations/003\<close>).
  How the driver turns the arguments of a statement into column values, or refuses them, is an
  argument. A table is the list of its rows; the transaction keeps or drops all changes.
\<close>

section \<open>Statements\<close>

record sec_args =
  sa_ticker :: json
  sa_name_ko :: json
  sa_name_en :: json
  sa_aliases :: "json list"
  sa_market :: json
  sa_sector :: json
  sa_sector_label :: json
  sa_currency :: json
  sa_shares_outstanding :: json
  sa_market_cap :: json
  sa_is_subscribed :: bool
  sa_data_source :: json

record rel_args =
  ra_from_ticker :: json
  ra_to_ticker :: json
  ra_kind :: json
  ra_weight :: float64
  ra_directed :: bool
  ra_evidence :: json

definition security_args :: "json \<Rightarrow> sec_args result" where
  "security_args s =
     bind_result (j_item s ''ticker'') (\<lambda>ticker.
     bind_result (j_get_or s ''name_ko'' JNull) (\<lambda>ko.
     bind_result (j_get_or s ''name_en'' JNull) (\<lambda>en.
     bind_result (j_get_or s ''aliases'' JNull) (\<lambda>al.
     bind_result (j_elements (j_or al (JList []))) (\<lambda>aliases.
     bind_result (j_item s ''market'') (\<lambda>mkt.
     bind_result (j_item s ''sector'') (\<lambda>sector.
     bind_result (j_item s ''sector_label'') (\<lambda>label.
     bind_result (j_item s ''currency'') (\<lambda>currency.
     bind_result (j_get_or s ''shares_outstanding'' JNull) (\<lambda>shares.
     bind_result (j_get_or s ''market_cap'' JNull) (\<lambda>cap.
     bind_result (j_get_or s ''is_subscribed'' (JBool False)) (\<lambda>sub.
     bind_result (j_get_or s ''data_source'' (JStr ''static_master'')) (\<lambda>source.
       Inr \<lparr>sa_ticker = ticker, sa_name_ko = ko, sa_name_en = en, sa_aliases = aliases, sa_market = mkt,
         sa_sector = sector, sa_sector_label = label, sa_currency = currency, sa_shares_outstanding = shares,
         sa_market_cap = cap, sa_is_subscribed = truthy sub, sa_data_source = source\<rparr>)))))))))))))"

definition relation_args :: "python \<Rightarrow> json \<Rightarrow> rel_args result" where
  "relation_args py r =
     bind_result (j_item r ''from_ticker'') (\<lambda>a.
     bind_result (j_item r ''to_ticker'') (\<lambda>b.
     bind_result (j_item r ''kind'') (\<lambda>k.
     bind_result (j_item r ''weight'') (\<lambda>wj.
     bind_result (j_float py wj) (\<lambda>w.
     bind_result (j_get_or r ''directed'' (JBool False)) (\<lambda>d.
     bind_result (j_get_or r ''evidence'' JNull) (\<lambda>e.
       Inr \<lparr>ra_from_ticker = a, ra_to_ticker = b, ra_kind = k, ra_weight = w, ra_directed = truthy d,
         ra_evidence = e\<rparr>)))))))"

record driver =
  dr_security :: "sec_args \<Rightarrow> security_row result"
  dr_relation :: "rel_args \<Rightarrow> relation_row result"

text \<open>The \<open>CHECK\<close> constraints of the tables.\<close>

definition check_violation :: py_error where "check_violation = OtherError ''CheckViolationError''"

definition check_security :: "security_row \<Rightarrow> security_row result" where
  "check_security r = (if sr_market r \<in> {''KRX'', ''KOSDAQ'', ''NASDAQ'', ''NYSE'', ''OTHER''} then Inr r
     else Inl check_violation)"

definition check_relation :: "relation_row \<Rightarrow> relation_row result" where
  "check_relation r =
     (if rr_kind r \<in> {''sector'', ''correlation'', ''same_chaebol'', ''supply_chain'', ''cross_listing''} \<and>
         fle (Fin 0) (rr_weight r) \<and> fle (rr_weight r) (Fin 1)
      then Inr r else Inl check_violation)"

text \<open>The row a statement stores, and \<open>ON CONFLICT (key) DO UPDATE\<close>.\<close>

definition stored_security :: "driver \<Rightarrow> time \<Rightarrow> json \<Rightarrow> security_row result" where
  "stored_security d now s =
     bind_result (security_args s) (\<lambda>a. bind_result (dr_security d a) (\<lambda>r.
       check_security (r\<lparr>sr_updated_at := now\<rparr>)))"

definition stored_relation :: "python \<Rightarrow> driver \<Rightarrow> json \<Rightarrow> relation_row result" where
  "stored_relation py d r =
     bind_result (relation_args py r) (\<lambda>a. bind_result (dr_relation d a) check_relation)"

fun put_by :: "('a \<Rightarrow> 'k) \<Rightarrow> 'a \<Rightarrow> 'a list \<Rightarrow> 'a list" where
  "put_by f x [] = [x]"
| "put_by f x (y # ys) = (if f y = f x then x # ys else y # put_by f x ys)"

fun upsert_list :: "('j \<Rightarrow> 'a result) \<Rightarrow> ('a \<Rightarrow> 'k) \<Rightarrow> 'j list \<Rightarrow> 'a list \<Rightarrow> 'a list result" where
  "upsert_list stored f [] tab = Inr tab"
| "upsert_list stored f (j # js) tab = bind_result (stored j) (\<lambda>r. upsert_list stored f js (put_by f r tab))"

definition relation_key :: "relation_row \<Rightarrow> string \<times> string \<times> string" where
  "relation_key r = (rr_from_ticker r, rr_to_ticker r, rr_kind r)"

type_synonym tables = "security_row list \<times> relation_row list"

definition upsert_seed ::
    "python \<Rightarrow> driver \<Rightarrow> time \<Rightarrow> json list \<Rightarrow> json list \<Rightarrow> tables \<Rightarrow> tables \<times> (nat \<times> nat) result" where
  "upsert_seed py d now secs rels st =
     (case bind_result (upsert_list (stored_security d now) sr_ticker secs (fst st)) (\<lambda>tab.
           bind_result (upsert_list (stored_relation py d) relation_key rels (snd st)) (\<lambda>rtab. Inr (tab, rtab))) of
        Inl e \<Rightarrow> (st, Inl e)
      | Inr st' \<Rightarrow> (st', Inr (length secs, length rels)))"

text \<open>
  The command: a missing file is exit status 1, without \<open>--apply\<close> nothing is written.
  \<open>len\<close> and iteration refuse the same values.
\<close>

definition run_seed ::
    "python \<Rightarrow> driver \<Rightarrow> time \<Rightarrow> string option \<Rightarrow> bool \<Rightarrow> unit result \<Rightarrow> tables \<Rightarrow> tables \<times> int result" where
  "run_seed py d now file apply_it pool st = (case file of
       None \<Rightarrow> (st, Inr 1)
     | Some text \<Rightarrow>
        (case bind_result (py_loads py text) (\<lambda>payload.
              bind_result (j_get_or payload ''securities'' (JList [])) (\<lambda>sj.
              bind_result (j_get_or payload ''relations'' (JList [])) (\<lambda>rj.
              bind_result (if apply_it then pool else Inr ()) (\<lambda>_.
              bind_result (j_elements sj) (\<lambda>secs.
              bind_result (j_elements rj) (\<lambda>rels. Inr (secs, rels))))))) of
           Inl e \<Rightarrow> (st, Inl e)
         | Inr (secs, rels) \<Rightarrow>
             if \<not> apply_it then (st, Inr 0)
             else case upsert_seed py d now secs rels st of (st', r) \<Rightarrow> (st', bind_result r (\<lambda>_. Inr 0))))"

section \<open>The file as the builders write it\<close>

definition opt_json :: "('a \<Rightarrow> json) \<Rightarrow> 'a option \<Rightarrow> json" where
  "opt_json f x = (case x of None \<Rightarrow> JNull | Some y \<Rightarrow> f y)"

definition row_json :: "seed_row \<Rightarrow> json" where
  "row_json r = JObj [(''ticker'', JStr (sd_ticker r)), (''name_ko'', opt_json JStr (sd_name_ko r)),
     (''name_en'', sd_name_en r), (''aliases'', JList (map JStr (sd_aliases r))), (''market'', JStr (sd_market r)),
     (''sector'', JStr (sd_sector r)), (''sector_label'', JStr (sd_sector_label r)), (''currency'', JStr (sd_currency r)),
     (''shares_outstanding'', opt_json JInt (sd_shares_outstanding r)), (''market_cap'', opt_json JFloat (sd_market_cap r)),
     (''is_subscribed'', JBool (sd_is_subscribed r)), (''data_source'', JStr (sd_data_source r))]"

text \<open>The arguments of a built row, the row they mean, and a driver that stores it.\<close>

definition row_args :: "seed_row \<Rightarrow> sec_args" where
  "row_args r = \<lparr>sa_ticker = JStr (sd_ticker r), sa_name_ko = opt_json JStr (sd_name_ko r), sa_name_en = sd_name_en r,
     sa_aliases = map JStr (sd_aliases r), sa_market = JStr (sd_market r), sa_sector = JStr (sd_sector r),
     sa_sector_label = JStr (sd_sector_label r), sa_currency = JStr (sd_currency r),
     sa_shares_outstanding = opt_json JInt (sd_shares_outstanding r), sa_market_cap = opt_json JFloat (sd_market_cap r),
     sa_is_subscribed = sd_is_subscribed r, sa_data_source = JStr (sd_data_source r)\<rparr>"

definition table_row :: "time \<Rightarrow> seed_row \<Rightarrow> security_row" where
  "table_row now r = \<lparr>sr_ticker = sd_ticker r, sr_name_ko = sd_name_ko r,
     sr_name_en = (case sd_name_en r of JStr s \<Rightarrow> Some s | _ \<Rightarrow> None), sr_aliases = sd_aliases r, sr_market = sd_market r,
     sr_sector = sd_sector r, sr_sector_label = sd_sector_label r, sr_currency = sd_currency r,
     sr_shares_outstanding = sd_shares_outstanding r, sr_market_cap = sd_market_cap r,
     sr_is_subscribed = sd_is_subscribed r, sr_data_source = sd_data_source r, sr_updated_at = now\<rparr>"

definition stores_rows :: "driver \<Rightarrow> seed_row list \<Rightarrow> bool" where
  "stores_rows d rows \<longleftrightarrow> (\<forall>r \<in> set rows. \<exists>t. dr_security d (row_args r) = Inr (table_row t r))"

text \<open>A driver that takes texts, numbers and \<open>None\<close> for the columns of their type.\<close>

fun text_column :: "json \<Rightarrow> string result" where
  "text_column (JStr s) = Inr s"
| "text_column v = Inl (OtherError ''DataError'')"

definition null_or :: "(json \<Rightarrow> 'a result) \<Rightarrow> json \<Rightarrow> 'a option result" where
  "null_or f v = (if v = JNull then Inr None else bind_result (f v) (\<lambda>x. Inr (Some x)))"

fun int_column :: "json \<Rightarrow> int result" where
  "int_column (JInt n) = (if \<bar>n\<bar> < 2 ^ 63 then Inr n else Inl (OtherError ''DataError''))"
| "int_column v = Inl (OtherError ''DataError'')"

fun float_column :: "json \<Rightarrow> float64 result" where
  "float_column (JFloat x) = Inr x"
| "float_column (JInt n) = float_of_int n"
| "float_column v = Inl (OtherError ''DataError'')"

definition plain_driver :: driver where
  "plain_driver = \<lparr>dr_security = (\<lambda>a.
       bind_result (text_column (sa_ticker a)) (\<lambda>ticker.
       bind_result (null_or text_column (sa_name_ko a)) (\<lambda>ko.
       bind_result (null_or text_column (sa_name_en a)) (\<lambda>en.
       bind_result (map_result text_column (sa_aliases a)) (\<lambda>aliases.
       bind_result (text_column (sa_market a)) (\<lambda>mkt.
       bind_result (text_column (sa_sector a)) (\<lambda>sector.
       bind_result (text_column (sa_sector_label a)) (\<lambda>label.
       bind_result (text_column (sa_currency a)) (\<lambda>currency.
       bind_result (null_or int_column (sa_shares_outstanding a)) (\<lambda>shares.
       bind_result (null_or float_column (sa_market_cap a)) (\<lambda>cap.
       bind_result (text_column (sa_data_source a)) (\<lambda>source.
         Inr \<lparr>sr_ticker = ticker, sr_name_ko = ko, sr_name_en = en, sr_aliases = aliases, sr_market = mkt,
           sr_sector = sector, sr_sector_label = label, sr_currency = currency, sr_shares_outstanding = shares,
           sr_market_cap = cap, sr_is_subscribed = sa_is_subscribed a, sr_data_source = source,
           sr_updated_at = 0\<rparr>)))))))))))),
     dr_relation = (\<lambda>a. Inl (OtherError ''DataError''))\<rparr>"

section \<open>Facts\<close>

definition by_key :: "('a \<Rightarrow> 'k) \<Rightarrow> 'a list \<Rightarrow> 'k \<Rightarrow> 'a option" where
  "by_key f xs = map_of (map (\<lambda>x. (f x, x)) xs)"

lemma by_key_simps [simp]:
  "by_key f [] = Map.empty" "by_key f (x # xs) = (by_key f xs)(f x \<mapsto> x)"
  by (simp_all add: by_key_def)

lemma by_key_append: "by_key f (xs @ ys) = by_key f ys ++ by_key f xs"
  by (simp add: by_key_def)

lemma by_key_put: "by_key f (put_by f x xs) = (by_key f xs)(f x \<mapsto> x)"
  by (induction xs) (auto simp: fun_upd_twist)

lemma put_by_set: "set (put_by f x xs) \<subseteq> insert x (set xs)"
  by (induction xs) auto

lemma upsert_list_rows:
  "upsert_list stored f js tab = bind_result (map_result stored js) (\<lambda>rows. Inr (fold (put_by f) rows tab))"
proof (induction js arbitrary: tab)
  case (Cons j js)
  then show ?case by (cases "stored j"; cases "map_result stored js") simp_all
qed simp

lemma by_key_fold: "by_key f (fold (put_by f) rows tab) = by_key f tab ++ by_key f (rev rows)"
  by (induction rows rule: rev_induct) (simp_all add: by_key_put fun_eq_iff map_add_def)

lemma fold_put_set: "set (fold (put_by f) rows tab) \<subseteq> set rows \<union> set tab"
proof (induction rows arbitrary: tab)
  case (Cons r rows)
  from Cons.IH [of "put_by f r tab"] put_by_set [of f r tab] show ?case by auto
qed simp

lemma upsert_seed_ok:
  assumes "upsert_seed py d now secs rels (tab, rtab) = (st', Inr n)"
  obtains rows rrows where "map_result (stored_security d now) secs = Inr rows"
    "map_result (stored_relation py d) rels = Inr rrows"
    "st' = (fold (put_by sr_ticker) rows tab, fold (put_by relation_key) rrows rtab)" "n = (length secs, length rels)"
  using assms by (auto simp: upsert_seed_def upsert_list_rows split: sum.splits elim!: bind_result_InrE)

lemma security_args_row: "security_args (row_json r) = Inr (row_args r)"
proof -
  have "j_elements (j_or (JList (map JStr as)) (JList [])) = Inr (map JStr as)" for as by (simp add: j_or_def)
  then show ?thesis by (simp add: security_args_def row_json_def row_args_def j_get_or_def)
qed

lemma map_result_append:
  "map_result f (xs @ ys) = bind_result (map_result f xs) (\<lambda>as. bind_result (map_result f ys) (\<lambda>bs. Inr (as @ bs)))"
proof (induction xs)
  case Nil
  then show ?case by (cases "map_result f ys") simp_all
next
  case (Cons x xs)
  then show ?case by (cases "f x"; cases "map_result f xs"; cases "map_result f ys") simp_all
qed

text \<open>What the read side needs of the tables.\<close>

definition readable :: "tables \<Rightarrow> bool" where
  "readable st \<longleftrightarrow> is_ok (map_result row_to_security (fst st)) \<and> is_ok (map_result row_to_relation (snd st))"

lemma map_result_ok: "is_ok (map_result f xs) \<longleftrightarrow> (\<forall>x \<in> set xs. is_ok (f x))"
proof (induction xs)
  case (Cons x xs)
  then show ?case by (cases "f x"; cases "map_result f xs") auto
qed simp

lemma readable_iff:
  "readable st \<longleftrightarrow> (\<forall>r \<in> set (fst st). is_ok (row_to_security r)) \<and> (\<forall>r \<in> set (snd st). is_ok (row_to_relation r))"
  by (simp add: readable_def map_result_ok)

lemma stored_security_readable:
  assumes "stored_security d now s = Inr r"
  shows "is_ok (row_to_security r)"
proof -
  from assms have "sr_market r \<in> {''KRX'', ''KOSDAQ'', ''NASDAQ'', ''NYSE'', ''OTHER''}"
    by (auto simp: stored_security_def check_security_def split: if_splits elim!: bind_result_InrE)
  then show ?thesis
    by (auto simp: row_to_security_def market_of_value_def markets_def)
qed

lemma stored_relation_readable:
  assumes "stored_relation py d s = Inr r"
  shows "is_ok (row_to_relation r)"
proof -
  from assms have "rr_kind r \<in> {''sector'', ''correlation'', ''same_chaebol'', ''supply_chain'', ''cross_listing''}"
    and "fle (Fin 0) (rr_weight r)" "fle (rr_weight r) (Fin 1)"
    by (auto simp: stored_relation_def check_relation_def split: if_splits elim!: bind_result_InrE)
  then show ?thesis
    by (auto simp: row_to_relation_def relation_kind_of_value_def relation_kinds_def SecurityRelation_def in_range_def)
qed

definition erase :: "security_row \<Rightarrow> security_row" where "erase r = r\<lparr>sr_updated_at := 0\<rparr>"

lemma stored_security_later:
  "stored_security d now' s = bind_result (stored_security d now s) (\<lambda>r. Inr (r\<lparr>sr_updated_at := now'\<rparr>))"
  by (cases "security_args s") (auto simp: stored_security_def check_security_def bind_result_def split: sum.splits)

lemma map_result_later:
  assumes "map_result (stored_security d now) secs = Inr rows"
  shows "map_result (stored_security d now') secs = Inr (map (\<lambda>r. r\<lparr>sr_updated_at := now'\<rparr>) rows)"
  using assms by (induction secs arbitrary: rows) (auto simp: stored_security_later [of d now' _ now] elim!: bind_result_InrE)

lemma by_key_erase:
  "map_option erase \<circ> by_key sr_ticker (map (\<lambda>r. r\<lparr>sr_updated_at := t\<rparr>) rows) = map_option erase \<circ> by_key sr_ticker rows"
  by (induction rows) (auto simp: fun_eq_iff erase_def)

lemma map_option_add: "map_option g \<circ> (m ++ k) = (map_option g \<circ> m) ++ (map_option g \<circ> k)"
  by (auto simp: fun_eq_iff map_add_def split: option.splits)

text \<open>Loading rows that the driver stores.\<close>

definition loadable :: "seed_row \<Rightarrow> bool" where
  "loadable r \<longleftrightarrow> (sd_name_en r = JNull \<or> (\<exists>s. sd_name_en r = JStr s)) \<and>
     (\<forall>n. sd_shares_outstanding r = Some n \<longrightarrow> \<bar>n\<bar> < 2 ^ 63)"

definition market_ok :: "seed_row \<Rightarrow> bool" where
  "market_ok r \<longleftrightarrow> sd_market r \<in> {''KRX'', ''KOSDAQ'', ''NASDAQ'', ''NYSE'', ''OTHER''}"

lemma null_or_name:
  "sd_name_en r = JNull \<or> (\<exists>s. sd_name_en r = JStr s) \<Longrightarrow>
     null_or text_column (sd_name_en r) = Inr (case sd_name_en r of JStr s \<Rightarrow> Some s | _ \<Rightarrow> None)"
  by (auto simp: null_or_def)

lemma plain_driver_stores:
  assumes "\<forall>r \<in> set rows. loadable r"
  shows "stores_rows plain_driver rows"
proof -
  have "map_result text_column (map JStr xs) = Inr xs" for xs by (induction xs) simp_all
  moreover have "null_or text_column (opt_json JStr x) = Inr x" for x by (cases x) (simp_all add: null_or_def opt_json_def)
  moreover have "null_or float_column (opt_json JFloat x) = Inr x" for x by (cases x) (simp_all add: null_or_def opt_json_def)
  moreover have "null_or int_column (opt_json JInt x) = Inr x" if "\<forall>n. x = Some n \<longrightarrow> \<bar>n\<bar> < 2 ^ 63" for x
    using that by (cases x) (simp_all add: null_or_def opt_json_def)
  ultimately have "dr_security plain_driver (row_args r) = Inr (table_row 0 r)" if "loadable r" for r
    using that null_or_name [of r] by (simp add: loadable_def plain_driver_def row_args_def table_row_def)
  with assms show ?thesis by (auto simp: stores_rows_def)
qed

lemma stored_rows:
  assumes "stores_rows d secs" "\<forall>r \<in> set secs. market_ok r"
  shows "map_result (stored_security d now) (map row_json secs) = Inr (map (table_row now) secs)"
proof -
  have "stored_security d now (row_json r) = Inr (table_row now r)" if "r \<in> set secs" for r
  proof -
    from assms(1) that obtain t where "dr_security d (row_args r) = Inr (table_row t r)" by (auto simp: stores_rows_def)
    with assms(2) that show ?thesis
      by (auto simp: stored_security_def security_args_row check_security_def market_ok_def table_row_def)
  qed
  then show ?thesis by (induction secs) simp_all
qed

lemma load_rows_ok:
  assumes "stores_rows d secs" "\<forall>r \<in> set secs. market_ok r"
  shows "upsert_seed py d now (map row_json secs) [] (tab, rtab)
    = ((fold (put_by sr_ticker) (map (table_row now) secs) tab, rtab), Inr (length secs, 0))"
  by (simp add: upsert_seed_def upsert_list_rows stored_rows [OF assms])

lemma fold_put_new:
  "distinct (map f (tab @ rows)) \<Longrightarrow> fold (put_by f) rows tab = tab @ rows"
proof (induction rows arbitrary: tab)
  case (Cons r rows)
  have new: "put_by f r xs = xs @ [r]" if "f r \<notin> f ` set xs" for xs
    using that by (induction xs) auto
  from Cons.prems have "put_by f r tab = tab @ [r]" by (intro new) auto
  with Cons.IH [of "tab @ [r]"] Cons.prems show ?case by simp
qed simp

lemma table_row_simps [simp]:
  "sr_ticker (table_row now r) = sd_ticker r" "sr_market (table_row now r) = sd_market r"
  "sr_is_subscribed (table_row now r) = sd_is_subscribed r" "sr_data_source (table_row now r) = sd_data_source r"
  by (simp_all add: table_row_def)

section \<open>Properties\<close>

text \<open>
  C31: What the seed stores can be read. From readable tables every run of the command, whatever the
  file holds and whether it succeeds, leaves readable tables: each market and each relation kind is
  a value of the enumerations and each weight is in range, so the read methods cannot raise on
  a stored row.
\<close>

theorem seeded_tables_are_readable:
  assumes "readable st" and "run_seed py d now file apply_it pool st = (st', r)"
  shows "readable st'"
proof -
  have up: "readable st2" if "upsert_seed py d now secs rels st = (st2, q)" for secs rels st2 q
  proof (cases q)
    case (Inl e)
    with that assms(1) show ?thesis by (auto simp: upsert_seed_def split: sum.splits)
  next
    case (Inr n)
    obtain tab rtab where st: "st = (tab, rtab)" by (cases st)
    from upsert_seed_ok [OF that [unfolded st Inr]] obtain rows rrows where
      m: "map_result (stored_security d now) secs = Inr rows" "map_result (stored_relation py d) rels = Inr rrows"
      "st2 = (fold (put_by sr_ticker) rows tab, fold (put_by relation_key) rrows rtab)" by blast
    have "is_ok (row_to_security x)" if "x \<in> set (fst st2)" for x
    proof -
      from that m(3) fold_put_set [of sr_ticker rows tab] have "x \<in> set rows \<union> set tab" by auto
      then show ?thesis
      proof
        assume "x \<in> set rows"
        then show ?thesis using map_result_mem(1) [OF m(1)] stored_security_readable by blast
      qed (use assms(1) st in \<open>simp add: readable_iff\<close>)
    qed
    moreover have "is_ok (row_to_relation x)" if "x \<in> set (snd st2)" for x
    proof -
      from that m(3) fold_put_set [of relation_key rrows rtab] have "x \<in> set rrows \<union> set rtab" by auto
      then show ?thesis
      proof
        assume "x \<in> set rrows"
        then show ?thesis using map_result_mem(1) [OF m(2)] stored_relation_readable by blast
      qed (use assms(1) st in \<open>simp add: readable_iff\<close>)
    qed
    ultimately show ?thesis by (simp add: readable_iff)
  qed
  show ?thesis
  proof (cases "st' = st")
    case False
    with assms(2) obtain secs rels q where "upsert_seed py d now secs rels st = (st', q)"
      by (auto simp: run_seed_def split: option.splits sum.splits prod.splits if_splits)
    then show ?thesis by (rule up)
  qed (simp add: assms(1))
qed

text \<open>
  Loading the seed is all or nothing, and can be repeated. A failing run leaves both tables as
  they were. A run that succeeds reports the number of entries of the file, and a second run
  of the same file reports the same and leaves the same rows under the same keys, up to the time of the
  update.
\<close>

lemma seed_load_repeats:
  assumes "upsert_seed py d now secs rels st = (st', r)"
  shows "case r of
      Inl e \<Rightarrow> st' = st
    | Inr n \<Rightarrow> n = (length secs, length rels) \<and> (\<exists>st''. upsert_seed py d now' secs rels st' = (st'', Inr n) \<and>
        map_option erase \<circ> by_key sr_ticker (fst st'') = map_option erase \<circ> by_key sr_ticker (fst st') \<and>
        by_key relation_key (snd st'') = by_key relation_key (snd st'))"
proof (cases r)
  case (Inl e)
  with assms show ?thesis by (auto simp: upsert_seed_def split: sum.splits)
next
  case (Inr n)
  obtain tab rtab where st: "st = (tab, rtab)" by (cases st)
  from upsert_seed_ok [OF assms [unfolded st Inr]] obtain rows rrows where
    m: "map_result (stored_security d now) secs = Inr rows" "map_result (stored_relation py d) rels = Inr rrows"
    "st' = (fold (put_by sr_ticker) rows tab, fold (put_by relation_key) rrows rtab)" "n = (length secs, length rels)"
    by blast
  let ?later = "map (\<lambda>r. r\<lparr>sr_updated_at := now'\<rparr>) rows"
  let ?st2 = "(fold (put_by sr_ticker) ?later (fst st'), fold (put_by relation_key) rrows (snd st'))"
  have "upsert_seed py d now' secs rels st' = (?st2, Inr n)"
    using map_result_later [OF m(1), of now'] m(2,4) by (simp add: upsert_seed_def upsert_list_rows)
  moreover have "map_option erase \<circ> by_key sr_ticker (fst ?st2) = map_option erase \<circ> by_key sr_ticker (fst st')"
    using by_key_erase [of now' "rev rows"]
    by (simp add: by_key_fold map_option_add m(3) rev_map flip: map_add_assoc) (simp add: map_add_def fun_eq_iff split: option.split)
  moreover have "by_key relation_key (snd ?st2) = by_key relation_key (snd st')"
    by (simp add: by_key_fold m(3)) (simp add: map_add_def fun_eq_iff split: option.split)
  ultimately show ?thesis using m(4) Inr by auto
qed

text \<open>
  C35: Building twice and loading gives the tables of building once. The placeholders that a second
  run of the builder repeats are the same rows, so the load ends with the same row under every
  ticker, although it reports more rows: its count is of statements, not of securities.
\<close>

theorem rebuild_loads_the_same:
  assumes "once = sf_securities (build_universe py None tabs file)"
    and "twice = sf_securities (build_universe py None tabs (Some (build_universe py None tabs file)))"
    and "upsert_seed py d now (map row_json once) rels st = (st', Inr (n, k))"
    and "upsert_seed py d now (map row_json twice) rels st = (st'', Inr (n', k'))"
  shows "by_key sr_ticker (fst st'') = by_key sr_ticker (fst st') \<and> snd st'' = snd st' \<and> k' = k \<and>
    n' = n + length (all_padding (merge_tables tabs (sf_securities (load_existing_seed file))))"
proof -
  let ?pads = "all_padding (merge_tables tabs (sf_securities (load_existing_seed file)))"
  define base where "base = merge_tables tabs (sf_securities (load_existing_seed file))"
  have one: "once = base @ ?pads" by (simp add: assms(1) build_universe_def merged_seed_def Let_def base_def)
  have two: "twice = base @ ?pads @ ?pads"
    unfolding assms(2) base_def by (rule rebuild_rows)
  obtain tab rtab where st: "st = (tab, rtab)" by (cases st)
  from upsert_seed_ok [OF assms(3) [unfolded st]] obtain rows rrows where
    m: "map_result (stored_security d now) (map row_json once) = Inr rows" "map_result (stored_relation py d) rels = Inr rrows"
    "st' = (fold (put_by sr_ticker) rows tab, fold (put_by relation_key) rrows rtab)"
    "(n, k) = (length (map row_json once), length rels)" by blast
  from upsert_seed_ok [OF assms(4) [unfolded st]] obtain rows' rrows' where
    m': "map_result (stored_security d now) (map row_json twice) = Inr rows'" "map_result (stored_relation py d) rels = Inr rrows'"
    "st'' = (fold (put_by sr_ticker) rows' tab, fold (put_by relation_key) rrows' rtab)"
    "(n', k') = (length (map row_json twice), length rels)" by blast
  from m(1) obtain bs ps where b: "map_result (stored_security d now) (map row_json base) = Inr bs"
    "map_result (stored_security d now) (map row_json ?pads) = Inr ps" "rows = bs @ ps"
    by (auto simp: one map_result_append elim!: bind_result_InrE)
  with m'(1) have "rows' = bs @ ps @ ps" by (simp add: two map_result_append)
  then have "by_key sr_ticker (fst st'') = by_key sr_ticker (fst st')"
    by (simp add: m(3) m'(3) b(3) by_key_fold by_key_append) (simp add: map_add_def fun_eq_iff split: option.split)
  moreover have "snd st'' = snd st'" using m(2,3) m'(2,3) by simp
  ultimately show ?thesis using m(4) m'(4) by (simp add: one two)
qed

text \<open>The rows of a loaded file that the poll list takes.\<close>

lemma poll_list_of_load:
  assumes "stores_rows d secs" "\<forall>r \<in> set secs. market_ok r" "distinct (map sd_ticker secs)"
    and "upsert_seed py d now (map row_json secs) [] ([], []) = (st', r)"
    and "filter (\<lambda>s. \<not> sd_is_subscribed s \<and> sd_data_source s \<noteq> ''static_master_padding'' \<and> sd_market s \<noteq> ''OTHER'') secs = rows"
  shows "r = Inr (length secs, 0)"
    and "universe_query (fst st') = map (\<lambda>r. (sr_ticker r, sr_market r)) (sort_key sr_ticker (map (table_row now) rows))"
proof -
  have "fst st' = map (table_row now) secs" and r: "r = Inr (length secs, 0)"
    using assms(3,4) fold_put_new [of sr_ticker "[]" "map (table_row now) secs"]
    by (auto simp: load_rows_ok [OF assms(1,2)] comp_def)
  moreover have "filter universe_row (map (table_row now) secs) = map (table_row now) rows"
    unfolding assms(5) [symmetric] using assms(2) by (induction secs) (auto simp: universe_row_def market_ok_def)
  ultimately show "r = Inr (length secs, 0)"
    "universe_query (fst st') = map (\<lambda>r. (sr_ticker r, sr_market r)) (sort_key sr_ticker (map (table_row now) rows))"
    by (simp_all add: universe_query_def)
qed

text \<open>
  From the seed file to the poll list. Loading a file with distinct tickers into an empty
  database makes the universe publisher's query return exactly the tickers of the file's rows
  that are neither subscribed nor placeholders nor of another market, in order, each with the market of its
  row; so its Yahoo name is the one of the file's market.
\<close>

lemma seed_file_is_the_universe:
  assumes "stores_rows d secs" and "\<forall>r \<in> set secs. market_ok r" and "distinct (map sd_ticker secs)"
    and "upsert_seed py d now (map row_json secs) [] ([], []) = (st', r)"
  shows "r = Inr (length secs, 0) \<and>
    map fst (universe_query (fst st')) = sort (map sd_ticker (filter (\<lambda>s. \<not> sd_is_subscribed s \<and>
       sd_data_source s \<noteq> ''static_master_padding'' \<and> sd_market s \<noteq> ''OTHER'') secs)) \<and>
    (\<forall>(t, m) \<in> set (universe_query (fst st')). \<exists>s \<in> set secs. sd_ticker s = t \<and> sd_market s = m \<and>
       resolve_yahoo_symbol t m = Some (yahoo_symbol_of t m))"
proof -
  let ?polled = "\<lambda>s. \<not> sd_is_subscribed s \<and> sd_data_source s \<noteq> ''static_master_padding'' \<and> sd_market s \<noteq> ''OTHER''"
  note load = poll_list_of_load [OF assms refl]
  have "map fst (universe_query (fst st')) = sort (map sd_ticker (filter ?polled secs))"
    by (simp add: load(2) comp_def map_sort_key)
  moreover have "\<exists>s \<in> set secs. sd_ticker s = t \<and> sd_market s = m \<and> resolve_yahoo_symbol t m = Some (yahoo_symbol_of t m)"
    if "(t, m) \<in> set (universe_query (fst st'))" for t m
  proof -
    from that obtain s where "s \<in> set secs" "?polled s" "t = sd_ticker s" "m = sd_market s"
      by (auto simp: load(2))
    with assms(2) show ?thesis
      by (intro bexI [of _ s]) (auto simp: market_ok_def resolve_yahoo_symbol_def market_suffix_def yahoo_symbol_of_def)
  qed
  ultimately show ?thesis using load(1) by blast
qed

lemma seed_file_is_the_universe_example:
  "\<exists>st'. upsert_seed plain_python plain_driver 9 (map row_json [samsung_row, capped_row ''V'' None ''static_master''])
       [] ([], []) = (st', Inr (2, 0)) \<and> map fst (universe_query (fst st')) = [''V'']"
proof -
  let ?secs = "[samsung_row, capped_row ''V'' None ''static_master'']"
  have "\<forall>r \<in> set ?secs. loadable r" and ok: "\<forall>r \<in> set ?secs. market_ok r" "distinct (map sd_ticker ?secs)"
    by (simp_all add: loadable_def market_ok_def samsung_row_def capped_row_def)
  then have d: "stores_rows plain_driver ?secs" by (intro plain_driver_stores)
  obtain st' r where run: "upsert_seed plain_python plain_driver 9 (map row_json ?secs) [] ([], []) = (st', r)"
    by (cases "upsert_seed plain_python plain_driver 9 (map row_json ?secs) [] ([], [])")
  from seed_file_is_the_universe [OF d ok run] run show ?thesis
    by (intro exI [of _ st']) (simp add: samsung_row_def capped_row_def)
qed

theorem seeded_tables_are_readable_witness:
  "\<exists>st' r. run_seed (plain_python\<lparr>py_loads := (\<lambda>s. Inr (JObj [(''securities'', JList [row_json samsung_row])]))\<rparr>)
      plain_driver 9 (Some ''{}'') True (Inr ()) ([], []) = (st', r) \<and> readable st'"
proof -
  let ?run = "run_seed (plain_python\<lparr>py_loads := (\<lambda>s. Inr (JObj [(''securities'', JList [row_json samsung_row])]))\<rparr>)
      plain_driver 9 (Some ''{}'') True (Inr ()) ([], [])"
  have "readable ([], [])" by (simp add: readable_iff)
  from seeded_tables_are_readable [OF this, of _ _ _ _ _ _ "fst ?run" "snd ?run"] show ?thesis
    by (intro exI [of _ "fst ?run"] exI [of _ "snd ?run"]) (metis surjective_pairing)
qed

lemma seed_load_repeats_example:
  "\<exists>st' st''. upsert_seed plain_python plain_driver 9 (map row_json [samsung_row]) [] ([], []) = (st', Inr (1, 0)) \<and>
     upsert_seed plain_python plain_driver 10 (map row_json [samsung_row]) [] st' = (st'', Inr (1, 0)) \<and>
     map_option erase \<circ> by_key sr_ticker (fst st'') = map_option erase \<circ> by_key sr_ticker (fst st')"
proof -
  have "stores_rows plain_driver [samsung_row]" "\<forall>r \<in> set [samsung_row]. market_ok r"
    by (intro plain_driver_stores) (simp_all add: loadable_def market_ok_def samsung_row_def)
  then obtain st' where run: "upsert_seed plain_python plain_driver 9 (map row_json [samsung_row]) [] ([], []) = (st', Inr (1, 0))"
    by (auto simp: load_rows_ok simp del: list.map)
  from seed_load_repeats [OF run, of 10] run show ?thesis by auto
qed

lemma sample_once:
  assumes "secs = sf_securities (build_universe plain_python None sample_tables file)"
    and "file = None \<or> file = Some (build_universe plain_python None sample_tables None)"
  shows "\<forall>r \<in> set secs. loadable r \<and> market_ok r"
proof -
  have e: "loadable r \<and> market_ok r" if "r \<in> set (entries sample_tables)" for r
    using that by (auto simp: entries_def sample_tables_def kospi_entry_to_security_def kosdaq_entry_to_security_def
        loadable_def market_ok_def split: if_splits)
  have p: "loadable r \<and> market_ok r" if "r \<in> set (all_padding xs)" for r xs
    using that by (auto simp: all_padding_def make_padding_def padding_row_def loadable_def market_ok_def)
  obtain new where m: "merge_tables sample_tables [] = [] @ new" "set new \<subseteq> set (entries sample_tables)"
    by (rule merge_tables_spec)
  have "set (sf_securities (build_universe plain_python None sample_tables None)) = set new \<union> set (all_padding new)"
    using m(1) by (simp add: load_existing_seed_def build_universe_def merged_seed_def Let_def)
  moreover have "set (sf_securities (build_universe plain_python None sample_tables
      (Some (build_universe plain_python None sample_tables None)))) = set new \<union> set (all_padding new)"
    using m(1) unfolding rebuild_rows by (simp add: load_existing_seed_def)
  ultimately have "set secs \<subseteq> set new \<union> set (all_padding new)" using assms by auto
  with m(2) e p show ?thesis by blast
qed

theorem rebuild_loads_the_same_witness:
  "\<exists>st' st'' n n'. upsert_seed plain_python plain_driver 9 (map row_json (sf_securities
       (build_universe plain_python None sample_tables None))) [] ([], []) = (st', Inr (n, 0)) \<and>
     upsert_seed plain_python plain_driver 9 (map row_json (sf_securities (build_universe plain_python None sample_tables
       (Some (build_universe plain_python None sample_tables None))))) [] ([], []) = (st'', Inr (n', 0)) \<and>
     by_key sr_ticker (fst st'') = by_key sr_ticker (fst st')"
proof -
  let ?one = "sf_securities (build_universe plain_python None sample_tables None)"
  let ?two = "sf_securities (build_universe plain_python None sample_tables
      (Some (build_universe plain_python None sample_tables None)))"
  have "\<forall>r \<in> set ?one. loadable r \<and> market_ok r" "\<forall>r \<in> set ?two. loadable r \<and> market_ok r"
    using sample_once by blast+
  then have "stores_rows plain_driver ?one" "\<forall>r \<in> set ?one. market_ok r" "stores_rows plain_driver ?two"
    "\<forall>r \<in> set ?two. market_ok r" by (simp_all add: plain_driver_stores)
  then obtain st' st'' where run:
    "upsert_seed plain_python plain_driver 9 (map row_json ?one) [] ([], []) = (st', Inr (length ?one, 0))"
    "upsert_seed plain_python plain_driver 9 (map row_json ?two) [] ([], []) = (st'', Inr (length ?two, 0))"
    using load_rows_ok by blast
  from rebuild_loads_the_same [OF refl refl run] run show ?thesis by blast
qed

end
