(* ===== verification/Universe_Tables.thy ===== *)
theory Universe_Tables
  imports Seed_Build
begin

text \<open>
  The index tables of \<open>src/db/build_universe.py\<close>, entry by entry in the order of the source; the
  longer ones in parts.
\<close>

section \<open>Text\<close>

text \<open>
  Text is UTF-8 bytes. In the literals of the tables \<open>{C0BC}\<close> stands for the character U+C0BC, a
  character of three bytes.
\<close>

definition hex_digit :: "char \<Rightarrow> nat" where
  "hex_digit c = (if of_char c < (58 :: nat) then of_char c - 48 else of_char c - 55)"

definition hex4 :: "string \<Rightarrow> nat" where
  "hex4 s = foldl (\<lambda>n c. 16 * n + hex_digit c) 0 s"

definition utf8_bytes :: "nat \<Rightarrow> string" where
  "utf8_bytes n = [char_of (224 + n div 4096), char_of (128 + n div 64 mod 64), char_of (128 + n mod 64)]"

fun u8 :: "string \<Rightarrow> string" where
  "u8 [] = []"
| "u8 (c # cs) = (if c = CHR ''{'' then utf8_bytes (hex4 (take 4 cs)) @ u8 (drop 5 cs) else c # u8 cs)"

lemma u8_sample: "u8 ''{C608}{BE44} 1'' = ko_reserve @ '' 1''"
  by (simp add: ko_reserve_def utf8_bytes_def hex4_def hex_digit_def char_of_def bit_0)

section \<open>Korea\<close>

definition KOSPI_200_ENTRIES :: "kr_entry list" where
  "KOSPI_200_ENTRIES =
    [(''005930'', u8 ''{C0BC}{C131}{C804}{C790}'', ''Samsung Electronics'', ''SEMI'', u8 ''{BC18}{B3C4}{CCB4}'', [u8 ''{C0BC}{C131}'', ''Samsung'', ''SEC'']),
     (''000660'', u8 ''SK{D558}{C774}{B2C9}{C2A4}'', ''SK Hynix'', ''SEMI'', u8 ''{BC18}{B3C4}{CCB4}'', [u8 ''{D558}{C774}{B2C9}{C2A4}'', ''SK Hynix'']),
     (''066570'', u8 ''LG{C804}{C790}'', ''LG Electronics'', ''TECH_HW'', u8 ''{C804}{C790}'', [u8 ''LG{C804}{C790}'', ''LG Electronics'']),
     (''009150'', u8 ''{C0BC}{C131}{C804}{AE30}'', ''Samsung Electro-Mechanics'', ''TECH_HW'', u8 ''{C804}{C790}'', [u8 ''{C0BC}{C131}{C804}{AE30}'', ''SEMCO'']),
     (''000990'', u8 ''DB{D558}{C774}{D14D}'', ''DB HiTek'', ''SEMI'', u8 ''{BC18}{B3C4}{CCB4}'', [u8 ''DB{D558}{C774}{D14D}'', ''DB HiTek'']),
     (''042700'', u8 ''{D55C}{BBF8}{BC18}{B3C4}{CCB4}'', ''Hanmi Semiconductor'', ''SEMI'', u8 ''{BC18}{B3C4}{CCB4}'', [u8 ''{D55C}{BBF8}{BC18}{B3C4}{CCB4}'']),
     (''267260'', u8 ''HD{D604}{B300}{C77C}{B809}{D2B8}{B9AD}'', ''HD Hyundai Electric'', ''INDUSTRIAL'', u8 ''{C0B0}{C5C5}{C7AC}'', [u8 ''HD{D604}{B300}{C77C}{B809}{D2B8}{B9AD}'']),
     (''036570'', u8 ''{C5D4}{C528}{C18C}{D504}{D2B8}'', ''NCsoft'', ''PLATFORM'', u8 ''{D50C}{B7AB}{D3FC}'', [u8 ''NC{C18C}{D504}{D2B8}'', ''NCsoft'']),
     (''030200'', ''KT'', ''KT Corporation'', ''TELCO'', u8 ''{D1B5}{C2E0}'', [''KT'']),
     (''017670'', u8 ''SK{D154}{B808}{CF64}'', ''SK Telecom'', ''TELCO'', u8 ''{D1B5}{C2E0}'', [''SKT'']),
     (''032640'', u8 ''LG{C720}{D50C}{B7EC}{C2A4}'', ''LG Uplus'', ''TELCO'', u8 ''{D1B5}{C2E0}'', [''LGU+'', ''LG U+'']),
     (''373220'', u8 ''LG{C5D0}{B108}{C9C0}{C194}{B8E8}{C158}'', ''LG Energy Solution'', ''BATTERY'', u8 ''2{CC28}{C804}{C9C0}'', [u8 ''LG{C5D0}{B108}{C9C0}{C194}{B8E8}{C158}'', ''LGES'']),
     (''006400'', u8 ''{C0BC}{C131}SDI'', ''Samsung SDI'', ''BATTERY'', u8 ''2{CC28}{C804}{C9C0}'', [u8 ''{C0BC}{C131}SDI'']),
     (''051910'', u8 ''LG{D654}{D559}'', ''LG Chem'', ''CHEM'', u8 ''{D654}{D559}'', [u8 ''LG{D654}{D559}'', ''LG Chem'']),
     (''096770'', u8 ''SK{C774}{B178}{BCA0}{C774}{C158}'', ''SK Innovation'', ''ENERGY'', u8 ''{C5D0}{B108}{C9C0}'', [u8 ''SK{C774}{B178}{BCA0}{C774}{C158}'']),
     (''247540'', u8 ''{C5D0}{CF54}{D504}{B85C}{BE44}{C5E0}'', ''EcoPro BM'', ''BATTERY'', u8 ''2{CC28}{C804}{C9C0}'', [u8 ''{C5D0}{CF54}{D504}{B85C}{BE44}{C5E0}'', ''EcoPro BM'']),
     (''086520'', u8 ''{C5D0}{CF54}{D504}{B85C}'', ''EcoPro'', ''BATTERY'', u8 ''2{CC28}{C804}{C9C0}'', [u8 ''{C5D0}{CF54}{D504}{B85C}'', ''EcoPro'']),
     (''011790'', ''SKC'', ''SKC'', ''CHEM'', u8 ''{D654}{D559}'', [''SKC'']),
     (''000080'', u8 ''{D558}{C774}{D2B8}{C9C4}{B85C}'', ''Hite Jinro'', ''CONS'', u8 ''{C18C}{BE44}{C7AC}'', [u8 ''{D558}{C774}{D2B8}{C9C4}{B85C}'']),
     (''005380'', u8 ''{D604}{B300}{CC28}'', ''Hyundai Motor'', ''AUTO'', u8 ''{C790}{B3D9}{CC28}'', [u8 ''{D604}{B300}'', ''Hyundai'']),
     (''000270'', u8 ''{AE30}{C544}'', ''Kia'', ''AUTO'', u8 ''{C790}{B3D9}{CC28}'', [u8 ''{AE30}{C544}'', ''Kia'']),
     (''012330'', u8 ''{D604}{B300}{BAA8}{BE44}{C2A4}'', ''Hyundai Mobis'', ''AUTO'', u8 ''{C790}{B3D9}{CC28}'', [u8 ''{D604}{B300}{BAA8}{BE44}{C2A4}'', ''Mobis'']),
     (''161390'', u8 ''{D55C}{AD6D}{D0C0}{C774}{C5B4}{C564}{D14C}{D06C}{B180}{B85C}{C9C0}'', ''Hankook Tire & Technology'', ''AUTO'', u8 ''{C790}{B3D9}{CC28}'', [u8 ''{D55C}{AD6D}{D0C0}{C774}{C5B4}'']),
     (''007340'', u8 ''{D604}{B300}{AC74}{C124}{AE30}{ACC4}'', ''Hyundai Construction Equipment'', ''INDUSTRIAL'', u8 ''{C0B0}{C5C5}{C7AC}'', [u8 ''{D604}{B300}{AC74}{C124}{AE30}{ACC4}'']),
     (''105560'', u8 ''KB{AE08}{C735}'', ''KB Financial Group'', ''FIN'', u8 ''{AE08}{C735}'', [''KB'', ''KBFG'']),
     (''055550'', u8 ''{C2E0}{D55C}{C9C0}{C8FC}'', ''Shinhan Financial Group'', ''FIN'', u8 ''{AE08}{C735}'', [u8 ''{C2E0}{D55C}'', ''Shinhan'']),
     (''086790'', u8 ''{D558}{B098}{AE08}{C735}{C9C0}{C8FC}'', ''Hana Financial Group'', ''FIN'', u8 ''{AE08}{C735}'', [u8 ''{D558}{B098}'', ''Hana'']),
     (''316140'', u8 ''{C6B0}{B9AC}{AE08}{C735}{C9C0}{C8FC}'', ''Woori Financial Group'', ''FIN'', u8 ''{AE08}{C735}'', [u8 ''{C6B0}{B9AC}'', ''Woori'']),
     (''138930'', u8 ''BNK{AE08}{C735}{C9C0}{C8FC}'', ''BNK Financial Group'', ''FIN'', u8 ''{AE08}{C735}'', [''BNK'']),
     (''175330'', u8 ''JB{AE08}{C735}{C9C0}{C8FC}'', ''JB Financial Group'', ''FIN'', u8 ''{AE08}{C735}'', [''JB'']),
     (''003550'', ''LG'', ''LG Corp'', ''HOLDING'', u8 ''{C9C0}{C8FC}'', [''LG'']),
     (''032830'', u8 ''{C0BC}{C131}{C0DD}{BA85}'', ''Samsung Life Insurance'', ''FIN'', u8 ''{AE08}{C735}'', [u8 ''{C0BC}{C131}{C0DD}{BA85}'']),
     (''088350'', u8 ''{D55C}{D654}{C0DD}{BA85}'', ''Hanwha Life Insurance'', ''FIN'', u8 ''{AE08}{C735}'', [u8 ''{D55C}{D654}{C0DD}{BA85}'']),
     (''000810'', u8 ''{C0BC}{C131}{D654}{C7AC}'', ''Samsung Fire & Marine'', ''FIN'', u8 ''{AE08}{C735}'', [u8 ''{C0BC}{C131}{D654}{C7AC}'']),
     (''001450'', u8 ''{D604}{B300}{D574}{C0C1}'', ''Hyundai Marine & Fire'', ''FIN'', u8 ''{AE08}{C735}'', [u8 ''{D604}{B300}{D574}{C0C1}'']),
     (''005490'', u8 ''POSCO{D640}{B529}{C2A4}'', ''POSCO Holdings'', ''MATERIALS'', u8 ''{C18C}{C7AC}'', [u8 ''{D3EC}{C2A4}{CF54}'', ''POSCO'']),
     (''010130'', u8 ''{ACE0}{B824}{C544}{C5F0}'', ''Korea Zinc'', ''MATERIALS'', u8 ''{C18C}{C7AC}'', [u8 ''{ACE0}{B824}{C544}{C5F0}'']),
     (''004020'', u8 ''{D604}{B300}{C81C}{CCA0}'', ''Hyundai Steel'', ''MATERIALS'', u8 ''{C18C}{C7AC}'', [u8 ''{D604}{B300}{C81C}{CCA0}'']),
     (''028260'', u8 ''{C0BC}{C131}{BB3C}{C0B0}'', ''Samsung C&T'', ''HOLDING'', u8 ''{C9C0}{C8FC}'', [u8 ''{C0BC}{C131}{BB3C}{C0B0}'']),
     (''000720'', u8 ''{D604}{B300}{AC74}{C124}'', ''Hyundai E&C'', ''CONST'', u8 ''{AC74}{C124}'', [u8 ''{D604}{B300}{AC74}{C124}'']),
     (''047050'', u8 ''{D3EC}{C2A4}{CF54}{C778}{D130}{B0B4}{C154}{B110}'', ''POSCO International'', ''TRADE'', u8 ''{C0C1}{C0AC}'', [u8 ''{D3EC}{C2A4}{CF54}{C778}{D130}{B0B4}{C154}{B110}'']),
     (''002380'', ''KCC'', ''KCC'', ''CHEM'', u8 ''{D654}{D559}'', [''KCC'']),
     (''207940'', u8 ''{C0BC}{C131}{BC14}{C774}{C624}{B85C}{C9C1}{C2A4}'', ''Samsung Biologics'', ''BIO'', u8 ''{BC14}{C774}{C624}'', [u8 ''{C0BC}{C131}{BC14}{C774}{C624}'', ''SBL'']),
     (''068270'', u8 ''{C140}{D2B8}{B9AC}{C628}'', ''Celltrion'', ''BIO'', u8 ''{BC14}{C774}{C624}'', [u8 ''{C140}{D2B8}{B9AC}{C628}'', ''Celltrion'']),
     (''145020'', u8 ''{D734}{C824}'', ''Hugel'', ''BIO'', u8 ''{BC14}{C774}{C624}'', [u8 ''{D734}{C824}'']),
     (''196170'', u8 ''{C54C}{D14C}{C624}{C820}'', ''Alteogen'', ''BIO'', u8 ''{BC14}{C774}{C624}'', [u8 ''{C54C}{D14C}{C624}{C820}'']),
     (''302440'', u8 ''SK{BC14}{C774}{C624}{C0AC}{C774}{C5B8}{C2A4}'', ''SK Bioscience'', ''BIO'', u8 ''{BC14}{C774}{C624}'', [u8 ''SK{BC14}{C774}{C624}{C0AC}{C774}{C5B8}{C2A4}'']),
     (''011780'', u8 ''{AE08}{D638}{C11D}{C720}{D654}{D559}'', ''Kumho Petrochemical'', ''CHEM'', u8 ''{D654}{D559}'', [u8 ''{AE08}{D638}{C11D}{C720}{D654}{D559}'']),
     (''139480'', u8 ''{C774}{B9C8}{D2B8}'', ''E-Mart'', ''CONS'', u8 ''{C18C}{BE44}{C7AC}'', [u8 ''{C774}{B9C8}{D2B8}'', ''E-Mart'']),
     (''069960'', u8 ''{D604}{B300}{BC31}{D654}{C810}'', ''Hyundai Department Store'', ''CONS'', u8 ''{C18C}{BE44}{C7AC}'', [u8 ''{D604}{B300}{BC31}{D654}{C810}'']),
     (''015760'', u8 ''{D55C}{AD6D}{C804}{B825}'', ''Korea Electric Power'', ''ENERGY'', u8 ''{C5D0}{B108}{C9C0}'', [u8 ''{D55C}{C804}'', ''KEPCO'']),
     (''034730'', ''SK'', ''SK Inc.'', ''HOLDING'', u8 ''{C9C0}{C8FC}'', [''SK'']),
     (''018260'', u8 ''{C0BC}{C131}{C5D0}{C2A4}{B514}{C5D0}{C2A4}'', ''Samsung SDS'', ''PLATFORM'', u8 ''{D50C}{B7AB}{D3FC}'', [u8 ''{C0BC}{C131}SDS'', ''Samsung SDS'']),
     (''009830'', u8 ''{D55C}{D654}{C194}{B8E8}{C158}'', ''Hanwha Solutions'', ''CHEM'', u8 ''{D654}{D559}'', [u8 ''{D55C}{D654}{C194}{B8E8}{C158}'']),
     (''011170'', u8 ''{B86F}{B370}{CF00}{BBF8}{CE7C}'', ''Lotte Chemical'', ''CHEM'', u8 ''{D654}{D559}'', [u8 ''{B86F}{B370}{CF00}{BBF8}{CE7C}'']),
     (''000100'', u8 ''{C720}{D55C}{C591}{D589}'', ''Yuhan Corporation'', ''BIO'', u8 ''{BC14}{C774}{C624}'', [u8 ''{C720}{D55C}{C591}{D589}'']),
     (''097950'', u8 ''CJ{C81C}{C77C}{C81C}{B2F9}'', ''CJ CheilJedang'', ''CONS'', u8 ''{C18C}{BE44}{C7AC}'', [u8 ''CJ{C81C}{C77C}{C81C}{B2F9}'']),
     (''021240'', u8 ''{CF54}{C6E8}{C774}'', ''Coway'', ''CONS'', u8 ''{C18C}{BE44}{C7AC}'', [u8 ''{CF54}{C6E8}{C774}'', ''Coway'']),
     (''035420'', ''NAVER'', ''Naver Corporation'', ''PLATFORM'', u8 ''{D50C}{B7AB}{D3FC}'', [u8 ''{B124}{C774}{BC84}'', ''Naver'']),
     (''035720'', u8 ''{CE74}{CE74}{C624}'', ''Kakao'', ''PLATFORM'', u8 ''{D50C}{B7AB}{D3FC}'', [u8 ''{CE74}{CE74}{C624}'', ''Kakao'']),
     (''259960'', u8 ''{D06C}{B798}{D504}{D1A4}'', ''Krafton'', ''PLATFORM'', u8 ''{D50C}{B7AB}{D3FC}'', [u8 ''{D06C}{B798}{D504}{D1A4}'', ''Krafton'']),
     (''293490'', u8 ''{CE74}{CE74}{C624}{BC45}{D06C}'', ''KakaoBank'', ''FIN'', u8 ''{AE08}{C735}'', [u8 ''{CE74}{CE74}{C624}{BC45}{D06C}'']),
     (''352820'', u8 ''{D558}{C774}{BE0C}'', ''HYBE'', ''MEDIA'', u8 ''{C5D4}{D130}'', [u8 ''{D558}{C774}{BE0C}'', ''HYBE'']),
     (''035900'', ''JYP Ent.'', ''JYP Entertainment'', ''MEDIA'', u8 ''{C5D4}{D130}'', [''JYP'']),
     (''041510'', u8 ''{C5D0}{C2A4}{C5E0}'', ''SM Entertainment'', ''MEDIA'', u8 ''{C5D4}{D130}'', [''SM Entertainment'', ''SM'']),
     (''009540'', u8 ''HD{D55C}{AD6D}{C870}{C120}{D574}{C591}'', ''HD Korea Shipbuilding & Offshore'', ''SHIP'', u8 ''{C870}{C120}'', [u8 ''HD{D55C}{AD6D}{C870}{C120}{D574}{C591}'']),
     (''010140'', u8 ''{C0BC}{C131}{C911}{ACF5}{C5C5}'', ''Samsung Heavy Industries'', ''SHIP'', u8 ''{C870}{C120}'', [u8 ''{C0BC}{C131}{C911}{ACF5}{C5C5}'']),
     (''042660'', u8 ''{D55C}{D654}{C624}{C158}'', ''Hanwha Ocean'', ''SHIP'', u8 ''{C870}{C120}'', [u8 ''{D55C}{D654}{C624}{C158}'', u8 ''{B300}{C6B0}{C870}{C120}{D574}{C591}'']),
     (''011200'', ''HMM'', ''HMM'', ''SHIP'', u8 ''{C870}{C120}'', [''HMM'']),
     (''064350'', u8 ''{D604}{B300}{B85C}{D15C}'', ''Hyundai Rotem'', ''INDUSTRIAL'', u8 ''{C0B0}{C5C5}{C7AC}'', [u8 ''{D604}{B300}{B85C}{D15C}'']),
     (''298040'', u8 ''{D6A8}{C131}{C911}{ACF5}{C5C5}'', ''Hyosung Heavy Industries'', ''INDUSTRIAL'', u8 ''{C0B0}{C5C5}{C7AC}'', [u8 ''{D6A8}{C131}{C911}{ACF5}{C5C5}'']),
     (''012450'', u8 ''{D55C}{D654}{C5D0}{C5B4}{B85C}{C2A4}{D398}{C774}{C2A4}'', ''Hanwha Aerospace'', ''DEFENSE'', u8 ''{BC29}{C0B0}'', [u8 ''{D55C}{D654}{C5D0}{C5B4}{B85C}{C2A4}{D398}{C774}{C2A4}''])]"

definition KOSDAQ_150_ENTRIES :: "kr_entry list" where
  "KOSDAQ_150_ENTRIES =
    [(''247540'', u8 ''{C5D0}{CF54}{D504}{B85C}{BE44}{C5E0}'', ''EcoPro BM'', ''BATTERY'', u8 ''2{CC28}{C804}{C9C0}'', [u8 ''{C5D0}{CF54}{D504}{B85C}{BE44}{C5E0}'']),
     (''086520'', u8 ''{C5D0}{CF54}{D504}{B85C}'', ''EcoPro'', ''BATTERY'', u8 ''2{CC28}{C804}{C9C0}'', [u8 ''{C5D0}{CF54}{D504}{B85C}'']),
     (''196170'', u8 ''{C54C}{D14C}{C624}{C820}'', ''Alteogen'', ''BIO'', u8 ''{BC14}{C774}{C624}'', [u8 ''{C54C}{D14C}{C624}{C820}'']),
     (''058470'', u8 ''{B9AC}{B178}{ACF5}{C5C5}'', ''Leeno Industrial'', ''SEMI'', u8 ''{BC18}{B3C4}{CCB4}'', [u8 ''{B9AC}{B178}{ACF5}{C5C5}'']),
     (''028300'', ''HLB'', ''HLB'', ''BIO'', u8 ''{BC14}{C774}{C624}'', [''HLB'']),
     (''091990'', u8 ''{C140}{D2B8}{B9AC}{C628}{D5EC}{C2A4}{CF00}{C5B4}'', ''Celltrion Healthcare'', ''BIO'', u8 ''{BC14}{C774}{C624}'', [u8 ''{C140}{D2B8}{B9AC}{C628}{D5EC}{C2A4}{CF00}{C5B4}'']),
     (''095660'', u8 ''{B124}{C624}{C704}{C988}'', ''Neowiz'', ''PLATFORM'', u8 ''{D50C}{B7AB}{D3FC}'', [u8 ''{B124}{C624}{C704}{C988}'']),
     (''357780'', u8 ''{C194}{BE0C}{B808}{C778}'', ''Soulbrain'', ''MATERIALS'', u8 ''{C18C}{C7AC}'', [u8 ''{C194}{BE0C}{B808}{C778}'']),
     (''263750'', u8 ''{D384}{C5B4}{BE44}{C2A4}'', ''Pearl Abyss'', ''PLATFORM'', u8 ''{D50C}{B7AB}{D3FC}'', [u8 ''{D384}{C5B4}{BE44}{C2A4}'']),
     (''112040'', u8 ''{C704}{BA54}{C774}{B4DC}'', ''Wemade'', ''PLATFORM'', u8 ''{D50C}{B7AB}{D3FC}'', [u8 ''{C704}{BA54}{C774}{B4DC}'']),
     (''039030'', u8 ''{C774}{C624}{D14C}{D06C}{B2C9}{C2A4}'', ''EO Technics'', ''SEMI'', u8 ''{BC18}{B3C4}{CCB4}'', [u8 ''{C774}{C624}{D14C}{D06C}{B2C9}{C2A4}'']),
     (''214150'', u8 ''{D074}{B798}{C2DC}{C2A4}'', ''Classys'', ''BIO'', u8 ''{BC14}{C774}{C624}'', [u8 ''{D074}{B798}{C2DC}{C2A4}'']),
     (''240810'', u8 ''{C6D0}{C775}IPS'', ''Wonik IPS'', ''SEMI'', u8 ''{BC18}{B3C4}{CCB4}'', [u8 ''{C6D0}{C775}IPS'']),
     (''232140'', u8 ''{C640}{C774}{C528}'', ''YC'', ''SEMI'', u8 ''{BC18}{B3C4}{CCB4}'', [u8 ''{C640}{C774}{C528}'']),
     (''036930'', u8 ''{C8FC}{C131}{C5D4}{C9C0}{B2C8}{C5B4}{B9C1}'', ''Jusung Engineering'', ''SEMI'', u8 ''{BC18}{B3C4}{CCB4}'', [u8 ''{C8FC}{C131}{C5D4}{C9C0}{B2C8}{C5B4}{B9C1}'']),
     (''122870'', u8 ''{C640}{C774}{C9C0}{C5D4}{D130}{D14C}{C778}{BA3C}{D2B8}'', ''YG Entertainment'', ''MEDIA'', u8 ''{C5D4}{D130}'', [''YG'']),
     (''041920'', u8 ''{BA54}{B514}{D1A1}{C2A4}'', ''Medytox'', ''BIO'', u8 ''{BC14}{C774}{C624}'', [u8 ''{BA54}{B514}{D1A1}{C2A4}'']),
     (''078160'', u8 ''{BA54}{B514}{D3EC}{C2A4}{D2B8}'', ''Medipost'', ''BIO'', u8 ''{BC14}{C774}{C624}'', [u8 ''{BA54}{B514}{D3EC}{C2A4}{D2B8}'']),
     (''084110'', u8 ''{D734}{C628}{C2A4}'', ''Huons'', ''BIO'', u8 ''{BC14}{C774}{C624}'', [u8 ''{D734}{C628}{C2A4}'']),
     (''018290'', u8 ''{BCA0}{C5B4}{B85C}{BCF4}{D2F1}{C2A4}'', ''Bear Robotics'', ''TECH_HW'', u8 ''{C804}{C790}'', [u8 ''{BCA0}{C5B4}{B85C}{BCF4}{D2F1}{C2A4}'']),
     (''064760'', u8 ''{CE74}{CE74}{C624}{AC8C}{C784}{C988}'', ''Kakao Games'', ''PLATFORM'', u8 ''{D50C}{B7AB}{D3FC}'', [u8 ''{CE74}{CE74}{C624}{AC8C}{C784}{C988}'']),
     (''228760'', u8 ''{C9C0}{B178}{BBF9}{D2B8}{B9AC}'', ''Genomictree'', ''BIO'', u8 ''{BC14}{C774}{C624}'', [u8 ''{C9C0}{B178}{BBF9}{D2B8}{B9AC}'']),
     (''066970'', u8 ''{C5D8}{C564}{C5D0}{D504}'', ''L&F'', ''BATTERY'', u8 ''2{CC28}{C804}{C9C0}'', [u8 ''{C5D8}{C564}{C5D0}{D504}'']),
     (''293490'', u8 ''{CE74}{CE74}{C624}{BC45}{D06C}-{BE44}{AD50}'', ''KakaoBank (proxy)'', ''FIN'', u8 ''{AE08}{C735}'', [u8 ''{CE74}{CE74}{C624}{BC45}{D06C}'']),
     (''054620'', ''APS'', ''APS Holdings'', ''SEMI'', u8 ''{BC18}{B3C4}{CCB4}'', [''APS'']),
     (''067310'', u8 ''{D558}{B098}{B9C8}{C774}{D06C}{B860}'', ''Hana Micron'', ''SEMI'', u8 ''{BC18}{B3C4}{CCB4}'', [u8 ''{D558}{B098}{B9C8}{C774}{D06C}{B860}'']),
     (''166090'', u8 ''{D558}{B098}{BA38}{D2F0}{B9AC}{C5BC}{C988}'', ''Hana Materials'', ''SEMI'', u8 ''{BC18}{B3C4}{CCB4}'', [u8 ''{D558}{B098}{BA38}{D2F0}{B9AC}{C5BC}{C988}'']),
     (''178320'', u8 ''{C11C}{C9C4}{C2DC}{C2A4}{D15C}'', ''Seojin System'', ''TECH_HW'', u8 ''{C804}{C790}'', [u8 ''{C11C}{C9C4}{C2DC}{C2A4}{D15C}'']),
     (''095340'', ''ISC'', ''ISC'', ''SEMI'', u8 ''{BC18}{B3C4}{CCB4}'', [''ISC'']),
     (''121600'', u8 ''{B098}{B178}{C2E0}{C18C}{C7AC}'', ''Nano New Materials'', ''MATERIALS'', u8 ''{C18C}{C7AC}'', [u8 ''{B098}{B178}{C2E0}{C18C}{C7AC}'']),
     (''403870'', ''HPSP'', ''HPSP'', ''SEMI'', u8 ''{BC18}{B3C4}{CCB4}'', [''HPSP'']),
     (''950140'', u8 ''{C789}{AE00}{C6B0}{B4DC}{B7A9}'', ''Englewood Lab'', ''CONS'', u8 ''{C18C}{BE44}{C7AC}'', [u8 ''{C789}{AE00}{C6B0}{B4DC}{B7A9}'']),
     (''251270'', u8 ''{B137}{B9C8}{BE14}'', ''Netmarble'', ''PLATFORM'', u8 ''{D50C}{B7AB}{D3FC}'', [u8 ''{B137}{B9C8}{BE14}'']),
     (''293480'', u8 ''{D558}{C774}{C988}{D56D}{ACF5}'', ''HiZ Aero'', ''DEFENSE'', u8 ''{BC29}{C0B0}'', [u8 ''{D558}{C774}{C988}{D56D}{ACF5}'']),
     (''033640'', u8 ''{B124}{D328}{C2A4}'', ''Nepes'', ''SEMI'', u8 ''{BC18}{B3C4}{CCB4}'', [u8 ''{B124}{D328}{C2A4}'']),
     (''213420'', u8 ''{B355}{C0B0}{B124}{C624}{B8E9}{C2A4}'', ''Duksan Neolux'', ''MATERIALS'', u8 ''{C18C}{C7AC}'', [u8 ''{B355}{C0B0}{B124}{C624}{B8E9}{C2A4}'']),
     (''131290'', ''TES'', ''TES'', ''SEMI'', u8 ''{BC18}{B3C4}{CCB4}'', [''TES'']),
     (''145720'', u8 ''{B374}{D2F0}{C6C0}'', ''Dentium'', ''BIO'', u8 ''{BC14}{C774}{C624}'', [u8 ''{B374}{D2F0}{C6C0}'']),
     (''277810'', u8 ''{B808}{C778}{BCF4}{C6B0}{B85C}{BCF4}{D2F1}{C2A4}'', ''Rainbow Robotics'', ''TECH_HW'', u8 ''{C804}{C790}'', [u8 ''{B808}{C778}{BCF4}{C6B0}{B85C}{BCF4}{D2F1}{C2A4}'']),
     (''328130'', u8 ''{B8E8}{B2DB}'', ''Lunit'', ''BIO'', u8 ''{BC14}{C774}{C624}'', [u8 ''{B8E8}{B2DB}'']),
     (''389470'', u8 ''{C778}{BCA4}{D2F0}{C9C0}{B7A9}'', ''Inventage Lab'', ''BIO'', u8 ''{BC14}{C774}{C624}'', [u8 ''{C778}{BCA4}{D2F0}{C9C0}{B7A9}'']),
     (''348370'', u8 ''{C5D4}{CF10}'', ''Enchem'', ''BATTERY'', u8 ''2{CC28}{C804}{C9C0}'', [u8 ''{C5D4}{CF10}'']),
     (''214370'', u8 ''{CF00}{C5B4}{C820}'', ''Caregen'', ''BIO'', u8 ''{BC14}{C774}{C624}'', [u8 ''{CF00}{C5B4}{C820}'']),
     (''281740'', u8 ''{B808}{C774}{D06C}{BA38}{D2F0}{B9AC}{C5BC}{C988}'', ''Lake Materials'', ''MATERIALS'', u8 ''{C18C}{C7AC}'', [u8 ''{B808}{C774}{D06C}{BA38}{D2F0}{B9AC}{C5BC}{C988}'']),
     (''104830'', u8 ''{C6D0}{C775}{BA38}{D2B8}{B9AC}{C5BC}{C988}'', ''Wonik Materials'', ''MATERIALS'', u8 ''{C18C}{C7AC}'', [u8 ''{C6D0}{C775}{BA38}{D2B8}{B9AC}{C5BC}{C988}'']),
     (''085660'', u8 ''{CC28}{BC14}{C774}{C624}{D14D}'', ''CHA Biotech'', ''BIO'', u8 ''{BC14}{C774}{C624}'', [u8 ''{CC28}{BC14}{C774}{C624}{D14D}'']),
     (''215000'', u8 ''{ACE8}{D504}{C874}'', ''Golfzon'', ''CONS'', u8 ''{C18C}{BE44}{C7AC}'', [u8 ''{ACE8}{D504}{C874}'']),
     (''376300'', u8 ''{B514}{C5B4}{C720}'', ''Dear U'', ''MEDIA'', u8 ''{C5D4}{D130}'', [u8 ''{B514}{C5B4}{C720}'']),
     (''237690'', u8 ''{C5D0}{C2A4}{D2F0}{D31C}'', ''ST Pharm'', ''BIO'', u8 ''{BC14}{C774}{C624}'', [u8 ''{C5D0}{C2A4}{D2F0}{D31C}'']),
     (''141080'', u8 ''{B9AC}{AC00}{CF10}{BC14}{C774}{C624}'', ''LigaChem Biosciences'', ''BIO'', u8 ''{BC14}{C774}{C624}'', [u8 ''{B9AC}{AC00}{CF10}{BC14}{C774}{C624}''])]"

section \<open>United States\<close>

definition SP500_ENTRIES_1 :: "us_entry list" where
  "SP500_ENTRIES_1 =
    [(''AAPL'', ''Apple Inc.'', ''TECH_US'', ''Big Tech'', ''NASDAQ''),
     (''MSFT'', ''Microsoft Corporation'', ''TECH_US'', ''Big Tech'', ''NASDAQ''),
     (''NVDA'', ''NVIDIA Corporation'', ''SEMI_US'', ''US Semis'', ''NASDAQ''),
     (''GOOGL'', ''Alphabet Inc. (Class A)'', ''TECH_US'', ''Big Tech'', ''NASDAQ''),
     (''GOOG'', ''Alphabet Inc. (Class C)'', ''TECH_US'', ''Big Tech'', ''NASDAQ''),
     (''AMZN'', ''Amazon.com Inc.'', ''TECH_US'', ''Big Tech'', ''NASDAQ''),
     (''META'', ''Meta Platforms Inc.'', ''TECH_US'', ''Big Tech'', ''NASDAQ''),
     (''TSLA'', ''Tesla Inc.'', ''AUTO_US'', ''US Auto'', ''NASDAQ''),
     (''BRK.B'', ''Berkshire Hathaway Inc. Class B'', ''FIN_US'', ''US Financials'', ''NYSE''),
     (''JPM'', ''JPMorgan Chase & Co.'', ''FIN_US'', ''US Financials'', ''NYSE''),
     (''V'', ''Visa Inc.'', ''FIN_US'', ''US Financials'', ''NYSE''),
     (''MA'', ''Mastercard Incorporated'', ''FIN_US'', ''US Financials'', ''NYSE''),
     (''AVGO'', ''Broadcom Inc.'', ''SEMI_US'', ''US Semis'', ''NASDAQ''),
     (''ORCL'', ''Oracle Corporation'', ''TECH_US'', ''Big Tech'', ''NYSE''),
     (''AMD'', ''Advanced Micro Devices'', ''SEMI_US'', ''US Semis'', ''NASDAQ''),
     (''QCOM'', ''Qualcomm Incorporated'', ''SEMI_US'', ''US Semis'', ''NASDAQ''),
     (''INTC'', ''Intel Corporation'', ''SEMI_US'', ''US Semis'', ''NASDAQ''),
     (''MU'', ''Micron Technology'', ''SEMI_US'', ''US Semis'', ''NASDAQ''),
     (''AMAT'', ''Applied Materials'', ''SEMI_EQUIP'', ''Semi Equipment'', ''NASDAQ''),
     (''LRCX'', ''Lam Research Corporation'', ''SEMI_EQUIP'', ''Semi Equipment'', ''NASDAQ''),
     (''KLAC'', ''KLA Corporation'', ''SEMI_EQUIP'', ''Semi Equipment'', ''NASDAQ''),
     (''ASML'', ''ASML Holding N.V.'', ''SEMI_EQUIP'', ''Semi Equipment'', ''NASDAQ''),
     (''TXN'', ''Texas Instruments'', ''SEMI_US'', ''US Semis'', ''NASDAQ''),
     (''ADI'', ''Analog Devices'', ''SEMI_US'', ''US Semis'', ''NASDAQ''),
     (''MRVL'', ''Marvell Technology'', ''SEMI_US'', ''US Semis'', ''NASDAQ''),
     (''NXPI'', ''NXP Semiconductors'', ''SEMI_US'', ''US Semis'', ''NASDAQ''),
     (''ON'', ''ON Semiconductor'', ''SEMI_US'', ''US Semis'', ''NASDAQ''),
     (''MCHP'', ''Microchip Technology'', ''SEMI_US'', ''US Semis'', ''NASDAQ''),
     (''CRM'', ''Salesforce Inc.'', ''SOFTWARE'', ''US Software'', ''NYSE''),
     (''ADBE'', ''Adobe Inc.'', ''SOFTWARE'', ''US Software'', ''NASDAQ''),
     (''NOW'', ''ServiceNow Inc.'', ''SOFTWARE'', ''US Software'', ''NYSE''),
     (''INTU'', ''Intuit Inc.'', ''SOFTWARE'', ''US Software'', ''NASDAQ''),
     (''PANW'', ''Palo Alto Networks'', ''SOFTWARE'', ''US Software'', ''NASDAQ''),
     (''CRWD'', ''CrowdStrike Holdings'', ''SOFTWARE'', ''US Software'', ''NASDAQ''),
     (''FTNT'', ''Fortinet Inc.'', ''SOFTWARE'', ''US Software'', ''NASDAQ''),
     (''SNPS'', ''Synopsys Inc.'', ''SOFTWARE'', ''US Software'', ''NASDAQ''),
     (''CDNS'', ''Cadence Design Systems'', ''SOFTWARE'', ''US Software'', ''NASDAQ''),
     (''ANSS'', ''ANSYS Inc.'', ''SOFTWARE'', ''US Software'', ''NASDAQ''),
     (''WDAY'', ''Workday Inc.'', ''SOFTWARE'', ''US Software'', ''NASDAQ''),
     (''TEAM'', ''Atlassian Corporation'', ''SOFTWARE'', ''US Software'', ''NASDAQ''),
     (''DDOG'', ''Datadog Inc.'', ''SOFTWARE'', ''US Software'', ''NASDAQ''),
     (''MDB'', ''MongoDB Inc.'', ''SOFTWARE'', ''US Software'', ''NASDAQ''),
     (''NET'', ''Cloudflare Inc.'', ''SOFTWARE'', ''US Software'', ''NYSE''),
     (''OKTA'', ''Okta Inc.'', ''SOFTWARE'', ''US Software'', ''NASDAQ''),
     (''ZS'', ''Zscaler Inc.'', ''SOFTWARE'', ''US Software'', ''NASDAQ''),
     (''SNOW'', ''Snowflake Inc.'', ''SOFTWARE'', ''US Software'', ''NYSE''),
     (''PLTR'', ''Palantir Technologies'', ''SOFTWARE'', ''US Software'', ''NYSE''),
     (''UNH'', ''UnitedHealth Group'', ''HEALTH_US'', ''US Healthcare'', ''NYSE''),
     (''JNJ'', ''Johnson & Johnson'', ''HEALTH_US'', ''US Healthcare'', ''NYSE''),
     (''LLY'', ''Eli Lilly and Company'', ''HEALTH_US'', ''US Healthcare'', ''NYSE''),
     (''PFE'', ''Pfizer Inc.'', ''HEALTH_US'', ''US Healthcare'', ''NYSE''),
     (''ABBV'', ''AbbVie Inc.'', ''HEALTH_US'', ''US Healthcare'', ''NYSE''),
     (''MRK'', ''Merck & Co.'', ''HEALTH_US'', ''US Healthcare'', ''NYSE''),
     (''ABT'', ''Abbott Laboratories'', ''HEALTH_US'', ''US Healthcare'', ''NYSE''),
     (''TMO'', ''Thermo Fisher Scientific'', ''HEALTH_US'', ''US Healthcare'', ''NYSE''),
     (''DHR'', ''Danaher Corporation'', ''HEALTH_US'', ''US Healthcare'', ''NYSE''),
     (''MDT'', ''Medtronic plc'', ''HEALTH_US'', ''US Healthcare'', ''NYSE''),
     (''BMY'', ''Bristol-Myers Squibb'', ''HEALTH_US'', ''US Healthcare'', ''NYSE''),
     (''AMGN'', ''Amgen Inc.'', ''HEALTH_US'', ''US Healthcare'', ''NASDAQ''),
     (''GILD'', ''Gilead Sciences'', ''HEALTH_US'', ''US Healthcare'', ''NASDAQ''),
     (''ISRG'', ''Intuitive Surgical'', ''HEALTH_US'', ''US Healthcare'', ''NASDAQ''),
     (''BSX'', ''Boston Scientific'', ''HEALTH_US'', ''US Healthcare'', ''NYSE''),
     (''VRTX'', ''Vertex Pharmaceuticals'', ''HEALTH_US'', ''US Healthcare'', ''NASDAQ'')]"

definition SP500_ENTRIES_2 :: "us_entry list" where
  "SP500_ENTRIES_2 =
    [(''REGN'', ''Regeneron Pharmaceuticals'', ''HEALTH_US'', ''US Healthcare'', ''NASDAQ''),
     (''BIIB'', ''Biogen Inc.'', ''HEALTH_US'', ''US Healthcare'', ''NASDAQ''),
     (''CI'', ''Cigna Group'', ''HEALTH_US'', ''US Healthcare'', ''NYSE''),
     (''HUM'', ''Humana Inc.'', ''HEALTH_US'', ''US Healthcare'', ''NYSE''),
     (''CVS'', ''CVS Health'', ''HEALTH_US'', ''US Healthcare'', ''NYSE''),
     (''ELV'', ''Elevance Health'', ''HEALTH_US'', ''US Healthcare'', ''NYSE''),
     (''HCA'', ''HCA Healthcare'', ''HEALTH_US'', ''US Healthcare'', ''NYSE''),
     (''IDXX'', ''IDEXX Laboratories'', ''HEALTH_US'', ''US Healthcare'', ''NASDAQ''),
     (''DXCM'', ''Dexcom Inc.'', ''HEALTH_US'', ''US Healthcare'', ''NASDAQ''),
     (''ZTS'', ''Zoetis Inc.'', ''HEALTH_US'', ''US Healthcare'', ''NYSE''),
     (''BAC'', ''Bank of America'', ''FIN_US'', ''US Financials'', ''NYSE''),
     (''WFC'', ''Wells Fargo & Company'', ''FIN_US'', ''US Financials'', ''NYSE''),
     (''C'', ''Citigroup Inc.'', ''FIN_US'', ''US Financials'', ''NYSE''),
     (''GS'', ''Goldman Sachs Group'', ''FIN_US'', ''US Financials'', ''NYSE''),
     (''MS'', ''Morgan Stanley'', ''FIN_US'', ''US Financials'', ''NYSE''),
     (''AXP'', ''American Express'', ''FIN_US'', ''US Financials'', ''NYSE''),
     (''SPGI'', ''S&P Global Inc.'', ''FIN_US'', ''US Financials'', ''NYSE''),
     (''ICE'', ''Intercontinental Exchange'', ''FIN_US'', ''US Financials'', ''NYSE''),
     (''CME'', ''CME Group'', ''FIN_US'', ''US Financials'', ''NASDAQ''),
     (''BLK'', ''BlackRock Inc.'', ''FIN_US'', ''US Financials'', ''NYSE''),
     (''CB'', ''Chubb Limited'', ''FIN_US'', ''US Financials'', ''NYSE''),
     (''AON'', ''Aon plc'', ''FIN_US'', ''US Financials'', ''NYSE''),
     (''AIG'', ''American International Group'', ''FIN_US'', ''US Financials'', ''NYSE''),
     (''TRV'', ''Travelers Companies'', ''FIN_US'', ''US Financials'', ''NYSE''),
     (''PRU'', ''Prudential Financial'', ''FIN_US'', ''US Financials'', ''NYSE''),
     (''MET'', ''MetLife Inc.'', ''FIN_US'', ''US Financials'', ''NYSE''),
     (''USB'', ''U.S. Bancorp'', ''FIN_US'', ''US Financials'', ''NYSE''),
     (''PNC'', ''PNC Financial Services'', ''FIN_US'', ''US Financials'', ''NYSE''),
     (''TFC'', ''Truist Financial'', ''FIN_US'', ''US Financials'', ''NYSE''),
     (''SCHW'', ''Charles Schwab'', ''FIN_US'', ''US Financials'', ''NYSE''),
     (''COF'', ''Capital One Financial'', ''FIN_US'', ''US Financials'', ''NYSE''),
     (''HD'', ''Home Depot'', ''CONS_US'', ''US Consumer'', ''NYSE''),
     (''WMT'', ''Walmart Inc.'', ''CONS_US'', ''US Consumer'', ''NYSE''),
     (''COST'', ''Costco Wholesale'', ''CONS_US'', ''US Consumer'', ''NASDAQ''),
     (''LOW'', ''Lowe's Companies'', ''CONS_US'', ''US Consumer'', ''NYSE''),
     (''TGT'', ''Target Corporation'', ''CONS_US'', ''US Consumer'', ''NYSE''),
     (''DG'', ''Dollar General'', ''CONS_US'', ''US Consumer'', ''NYSE''),
     (''SBUX'', ''Starbucks Corporation'', ''CONS_US'', ''US Consumer'', ''NASDAQ''),
     (''MCD'', ''McDonald's Corporation'', ''CONS_US'', ''US Consumer'', ''NYSE''),
     (''YUM'', ''Yum! Brands'', ''CONS_US'', ''US Consumer'', ''NYSE''),
     (''NKE'', ''Nike Inc.'', ''CONS_US'', ''US Consumer'', ''NYSE''),
     (''LULU'', ''Lululemon Athletica'', ''CONS_US'', ''US Consumer'', ''NASDAQ''),
     (''BKNG'', ''Booking Holdings'', ''CONS_US'', ''US Consumer'', ''NASDAQ''),
     (''MAR'', ''Marriott International'', ''CONS_US'', ''US Consumer'', ''NASDAQ''),
     (''HLT'', ''Hilton Worldwide'', ''CONS_US'', ''US Consumer'', ''NYSE''),
     (''F'', ''Ford Motor Company'', ''AUTO_US'', ''US Auto'', ''NYSE''),
     (''GM'', ''General Motors'', ''AUTO_US'', ''US Auto'', ''NYSE''),
     (''PG'', ''Procter & Gamble'', ''CONS_US'', ''US Consumer'', ''NYSE''),
     (''KO'', ''Coca-Cola Company'', ''CONS_US'', ''US Consumer'', ''NYSE''),
     (''PEP'', ''PepsiCo Inc.'', ''CONS_US'', ''US Consumer'', ''NASDAQ''),
     (''MDLZ'', ''Mondelez International'', ''CONS_US'', ''US Consumer'', ''NASDAQ''),
     (''PM'', ''Philip Morris International'', ''CONS_US'', ''US Consumer'', ''NYSE''),
     (''MO'', ''Altria Group'', ''CONS_US'', ''US Consumer'', ''NYSE''),
     (''CL'', ''Colgate-Palmolive'', ''CONS_US'', ''US Consumer'', ''NYSE''),
     (''KMB'', ''Kimberly-Clark'', ''CONS_US'', ''US Consumer'', ''NYSE''),
     (''GIS'', ''General Mills'', ''CONS_US'', ''US Consumer'', ''NYSE''),
     (''KHC'', ''Kraft Heinz'', ''CONS_US'', ''US Consumer'', ''NASDAQ''),
     (''STZ'', ''Constellation Brands'', ''CONS_US'', ''US Consumer'', ''NYSE''),
     (''XOM'', ''Exxon Mobil'', ''ENERGY_US'', ''US Energy'', ''NYSE''),
     (''CVX'', ''Chevron Corporation'', ''ENERGY_US'', ''US Energy'', ''NYSE''),
     (''SLB'', ''Schlumberger Limited'', ''ENERGY_US'', ''US Energy'', ''NYSE''),
     (''EOG'', ''EOG Resources'', ''ENERGY_US'', ''US Energy'', ''NYSE''),
     (''PSX'', ''Phillips 66'', ''ENERGY_US'', ''US Energy'', ''NYSE'')]"

definition SP500_ENTRIES_3 :: "us_entry list" where
  "SP500_ENTRIES_3 =
    [(''MPC'', ''Marathon Petroleum'', ''ENERGY_US'', ''US Energy'', ''NYSE''),
     (''VLO'', ''Valero Energy'', ''ENERGY_US'', ''US Energy'', ''NYSE''),
     (''OXY'', ''Occidental Petroleum'', ''ENERGY_US'', ''US Energy'', ''NYSE''),
     (''DVN'', ''Devon Energy'', ''ENERGY_US'', ''US Energy'', ''NYSE''),
     (''FANG'', ''Diamondback Energy'', ''ENERGY_US'', ''US Energy'', ''NASDAQ''),
     (''HES'', ''Hess Corporation'', ''ENERGY_US'', ''US Energy'', ''NYSE''),
     (''WMB'', ''Williams Companies'', ''ENERGY_US'', ''US Energy'', ''NYSE''),
     (''KMI'', ''Kinder Morgan'', ''ENERGY_US'', ''US Energy'', ''NYSE''),
     (''BA'', ''Boeing Company'', ''INDUSTRIAL_US'', ''US Industrials'', ''NYSE''),
     (''GE'', ''General Electric'', ''INDUSTRIAL_US'', ''US Industrials'', ''NYSE''),
     (''HON'', ''Honeywell International'', ''INDUSTRIAL_US'', ''US Industrials'', ''NASDAQ''),
     (''CAT'', ''Caterpillar Inc.'', ''INDUSTRIAL_US'', ''US Industrials'', ''NYSE''),
     (''DE'', ''Deere & Company'', ''INDUSTRIAL_US'', ''US Industrials'', ''NYSE''),
     (''RTX'', ''RTX Corporation'', ''INDUSTRIAL_US'', ''US Industrials'', ''NYSE''),
     (''MMM'', ''3M Company'', ''INDUSTRIAL_US'', ''US Industrials'', ''NYSE''),
     (''UPS'', ''United Parcel Service'', ''INDUSTRIAL_US'', ''US Industrials'', ''NYSE''),
     (''FDX'', ''FedEx Corporation'', ''INDUSTRIAL_US'', ''US Industrials'', ''NYSE''),
     (''LMT'', ''Lockheed Martin'', ''DEFENSE_US'', ''US Defense'', ''NYSE''),
     (''NOC'', ''Northrop Grumman'', ''DEFENSE_US'', ''US Defense'', ''NYSE''),
     (''GD'', ''General Dynamics'', ''DEFENSE_US'', ''US Defense'', ''NYSE''),
     (''ETN'', ''Eaton Corporation'', ''INDUSTRIAL_US'', ''US Industrials'', ''NYSE''),
     (''ITW'', ''Illinois Tool Works'', ''INDUSTRIAL_US'', ''US Industrials'', ''NYSE''),
     (''EMR'', ''Emerson Electric'', ''INDUSTRIAL_US'', ''US Industrials'', ''NYSE''),
     (''CSX'', ''CSX Corporation'', ''INDUSTRIAL_US'', ''US Industrials'', ''NASDAQ''),
     (''UNP'', ''Union Pacific'', ''INDUSTRIAL_US'', ''US Industrials'', ''NYSE''),
     (''NSC'', ''Norfolk Southern'', ''INDUSTRIAL_US'', ''US Industrials'', ''NYSE''),
     (''WM'', ''Waste Management'', ''INDUSTRIAL_US'', ''US Industrials'', ''NYSE''),
     (''NFLX'', ''Netflix Inc.'', ''MEDIA_US'', ''US Media'', ''NASDAQ''),
     (''DIS'', ''Walt Disney Company'', ''MEDIA_US'', ''US Media'', ''NYSE''),
     (''CMCSA'', ''Comcast Corporation'', ''MEDIA_US'', ''US Media'', ''NASDAQ''),
     (''WBD'', ''Warner Bros. Discovery'', ''MEDIA_US'', ''US Media'', ''NASDAQ''),
     (''PARA'', ''Paramount Global'', ''MEDIA_US'', ''US Media'', ''NASDAQ''),
     (''T'', ''AT&T Inc.'', ''TELCO_US'', ''US Telecom'', ''NYSE''),
     (''VZ'', ''Verizon Communications'', ''TELCO_US'', ''US Telecom'', ''NYSE''),
     (''TMUS'', ''T-Mobile US'', ''TELCO_US'', ''US Telecom'', ''NASDAQ''),
     (''CHTR'', ''Charter Communications'', ''MEDIA_US'', ''US Media'', ''NASDAQ''),
     (''AMT'', ''American Tower'', ''REIT_US'', ''US REIT'', ''NYSE''),
     (''PLD'', ''Prologis Inc.'', ''REIT_US'', ''US REIT'', ''NYSE''),
     (''EQIX'', ''Equinix Inc.'', ''REIT_US'', ''US REIT'', ''NASDAQ''),
     (''SPG'', ''Simon Property Group'', ''REIT_US'', ''US REIT'', ''NYSE''),
     (''AVB'', ''AvalonBay Communities'', ''REIT_US'', ''US REIT'', ''NYSE''),
     (''EQR'', ''Equity Residential'', ''REIT_US'', ''US REIT'', ''NYSE''),
     (''CCI'', ''Crown Castle Inc.'', ''REIT_US'', ''US REIT'', ''NYSE''),
     (''SBAC'', ''SBA Communications'', ''REIT_US'', ''US REIT'', ''NASDAQ''),
     (''PSA'', ''Public Storage'', ''REIT_US'', ''US REIT'', ''NYSE''),
     (''O'', ''Realty Income'', ''REIT_US'', ''US REIT'', ''NYSE''),
     (''WELL'', ''Welltower Inc.'', ''REIT_US'', ''US REIT'', ''NYSE''),
     (''DLR'', ''Digital Realty Trust'', ''REIT_US'', ''US REIT'', ''NYSE''),
     (''NEE'', ''NextEra Energy'', ''UTIL_US'', ''US Utilities'', ''NYSE''),
     (''DUK'', ''Duke Energy'', ''UTIL_US'', ''US Utilities'', ''NYSE''),
     (''SO'', ''Southern Company'', ''UTIL_US'', ''US Utilities'', ''NYSE''),
     (''D'', ''Dominion Energy'', ''UTIL_US'', ''US Utilities'', ''NYSE''),
     (''EXC'', ''Exelon Corporation'', ''UTIL_US'', ''US Utilities'', ''NASDAQ''),
     (''SRE'', ''Sempra Energy'', ''UTIL_US'', ''US Utilities'', ''NYSE''),
     (''AEP'', ''American Electric Power'', ''UTIL_US'', ''US Utilities'', ''NASDAQ''),
     (''XEL'', ''Xcel Energy'', ''UTIL_US'', ''US Utilities'', ''NASDAQ''),
     (''PCG'', ''PG&E Corporation'', ''UTIL_US'', ''US Utilities'', ''NYSE''),
     (''WEC'', ''WEC Energy Group'', ''UTIL_US'', ''US Utilities'', ''NYSE''),
     (''ED'', ''Consolidated Edison'', ''UTIL_US'', ''US Utilities'', ''NYSE''),
     (''CEG'', ''Constellation Energy'', ''UTIL_US'', ''US Utilities'', ''NASDAQ''),
     (''LIN'', ''Linde plc'', ''MATERIALS_US'', ''US Materials'', ''NASDAQ''),
     (''APD'', ''Air Products and Chemicals'', ''MATERIALS_US'', ''US Materials'', ''NYSE''),
     (''SHW'', ''Sherwin-Williams'', ''MATERIALS_US'', ''US Materials'', ''NYSE'')]"

definition SP500_ENTRIES_4 :: "us_entry list" where
  "SP500_ENTRIES_4 =
    [(''FCX'', ''Freeport-McMoRan'', ''MATERIALS_US'', ''US Materials'', ''NYSE''),
     (''NEM'', ''Newmont Corporation'', ''MATERIALS_US'', ''US Materials'', ''NYSE''),
     (''ECL'', ''Ecolab Inc.'', ''MATERIALS_US'', ''US Materials'', ''NYSE''),
     (''PPG'', ''PPG Industries'', ''MATERIALS_US'', ''US Materials'', ''NYSE''),
     (''NUE'', ''Nucor Corporation'', ''MATERIALS_US'', ''US Materials'', ''NYSE''),
     (''DOW'', ''Dow Inc.'', ''MATERIALS_US'', ''US Materials'', ''NYSE''),
     (''DD'', ''DuPont de Nemours'', ''MATERIALS_US'', ''US Materials'', ''NYSE''),
     (''CTVA'', ''Corteva Inc.'', ''MATERIALS_US'', ''US Materials'', ''NYSE''),
     (''MLM'', ''Martin Marietta Materials'', ''MATERIALS_US'', ''US Materials'', ''NYSE''),
     (''VMC'', ''Vulcan Materials'', ''MATERIALS_US'', ''US Materials'', ''NYSE''),
     (''TSM'', ''Taiwan Semiconductor Manufacturing'', ''SEMI_FOUNDRY'', ''Foundry'', ''NYSE''),
     (''SMCI'', ''Super Micro Computer'', ''TECH_US'', ''Big Tech'', ''NASDAQ''),
     (''ARM'', ''Arm Holdings plc'', ''SEMI_US'', ''US Semis'', ''NASDAQ''),
     (''PYPL'', ''PayPal Holdings'', ''FIN_US'', ''US Financials'', ''NASDAQ''),
     (''UBER'', ''Uber Technologies'', ''TECH_US'', ''Big Tech'', ''NYSE''),
     (''ABNB'', ''Airbnb Inc.'', ''CONS_US'', ''US Consumer'', ''NASDAQ''),
     (''RBLX'', ''Roblox Corporation'', ''PLATFORM_US'', ''US Platform'', ''NYSE''),
     (''EA'', ''Electronic Arts'', ''PLATFORM_US'', ''US Platform'', ''NASDAQ''),
     (''TTWO'', ''Take-Two Interactive'', ''PLATFORM_US'', ''US Platform'', ''NASDAQ''),
     (''ROKU'', ''Roku Inc.'', ''MEDIA_US'', ''US Media'', ''NASDAQ''),
     (''ZM'', ''Zoom Video Communications'', ''SOFTWARE'', ''US Software'', ''NASDAQ''),
     (''DOCU'', ''DocuSign Inc.'', ''SOFTWARE'', ''US Software'', ''NASDAQ''),
     (''COIN'', ''Coinbase Global'', ''FIN_US'', ''US Financials'', ''NASDAQ''),
     (''SQ'', ''Block Inc.'', ''FIN_US'', ''US Financials'', ''NYSE''),
     (''HOOD'', ''Robinhood Markets'', ''FIN_US'', ''US Financials'', ''NASDAQ''),
     (''SOFI'', ''SoFi Technologies'', ''FIN_US'', ''US Financials'', ''NASDAQ''),
     (''LCID'', ''Lucid Group'', ''AUTO_US'', ''US Auto'', ''NASDAQ''),
     (''RIVN'', ''Rivian Automotive'', ''AUTO_US'', ''US Auto'', ''NASDAQ''),
     (''NIO'', ''NIO Inc.'', ''AUTO_US'', ''US Auto'', ''NYSE''),
     (''BABA'', ''Alibaba Group'', ''TECH_US'', ''Big Tech'', ''NYSE''),
     (''JD'', ''JD.com'', ''CONS_US'', ''US Consumer'', ''NASDAQ''),
     (''PDD'', ''PDD Holdings'', ''CONS_US'', ''US Consumer'', ''NASDAQ''),
     (''BIDU'', ''Baidu Inc.'', ''TECH_US'', ''Big Tech'', ''NASDAQ''),
     (''MELI'', ''MercadoLibre'', ''TECH_US'', ''Big Tech'', ''NASDAQ''),
     (''SHOP'', ''Shopify Inc.'', ''SOFTWARE'', ''US Software'', ''NYSE''),
     (''SE'', ''Sea Limited'', ''TECH_US'', ''Big Tech'', ''NYSE''),
     (''MSTR'', ''MicroStrategy'', ''SOFTWARE'', ''US Software'', ''NASDAQ''),
     (''DELL'', ''Dell Technologies'', ''TECH_US'', ''Big Tech'', ''NYSE''),
     (''HPQ'', ''HP Inc.'', ''TECH_US'', ''Big Tech'', ''NYSE''),
     (''HPE'', ''Hewlett Packard Enterprise'', ''TECH_US'', ''Big Tech'', ''NYSE''),
     (''IBM'', ''International Business Machines'', ''TECH_US'', ''Big Tech'', ''NYSE''),
     (''CSCO'', ''Cisco Systems'', ''TECH_US'', ''Big Tech'', ''NASDAQ''),
     (''ACN'', ''Accenture plc'', ''TECH_US'', ''Big Tech'', ''NYSE''),
     (''ADP'', ''Automatic Data Processing'', ''SOFTWARE'', ''US Software'', ''NASDAQ''),
     (''FIS'', ''Fidelity National Info Services'', ''SOFTWARE'', ''US Software'', ''NYSE''),
     (''FISV'', ''Fiserv Inc.'', ''SOFTWARE'', ''US Software'', ''NASDAQ''),
     (''PAYX'', ''Paychex Inc.'', ''SOFTWARE'', ''US Software'', ''NASDAQ''),
     (''VRSK'', ''Verisk Analytics'', ''SOFTWARE'', ''US Software'', ''NASDAQ''),
     (''MSCI'', ''MSCI Inc.'', ''FIN_US'', ''US Financials'', ''NYSE''),
     (''MCO'', ''Moody's Corporation'', ''FIN_US'', ''US Financials'', ''NYSE''),
     (''ORLY'', ''O'Reilly Automotive'', ''CONS_US'', ''US Consumer'', ''NASDAQ''),
     (''AZO'', ''AutoZone Inc.'', ''CONS_US'', ''US Consumer'', ''NYSE''),
     (''CMG'', ''Chipotle Mexican Grill'', ''CONS_US'', ''US Consumer'', ''NYSE''),
     (''DRI'', ''Darden Restaurants'', ''CONS_US'', ''US Consumer'', ''NYSE''),
     (''AAL'', ''American Airlines Group'', ''INDUSTRIAL_US'', ''US Industrials'', ''NASDAQ''),
     (''DAL'', ''Delta Air Lines'', ''INDUSTRIAL_US'', ''US Industrials'', ''NYSE''),
     (''UAL'', ''United Airlines Holdings'', ''INDUSTRIAL_US'', ''US Industrials'', ''NASDAQ''),
     (''LUV'', ''Southwest Airlines'', ''INDUSTRIAL_US'', ''US Industrials'', ''NYSE''),
     (''EXPE'', ''Expedia Group'', ''CONS_US'', ''US Consumer'', ''NASDAQ''),
     (''DASH'', ''DoorDash Inc.'', ''CONS_US'', ''US Consumer'', ''NYSE''),
     (''LYFT'', ''Lyft Inc.'', ''TECH_US'', ''Big Tech'', ''NASDAQ''),
     (''TTD'', ''Trade Desk'', ''SOFTWARE'', ''US Software'', ''NASDAQ''),
     (''ZS_SOFTWARE'', ''Zscaler (duplicate)'', ''SOFTWARE'', ''US Software'', ''NASDAQ'')]"

definition SP500_ENTRIES :: "us_entry list" where
  "SP500_ENTRIES = SP500_ENTRIES_1 @ SP500_ENTRIES_2 @ SP500_ENTRIES_3 @ SP500_ENTRIES_4"

definition NASDAQ_100_EXTRA :: "us_entry list" where
  "NASDAQ_100_EXTRA =
    [(''MNST'', ''Monster Beverage'', ''CONS_US'', ''US Consumer'', ''NASDAQ''),
     (''KDP'', ''Keurig Dr Pepper'', ''CONS_US'', ''US Consumer'', ''NASDAQ''),
     (''PCAR'', ''PACCAR Inc.'', ''INDUSTRIAL_US'', ''US Industrials'', ''NASDAQ''),
     (''GEHC'', ''GE HealthCare'', ''HEALTH_US'', ''US Healthcare'', ''NASDAQ''),
     (''ROP'', ''Roper Technologies'', ''INDUSTRIAL_US'', ''US Industrials'', ''NASDAQ''),
     (''CPRT'', ''Copart Inc.'', ''INDUSTRIAL_US'', ''US Industrials'', ''NASDAQ''),
     (''FAST'', ''Fastenal Company'', ''INDUSTRIAL_US'', ''US Industrials'', ''NASDAQ''),
     (''ODFL'', ''Old Dominion Freight Line'', ''INDUSTRIAL_US'', ''US Industrials'', ''NASDAQ''),
     (''CTAS'', ''Cintas Corporation'', ''INDUSTRIAL_US'', ''US Industrials'', ''NASDAQ''),
     (''EXC_NQ'', ''Exelon Corp (NQ duplicate)'', ''UTIL_US'', ''US Utilities'', ''NASDAQ''),
     (''DLTR'', ''Dollar Tree'', ''CONS_US'', ''US Consumer'', ''NASDAQ''),
     (''ON_NQ'', ''ON Semi (NQ duplicate)'', ''SEMI_US'', ''US Semis'', ''NASDAQ''),
     (''SIRI'', ''Sirius XM Holdings'', ''MEDIA_US'', ''US Media'', ''NASDAQ''),
     (''ILMN'', ''Illumina Inc.'', ''HEALTH_US'', ''US Healthcare'', ''NASDAQ''),
     (''MTCH'', ''Match Group'', ''TECH_US'', ''Big Tech'', ''NASDAQ''),
     (''ULTA'', ''Ulta Beauty'', ''CONS_US'', ''US Consumer'', ''NASDAQ''),
     (''PODD'', ''Insulet Corporation'', ''HEALTH_US'', ''US Healthcare'', ''NASDAQ''),
     (''ALGN'', ''Align Technology'', ''HEALTH_US'', ''US Healthcare'', ''NASDAQ''),
     (''ENPH'', ''Enphase Energy'', ''ENERGY_US'', ''US Energy'', ''NASDAQ''),
     (''SEDG'', ''SolarEdge Technologies'', ''ENERGY_US'', ''US Energy'', ''NASDAQ''),
     (''MPWR'', ''Monolithic Power Systems'', ''SEMI_US'', ''US Semis'', ''NASDAQ''),
     (''CDW'', ''CDW Corporation'', ''TECH_US'', ''Big Tech'', ''NASDAQ''),
     (''CSGP'', ''CoStar Group'', ''SOFTWARE'', ''US Software'', ''NASDAQ''),
     (''VRSN'', ''VeriSign Inc.'', ''SOFTWARE'', ''US Software'', ''NASDAQ''),
     (''KHC_NQ'', ''Kraft Heinz (NQ dup)'', ''CONS_US'', ''US Consumer'', ''NASDAQ''),
     (''EBAY'', ''eBay Inc.'', ''CONS_US'', ''US Consumer'', ''NASDAQ''),
     (''WBA'', ''Walgreens Boots Alliance'', ''HEALTH_US'', ''US Healthcare'', ''NASDAQ''),
     (''BIDU_NQ'', ''Baidu (dup)'', ''TECH_US'', ''Big Tech'', ''NASDAQ''),
     (''XEL_NQ'', ''Xcel (dup)'', ''UTIL_US'', ''US Utilities'', ''NASDAQ''),
     (''WDAY_NQ'', ''Workday (dup)'', ''SOFTWARE'', ''US Software'', ''NASDAQ'')]"

definition source_tables :: universe_tables where
  "source_tables = \<lparr>ut_kospi = KOSPI_200_ENTRIES, ut_kosdaq = KOSDAQ_150_ENTRIES,
     ut_sp500 = SP500_ENTRIES, ut_nasdaq = NASDAQ_100_EXTRA\<rparr>"

end
