(* ===== verification/Real_Tables.thy ===== *)
theory Real_Tables
  imports Real_Universe Universe_Tables
begin

text \<open>The Korean tables of \<open>src/db/fetch_real_universe.py\<close>, in the same notation.\<close>

definition KOSPI_FULL_1 :: "kr_table" where
  "KOSPI_FULL_1 =
    [(''005930'', u8 ''{C0BC}{C131}{C804}{C790}'', ''Samsung Electronics'', ''SEMI'', u8 ''{BC18}{B3C4}{CCB4}''),
     (''000660'', u8 ''SK{D558}{C774}{B2C9}{C2A4}'', ''SK Hynix'', ''SEMI'', u8 ''{BC18}{B3C4}{CCB4}''),
     (''066570'', u8 ''LG{C804}{C790}'', ''LG Electronics'', ''TECH_HW'', u8 ''{C804}{C790}''),
     (''009150'', u8 ''{C0BC}{C131}{C804}{AE30}'', ''Samsung Electro-Mechanics'', ''TECH_HW'', u8 ''{C804}{C790}''),
     (''000990'', u8 ''DB{D558}{C774}{D14D}'', ''DB HiTek'', ''SEMI'', u8 ''{BC18}{B3C4}{CCB4}''),
     (''042700'', u8 ''{D55C}{BBF8}{BC18}{B3C4}{CCB4}'', ''Hanmi Semiconductor'', ''SEMI'', u8 ''{BC18}{B3C4}{CCB4}''),
     (''108670'', u8 ''LG{C774}{B178}{D14D}'', ''LG Innotek'', ''TECH_HW'', u8 ''{C804}{C790}''),
     (''270810'', ''POSCO DX'', ''POSCO DX'', ''TECH_HW'', u8 ''{C804}{C790}''),
     (''034220'', u8 ''LG{B514}{C2A4}{D50C}{B808}{C774}'', ''LG Display'', ''TECH_HW'', u8 ''{C804}{C790}''),
     (''402340'', u8 ''SK{C2A4}{D018}{C5B4}'', ''SK Square'', ''TECH_HW'', u8 ''{C804}{C790}''),
     (''010120'', ''LS ELECTRIC'', ''LS ELECTRIC'', ''INDUSTRIAL'', u8 ''{C0B0}{C5C5}{C7AC}''),
     (''373220'', u8 ''LG{C5D0}{B108}{C9C0}{C194}{B8E8}{C158}'', ''LG Energy Solution'', ''BATTERY'', u8 ''2{CC28}{C804}{C9C0}''),
     (''006400'', u8 ''{C0BC}{C131}SDI'', ''Samsung SDI'', ''BATTERY'', u8 ''2{CC28}{C804}{C9C0}''),
     (''247540'', u8 ''{C5D0}{CF54}{D504}{B85C}{BE44}{C5E0}'', ''EcoPro BM'', ''BATTERY'', u8 ''2{CC28}{C804}{C9C0}''),
     (''086520'', u8 ''{C5D0}{CF54}{D504}{B85C}'', ''EcoPro'', ''BATTERY'', u8 ''2{CC28}{C804}{C9C0}''),
     (''003670'', u8 ''POSCO{D4E8}{CC98}{C5E0}'', ''POSCO Future M'', ''BATTERY'', u8 ''2{CC28}{C804}{C9C0}''),
     (''278280'', u8 ''{CC9C}{BCF4}'', ''Chunbo'', ''BATTERY'', u8 ''2{CC28}{C804}{C9C0}''),
     (''051910'', u8 ''LG{D654}{D559}'', ''LG Chem'', ''CHEM'', u8 ''{D654}{D559}''),
     (''011790'', ''SKC'', ''SKC'', ''CHEM'', u8 ''{D654}{D559}''),
     (''011780'', u8 ''{AE08}{D638}{C11D}{C720}{D654}{D559}'', ''Kumho Petrochemical'', ''CHEM'', u8 ''{D654}{D559}''),
     (''002380'', ''KCC'', ''KCC'', ''CHEM'', u8 ''{D654}{D559}''),
     (''009830'', u8 ''{D55C}{D654}{C194}{B8E8}{C158}'', ''Hanwha Solutions'', ''CHEM'', u8 ''{D654}{D559}''),
     (''011170'', u8 ''{B86F}{B370}{CF00}{BBF8}{CE7C}'', ''Lotte Chemical'', ''CHEM'', u8 ''{D654}{D559}''),
     (''285130'', u8 ''SK{CF00}{BBF8}{CE7C}'', ''SK Chemicals'', ''CHEM'', u8 ''{D654}{D559}''),
     (''004000'', u8 ''{B86F}{B370}{C815}{BC00}{D654}{D559}'', ''Lotte Fine Chemical'', ''CHEM'', u8 ''{D654}{D559}''),
     (''214360'', u8 ''{D6A8}{C131}{D654}{D559}'', ''Hyosung Chemical'', ''CHEM'', u8 ''{D654}{D559}''),
     (''010060'', u8 ''OCI{D640}{B529}{C2A4}'', ''OCI Holdings'', ''CHEM'', u8 ''{D654}{D559}''),
     (''036830'', u8 ''{C194}{BE0C}{B808}{C778}{D640}{B529}{C2A4}'', ''Soulbrain Holdings'', ''MATERIALS'', u8 ''{C18C}{C7AC}''),
     (''005490'', u8 ''POSCO{D640}{B529}{C2A4}'', ''POSCO Holdings'', ''MATERIALS'', u8 ''{C18C}{C7AC}''),
     (''010130'', u8 ''{ACE0}{B824}{C544}{C5F0}'', ''Korea Zinc'', ''MATERIALS'', u8 ''{C18C}{C7AC}''),
     (''004020'', u8 ''{D604}{B300}{C81C}{CCA0}'', ''Hyundai Steel'', ''MATERIALS'', u8 ''{C18C}{C7AC}''),
     (''103140'', u8 ''{D48D}{C0B0}'', ''Poongsan'', ''MATERIALS'', u8 ''{C18C}{C7AC}''),
     (''298050'', u8 ''{D6A8}{C131}{CCA8}{B2E8}{C18C}{C7AC}'', ''Hyosung Advanced Materials'', ''MATERIALS'', u8 ''{C18C}{C7AC}''),
     (''047050'', u8 ''{D3EC}{C2A4}{CF54}{C778}{D130}{B0B4}{C154}{B110}'', ''POSCO International'', ''TRADE'', u8 ''{C0C1}{C0AC}''),
     (''005380'', u8 ''{D604}{B300}{CC28}'', ''Hyundai Motor'', ''AUTO'', u8 ''{C790}{B3D9}{CC28}''),
     (''000270'', u8 ''{AE30}{C544}'', ''Kia'', ''AUTO'', u8 ''{C790}{B3D9}{CC28}''),
     (''012330'', u8 ''{D604}{B300}{BAA8}{BE44}{C2A4}'', ''Hyundai Mobis'', ''AUTO'', u8 ''{C790}{B3D9}{CC28}''),
     (''161390'', u8 ''{D55C}{AD6D}{D0C0}{C774}{C5B4}{C564}{D14C}{D06C}{B180}{B85C}{C9C0}'', ''Hankook Tire & Technology'', ''AUTO'', u8 ''{C790}{B3D9}{CC28}''),
     (''007340'', u8 ''{D604}{B300}{AC74}{C124}{AE30}{ACC4}'', ''Hyundai Construction Equipment'', ''INDUSTRIAL'', u8 ''{C0B0}{C5C5}{C7AC}''),
     (''073240'', u8 ''{AE08}{D638}{D0C0}{C774}{C5B4}'', ''Kumho Tire'', ''AUTO'', u8 ''{C790}{B3D9}{CC28}''),
     (''025540'', u8 ''{D55C}{AD6D}{B2E8}{C790}{ACF5}{C5C5}'', ''KM Corp'', ''AUTO'', u8 ''{C790}{B3D9}{CC28}''),
     (''005850'', u8 ''{C5D0}{C2A4}{C5D8}'', ''SL Corp'', ''AUTO'', u8 ''{C790}{B3D9}{CC28}''),
     (''018880'', u8 ''{D55C}{C628}{C2DC}{C2A4}{D15C}'', ''Hanon Systems'', ''AUTO'', u8 ''{C790}{B3D9}{CC28}''),
     (''105560'', u8 ''KB{AE08}{C735}'', ''KB Financial Group'', ''FIN'', u8 ''{AE08}{C735}''),
     (''055550'', u8 ''{C2E0}{D55C}{C9C0}{C8FC}'', ''Shinhan Financial Group'', ''FIN'', u8 ''{AE08}{C735}''),
     (''086790'', u8 ''{D558}{B098}{AE08}{C735}{C9C0}{C8FC}'', ''Hana Financial Group'', ''FIN'', u8 ''{AE08}{C735}''),
     (''316140'', u8 ''{C6B0}{B9AC}{AE08}{C735}{C9C0}{C8FC}'', ''Woori Financial Group'', ''FIN'', u8 ''{AE08}{C735}''),
     (''138930'', u8 ''BNK{AE08}{C735}{C9C0}{C8FC}'', ''BNK Financial Group'', ''FIN'', u8 ''{AE08}{C735}''),
     (''175330'', u8 ''JB{AE08}{C735}{C9C0}{C8FC}'', ''JB Financial Group'', ''FIN'', u8 ''{AE08}{C735}''),
     (''032830'', u8 ''{C0BC}{C131}{C0DD}{BA85}'', ''Samsung Life Insurance'', ''FIN'', u8 ''{AE08}{C735}''),
     (''088350'', u8 ''{D55C}{D654}{C0DD}{BA85}'', ''Hanwha Life Insurance'', ''FIN'', u8 ''{AE08}{C735}''),
     (''000810'', u8 ''{C0BC}{C131}{D654}{C7AC}'', ''Samsung Fire & Marine'', ''FIN'', u8 ''{AE08}{C735}''),
     (''001450'', u8 ''{D604}{B300}{D574}{C0C1}'', ''Hyundai Marine & Fire'', ''FIN'', u8 ''{AE08}{C735}''),
     (''016360'', u8 ''{C0BC}{C131}{C99D}{AD8C}'', ''Samsung Securities'', ''FIN'', u8 ''{AE08}{C735}''),
     (''071050'', u8 ''{D55C}{AD6D}{AE08}{C735}{C9C0}{C8FC}'', ''Korea Investment Holdings'', ''FIN'', u8 ''{AE08}{C735}''),
     (''138040'', u8 ''{BA54}{B9AC}{CE20}{AE08}{C735}{C9C0}{C8FC}'', ''Meritz Financial Group'', ''FIN'', u8 ''{AE08}{C735}''),
     (''006800'', u8 ''{BBF8}{B798}{C5D0}{C14B}{C99D}{AD8C}'', ''Mirae Asset Securities'', ''FIN'', u8 ''{AE08}{C735}''),
     (''039490'', u8 ''{D0A4}{C6C0}{C99D}{AD8C}'', ''Kiwoom Securities'', ''FIN'', u8 ''{AE08}{C735}''),
     (''085620'', u8 ''{BBF8}{B798}{C5D0}{C14B}{C0DD}{BA85}'', ''Mirae Asset Life Insurance'', ''FIN'', u8 ''{AE08}{C735}''),
     (''024110'', u8 ''{AE30}{C5C5}{C740}{D589}'', ''Industrial Bank of Korea'', ''FIN'', u8 ''{AE08}{C735}''),
     (''082640'', u8 ''{B3D9}{C591}{C0DD}{BA85}'', ''Dongyang Life Insurance'', ''FIN'', u8 ''{AE08}{C735}''),
     (''377300'', u8 ''{CE74}{CE74}{C624}{D398}{C774}'', ''Kakao Pay'', ''FIN'', u8 ''{AE08}{C735}''),
     (''293490'', u8 ''{CE74}{CE74}{C624}{BC45}{D06C}'', ''KakaoBank'', ''FIN'', u8 ''{AE08}{C735}''),
     (''003550'', ''LG'', ''LG Corp'', ''HOLDING'', u8 ''{C9C0}{C8FC}''),
     (''028260'', u8 ''{C0BC}{C131}{BB3C}{C0B0}'', ''Samsung C&T'', ''HOLDING'', u8 ''{C9C0}{C8FC}''),
     (''034730'', ''SK'', ''SK Inc.'', ''HOLDING'', u8 ''{C9C0}{C8FC}''),
     (''001040'', ''CJ'', ''CJ Corp'', ''HOLDING'', u8 ''{C9C0}{C8FC}''),
     (''001120'', u8 ''LX{D640}{B529}{C2A4}'', ''LX Holdings'', ''HOLDING'', u8 ''{C9C0}{C8FC}''),
     (''004990'', u8 ''{B86F}{B370}{C9C0}{C8FC}'', ''Lotte Holdings'', ''HOLDING'', u8 ''{C9C0}{C8FC}''),
     (''078930'', u8 ''GS{D640}{B529}{C2A4}'', ''GS Holdings'', ''HOLDING'', u8 ''{C9C0}{C8FC}''),
     (''363280'', u8 ''{D2F0}{C640}{C774}{D640}{B529}{C2A4}'', ''TY Holdings'', ''HOLDING'', u8 ''{C9C0}{C8FC}''),
     (''001800'', u8 ''{C624}{B9AC}{C628}{D640}{B529}{C2A4}'', ''Orion Holdings'', ''HOLDING'', u8 ''{C9C0}{C8FC}''),
     (''207940'', u8 ''{C0BC}{C131}{BC14}{C774}{C624}{B85C}{C9C1}{C2A4}'', ''Samsung Biologics'', ''BIO'', u8 ''{BC14}{C774}{C624}'')]"

definition KOSPI_FULL_2 :: "kr_table" where
  "KOSPI_FULL_2 =
    [(''068270'', u8 ''{C140}{D2B8}{B9AC}{C628}'', ''Celltrion'', ''BIO'', u8 ''{BC14}{C774}{C624}''),
     (''145020'', u8 ''{D734}{C824}'', ''Hugel'', ''BIO'', u8 ''{BC14}{C774}{C624}''),
     (''196170'', u8 ''{C54C}{D14C}{C624}{C820}'', ''Alteogen'', ''BIO'', u8 ''{BC14}{C774}{C624}''),
     (''302440'', u8 ''SK{BC14}{C774}{C624}{C0AC}{C774}{C5B8}{C2A4}'', ''SK Bioscience'', ''BIO'', u8 ''{BC14}{C774}{C624}''),
     (''128940'', u8 ''{D55C}{BBF8}{C57D}{D488}'', ''Hanmi Pharmaceutical'', ''BIO'', u8 ''{BC14}{C774}{C624}''),
     (''000100'', u8 ''{C720}{D55C}{C591}{D589}'', ''Yuhan Corporation'', ''BIO'', u8 ''{BC14}{C774}{C624}''),
     (''069620'', u8 ''{B300}{C6C5}{C81C}{C57D}'', ''Daewoong Pharmaceutical'', ''BIO'', u8 ''{BC14}{C774}{C624}''),
     (''214050'', u8 ''{D30C}{B9C8}{B9AC}{C11C}{CE58}'', ''Pharmaresearch'', ''BIO'', u8 ''{BC14}{C774}{C624}''),
     (''139480'', u8 ''{C774}{B9C8}{D2B8}'', ''E-Mart'', ''CONS'', u8 ''{C18C}{BE44}{C7AC}''),
     (''069960'', u8 ''{D604}{B300}{BC31}{D654}{C810}'', ''Hyundai Department Store'', ''CONS'', u8 ''{C18C}{BE44}{C7AC}''),
     (''097950'', u8 ''CJ{C81C}{C77C}{C81C}{B2F9}'', ''CJ CheilJedang'', ''CONS'', u8 ''{C18C}{BE44}{C7AC}''),
     (''021240'', u8 ''{CF54}{C6E8}{C774}'', ''Coway'', ''CONS'', u8 ''{C18C}{BE44}{C7AC}''),
     (''004170'', u8 ''{C2E0}{C138}{ACC4}'', ''Shinsegae'', ''CONS'', u8 ''{C18C}{BE44}{C7AC}''),
     (''004370'', u8 ''{B18D}{C2EC}'', ''Nongshim'', ''CONS'', u8 ''{C18C}{BE44}{C7AC}''),
     (''005300'', u8 ''{B86F}{B370}{CE60}{C131}{C74C}{B8CC}'', ''Lotte Chilsung'', ''CONS'', u8 ''{C18C}{BE44}{C7AC}''),
     (''007070'', u8 ''GS{B9AC}{D14C}{C77C}'', ''GS Retail'', ''CONS'', u8 ''{C18C}{BE44}{C7AC}''),
     (''008770'', u8 ''{D638}{D154}{C2E0}{B77C}'', ''Hotel Shilla'', ''CONS'', u8 ''{C18C}{BE44}{C7AC}''),
     (''023530'', u8 ''{B86F}{B370}{C1FC}{D551}'', ''Lotte Shopping'', ''CONS'', u8 ''{C18C}{BE44}{C7AC}''),
     (''035250'', u8 ''{AC15}{C6D0}{B79C}{B4DC}'', ''Kangwon Land'', ''CONS'', u8 ''{C18C}{BE44}{C7AC}''),
     (''051900'', u8 ''LG{C0DD}{D65C}{AC74}{AC15}'', ''LG H&H'', ''CONS'', u8 ''{C18C}{BE44}{C7AC}''),
     (''000080'', u8 ''{D558}{C774}{D2B8}{C9C4}{B85C}'', ''Hite Jinro'', ''CONS'', u8 ''{C18C}{BE44}{C7AC}''),
     (''192820'', u8 ''{CF54}{C2A4}{B9E5}{C2A4}'', ''Cosmax'', ''CONS'', u8 ''{C18C}{BE44}{C7AC}''),
     (''282330'', u8 ''BGF{B9AC}{D14C}{C77C}'', ''BGF Retail'', ''CONS'', u8 ''{C18C}{BE44}{C7AC}''),
     (''001680'', u8 ''{B300}{C0C1}'', ''Daesang'', ''CONS'', u8 ''{C18C}{BE44}{C7AC}''),
     (''033780'', ''KT&G'', ''KT&G'', ''CONS'', u8 ''{C18C}{BE44}{C7AC}''),
     (''115390'', u8 ''{B77D}{C564}{B77D}'', ''Lock&Lock'', ''CONS'', u8 ''{C18C}{BE44}{C7AC}''),
     (''383220'', ''F&F'', ''F&F'', ''CONS'', u8 ''{C18C}{BE44}{C7AC}''),
     (''389990'', u8 ''{C5D0}{C774}{D53C}{C54C}'', ''APR'', ''CONS'', u8 ''{C18C}{BE44}{C7AC}''),
     (''019170'', u8 ''{C2E0}{C138}{ACC4}{C778}{D130}{B0B4}{C154}{B0A0}'', ''Shinsegae International'', ''CONS'', u8 ''{C18C}{BE44}{C7AC}''),
     (''096770'', u8 ''SK{C774}{B178}{BCA0}{C774}{C158}'', ''SK Innovation'', ''ENERGY'', u8 ''{C5D0}{B108}{C9C0}''),
     (''015760'', u8 ''{D55C}{AD6D}{C804}{B825}'', ''Korea Electric Power'', ''ENERGY'', u8 ''{C5D0}{B108}{C9C0}''),
     (''036460'', u8 ''{D55C}{AD6D}{AC00}{C2A4}{ACF5}{C0AC}'', ''Korea Gas'', ''ENERGY'', u8 ''{C5D0}{B108}{C9C0}''),
     (''010950'', ''S-Oil'', ''S-Oil'', ''ENERGY'', u8 ''{C5D0}{B108}{C9C0}''),
     (''336260'', u8 ''{B450}{C0B0}{D4E8}{C5BC}{C140}'', ''Doosan Fuel Cell'', ''ENERGY'', u8 ''{C5D0}{B108}{C9C0}''),
     (''035420'', ''NAVER'', ''Naver Corporation'', ''PLATFORM'', u8 ''{D50C}{B7AB}{D3FC}''),
     (''035720'', u8 ''{CE74}{CE74}{C624}'', ''Kakao'', ''PLATFORM'', u8 ''{D50C}{B7AB}{D3FC}''),
     (''259960'', u8 ''{D06C}{B798}{D504}{D1A4}'', ''Krafton'', ''PLATFORM'', u8 ''{D50C}{B7AB}{D3FC}''),
     (''036570'', u8 ''{C5D4}{C528}{C18C}{D504}{D2B8}'', ''NCsoft'', ''PLATFORM'', u8 ''{D50C}{B7AB}{D3FC}''),
     (''012510'', u8 ''{B354}{C874}{BE44}{C988}{C628}'', ''Douzone Bizon'', ''PLATFORM'', u8 ''{D50C}{B7AB}{D3FC}''),
     (''018260'', u8 ''{C0BC}{C131}SDS'', ''Samsung SDS'', ''PLATFORM'', u8 ''{D50C}{B7AB}{D3FC}''),
     (''352820'', u8 ''{D558}{C774}{BE0C}'', ''HYBE'', ''MEDIA'', u8 ''{C5D4}{D130}''),
     (''035900'', ''JYP Ent.'', ''JYP Entertainment'', ''MEDIA'', u8 ''{C5D4}{D130}''),
     (''041510'', u8 ''{C5D0}{C2A4}{C5E0}'', ''SM Entertainment'', ''MEDIA'', u8 ''{C5D4}{D130}''),
     (''253450'', u8 ''{C2A4}{D29C}{B514}{C624}{B4DC}{B798}{ACE4}'', ''Studio Dragon'', ''MEDIA'', u8 ''{C5D4}{D130}''),
     (''287410'', u8 ''{C81C}{C77C}{AE30}{D68D}'', ''Cheil Worldwide'', ''MEDIA'', u8 ''{C5D4}{D130}''),
     (''021820'', u8 ''{C774}{B178}{C158}'', ''Innocean Worldwide'', ''MEDIA'', u8 ''{C5D4}{D130}''),
     (''030200'', ''KT'', ''KT Corporation'', ''TELCO'', u8 ''{D1B5}{C2E0}''),
     (''017670'', u8 ''SK{D154}{B808}{CF64}'', ''SK Telecom'', ''TELCO'', u8 ''{D1B5}{C2E0}''),
     (''032640'', u8 ''LG{C720}{D50C}{B7EC}{C2A4}'', ''LG Uplus'', ''TELCO'', u8 ''{D1B5}{C2E0}''),
     (''009540'', u8 ''HD{D55C}{AD6D}{C870}{C120}{D574}{C591}'', ''HD Korea Shipbuilding & Offshore'', ''SHIP'', u8 ''{C870}{C120}''),
     (''010140'', u8 ''{C0BC}{C131}{C911}{ACF5}{C5C5}'', ''Samsung Heavy Industries'', ''SHIP'', u8 ''{C870}{C120}''),
     (''042660'', u8 ''{D55C}{D654}{C624}{C158}'', ''Hanwha Ocean'', ''SHIP'', u8 ''{C870}{C120}''),
     (''011200'', ''HMM'', ''HMM'', ''SHIP'', u8 ''{C870}{C120}''),
     (''329180'', u8 ''{D604}{B300}{C911}{ACF5}{C5C5}'', ''HD Hyundai Heavy Industries'', ''SHIP'', u8 ''{C870}{C120}''),
     (''010620'', u8 ''{D604}{B300}{BBF8}{D3EC}{C870}{C120}'', ''Hyundai Mipo Dockyard'', ''SHIP'', u8 ''{C870}{C120}''),
     (''082740'', u8 ''HSD{C5D4}{C9C4}'', ''HSD Engine'', ''SHIP'', u8 ''{C870}{C120}''),
     (''064350'', u8 ''{D604}{B300}{B85C}{D15C}'', ''Hyundai Rotem'', ''INDUSTRIAL'', u8 ''{C0B0}{C5C5}{C7AC}''),
     (''298040'', u8 ''{D6A8}{C131}{C911}{ACF5}{C5C5}'', ''Hyosung Heavy Industries'', ''INDUSTRIAL'', u8 ''{C0B0}{C5C5}{C7AC}''),
     (''012450'', u8 ''{D55C}{D654}{C5D0}{C5B4}{B85C}{C2A4}{D398}{C774}{C2A4}'', ''Hanwha Aerospace'', ''DEFENSE'', u8 ''{BC29}{C0B0}''),
     (''079550'', u8 ''LIG{B125}{C2A4}{C6D0}'', ''LIG Nex1'', ''DEFENSE'', u8 ''{BC29}{C0B0}''),
     (''047810'', u8 ''{D55C}{AD6D}{D56D}{ACF5}{C6B0}{C8FC}{C0B0}{C5C5}'', ''Korea Aerospace Industries'', ''DEFENSE'', u8 ''{BC29}{C0B0}''),
     (''086280'', u8 ''{D604}{B300}{AE00}{B85C}{BE44}{C2A4}'', ''Hyundai Glovis'', ''INDUSTRIAL'', u8 ''{C0B0}{C5C5}{C7AC}''),
     (''267260'', u8 ''HD{D604}{B300}{C77C}{B809}{D2B8}{B9AD}'', ''HD Hyundai Electric'', ''INDUSTRIAL'', u8 ''{C0B0}{C5C5}{C7AC}''),
     (''376030'', u8 ''HD{D604}{B300}{C778}{D504}{B77C}{CF54}{C5B4}'', ''HD Hyundai Infracore'', ''INDUSTRIAL'', u8 ''{C0B0}{C5C5}{C7AC}''),
     (''028050'', u8 ''{C0BC}{C131}{C5D4}{C9C0}{B2C8}{C5B4}{B9C1}'', ''Samsung Engineering'', ''INDUSTRIAL'', u8 ''{C0B0}{C5C5}{C7AC}''),
     (''006260'', ''LS'', ''LS Corp'', ''INDUSTRIAL'', u8 ''{C0B0}{C5C5}{C7AC}''),
     (''003490'', u8 ''{B300}{D55C}{D56D}{ACF5}'', ''Korean Air Lines'', ''INDUSTRIAL'', u8 ''{C6B4}{C218}''),
     (''020560'', u8 ''{C544}{C2DC}{C544}{B098}{D56D}{ACF5}'', ''Asiana Airlines'', ''INDUSTRIAL'', u8 ''{C6B4}{C218}''),
     (''034020'', u8 ''{B450}{C0B0}{C5D0}{B108}{BE4C}{B9AC}{D2F0}'', ''Doosan Enerbility'', ''INDUSTRIAL'', u8 ''{C0B0}{C5C5}{C7AC}''),
     (''241560'', u8 ''{B450}{C0B0}{B85C}{BCF4}{D2F1}{C2A4}'', ''Doosan Robotics'', ''TECH_HW'', u8 ''{C804}{C790}''),
     (''000720'', u8 ''{D604}{B300}{AC74}{C124}'', ''Hyundai E&C'', ''CONST'', u8 ''{AC74}{C124}''),
     (''375500'', u8 ''DL{C774}{C564}{C528}'', ''DL E&C'', ''CONST'', u8 ''{AC74}{C124}'')]"

definition KOSPI_FULL :: "kr_table" where
  "KOSPI_FULL = KOSPI_FULL_1 @ KOSPI_FULL_2"

definition KOSDAQ_FULL :: "kr_table" where
  "KOSDAQ_FULL =
    [(''058470'', u8 ''{B9AC}{B178}{ACF5}{C5C5}'', ''Leeno Industrial'', ''SEMI'', u8 ''{BC18}{B3C4}{CCB4}''),
     (''039030'', u8 ''{C774}{C624}{D14C}{D06C}{B2C9}{C2A4}'', ''EO Technics'', ''SEMI'', u8 ''{BC18}{B3C4}{CCB4}''),
     (''240810'', u8 ''{C6D0}{C775}IPS'', ''Wonik IPS'', ''SEMI'', u8 ''{BC18}{B3C4}{CCB4}''),
     (''232140'', u8 ''{C640}{C774}{C528}'', ''YC'', ''SEMI'', u8 ''{BC18}{B3C4}{CCB4}''),
     (''036930'', u8 ''{C8FC}{C131}{C5D4}{C9C0}{B2C8}{C5B4}{B9C1}'', ''Jusung Engineering'', ''SEMI'', u8 ''{BC18}{B3C4}{CCB4}''),
     (''033640'', u8 ''{B124}{D328}{C2A4}'', ''Nepes'', ''SEMI'', u8 ''{BC18}{B3C4}{CCB4}''),
     (''403870'', ''HPSP'', ''HPSP'', ''SEMI'', u8 ''{BC18}{B3C4}{CCB4}''),
     (''095340'', ''ISC'', ''ISC'', ''SEMI'', u8 ''{BC18}{B3C4}{CCB4}''),
     (''067310'', u8 ''{D558}{B098}{B9C8}{C774}{D06C}{B860}'', ''Hana Micron'', ''SEMI'', u8 ''{BC18}{B3C4}{CCB4}''),
     (''166090'', u8 ''{D558}{B098}{BA38}{D2F0}{B9AC}{C5BC}{C988}'', ''Hana Materials'', ''SEMI'', u8 ''{BC18}{B3C4}{CCB4}''),
     (''086310'', u8 ''{C5D0}{C2A4}{C5D0}{D504}{C5D0}{C774}'', ''SFA Engineering'', ''SEMI'', u8 ''{BC18}{B3C4}{CCB4}''),
     (''222800'', u8 ''{C2EC}{D14D}'', ''Simtec'', ''SEMI'', u8 ''{BC18}{B3C4}{CCB4}''),
     (''104480'', u8 ''{D574}{C131}{B514}{C5D0}{C2A4}'', ''Haesong DS'', ''SEMI'', u8 ''{BC18}{B3C4}{CCB4}''),
     (''358150'', u8 ''{D154}{B808}{CE69}{C2A4}'', ''Telechips'', ''SEMI'', u8 ''{BC18}{B3C4}{CCB4}''),
     (''054620'', ''APS'', ''APS Holdings'', ''SEMI'', u8 ''{BC18}{B3C4}{CCB4}''),
     (''440110'', u8 ''{D30C}{B450}'', ''Padu'', ''SEMI'', u8 ''{BC18}{B3C4}{CCB4}''),
     (''357780'', u8 ''{C194}{BE0C}{B808}{C778}'', ''Soulbrain'', ''MATERIALS'', u8 ''{C18C}{C7AC}''),
     (''121600'', u8 ''{B098}{B178}{C2E0}{C18C}{C7AC}'', ''Nano New Materials'', ''MATERIALS'', u8 ''{C18C}{C7AC}''),
     (''213420'', u8 ''{B355}{C0B0}{B124}{C624}{B8E9}{C2A4}'', ''Duksan Neolux'', ''MATERIALS'', u8 ''{C18C}{C7AC}''),
     (''281740'', u8 ''{B808}{C774}{D06C}{BA38}{D2F0}{B9AC}{C5BC}{C988}'', ''Lake Materials'', ''MATERIALS'', u8 ''{C18C}{C7AC}''),
     (''104830'', u8 ''{C6D0}{C775}{BA38}{D2B8}{B9AC}{C5BC}{C988}'', ''Wonik Materials'', ''MATERIALS'', u8 ''{C18C}{C7AC}''),
     (''078600'', u8 ''{B300}{C8FC}{C804}{C790}{C7AC}{B8CC}'', ''Daejoo Electronic Materials'', ''BATTERY'', u8 ''2{CC28}{C804}{C9C0}''),
     (''131290'', ''TES'', ''TES'', ''SEMI'', u8 ''{BC18}{B3C4}{CCB4}''),
     (''247540'', u8 ''{C5D0}{CF54}{D504}{B85C}{BE44}{C5E0}'', ''EcoPro BM'', ''BATTERY'', u8 ''2{CC28}{C804}{C9C0}''),
     (''086520'', u8 ''{C5D0}{CF54}{D504}{B85C}'', ''EcoPro'', ''BATTERY'', u8 ''2{CC28}{C804}{C9C0}''),
     (''066970'', u8 ''{C5D8}{C564}{C5D0}{D504}'', ''L&F'', ''BATTERY'', u8 ''2{CC28}{C804}{C9C0}''),
     (''348370'', u8 ''{C5D4}{CF10}'', ''Enchem'', ''BATTERY'', u8 ''2{CC28}{C804}{C9C0}''),
     (''393890'', u8 ''{B354}{BE14}{C720}{C528}{D53C}'', ''WCP'', ''BATTERY'', u8 ''2{CC28}{C804}{C9C0}''),
     (''028300'', ''HLB'', ''HLB'', ''BIO'', u8 ''{BC14}{C774}{C624}''),
     (''091990'', u8 ''{C140}{D2B8}{B9AC}{C628}{D5EC}{C2A4}{CF00}{C5B4}'', ''Celltrion Healthcare'', ''BIO'', u8 ''{BC14}{C774}{C624}''),
     (''196170'', u8 ''{C54C}{D14C}{C624}{C820}'', ''Alteogen'', ''BIO'', u8 ''{BC14}{C774}{C624}''),
     (''214150'', u8 ''{D074}{B798}{C2DC}{C2A4}'', ''Classys'', ''BIO'', u8 ''{BC14}{C774}{C624}''),
     (''041920'', u8 ''{BA54}{B514}{D1A1}{C2A4}'', ''Medytox'', ''BIO'', u8 ''{BC14}{C774}{C624}''),
     (''078160'', u8 ''{BA54}{B514}{D3EC}{C2A4}{D2B8}'', ''Medipost'', ''BIO'', u8 ''{BC14}{C774}{C624}''),
     (''084110'', u8 ''{D734}{C628}{C2A4}'', ''Huons'', ''BIO'', u8 ''{BC14}{C774}{C624}''),
     (''228760'', u8 ''{C9C0}{B178}{BBF9}{D2B8}{B9AC}'', ''Genomictree'', ''BIO'', u8 ''{BC14}{C774}{C624}''),
     (''214370'', u8 ''{CF00}{C5B4}{C820}'', ''Caregen'', ''BIO'', u8 ''{BC14}{C774}{C624}''),
     (''085660'', u8 ''{CC28}{BC14}{C774}{C624}{D14D}'', ''CHA Biotech'', ''BIO'', u8 ''{BC14}{C774}{C624}''),
     (''237690'', u8 ''{C5D0}{C2A4}{D2F0}{D31C}'', ''ST Pharm'', ''BIO'', u8 ''{BC14}{C774}{C624}''),
     (''141080'', u8 ''{B9AC}{AC00}{CF10}{BC14}{C774}{C624}'', ''LigaChem Biosciences'', ''BIO'', u8 ''{BC14}{C774}{C624}''),
     (''328130'', u8 ''{B8E8}{B2DB}'', ''Lunit'', ''BIO'', u8 ''{BC14}{C774}{C624}''),
     (''389470'', u8 ''{C778}{BCA4}{D2F0}{C9C0}{B7A9}'', ''Inventage Lab'', ''BIO'', u8 ''{BC14}{C774}{C624}''),
     (''145720'', u8 ''{B374}{D2F0}{C6C0}'', ''Dentium'', ''BIO'', u8 ''{BC14}{C774}{C624}''),
     (''214450'', u8 ''{D30C}{B9C8}{B9AC}{C11C}{CE58}'', ''Pharmaresearch'', ''BIO'', u8 ''{BC14}{C774}{C624}''),
     (''285490'', u8 ''{B178}{BC14}{B809}{C2A4}'', ''Novarex'', ''BIO'', u8 ''{BC14}{C774}{C624}''),
     (''290650'', u8 ''{C5D8}{C564}{C528}{BC14}{C774}{C624}'', ''L&C Bio'', ''BIO'', u8 ''{BC14}{C774}{C624}''),
     (''317690'', u8 ''{D5EC}{B9AD}{C2A4}{BBF8}{C2A4}'', ''Helixmith'', ''BIO'', u8 ''{BC14}{C774}{C624}''),
     (''131760'', u8 ''{C720}{BE44}{CF00}{C5B4}'', ''Ubicare'', ''BIO'', u8 ''{BC14}{C774}{C624}''),
     (''096530'', u8 ''{C528}{C820}'', ''Seegene'', ''BIO'', u8 ''{BC14}{C774}{C624}''),
     (''095660'', u8 ''{B124}{C624}{C704}{C988}'', ''Neowiz'', ''PLATFORM'', u8 ''{D50C}{B7AB}{D3FC}''),
     (''263750'', u8 ''{D384}{C5B4}{BE44}{C2A4}'', ''Pearl Abyss'', ''PLATFORM'', u8 ''{D50C}{B7AB}{D3FC}''),
     (''112040'', u8 ''{C704}{BA54}{C774}{B4DC}'', ''Wemade'', ''PLATFORM'', u8 ''{D50C}{B7AB}{D3FC}''),
     (''064760'', u8 ''{CE74}{CE74}{C624}{AC8C}{C784}{C988}'', ''Kakao Games'', ''PLATFORM'', u8 ''{D50C}{B7AB}{D3FC}''),
     (''251270'', u8 ''{B137}{B9C8}{BE14}'', ''Netmarble'', ''PLATFORM'', u8 ''{D50C}{B7AB}{D3FC}''),
     (''284740'', u8 ''{CFE0}{CF58}'', ''Coocon'', ''PLATFORM'', u8 ''{D50C}{B7AB}{D3FC}''),
     (''122870'', u8 ''{C640}{C774}{C9C0}{C5D4}{D130}{D14C}{C778}{BA3C}{D2B8}'', ''YG Entertainment'', ''MEDIA'', u8 ''{C5D4}{D130}''),
     (''376300'', u8 ''{B514}{C5B4}{C720}'', ''Dear U'', ''MEDIA'', u8 ''{C5D4}{D130}''),
     (''018290'', u8 ''{BCA0}{C5B4}{B85C}{BCF4}{D2F1}{C2A4}'', ''Bear Robotics'', ''TECH_HW'', u8 ''{C804}{C790}''),
     (''178320'', u8 ''{C11C}{C9C4}{C2DC}{C2A4}{D15C}'', ''Seojin System'', ''TECH_HW'', u8 ''{C804}{C790}''),
     (''145140'', u8 ''{BE44}{C5D0}{C774}{CE58}'', ''BH'', ''TECH_HW'', u8 ''{C804}{C790}''),
     (''277810'', u8 ''{B808}{C778}{BCF4}{C6B0}{B85C}{BCF4}{D2F1}{C2A4}'', ''Rainbow Robotics'', ''TECH_HW'', u8 ''{C804}{C790}''),
     (''950140'', u8 ''{C789}{AE00}{C6B0}{B4DC}{B7A9}'', ''Englewood Lab'', ''CONS'', u8 ''{C18C}{BE44}{C7AC}''),
     (''215000'', u8 ''{ACE8}{D504}{C874}'', ''Golfzon'', ''CONS'', u8 ''{C18C}{BE44}{C7AC}''),
     (''293480'', u8 ''{D558}{C774}{C988}{D56D}{ACF5}'', ''HiZ Aero'', ''DEFENSE'', u8 ''{BC29}{C0B0}''),
     (''376060'', u8 ''{B2E4}{C74C}'', ''Kakao (Daum)'', ''PLATFORM'', u8 ''{D50C}{B7AB}{D3FC}'')]"

end
