(* ===== verification/Source_Universe.thy ===== *)
theory Source_Universe
  imports Seed_Load Real_Tables
begin

text \<open>
  What the tables of the two builders contain, and what becomes of them: the file
  \<open>build_universe.py\<close> writes from its own tables, its load into the database, and the poll list of
  the universe publisher.
\<close>

declare u8.simps [simp del]

section \<open>The tables\<close>

lemmas us_parts = SP500_ENTRIES_1_def SP500_ENTRIES_2_def SP500_ENTRIES_3_def SP500_ENTRIES_4_def NASDAQ_100_EXTRA_def

lemma kr_sizes: "length KOSPI_200_ENTRIES = 72" "length KOSDAQ_150_ENTRIES = 50"
  by (simp_all add: KOSPI_200_ENTRIES_def KOSDAQ_150_ENTRIES_def)

lemma kr_distinct: "distinct (map fst KOSPI_200_ENTRIES)" "distinct (map fst KOSDAQ_150_ENTRIES)"
  by (simp_all add: KOSPI_200_ENTRIES_def KOSDAQ_150_ENTRIES_def)

text \<open>Four companies are in both Korean tables.\<close>

lemma dual_listed:
  "filter (\<lambda>t. t \<in> set (map fst KOSPI_200_ENTRIES)) (map fst KOSDAQ_150_ENTRIES)
     = [''247540'', ''086520'', ''196170'', ''293490'']"
  by (simp add: KOSPI_200_ENTRIES_def KOSDAQ_150_ENTRIES_def)

text \<open>Korean tickers begin with a digit; the others do not, and name one of two markets.\<close>

definition digit_ticker :: "string \<Rightarrow> bool" where
  "digit_ticker t \<longleftrightarrow> t \<noteq> [] \<and> is_digit (hd t)"

lemma kr_digits: "list_all digit_ticker (map fst KOSPI_200_ENTRIES)" "list_all digit_ticker (map fst KOSDAQ_150_ENTRIES)"
  by (simp_all add: KOSPI_200_ENTRIES_def KOSDAQ_150_ENTRIES_def digit_ticker_def is_digit_def code_def)

definition us_entry_ok :: "us_entry \<Rightarrow> bool" where
  "us_entry_ok e = (case e of (t, _, _, _, mkt) \<Rightarrow> \<not> digit_ticker t \<and> \<not> starts_with t ''PAD_'' \<and> mkt \<in> {''NASDAQ'', ''NYSE''})"

lemma us_entries_ok: "list_all us_entry_ok (SP500_ENTRIES @ NASDAQ_100_EXTRA)"
proof -
  note ok = us_entry_ok_def digit_ticker_def is_digit_def code_def
  have "list_all us_entry_ok SP500_ENTRIES_1" by (simp add: SP500_ENTRIES_1_def ok)
  moreover have "list_all us_entry_ok SP500_ENTRIES_2" by (simp add: SP500_ENTRIES_2_def ok)
  moreover have "list_all us_entry_ok SP500_ENTRIES_3" by (simp add: SP500_ENTRIES_3_def ok)
  moreover have "list_all us_entry_ok SP500_ENTRIES_4" by (simp add: SP500_ENTRIES_4_def ok)
  moreover have "list_all us_entry_ok NASDAQ_100_EXTRA" by (simp add: NASDAQ_100_EXTRA_def ok)
  ultimately show ?thesis by (simp add: SP500_ENTRIES_def)
qed

lemma us_sizes: "length (SP500_ENTRIES @ NASDAQ_100_EXTRA) = 282"
  by (simp add: SP500_ENTRIES_def us_parts)

text \<open>Seven entries are marked as repetitions and left out.\<close>

lemma us_markers:
  "filter dedup_marker (map fst (SP500_ENTRIES @ NASDAQ_100_EXTRA))
     = [''ZS_SOFTWARE'', ''EXC_NQ'', ''ON_NQ'', ''KHC_NQ'', ''BIDU_NQ'', ''XEL_NQ'', ''WDAY_NQ'']"
proof -
  note m = dedup_marker_def ends_with_def
  have "filter dedup_marker (map fst SP500_ENTRIES_1) = []" by (simp add: SP500_ENTRIES_1_def m)
  moreover have "filter dedup_marker (map fst SP500_ENTRIES_2) = []" by (simp add: SP500_ENTRIES_2_def m)
  moreover have "filter dedup_marker (map fst SP500_ENTRIES_3) = []" by (simp add: SP500_ENTRIES_3_def m)
  moreover have "filter dedup_marker (map fst SP500_ENTRIES_4) = [''ZS_SOFTWARE'']" by (simp add: SP500_ENTRIES_4_def m)
  moreover have "filter dedup_marker (map fst NASDAQ_100_EXTRA)
      = [''EXC_NQ'', ''ON_NQ'', ''KHC_NQ'', ''BIDU_NQ'', ''XEL_NQ'', ''WDAY_NQ'']"
    by (simp add: NASDAQ_100_EXTRA_def m)
  ultimately show ?thesis unfolding SP500_ENTRIES_def map_append filter_append by simp
qed

lemma us_distinct: "distinct (map fst (SP500_ENTRIES @ NASDAQ_100_EXTRA))"
  by (simp add: SP500_ENTRIES_def us_parts)

section \<open>The merge\<close>

lemma append_rows_distinct:
  "distinct (map sd_ticker rs) \<Longrightarrow>
     append_rows rs (seen, secs) = (seen \<union> sd_ticker ` set rs, secs @ filter (\<lambda>r. sd_ticker r \<notin> seen) rs)"
proof (induction rs arbitrary: seen secs)
  case (Cons r rs)
  have "filter (\<lambda>r'. sd_ticker r' \<notin> insert (sd_ticker r) seen) rs = filter (\<lambda>r'. sd_ticker r' \<notin> seen) rs"
    using Cons.prems by (intro filter_cong) (auto, metis imageI)
  with Cons show ?case by (auto simp: insert_absorb)
qed simp

lemma entry_tickers [simp]:
  "sd_ticker (kr_entry_to_security m e) = fst e" "sd_ticker (us_entry_to_security e') = fst e'"
  "sd_market (kr_entry_to_security m e) = m" "sd_data_source (kr_entry_to_security m e) = ''static_master''"
  "sd_data_source (us_entry_to_security e') = ''static_master''"
  "sd_market (us_entry_to_security e') = snd (snd (snd (snd e')))"
  "\<not> sd_is_subscribed (kr_entry_to_security m e)" "\<not> sd_is_subscribed (us_entry_to_security e')"
  by (cases e; cases e'; simp)+

definition krx_rows :: "seed_row list" where
  "krx_rows = map kospi_entry_to_security KOSPI_200_ENTRIES"

definition kosdaq_rows :: "seed_row list" where
  "kosdaq_rows = map kosdaq_entry_to_security
     (filter (\<lambda>e. fst e \<notin> set (map fst KOSPI_200_ENTRIES)) KOSDAQ_150_ENTRIES)"

definition us_rows :: "seed_row list" where
  "us_rows = map us_entry_to_security (filter (\<lambda>e. \<not> dedup_marker (fst e)) (SP500_ENTRIES @ NASDAQ_100_EXTRA))"

lemma us_row_facts:
  assumes "r \<in> set us_rows"
  shows "\<not> digit_ticker (sd_ticker r)" "\<not> starts_with (sd_ticker r) ''PAD_''" "sd_market r \<in> {''NASDAQ'', ''NYSE''}"
proof -
  from assms obtain e where "e \<in> set (SP500_ENTRIES @ NASDAQ_100_EXTRA)" "r = us_entry_to_security e"
    unfolding us_rows_def set_map set_filter by blast
  moreover from this us_entries_ok have "us_entry_ok e" unfolding list_all_iff by blast
  ultimately show "\<not> digit_ticker (sd_ticker r)" "\<not> starts_with (sd_ticker r) ''PAD_''" "sd_market r \<in> {''NASDAQ'', ''NYSE''}"
    by (auto simp: us_entry_ok_def split: prod.splits)
qed

lemma merged_tables: "merge_tables source_tables [] = krx_rows @ kosdaq_rows @ us_rows"
proof -
  note d = kr_distinct us_distinct
  have us: "filter (\<lambda>r. \<not> dedup_marker (sd_ticker r)) (map us_entry_to_security (SP500_ENTRIES @ NASDAQ_100_EXTRA)) = us_rows"
    by (simp only: us_rows_def filter_map comp_def entry_tickers)
  have e: "entries source_tables = krx_rows @ map kosdaq_entry_to_security KOSDAQ_150_ENTRIES @ us_rows"
    unfolding entries_def source_tables_def universe_tables.simps us krx_rows_def ..
  have k: "distinct (map sd_ticker krx_rows)" "distinct (map sd_ticker (map kosdaq_entry_to_security KOSDAQ_150_ENTRIES))"
    using d(1,2) by (simp_all add: krx_rows_def kospi_entry_to_security_def kosdaq_entry_to_security_def comp_def)
  have u: "distinct (map sd_ticker us_rows)"
    using d(3) by (simp add: us_rows_def comp_def distinct_map_filter del: map_append filter_append)
  have digits: "digit_ticker t" if "t \<in> fst ` set KOSPI_200_ENTRIES \<or> t \<in> fst ` set KOSDAQ_150_ENTRIES" for t
    using that kr_digits by (auto simp: list_all_iff)
  let ?seen = "sd_ticker ` set krx_rows \<union> sd_ticker ` set (map kosdaq_entry_to_security KOSDAQ_150_ENTRIES)"
  have "filter (\<lambda>r. sd_ticker r \<notin> ?seen) us_rows = us_rows"
  proof (rule filter_True, rule ballI)
    fix r assume "r \<in> set us_rows"
    then have "\<not> digit_ticker (sd_ticker r)" by (rule us_row_facts)
    moreover have "?seen = fst ` set KOSPI_200_ENTRIES \<union> fst ` set KOSDAQ_150_ENTRIES"
      by (simp add: krx_rows_def kospi_entry_to_security_def kosdaq_entry_to_security_def image_image)
    ultimately show "sd_ticker r \<notin> ?seen" using digits by blast
  qed
  moreover have "filter (\<lambda>r. sd_ticker r \<notin> sd_ticker ` set krx_rows) (map kosdaq_entry_to_security KOSDAQ_150_ENTRIES) = kosdaq_rows"
    by (simp add: kosdaq_rows_def krx_rows_def filter_map comp_def image_image kosdaq_entry_to_security_def
        kospi_entry_to_security_def)
  ultimately show ?thesis
    unfolding merge_tables_rows e append_rows_append
    unfolding append_rows_distinct [OF k(1)] append_rows_distinct [OF k(2)] append_rows_distinct [OF u]
    by simp
qed

text \<open>Sizes: 72, 46 and 275 rows of the three markets.\<close>

lemma merged_sizes: "length krx_rows = 72" "length kosdaq_rows = 46" "length us_rows = 275"
proof -
  show "length krx_rows = 72" by (simp add: krx_rows_def kr_sizes)
  have "length (filter (\<lambda>t. t \<notin> set (map fst KOSPI_200_ENTRIES)) (map fst KOSDAQ_150_ENTRIES)) = 50 - 4"
    using sum_length_filter_compl [of "\<lambda>t. t \<in> set (map fst KOSPI_200_ENTRIES)" "map fst KOSDAQ_150_ENTRIES"]
    unfolding dual_listed by (simp add: kr_sizes)
  then show "length kosdaq_rows = 46" by (simp add: kosdaq_rows_def filter_map comp_def)
  have "length (filter (\<lambda>t. \<not> dedup_marker t) (map fst (SP500_ENTRIES @ NASDAQ_100_EXTRA))) = 282 - 7"
    using sum_length_filter_compl [of dedup_marker "map fst (SP500_ENTRIES @ NASDAQ_100_EXTRA)"] us_sizes
    unfolding us_markers by simp
  then show "length us_rows = 275" by (simp add: us_rows_def filter_map comp_def)
qed

lemma merged_markets:
  "r \<in> set krx_rows \<Longrightarrow> sd_market r = ''KRX''" "r \<in> set kosdaq_rows \<Longrightarrow> sd_market r = ''KOSDAQ''"
  "r \<in> set us_rows \<Longrightarrow> sd_market r = ''NASDAQ'' \<or> sd_market r = ''NYSE''"
  using us_row_facts(3) by (auto simp: krx_rows_def kosdaq_rows_def kospi_entry_to_security_def kosdaq_entry_to_security_def)

lemma merged_static:
  assumes "r \<in> set (merge_tables source_tables [])"
  shows "sd_data_source r = ''static_master''" "\<not> sd_is_subscribed r" "market_ok r"
proof -
  from assms have "r \<in> set krx_rows \<or> r \<in> set kosdaq_rows \<or> r \<in> set us_rows" by (simp add: merged_tables)
  then show "market_ok r" using merged_markets [of r] by (auto simp: market_ok_def)
  have "(\<exists>m e. r = kr_entry_to_security m e) \<or> (\<exists>e. r = us_entry_to_security e)"
    using assms unfolding merged_tables krx_rows_def kosdaq_rows_def us_rows_def kospi_entry_to_security_def
      kosdaq_entry_to_security_def set_append set_map by blast
  then show "sd_data_source r = ''static_master''" "\<not> sd_is_subscribed r" by auto
qed

lemma count_all: "\<forall>r \<in> set rs. P r \<Longrightarrow> length (filter P rs) = length rs"
  by (metis filter_True)

lemma count_none: "\<forall>r \<in> set rs. \<not> P r \<Longrightarrow> length (filter P rs) = 0"
  by (simp add: filter_empty_conv)

lemma market_parts:
  "length (filter (\<lambda>r. sd_market r = ''KRX'') (merge_tables source_tables [])) = 72"
  "length (filter (\<lambda>r. sd_market r = ''KOSDAQ'') (merge_tables source_tables [])) = 46"
  "length (filter (\<lambda>r. sd_market r = ''NASDAQ'' \<or> sd_market r = ''NYSE'') (merge_tables source_tables [])) = 275"
proof -
  let ?us = "\<lambda>r. sd_market r = ''NASDAQ'' \<or> sd_market r = ''NYSE''"
  have "\<forall>r \<in> set krx_rows. sd_market r = ''KRX''" "\<forall>r \<in> set krx_rows. \<not> sd_market r = ''KOSDAQ''"
    "\<forall>r \<in> set krx_rows. \<not> ?us r" "\<forall>r \<in> set kosdaq_rows. \<not> sd_market r = ''KRX''"
    "\<forall>r \<in> set kosdaq_rows. sd_market r = ''KOSDAQ''" "\<forall>r \<in> set kosdaq_rows. \<not> ?us r"
    "\<forall>r \<in> set us_rows. \<not> sd_market r = ''KRX''" "\<forall>r \<in> set us_rows. \<not> sd_market r = ''KOSDAQ''"
    "\<forall>r \<in> set us_rows. ?us r"
    using merged_markets by fastforce+
  then show "length (filter (\<lambda>r. sd_market r = ''KRX'') (merge_tables source_tables [])) = 72"
    "length (filter (\<lambda>r. sd_market r = ''KOSDAQ'') (merge_tables source_tables [])) = 46"
    "length (filter ?us (merge_tables source_tables [])) = 275"
    unfolding merged_tables filter_append length_append
    by (simp_all only: count_all count_none merged_sizes)
qed

section \<open>The fresh file\<close>

definition fresh_rows :: "seed_row list" where
  "fresh_rows = merge_tables source_tables [] @ all_padding (merge_tables source_tables [])"

lemma fresh_build: "sf_securities (build_universe py None source_tables None) = fresh_rows"
  by (simp add: build_universe_def merged_seed_def load_existing_seed_def fresh_rows_def Let_def)

lemma padding_sizes: "length (all_padding (merge_tables source_tables [])) = 457"
proof -
  have k: "market_count (merge_tables source_tables []) ''KRX'' = 72"
    and q: "market_count (merge_tables source_tables []) ''KOSDAQ'' = 46"
    using market_parts(1,2) merged_static(1) unfolding market_count_def by (auto cong: filter_cong)
  have "market_count secs ''NASDAQ'' + market_count secs ''NYSE''
      = length (filter (\<lambda>s. sd_data_source s = ''static_master'' \<and> (sd_market s = ''NASDAQ'' \<or> sd_market s = ''NYSE'')) secs)" for secs
    unfolding market_count_def by (induction secs) auto
  also have "length (filter (\<lambda>s. sd_data_source s = ''static_master'' \<and> (sd_market s = ''NASDAQ'' \<or> sd_market s = ''NYSE''))
      (merge_tables source_tables [])) = 275"
    using market_parts(3) merged_static(1) by (auto cong: filter_cong)
  finally show ?thesis by (simp add: all_padding_def k q make_padding_def del: upt_Suc)
qed

lemma merged_length: "length (merge_tables source_tables []) = 393"
  by (simp add: merged_tables merged_sizes)

lemma fresh_length: "length fresh_rows = 850"
  by (simp add: fresh_rows_def merged_length padding_sizes)

lemma fresh_distinct: "distinct (map sd_ticker fresh_rows)"
proof -
  have pad: "\<not> starts_with t ''PAD_''" if "digit_ticker t" for t
    using that by (cases t) (auto simp: digit_ticker_def is_digit_def code_def)
  have "\<not> starts_with (sd_ticker r) ''PAD_''" if "r \<in> set (entries source_tables)" for r
  proof -
    from that consider e where "r = kr_entry_to_security ''KRX'' e" "e \<in> set KOSPI_200_ENTRIES"
      | e where "r = kr_entry_to_security ''KOSDAQ'' e" "e \<in> set KOSDAQ_150_ENTRIES"
      | e where "r = us_entry_to_security e" "e \<in> set (SP500_ENTRIES @ NASDAQ_100_EXTRA)"
      unfolding entries_def source_tables_def universe_tables.simps kospi_entry_to_security_def
        kosdaq_entry_to_security_def set_append set_map set_filter by blast
    then show ?thesis
    proof cases
      case 3
      with us_entries_ok have "us_entry_ok e" unfolding list_all_iff by blast
      with 3(1) show ?thesis by (auto simp: us_entry_ok_def split: prod.splits)
    qed (use kr_digits pad in \<open>auto simp: list_all_iff\<close>)
  qed
  then have "\<forall>r \<in> set (sf_securities \<lparr>sf_securities = [], sf_relations = []\<rparr>) \<union> set (entries source_tables).
      \<not> starts_with (sd_ticker r) ''PAD_''" by simp
  from build_merges [OF _ this refl, of plain_python]
  show ?thesis
    by (simp add: build_universe_def merged_seed_def load_existing_seed_def fresh_rows_def Let_def)
qed

lemma fresh_market_ok: "\<forall>r \<in> set fresh_rows. market_ok r"
  using merged_static(3) all_padding_rows(5) by (auto simp: fresh_rows_def market_ok_def)

lemma fresh_polled:
  "filter (\<lambda>s. \<not> sd_is_subscribed s \<and> sd_data_source s \<noteq> ''static_master_padding'' \<and> sd_market s \<noteq> ''OTHER'') fresh_rows
     = merge_tables source_tables []"
proof -
  have "sd_market r \<noteq> ''OTHER''" if "r \<in> set (merge_tables source_tables [])" for r
    using that merged_markets [of r] by (auto simp: merged_tables)
  then show ?thesis
    using merged_static all_padding_rows(1) by (auto simp: fresh_rows_def filter_empty_conv intro!: filter_True)
qed

section \<open>The poll list\<close>

lemma filter_poll_list:
  assumes "universe_query tab = map (\<lambda>r. (sr_ticker r, sr_market r)) (sort_key sr_ticker (map (table_row now) rows))"
  shows "length (filter (\<lambda>(t, m). P m) (universe_query tab)) = length (filter (\<lambda>r. P (sd_market r)) rows)"
proof -
  have "filter (\<lambda>(t, m). P m) (universe_query tab)
      = map (\<lambda>r. (sr_ticker r, sr_market r)) (sort_key sr_ticker (filter (\<lambda>r. P (sr_market r)) (map (table_row now) rows)))"
    by (simp add: assms filter_map comp_def filter_sort split_def)
  then show ?thesis by (simp add: filter_map comp_def)
qed

section \<open>The Korean tables of the other builder\<close>

lemma full_sizes: "length KOSPI_FULL = 145" "length KOSDAQ_FULL = 65"
  by (simp_all add: KOSPI_FULL_def KOSPI_FULL_1_def KOSPI_FULL_2_def KOSDAQ_FULL_def)

lemma full_distinct: "distinct (map fst KOSPI_FULL)" "distinct (map fst KOSDAQ_FULL)"
  by (simp_all add: KOSPI_FULL_def KOSPI_FULL_1_def KOSPI_FULL_2_def KOSDAQ_FULL_def)

lemma full_dual_listed:
  "filter (\<lambda>t. t \<in> set (map fst KOSPI_FULL)) (map fst KOSDAQ_FULL) = [''247540'', ''086520'', ''196170'']"
  by (simp add: KOSPI_FULL_def KOSPI_FULL_1_def KOSPI_FULL_2_def KOSDAQ_FULL_def)

definition kr_tag :: "string \<Rightarrow> string \<times> string \<times> string \<times> string \<times> string \<Rightarrow> string \<times> kr_value" where
  "kr_tag mkt e = (case e of (t, ko, en, sec, lab) \<Rightarrow> (t, (ko, en, mkt, sec, lab)))"

lemma fst_kr_tag [simp]: "fst (kr_tag mkt e) = fst e"
  by (simp add: kr_tag_def split: prod.split)

lemma kospi_fold:
  "distinct (map fst d @ map fst ks) \<Longrightarrow>
     fold (\<lambda>(t, ko, en, sec, lab) d. AList.update t (ko, en, ''KRX'', sec, lab) d) ks d = d @ map (kr_tag ''KRX'') ks"
proof (induction ks arbitrary: d)
  case (Cons e ks)
  obtain t ko en sec lab where e: "e = (t, ko, en, sec, lab)" by (cases e)
  have "AList.update t v d = d @ [(t, v)]" for v :: kr_value
    using Cons.prems by (induction d) (auto simp: e)
  with Cons.IH [of "d @ [kr_tag ''KRX'' e]"] Cons.prems show ?case by (simp add: e kr_tag_def)
qed simp

definition add_kosdaq :: "string \<times> string \<times> string \<times> string \<times> string \<Rightarrow> (string \<times> kr_value) list \<Rightarrow> (string \<times> kr_value) list" where
  "add_kosdaq e d = (if map_of d (fst e) = None then d @ [kr_tag ''KOSDAQ'' e] else d)"

lemma add_kosdaq_eq:
  "(\<lambda>(t, ko, en, sec, lab) d. if map_of d t = None then d @ [(t, (ko, en, ''KOSDAQ'', sec, lab))] else d) = add_kosdaq"
  by (auto simp: fun_eq_iff add_kosdaq_def kr_tag_def)

lemma kosdaq_fold:
  "distinct (map fst qs) \<Longrightarrow>
     fold add_kosdaq qs d = d @ map (kr_tag ''KOSDAQ'') (filter (\<lambda>e. fst e \<notin> fst ` set d) qs)"
proof (induction qs arbitrary: d)
  case (Cons q qs)
  have "filter (\<lambda>e. fst e \<notin> insert (fst q) (fst ` set d)) qs = filter (\<lambda>e. fst e \<notin> fst ` set d) qs"
    using Cons.prems by (intro filter_cong) (auto, metis fst_conv imageI)
  with Cons show ?case by (auto simp: add_kosdaq_def map_of_eq_None_iff)
qed simp

text \<open>The dictionary of tables with distinct tickers: a ticker of both keeps the KOSPI entry.\<close>

lemma kr_entries_tables:
  assumes "distinct (map fst kospi)" "distinct (map fst kosdaq)"
  shows "kr_entries_of kospi kosdaq
     = map (kr_tag ''KRX'') kospi @ map (kr_tag ''KOSDAQ'') (filter (\<lambda>e. fst e \<notin> fst ` set kospi) kosdaq)"
  using kospi_fold [of "[]" kospi] assms(1)
  by (simp add: kr_entries_of_def add_kosdaq_eq kosdaq_fold [OF assms(2)] image_image)

lemma rest_disjoint: "A \<inter> fst ` set (filter (\<lambda>e. fst e \<notin> A) qs) = {}"
  by auto

lemma full_universe:
  "length (kr_entries_of KOSPI_FULL KOSDAQ_FULL) = 207" "distinct (map fst (kr_entries_of KOSPI_FULL KOSDAQ_FULL))"
proof -
  note e = kr_entries_tables [OF full_distinct]
  have "length (filter (\<lambda>t. t \<notin> set (map fst KOSPI_FULL)) (map fst KOSDAQ_FULL)) = 65 - 3"
    using sum_length_filter_compl [of "\<lambda>t. t \<in> set (map fst KOSPI_FULL)" "map fst KOSDAQ_FULL"]
    unfolding full_dual_listed by (simp add: full_sizes)
  then show "length (kr_entries_of KOSPI_FULL KOSDAQ_FULL) = 207"
    by (simp add: e full_sizes filter_map comp_def)
  show "distinct (map fst (kr_entries_of KOSPI_FULL KOSDAQ_FULL))"
    using full_distinct unfolding e map_append map_map comp_def fst_kr_tag distinct_append
    by (simp only: set_map image_image fst_kr_tag rest_disjoint distinct_map_filter simp_thms)
qed

text \<open>One company is in both tables, under two tickers.\<close>

lemma pharmaresearch_twice:
  "\<exists>e \<in> set KOSPI_FULL. fst e = ''214050'' \<and> fst (snd (snd e)) = ''Pharmaresearch''"
  "\<exists>e \<in> set KOSDAQ_FULL. fst e = ''214450'' \<and> fst (snd (snd e)) = ''Pharmaresearch''"
  by (simp_all add: KOSPI_FULL_def KOSPI_FULL_2_def KOSDAQ_FULL_def)

section \<open>Properties\<close>



end
