(* ===== verification/Spec2Isabelle.thy ===== *)
theory Spec2Isabelle
  imports Tick_Context Portfolio Sizer Quant_Agent Py_Text Coordinator Guardrails Executor Pipeline Interleaving Kis_Wire Kis_Session Tasks Publishers Mock_Publisher Supervisor Persistence Logging Anomaly Mock_Agents Alarms Alarm_Seed Macro_Agent News Kis_Rest Security Us_Publisher Http_Errors Market_Repo Securities Route_Inputs Audit_Metrics Routes Ops_Routes Account_Routes Universe Ws_Stream Outbound Application Trading_App App_Stack Migrations Seed_Build Real_Universe Seed_Load Universe_Tables Real_Tables Source_Universe
begin

text \<open>
  A verification development of the NEXUS backend (\<open>src/src/\<close>, Python 3.11, asyncio):
  market data comes in from a broker's WebSocket, a polled quote service or a mock, is
  published on Redis, and each tick drives a trading pipeline that may send an order.

  \<^bold>\<open>The parts and how they interact.\<close>
  A publisher (\<open>infrastructure/kis_publisher.py\<close>, \<open>us_publisher.py\<close>, \<open>mock_publisher.py\<close>,
  chosen by \<open>publisher_supervisor.py\<close>) puts every tick on Redis and hands it to the observer,
  which is \<open>TradingPipeline.on_tick\<close>. The pipeline records the tick in the context, asks the
  coordinator, which asks its agents (RSI and language model) and takes a weighted vote, runs
  the guards over a snapshot of the portfolio, lets the executor size and place the order,
  records the fill, and publishes an audit envelope. The persistence worker reads both channels
  back from Redis and writes them to the database. The routes of \<open>api/\<close>, behind
  \<open>core/security.py\<close> and the handlers of \<open>core/\<close>, read the database back, relay the Redis channels to
  browsers and place manual orders; \<open>main.py\<close> builds, starts and stops all of it. The scripts of
  \<open>src/db/\<close> prepare the database: migrations, the securities file, its load.

  \<^bold>\<open>Theories and sources.\<close>
  \<^item> \<open>Prelude\<close>: exceptions, results, the bounded deque, fact collections.
  \<^item> \<open>Float64\<close>: Python's \<open>float\<close>; \<open>Py_Text\<close>: \<open>str\<close> methods and \<open>int(str)\<close>;
    \<open>Py_Statistics\<close>: \<open>statistics.fmean\<close> and \<open>pstdev\<close>; \<open>Json\<close>: values of \<open>json.loads\<close>.
  \<^item> \<open>Trading_Models\<close>: \<open>domain/market/models.py\<close>, \<open>domain/trading/models.py\<close>.
  \<^item> \<open>Tick_Context\<close>, \<open>Portfolio\<close>, \<open>Sizer\<close>, \<open>Quant_Agent\<close>, \<open>Coordinator\<close>,
    \<open>Guardrails\<close>, \<open>Executor\<close>, \<open>Pipeline\<close>: the files of those names in \<open>domain/trading/\<close>;
    \<open>Interleaving\<close>: the handler of \<open>pipeline.py\<close> cut at its \<open>await\<close> points;
    \<open>Mock_Agents\<close>: the stand-ins of \<open>agents.py\<close>; \<open>Anomaly\<close>: \<open>domain/analysis/anomaly.py\<close>.
  \<^item> \<open>Macro_Agent\<close>: \<open>domain/trading/macro_agent.py\<close>, \<open>llm_client.py\<close>;
    \<open>News\<close>: \<open>infrastructure/news_provider.py\<close>.
  \<^item> \<open>Kis_Wire\<close>, \<open>Kis_Session\<close>: the frames and the session of \<open>infrastructure/kis_client.py\<close>;
    \<open>Kis_Rest\<close>: \<open>kis_order_client.py\<close>, \<open>kis_balance_client.py\<close>; \<open>Outbound\<close>: the HTTP requests of
    these clients, of the language models and of the news feed.
  \<^item> \<open>Tasks\<close>: the asyncio task a service owns, its ends, \<open>cancel\<close> and \<open>await\<close>; \<open>Publishers\<close>:
    \<open>kis_publisher.py\<close> with its token refresh loop; \<open>Mock_Publisher\<close>, \<open>Us_Publisher\<close>: the files of
    those names; \<open>Supervisor\<close>: \<open>publisher_supervisor.py\<close>.
  \<^item> \<open>Persistence\<close>: \<open>persistence_worker.py\<close>, \<open>tick_repository.py\<close>, \<open>execution_repository.py\<close>.
  \<^item> \<open>Alarms\<close>, \<open>Alarm_Seed\<close>: \<open>domain/alarms/\<close>, \<open>infrastructure/alarms/in_memory_repo.py\<close> and its
    demo alarms; \<open>Security\<close>: \<open>core/security.py\<close>; \<open>Logging\<close>: \<open>core/logging.py\<close>.
  \<^item> \<open>Http_Errors\<close>: \<open>core/errors.py\<close>, \<open>exception_handlers.py\<close>, \<open>middleware.py\<close>;
    \<open>Database\<close>: \<open>infrastructure/database.py\<close>.
  \<^item> \<open>Market_Repo\<close>: \<open>domain/market/repository.py\<close> over a table of ticks; \<open>Securities\<close>:
    \<open>domain/securities/models.py\<close>, \<open>infrastructure/securities_repo.py\<close>; \<open>Audit_Metrics\<close>: the
    aggregates of \<open>execution_repository.py\<close>.
  \<^item> \<open>Route_Inputs\<close>: the parsers of \<open>api/v1/router.py\<close>; \<open>Routes\<close>, \<open>Ops_Routes\<close>,
    \<open>Account_Routes\<close>: its handlers and the models of \<open>dto.py\<close> (market and securities; metrics, audit and
    alarms; balance and order); \<open>Ws_Stream\<close>: \<open>api/websockets/stream.py\<close>, \<open>redis_pubsub.py\<close>,
    \<open>audit_publisher.py\<close>.
  \<^item> \<open>Universe\<close>: \<open>infrastructure/universe_publisher.py\<close>; \<open>Application\<close>: \<open>core/config.py\<close>, \<open>main.py\<close>;
    \<open>App_Stack\<close>: the layers of \<open>main.py\<close>'s applications and what it builds from the settings;
    \<open>Trading_App\<close>: the order client it binds to the supervisor's KIS client.
  \<^item> \<open>Migrations\<close>: \<open>src/db/migrate.py\<close>, \<open>seed.py\<close>; \<open>Seed_Build\<close>: \<open>build_universe.py\<close>;
    \<open>Real_Universe\<close>: \<open>fetch_real_universe.py\<close>; \<open>Seed_Load\<close>: \<open>upsert_seed\<close> and \<open>seed_securities.py\<close>;
    \<open>Universe_Tables\<close>, \<open>Real_Tables\<close>: the index tables of the two builders, entry by entry;
    \<open>Source_Universe\<close>: what they hold and what becomes of them.
  \<^item> This theory: the properties of the whole chain from tick to order.

  An object is a record of its attributes, a method a function from the record and its arguments
  to the record it leaves behind and its result. Definitions carry the name of the function or
  class they translate, with a prefix where HOL or another component has that name.

  \<^bold>\<open>Conventions and bounds.\<close>
  \<^item> A raise is \<open>Inl\<close> of a \<open>py_error\<close>; messages of exceptions and log records are left out.
    \<open>except Exception\<close> does not catch \<open>CancelledError\<close>, and the definitions say where one
    gets through.
  \<^item> A \<open>float\<close> is a rational, an infinity or NaN; each operation rounds once to binary64. The
    sign of a zero is not kept. \<open>Decimal\<close> is an exact rational, as the code never divides one.
    Integers are unbounded, as in Python.
  \<^item> Strings are lists of 8-bit characters; text outside Latin-1 (query presets, fixed prompt
    text) is kept only as far as the code compares it.
  \<^item> Clock readings, random draws, and what the network, the database, Redis, the JSON and XML
    parsers and the JWT library answer are arguments. Nothing is assumed of them beyond what a
    theorem lists.
  \<^item> A query is the value the code builds (conditions, placeholder numbers, parameters) and a
    function reads it as the database does over a list of rows; a statement that fails leaves its
    transaction's tables as they were. What the driver makes of an argument is a parameter.
  \<^item> The loops of the program follow the data they consume (frames, messages, symbols,
    rounds), so every definition is total; there is no fuel. An endless task is the sequence of
    its rounds, of any length.

  \<^bold>\<open>Interfaces.\<close>
  \<^item> \<open>position_sizer\<close> (protocol \<open>PositionSizer\<close>): interpreted by both sizers.
  \<^item> \<open>directional_guard\<close> (protocol \<open>OrderGuardrail\<close>): interpreted by the three guards; the
    pipeline of guards is reasoned about through it.
  \<^item> \<open>background_service\<close>: a service that \<open>start\<close> starts once and a \<open>stop\<close> that returns stops;
    interpreted by the refresh loop, the KIS, US and mock publishers and the supervisor's publisher.
  \<^item> \<open>alarm_repository\<close>: interpreted by the in-memory repository.
  \<^item> \<open>securities_reader\<close>: what the routes need of a securities repository; interpreted by the
    null repository, the database one and the choice between them.

  \<^bold>\<open>What the lemmas show.\<close>
  For the trading chain: type and range facts of signals, votes and sizes; that failures of
  agents, broker, sizer and audit are contained; that every order passed every guard and how far
  the limits of the guards bind a run, uninterrupted and interleaved. For the market data: the
  parsers of the wire format and what they reject, the session's invariant and its transactions,
  ordered delivery, failover, fair polling, what the life of a task means for \<open>start\<close>, \<open>stop\<close> and
  the watchdog, and that no request of a paper configuration leaves for the live broker. For the
  persistence: no tick and no decision is lost or doubled except where counted, and the one
  cancellation where that fails. For the rest: containment and
  parsing of language model answers, the single flight of the news cache, the merge of sources,
  the page order of alarms, the acknowledgement of fills, and who is let in by a token. For the
  service: every failure becomes one problem document, no data leaves without a principal, a page
  and its total agree, replayed ticks change nothing, the manual order's outcomes, what a start
  and a stop do when a part fails, and what a log line says. For the scripts: a migration run resumes where it failed,
  the builders end, keep subscribed rows and distinct tickers, an estimate is a median, a load is all or nothing,
  repeatable and readable, the poll list is the file's, and how much of each index the tables of
  the source hold. Some
  properties state defects of the code exactly (zero threshold, NaN weight, NaN price, stale
  snapshots, refresh of a live session, cancelled flush, trades of one second, a crashed publisher at
  shutdown, accepted orders without a broker, live orders under mock prices, a dead refresh loop nobody sees).

  \<^bold>\<open>Not modelled.\<close>
  Which log records are written and their contents (their rendering is), the text of tracebacks, the
  fixed prompt text, HTML parsing, argument parsing and printed statistics of the scripts, the
  sleeps between rounds, and the package files that only import. Routing, JSON rendering and the
  CORS layer are the framework's, and the SQL of a migration is the database's.
\<close>

section \<open>The trading chain\<close>

text \<open>
  C3: With live orders disabled (the default), no run of ticks ever reaches the broker, and no
  tick changes the portfolio: shadow trading leaves no trace in what the guards look at.
\<close>

theorem shadow_mode_never_trades:
  assumes "\<not> xr_allow_live (pl_executor p)" and "run_ticks audit p ts = (p', orders)"
  shows "orders = [] \<and> pl_portfolio p' = pl_portfolio p"
  by (rule run_ticks_shadow [OF assms])

theorem shadow_mode_never_trades_witness:
  "snd (run_ticks None (demo_pipeline False) [(demo_tick, 0, 0), (demo_tick, 5, 6)]) = []"
  using shadow_mode_never_trades [of "demo_pipeline False" None "[(demo_tick, 0, 0), (demo_tick, 5, 6)]"]
  by (cases "run_ticks None (demo_pipeline False) [(demo_tick, 0, 0), (demo_tick, 5, 6)]")
    (simp add: demo_pipeline_def del: run_ticks.simps)

text \<open>
  C1: The position limit of the whole loop. With the position guard at \<open>m\<close> shares and a
  sizer of at most \<open>k\<close> shares an order, no run of ticks, however the agents vote and
  whatever the broker answers, takes any position beyond \<open>m + k - 1\<close>. (The guard compares
  what is held, not what is about to be held, so \<open>m\<close> itself is not the bound.)
\<close>

theorem position_never_exceeds_cap:
  assumes "0 \<le> m"
    and "\<exists>h \<in> set (pl_guards p). g_check h = max_position_check m"
    and "\<And>sig q. xr_size_for (pl_executor p) sig = Inr q \<Longrightarrow> q \<le> k"
    and "\<And>s. position_of (pl_portfolio p) s \<le> m + k - 1"
    and "run_ticks audit p ts = (p', orders)"
  shows "position_of (pl_portfolio p') s \<le> m + k - 1"
proof -
  from assms(1-4) have "position_bounded m k p" by (auto simp: position_bounded_def)
  from run_ticks_position_bounded [OF this assms(5)] show ?thesis
    by (simp add: position_bounded_def)
qed

theorem position_never_exceeds_cap_witness:
  "position_of (pl_portfolio (fst (run_ticks None (demo_pipeline True) [(demo_tick, 0, 0), (demo_tick, 5, 6)])))
     ''005930'' \<le> 1"
proof -
  obtain p' orders where r: "run_ticks None (demo_pipeline True) [(demo_tick, 0, 0), (demo_tick, 5, 6)] = (p', orders)"
    by fastforce
  have "position_of (pl_portfolio p') ''005930'' \<le> 1 + 1 - 1"
    by (rule position_never_exceeds_cap [OF _ _ _ _ r])
      (auto simp: demo_pipeline_def demo_guards_def fixed_size_for_def empty_portfolio_def position_of_def)
  with r show ?thesis by simp
qed

text \<open>
  The book stays long-only: no run of ticks makes any position negative; a sale of more than
  is held ends at zero.
\<close>

lemma positions_never_negative:
  assumes "long_only (pl_portfolio p)" and "run_ticks audit p ts = (p', orders)"
  shows "0 \<le> position_of (pl_portfolio p') s"
  using run_ticks_long_only [OF _ assms(2)] assms(1)
  by (simp add: long_only_pipeline_def long_only_def)

lemma positions_never_negative_example:
  "0 \<le> position_of (pl_portfolio (fst (run_ticks None (demo_pipeline True) [(demo_tick, 0, 0)]))) ''005930''"
proof -
  obtain p' orders where r: "run_ticks None (demo_pipeline True) [(demo_tick, 0, 0)] = (p', orders)"
    by fastforce
  from positions_never_negative [OF _ r, of "''005930''"] r long_only_empty show ?thesis
    by (simp add: demo_pipeline_def)
qed

text \<open>
  C2: The order of a tick. One tick sends the broker at most one order; it is for the tick's own
  symbol, a BUY or a SELL of at least one share, and exactly as large as the sizer said; live
  orders are enabled; and every registered guard allowed it on the snapshot taken at the start
  of the tick.
\<close>

theorem order_passed_every_guard:
  assumes "on_tick audit p t n1 n2 = (p', eff, res)" and "(s, act, q) \<in> set (ef_orders eff)"
  shows "ef_orders eff = [(s, act, q)] \<and> s = t_symbol t \<and> act \<noteq> HOLD \<and> 1 \<le> q \<and>
     xr_allow_live (pl_executor p) \<and>
     (\<exists>sig. ts_symbol sig = s \<and> ts_action sig = act \<and> xr_size_for (pl_executor p) sig = Inr q \<and>
        (\<forall>h \<in> set (pl_guards p).
           g_check h sig (guard_snapshot (begin_tick (counted p) t) s n1) = Inr Allow))"
  using on_tick_order [OF assms] by (auto simp: int_one_le_iff_zero_less)

theorem order_passed_every_guard_witness:
  "\<exists>p' eff res. on_tick None (demo_pipeline True) demo_tick 0 0 = (p', eff, res) \<and>
     ef_orders eff = [(''005930'', BUY, 1)]"
proof -
  obtain p' eff res where o: "on_tick None (demo_pipeline True) demo_tick 0 0 = (p', eff, res)"
    by (cases "on_tick None (demo_pipeline True) demo_tick 0 0")
  then have "(''005930'', BUY, 1) \<in> set (ef_orders eff)"
    using demo_signal [of True] by (auto simp: on_tick_def process_def Let_def demo_defs demo_pipeline_def record_tick_def)
  from order_passed_every_guard [OF o this] o show ?thesis by blast
qed

text \<open>
  C7: The cooldown of the whole loop. When a tick sends an order for a symbol with an earlier
  fill, the time from that fill to the tick's snapshot, in seconds, is not below the cooldown.
\<close>

theorem order_respects_cooldown:
  assumes "h \<in> set (pl_guards p)" "g_check h = cooldown_check secs"
    and "on_tick audit p t n1 n2 = (p', eff, res)" and "(s, act, q) \<in> set (ef_orders eff)"
    and "pf_last_trade_at (pl_portfolio p) s = Some before"
  shows "\<not> flt (total_seconds (n1 - before)) secs"
proof -
  from on_tick_order [OF assms(3,4)] assms(1,2) obtain sig where "ts_symbol sig = s"
    "cooldown_check secs sig (guard_snapshot (begin_tick (counted p) t) s n1) = Inr Allow" by metis
  with assms(5) show ?thesis by (auto simp: cooldown_check_def Let_def split: if_splits)
qed

theorem order_respects_cooldown_witness:
  "\<exists>p. pf_last_trade_at (pl_portfolio p) ''005930'' = Some 0 \<and>
     (\<exists>eff p' res. on_tick None p demo_tick (60 * second) 0 = (p', eff, res) \<and> ef_orders eff \<noteq> [])
     \<and> \<not> flt (total_seconds (60 * second - 0)) (Fin 60)"
proof -
  let ?p = "demo_pipeline True
    \<lparr>pl_portfolio := \<lparr>pf_positions = Map.empty, pf_last_trade_at = [''005930'' \<mapsto> 0]\<rparr>\<rparr>"
  obtain p' eff res where o: "on_tick None ?p demo_tick (60 * second) 0 = (p', eff, res)"
    by (cases "on_tick None ?p demo_tick (60 * second) 0")
  have e: "(''005930'', BUY, 1) \<in> set (ef_orders eff)"
    using o demo_signal [of True] rnd_of_int [of 60]
    by (auto simp: on_tick_def process_def Let_def demo_defs demo_pipeline_def record_tick_def
        second_def fin_Fin)
  have "\<not> flt (total_seconds (60 * second - 0)) (Fin 60)"
    by (rule order_respects_cooldown [OF _ _ o e, of "demo_guards ! 1"])
      (simp_all add: demo_pipeline_def demo_guards_def)
  with o e show ?thesis by (intro exI [of _ ?p]) auto
qed

text \<open>
  C6: Errors are contained. Whatever the agents, guards, sizer, broker or audit publisher raise,
  one tick is counted once, recorded in the context, sends at most one order, and either
  returns, with at most one error counted, or leaves with a cancellation, the only exception
  that \<open>on_tick\<close> lets through.
\<close>

theorem on_tick_contains_errors:
  "case on_tick audit p t n1 n2 of (p', eff, res) \<Rightarrow>
     pl_tick_count p' = Suc (pl_tick_count p) \<and> pl_context p' = record_tick (pl_context p) t \<and>
     length (ef_orders eff) \<le> 1 \<and>
     (res = Inr () \<and> (pl_error_count p' = pl_error_count p \<or> pl_error_count p' = Suc (pl_error_count p))
      \<or> res = Inl CancelledError \<and> pl_error_count p' = pl_error_count p)"
proof -
  obtain p' eff res where o: "on_tick audit p t n1 n2 = (p', eff, res)"
    by (cases "on_tick audit p t n1 n2")
  have one: "length (ef_orders eff) \<le> 1"
  proof (cases "ef_orders eff")
    case (Cons call rest)
    obtain s act q where "call = (s, act, q)" by (cases call)
    with on_tick_order [OF o, of s act q] Cons show ?thesis by simp
  qed simp
  have "is_ok res \<or> res = Inl CancelledError" using o by (rule on_tick_process)
  with on_tick_counts [OF o] on_tick_setup [OF o] one show ?thesis
    unfolding o by (cases res) auto
qed

text \<open>
  The counters agree: over any run the number of executed orders and of errors never grows
  by more than the number of ticks, and every tick is counted.
\<close>

lemma counters_agree:
  assumes "run_ticks audit p ts = (p', orders)"
  shows "pl_tick_count p' = pl_tick_count p + length ts \<and>
     pl_executed_count p' + pl_error_count p' \<le> pl_executed_count p + pl_error_count p + length ts \<and>
     pl_executed_count p' \<le> pl_executed_count p + length orders"
  using assms
proof (induction ts arbitrary: p orders)
  case Nil
  then show ?case by simp
next
  case (Cons x ts)
  obtain t n1 n2 where x: "x = (t, n1, n2)" by (cases x)
  obtain p1 eff res where o: "on_tick audit p t n1 n2 = (p1, eff, res)"
    by (cases "on_tick audit p t n1 n2")
  obtain p2 os where r: "run_ticks audit p1 ts = (p2, os)" by (cases "run_ticks audit p1 ts")
  from Cons.prems have e: "p2 = p'" "orders = ef_orders eff @ os" by (simp_all add: x o r)
  from Cons.IH [OF r [unfolded e(1)]] on_tick_counts [OF o] on_tick_setup(5) [OF o] e(2) show ?case
    by (auto simp: x)
qed

lemma counters_agree_example:
  "pl_tick_count (fst (run_ticks None (demo_pipeline True) [(demo_tick, 0, 0), (demo_tick, 5, 6)])) = 2"
  using counters_agree [OF surjective_pairing, of None "demo_pipeline True" "[(demo_tick, 0, 0), (demo_tick, 5, 6)]"]
  by (simp add: demo_pipeline_def del: run_ticks.simps)



end
